(* ===== verification/Prelude.thy ===== *)
theory Prelude
  imports Main "HOL-Library.List_Lexorder" "HOL-Library.Char_ord" "HOL-Library.Multiset"
    "HOL-Library.Sublist"
begin

text \<open>
  Shared vocabulary of the development.

  \<^item> \<open>error\<close>, \<open>outcome\<close>: the values a Go function of the chain can end with.  A returned
    \<open>error\<close> is \<open>Err\<close>, a \<open>panic\<close> is \<open>Panic\<close>.
  \<^item> \<open>go\<close>: state passing for keeper code.  The state reached is kept on every outcome, since a Go
    function that returns an error after a write has still performed that write in its store.
  \<^item> \<open>i64\<close>, \<open>u64\<close>, \<open>go_quot\<close>, \<open>go_rem\<close>: the fixed-width integers of Go, written out over \<open>int\<close>.
  \<^item> \<open>keeps\<close>: preservation of an invariant over \<open>go\<close>, with one rule per combinator (collection
    \<open>keeps_intros\<close>).
  \<^item> \<open>reader\<close>: the contract of a getter or query, a call that leaves the state alone.
\<close>

section \<open>Collections of facts\<close>

named_theorems go_simps \<open>evaluation of the state-passing combinators\<close>
named_theorems keeps_intros \<open>preservation of an invariant by the combinators\<close>
named_theorems word_defs \<open>the wrap-around functions\<close>

section \<open>Results\<close>

datatype error =
    RegErr string nat    \<comment> \<open>\<open>sdkerrors.Register(codespace, code, _)\<close>\<close>
  | SdkErr string        \<comment> \<open>an error of the cosmos-sdk, by its Go name\<close>
  | FmtErr string        \<comment> \<open>\<open>fmt.Errorf\<close> or \<open>errors.New\<close>, by its message\<close>

datatype 'a outcome = Ok 'a | Err error | Panic

primrec is_Ok :: "'a outcome \<Rightarrow> bool" where
  "is_Ok (Ok _) = True"
| "is_Ok (Err _) = False"
| "is_Ok Panic = False"

primrec obind :: "'a outcome \<Rightarrow> ('a \<Rightarrow> 'b outcome) \<Rightarrow> 'b outcome" where
  "obind (Ok x) f = f x"
| "obind (Err e) f = Err e"
| "obind Panic f = Panic"

text \<open>A left fold whose body may fail; it stops at the first failure.\<close>

primrec ofold :: "('a \<Rightarrow> 'c \<Rightarrow> 'c outcome) \<Rightarrow> 'a list \<Rightarrow> 'c \<Rightarrow> 'c outcome" where
  "ofold f [] c = Ok c"
| "ofold f (x # xs) c = obind (f x c) (ofold f xs)"

definition ocheck :: "bool \<Rightarrow> error \<Rightarrow> unit outcome" where
  "ocheck b e = (if b then Ok () else Err e)"

lemma obind_eq_Ok [simp]: "obind m f = Ok y \<longleftrightarrow> (\<exists>x. m = Ok x \<and> f x = Ok y)"
  by (cases m) auto

lemma obind_eq_Panic: "obind m f = Panic \<longleftrightarrow> m = Panic \<or> (\<exists>x. m = Ok x \<and> f x = Panic)"
  by (cases m) auto

lemma obind_eq_Err: "obind m f = Err e \<longleftrightarrow> m = Err e \<or> (\<exists>x. m = Ok x \<and> f x = Err e)"
  by (cases m) auto

lemma obind_assoc: "obind (obind m f) g = obind m (\<lambda>x. obind (f x) g)"
  by (cases m) auto

lemma is_Ok_iff: "is_Ok m \<longleftrightarrow> (\<exists>x. m = Ok x)"
  by (cases m) auto

lemma ocheck_eq_Ok [simp]: "ocheck b e = Ok u \<longleftrightarrow> b"
  by (simp add: ocheck_def)

lemma ocheck_ne_Panic [simp]: "ocheck b e \<noteq> Panic"
  by (simp add: ocheck_def)

lemma ofold_append: "ofold f (xs @ ys) c = obind (ofold f xs c) (ofold f ys)"
proof (induction xs arbitrary: c)
  case (Cons x xs)
  then show ?case by (cases "f x c") simp_all
qed simp

text \<open>An invariant of the accumulator is an invariant of the fold.\<close>

lemma ofold_invariant:
  assumes "ofold f xs c = Ok r" "I c"
    and "\<And>x c c'. x \<in> set xs \<Longrightarrow> I c \<Longrightarrow> f x c = Ok c' \<Longrightarrow> I c'"
  shows "I r"
  using assms by (induction xs arbitrary: c) auto

lemma ofold_total:
  assumes "I c" and "\<And>x c. x \<in> set xs \<Longrightarrow> I c \<Longrightarrow> \<exists>c'. f x c = Ok c' \<and> I c'"
  shows "\<exists>r. ofold f xs c = Ok r \<and> I r"
  using assms by (induction xs arbitrary: c) fastforce+

section \<open>State passing\<close>

type_synonym ('s, 'a) go = "'s \<Rightarrow> 'a outcome \<times> 's"

definition ret :: "'a \<Rightarrow> ('s, 'a) go" where
  "ret x = (\<lambda>s. (Ok x, s))"

definition raise :: "error \<Rightarrow> ('s, 'a) go" where
  "raise e = (\<lambda>s. (Err e, s))"

definition panic :: "('s, 'a) go" where
  "panic = (\<lambda>s. (Panic, s))"

definition bnd :: "('s, 'a) go \<Rightarrow> ('a \<Rightarrow> ('s, 'b) go) \<Rightarrow> ('s, 'b) go" where
  "bnd m f = (\<lambda>s. case m s of (Ok x, s') \<Rightarrow> f x s' | (Err e, s') \<Rightarrow> (Err e, s') | (Panic, s') \<Rightarrow> (Panic, s'))"

definition gets :: "('s \<Rightarrow> 'a) \<Rightarrow> ('s, 'a) go" where
  "gets f = (\<lambda>s. (Ok (f s), s))"

definition modify :: "('s \<Rightarrow> 's) \<Rightarrow> ('s, unit) go" where
  "modify f = (\<lambda>s. (Ok (), f s))"

definition lift :: "'a outcome \<Rightarrow> ('s, 'a) go" where
  "lift r = (\<lambda>s. (r, s))"

text \<open>\<open>v, err := m()\<close> where the caller goes on to inspect \<open>err\<close>; a panic still unwinds.\<close>

definition attempt :: "('s, 'a) go \<Rightarrow> ('s, error + 'a) go" where
  "attempt m = (\<lambda>s. case m s of (Ok x, s') \<Rightarrow> (Ok (Inr x), s') | (Err e, s') \<Rightarrow> (Ok (Inl e), s')
     | (Panic, s') \<Rightarrow> (Panic, s'))"

text \<open>\<open>if err := m(); err != nil { panic(err) }\<close>.\<close>

definition must :: "('s, 'a) go \<Rightarrow> ('s, 'a) go" where
  "must m = (\<lambda>s. case m s of (Ok x, s') \<Rightarrow> (Ok x, s') | (_, s') \<Rightarrow> (Panic, s'))"

text \<open>
  \<open>defer d()\<close> around the rest of a function that returns no error itself: \<open>d\<close> runs after every outcome,
  also while a panic unwinds, and the outcome of the rest stands unless \<open>d\<close> panics.
\<close>

definition deferred :: "('s, unit) go \<Rightarrow> ('s, 'a) go \<Rightarrow> ('s, 'a) go" where
  "deferred d m = (\<lambda>s. case m s of (r, s') \<Rightarrow> (case d s' of (Ok _, s'') \<Rightarrow> (r, s'') | (_, s'') \<Rightarrow> (Panic, s'')))"

definition on_true :: "bool \<Rightarrow> ('s, unit) go \<Rightarrow> ('s, unit) go" where
  "on_true b m = (if b then m else ret ())"

definition check :: "bool \<Rightarrow> error \<Rightarrow> ('s, unit) go" where
  "check b e = (if b then ret () else raise e)"

definition seq :: "('s, unit) go \<Rightarrow> ('s, 'b) go \<Rightarrow> ('s, 'b) go" where
  "seq m n = bnd m (\<lambda>_. n)"

primrec for_each :: "'a list \<Rightarrow> ('a \<Rightarrow> ('s, unit) go) \<Rightarrow> ('s, unit) go" where
  "for_each [] f = ret ()"
| "for_each (x # xs) f = seq (f x) (for_each xs f)"

text \<open>A loop that carries local variables \<open>c\<close> through its rounds.\<close>

primrec fold_each :: "'a list \<Rightarrow> ('a \<Rightarrow> 'c \<Rightarrow> ('s, 'c) go) \<Rightarrow> 'c \<Rightarrow> ('s, 'c) go" where
  "fold_each [] f c = ret c"
| "fold_each (x # xs) f c = bnd (f x c) (fold_each xs f)"

text \<open>
  The \<open>Iterate...\<close> methods of the keepers: the handler is called on the entries in turn until it answers
  \<open>True\<close> (stop); \<open>c\<close> are the variables of the caller that the handler's closure updates.
\<close>

primrec iter_loop :: "'a list \<Rightarrow> ('a \<Rightarrow> 'c \<Rightarrow> ('s, 'c \<times> bool) go) \<Rightarrow> 'c \<Rightarrow> ('s, 'c) go" where
  "iter_loop [] h c = ret c"
| "iter_loop (x # xs) h c = bnd (h x c) (\<lambda>r. if snd r then ret (fst r) else iter_loop xs h (fst r))"

lemma ret_run [simp, go_simps]: "ret x s = (Ok x, s)"
  by (simp add: ret_def)

lemma raise_run [simp, go_simps]: "raise e s = (Err e, s)"
  by (simp add: raise_def)

lemma panic_run [simp, go_simps]: "panic s = (Panic, s)"
  by (simp add: panic_def)

lemma gets_run [simp, go_simps]: "gets f s = (Ok (f s), s)"
  by (simp add: gets_def)

lemma modify_run [simp, go_simps]: "modify f s = (Ok (), f s)"
  by (simp add: modify_def)

lemma lift_run [simp, go_simps]: "lift r s = (r, s)"
  by (simp add: lift_def)

lemma check_run [simp, go_simps]: "check b e s = (if b then Ok () else Err e, s)"
  by (simp add: check_def)

lemma on_true_run [simp, go_simps]: "on_true b m s = (if b then m s else (Ok (), s))"
  by (simp add: on_true_def)

lemma bnd_Ok [go_simps]: "m s = (Ok x, s') \<Longrightarrow> bnd m f s = f x s'"
  by (simp add: bnd_def)

lemma bnd_Err [go_simps]: "m s = (Err e, s') \<Longrightarrow> bnd m f s = (Err e, s')"
  by (simp add: bnd_def)

lemma bnd_Panic [go_simps]: "m s = (Panic, s') \<Longrightarrow> bnd m f s = (Panic, s')"
  by (simp add: bnd_def)

lemma bnd_ret [simp]: "bnd (ret x) f = f x"
  by (simp add: bnd_def fun_eq_iff)

text \<open>The simplifier turns \<open>ret\<close>, \<open>raise\<close> and \<open>lift\<close> into \<open>Pair\<close>; these are the rules for that form.\<close>

lemma bnd_Pair [simp]:
  "bnd (Pair (Ok x)) f = f x" "bnd (Pair (Err e)) f = Pair (Err e)" "bnd (Pair Panic) f = Pair Panic"
  by (simp_all add: bnd_def fun_eq_iff)

lemma bnd_gets [simp]: "bnd (gets g) f s = f (g s) s"
  by (simp add: bnd_def)

lemma bnd_modify [simp]: "bnd (modify g) f s = f () (g s)"
  by (simp add: bnd_def)

lemma bnd_lift [simp]:
  "bnd (lift (Ok x)) f = f x" "bnd (lift (Err e)) f = raise e" "bnd (lift Panic) f = panic"
  "bnd (raise e) f = raise e" "bnd panic f = panic"
  by (simp_all add: bnd_def fun_eq_iff)

lemma bnd_run_iff_Ok:
  "bnd m f s = (Ok y, s'') \<longleftrightarrow> (\<exists>x s'. m s = (Ok x, s') \<and> f x s' = (Ok y, s''))"
  by (auto simp: bnd_def split: prod.splits outcome.splits)

lemma bnd_lift_Ok: "bnd (lift r) f s = (Ok y, s') \<longleftrightarrow> (\<exists>x. r = Ok x \<and> f x s = (Ok y, s'))"
  by (auto simp: bnd_run_iff_Ok)

lemma seq_check_Ok: "seq (check b e) f s = (Ok y, s') \<longleftrightarrow> b \<and> f s = (Ok y, s')"
  by (auto simp: seq_def bnd_def)

lemma seq_run_iff_Ok:
  "seq m f s = (Ok y, s'') \<longleftrightarrow> (\<exists>s'. m s = (Ok (), s') \<and> f s' = (Ok y, s''))"
  by (simp add: seq_def bnd_run_iff_Ok)

lemma seq_modify [simp]: "seq (modify g) f s = f (g s)"
  by (simp add: seq_def)

lemma seq_ret [simp]: "seq (ret ()) f = f"
  by (simp add: seq_def)

lemma must_lift [simp]: "must (lift (Ok x)) = ret x" "must (lift (Err e)) = panic" "must (lift Panic) = panic"
  by (simp_all add: must_def fun_eq_iff)

lemma must_Pair [simp]:
  "must (Pair (Ok x)) = Pair (Ok x)" "must (Pair (Err e)) = Pair Panic" "must (Pair Panic) = Pair Panic"
  by (simp_all add: must_def fun_eq_iff)

lemma attempt_Pair [simp]:
  "attempt (Pair (Ok x)) = Pair (Ok (Inr x))" "attempt (Pair (Err e)) = Pair (Ok (Inl e))"
  "attempt (Pair Panic) = Pair Panic"
  by (simp_all add: attempt_def fun_eq_iff)

lemma seq_Pair [simp]:
  "seq (Pair (Ok u)) f = f" "seq (Pair (Err e)) f = Pair (Err e)" "seq (Pair Panic) f = Pair Panic"
  by (simp_all add: seq_def)

lemma seq_run: "m s = (Ok (), s') \<Longrightarrow> seq m f s = f s'"
  by (simp add: seq_def bnd_def)

lemma seq_case: "seq m f s = (case m s of (Ok _, s') \<Rightarrow> f s' | (Err e, s') \<Rightarrow> (Err e, s') | (Panic, s') \<Rightarrow> (Panic, s'))"
  by (simp add: seq_def bnd_def)

lemma bnd_assoc: "bnd (bnd m f) g = bnd m (\<lambda>x. bnd (f x) g)"
  by (auto simp: bnd_def fun_eq_iff split: prod.splits outcome.splits)

lemma deferred_Ok: "deferred d m s = (Ok x, s') \<longleftrightarrow> (\<exists>s1. m s = (Ok x, s1) \<and> d s1 = (Ok (), s'))"
  by (auto simp: deferred_def split: prod.splits outcome.splits)

lemma iter_loop_collect:
  "iter_loop xs (\<lambda>x c. ret (f x c, False)) c = ret (fold f xs c)"
  by (induction xs arbitrary: c) (simp_all add: fun_eq_iff)

lemma iter_loop_total:
  assumes "\<And>x c s. h x c s = (Ok (c, False), g x s)"
  shows "iter_loop xs h c s = (Ok c, fold g xs s)"
  by (induction xs arbitrary: s) (simp_all add: bnd_def assms)

lemma fold_snoc: "fold (\<lambda>x l. l @ [f x]) xs l = l @ map f xs"
  by (induction xs arbitrary: l) auto

lemma for_each_append: "for_each (xs @ ys) f = seq (for_each xs f) (for_each ys f)"
  by (induction xs) (auto simp: seq_def bnd_assoc)

lemma for_each_nested:
  "for_each (map (\<lambda>n. (n, f n)) ns) (\<lambda>(n, xs). for_each xs (h n)) = for_each (concat (map (\<lambda>n. map (Pair n) (f n)) ns)) (\<lambda>(n, x). h n x)"
proof (induction ns)
  case (Cons n ns)
  have "for_each (map (Pair n) xs) (\<lambda>(n, x). h n x) = for_each xs (h n)" for xs
    by (induction xs) simp_all
  then show ?case using Cons by (simp add: for_each_append)
qed simp

lemma ofold_unit: "\<forall>x\<in>set xs. f x () = Ok () \<Longrightarrow> ofold f xs () = Ok ()"
  by (induction xs) auto

section \<open>Judgements\<close>

text \<open>\<open>keeps I m\<close>: every run of \<open>m\<close> from a state in \<open>I\<close> ends in \<open>I\<close>, on the error and panic paths too.\<close>

definition keeps :: "('s \<Rightarrow> bool) \<Rightarrow> ('s, 'a) go \<Rightarrow> bool" where
  "keeps I m \<longleftrightarrow> (\<forall>s. I s \<longrightarrow> I (snd (m s)))"

lemma keepsI: "(\<And>s. I s \<Longrightarrow> I (snd (m s))) \<Longrightarrow> keeps I m"
  by (simp add: keeps_def)

lemma keepsD: "keeps I m \<Longrightarrow> I s \<Longrightarrow> I (snd (m s))"
  by (simp add: keeps_def)

lemma keeps_run: "keeps I m \<Longrightarrow> I s \<Longrightarrow> m s = (r, s') \<Longrightarrow> I s'"
  by (metis keepsD snd_conv)

lemma keeps_Pair [keeps_intros]: "keeps I (Pair r)"
  by (simp add: keeps_def)

lemma keeps_ret [keeps_intros]: "keeps I (ret x)"
  by (simp add: keeps_def)

lemma keeps_raise [keeps_intros]: "keeps I (raise e)"
  by (simp add: keeps_def)

lemma keeps_panic [keeps_intros]: "keeps I panic"
  by (simp add: keeps_def)

lemma keeps_gets [keeps_intros]: "keeps I (gets f)"
  by (simp add: keeps_def)

lemma keeps_lift [keeps_intros]: "keeps I (lift r)"
  by (simp add: keeps_def)

lemma keeps_check [keeps_intros]: "keeps I (check b e)"
  by (simp add: keeps_def)

lemma keeps_modify: "(\<And>s. I s \<Longrightarrow> I (f s)) \<Longrightarrow> keeps I (modify f)"
  by (simp add: keeps_def)

lemma keeps_bnd [keeps_intros]: "keeps I m \<Longrightarrow> (\<And>x. keeps I (f x)) \<Longrightarrow> keeps I (bnd m f)"
  by (auto simp: keeps_def bnd_def split: prod.splits outcome.splits)

lemma keeps_bnd_lift: "(\<And>x. r = Ok x \<Longrightarrow> keeps I (f x)) \<Longrightarrow> keeps I (bnd (lift r) f)"
  by (cases r) (auto simp: keeps_def bnd_def)

lemma keeps_seq [keeps_intros]: "keeps I m \<Longrightarrow> keeps I n \<Longrightarrow> keeps I (seq m n)"
  by (simp add: seq_def keeps_bnd)

lemma keeps_attempt [keeps_intros]: "keeps I m \<Longrightarrow> keeps I (attempt m)"
  by (auto simp: keeps_def attempt_def split: prod.splits outcome.splits)

lemma keeps_must [keeps_intros]: "keeps I m \<Longrightarrow> keeps I (must m)"
  by (auto simp: keeps_def must_def split: prod.splits outcome.splits)

lemma keeps_deferred [keeps_intros]: "keeps I d \<Longrightarrow> keeps I m \<Longrightarrow> keeps I (deferred d m)"
  unfolding keeps_def deferred_def by (auto split: prod.splits outcome.splits)

lemma keeps_on_true [keeps_intros]: "(b \<Longrightarrow> keeps I m) \<Longrightarrow> keeps I (on_true b m)"
  by (auto simp: keeps_def)

lemma keeps_if [keeps_intros]: "(b \<Longrightarrow> keeps I m) \<Longrightarrow> (\<not> b \<Longrightarrow> keeps I n) \<Longrightarrow> keeps I (if b then m else n)"
  by simp

lemma keeps_case_option [keeps_intros]:
  "keeps I m \<Longrightarrow> (\<And>x. keeps I (f x)) \<Longrightarrow> keeps I (case r of None \<Rightarrow> m | Some x \<Rightarrow> f x)"
  by (cases r) simp_all

lemma keeps_case_sum [keeps_intros]:
  "(\<And>e. keeps I (g e)) \<Longrightarrow> (\<And>x. keeps I (f x)) \<Longrightarrow> keeps I (case r of Inl e \<Rightarrow> g e | Inr x \<Rightarrow> f x)"
  by (cases r) simp_all

lemma keeps_case_prod [keeps_intros]:
  "(\<And>x y. keeps I (f x y)) \<Longrightarrow> keeps I (case p of (x, y) \<Rightarrow> f x y)"
  by (cases p) simp

lemma keeps_for_each [keeps_intros]: "(\<And>x. x \<in> set xs \<Longrightarrow> keeps I (f x)) \<Longrightarrow> keeps I (for_each xs f)"
  by (induction xs) (auto intro: keeps_intros)

lemma keeps_fold_each [keeps_intros]:
  "(\<And>x c. x \<in> set xs \<Longrightarrow> keeps I (f x c)) \<Longrightarrow> keeps I (fold_each xs f c)"
  by (induction xs arbitrary: c) (auto intro: keeps_intros)

lemma for_each_Ok_invariant:
  assumes "for_each xs f s = (Ok u, s')" "I s"
    and "\<And>x s s'. x \<in> set xs \<Longrightarrow> I s \<Longrightarrow> f x s = (Ok (), s') \<Longrightarrow> I s'"
  shows "I s'"
  using assms by (induction xs arbitrary: s) (auto simp: seq_run_iff_Ok)

lemma fold_each_Ok_invariant:
  assumes "fold_each xs f c s = (Ok r, s')" "I c s"
    and "\<And>x c s c' s'. x \<in> set xs \<Longrightarrow> I c s \<Longrightarrow> f x c s = (Ok c', s') \<Longrightarrow> I c' s'"
  shows "I r s'"
  using assms by (induction xs arbitrary: c s) (auto simp: bnd_run_iff_Ok, blast)

text \<open>A loop whose body never fails is a plain fold over the state.\<close>

lemma for_each_total:
  assumes "\<And>x s. x \<in> set xs \<Longrightarrow> f x s = (Ok (), g x s)"
  shows "for_each xs f s = (Ok (), fold g xs s)"
  using assms by (induction xs arbitrary: s) (auto simp: seq_run)

section \<open>Go integers\<close>

definition i64 :: "int \<Rightarrow> int" where
  [word_defs]: "i64 x = (x + 2 ^ 63) mod 2 ^ 64 - 2 ^ 63"

definition u64 :: "int \<Rightarrow> int" where
  [word_defs]: "u64 x = x mod 2 ^ 64"

definition in_i64 :: "int \<Rightarrow> bool" where
  [word_defs]: "in_i64 x \<longleftrightarrow> - (2 ^ 63) \<le> x \<and> x < 2 ^ 63"

definition in_u64 :: "int \<Rightarrow> bool" where
  [word_defs]: "in_u64 x \<longleftrightarrow> 0 \<le> x \<and> x < 2 ^ 64"

lemma in_i64_i64 [simp]: "in_i64 (i64 x)"
  by (simp add: word_defs)

lemma i64_idem [simp]: "in_i64 x \<Longrightarrow> i64 x = x"
  by (simp add: word_defs)

lemma in_u64_u64 [simp]: "in_u64 (u64 x)"
  by (simp add: word_defs)

lemma u64_idem [simp]: "in_u64 x \<Longrightarrow> u64 x = x"
  by (simp add: word_defs)

text \<open>Integer division of Go truncates toward zero.\<close>

definition go_quot :: "int \<Rightarrow> int \<Rightarrow> int" where
  "go_quot a b = sgn a * sgn b * (\<bar>a\<bar> div \<bar>b\<bar>)"

definition go_rem :: "int \<Rightarrow> int \<Rightarrow> int" where
  "go_rem a b = a - go_quot a b * b"

lemma go_quot_nonneg: "0 \<le> a \<Longrightarrow> 0 < b \<Longrightarrow> go_quot a b = a div b"
  by (cases "a = 0") (simp_all add: go_quot_def)

lemma go_rem_nonneg: "0 \<le> a \<Longrightarrow> 0 < b \<Longrightarrow> go_rem a b = a mod b"
  by (simp add: go_rem_def go_quot_nonneg minus_div_mult_eq_mod)

lemma div_floor_bounds:
  fixes a p :: int
  assumes "0 < p"
  shows "a div p * p \<le> a" "a < (a div p + 1) * p"
proof -
  have "a = a div p * p + a mod p" "a mod p < p" "0 \<le> a mod p"
    using assms by simp_all
  then show "a div p * p \<le> a" "a < (a div p + 1) * p"
    unfolding distrib_right by linarith+
qed

lemma i64_add_left: "i64 (i64 a + b) = i64 (a + b)"
proof -
  have "i64 a + b + 2 ^ 63 = (a + 2 ^ 63) mod 2 ^ 64 + b" by (simp add: i64_def)
  then have "(i64 a + b + 2 ^ 63) mod 2 ^ 64 = (a + 2 ^ 63 + b) mod 2 ^ 64" by (simp only: mod_add_left_eq)
  then show ?thesis by (simp only: i64_def ac_simps)
qed

lemma u64_add_left: "u64 (u64 a + b) = u64 (a + b)"
  by (simp add: u64_def mod_add_left_eq)

lemma div_less_mult:
  fixes a m p :: int
  assumes "a < m * p" "0 < p"
  shows "a div p < m"
proof -
  have "a div p * p < m * p" using div_floor_bounds(1) [OF assms(2), of a] assms(1) by linarith
  then show ?thesis using assms(2) by simp
qed

lemma div_less_iff:
  fixes a b c :: int
  assumes "0 < b"
  shows "a div b < c \<longleftrightarrow> a < c * b"
proof
  assume "a div b < c"
  then have "(a div b + 1) * b \<le> c * b" using assms by (intro mult_right_mono) auto
  then show "a < c * b" using div_floor_bounds(2) [OF assms, of a] by linarith
qed (use assms div_less_mult in blast)

section \<open>Loops whose order does not matter\<close>

lemma fold_pull:
  assumes "I s" "\<And>y s. y \<in> set as \<Longrightarrow> I s \<Longrightarrow> I (f y s)"
    and "\<And>y s. y \<in> set as \<Longrightarrow> I s \<Longrightarrow> f x (f y s) = f y (f x s)" "\<And>s. I s \<Longrightarrow> I (f x s)"
  shows "f x (fold f as s) = fold f as (f x s)"
  using assms by (induction as arbitrary: s) auto

lemma fold_perm_inv:
  assumes "mset xs = mset ys" "I s" "\<And>x s. x \<in> set xs \<Longrightarrow> I s \<Longrightarrow> I (f x s)"
    and "\<And>x y s. x \<in> set xs \<Longrightarrow> y \<in> set xs \<Longrightarrow> I s \<Longrightarrow> f x (f y s) = f y (f x s)"
  shows "fold f xs s = fold f ys s"
  using assms
proof (induction xs arbitrary: ys s)
  case (Cons x xs)
  then have "x \<in> set ys" by (metis list.set_intros(1) mset_eq_setD)
  then obtain as bs where ys: "ys = as @ x # bs" by (meson split_list)
  have m: "mset xs = mset (as @ bs)" using Cons.prems(1) by (simp add: ys)
  have sub: "set as \<subseteq> set (x # xs)" using Cons.prems(1) ys by (metis Un_iff mset_eq_setD set_append subsetI)
  have "f x (fold f as s) = fold f as (f x s)"
    by (rule fold_pull [where I = I]) (use Cons.prems sub in auto)
  moreover have "fold f xs (f x s) = fold f (as @ bs) (f x s)"
    by (rule Cons.IH [OF m]) (use Cons.prems in auto)
  ultimately show ?case by (simp add: ys)
qed simp

text \<open>
  A loop over local variables whose rounds either panic, whatever the state, or update the state by a
  function: if the updates commute, the order of the rounds matters neither for the result nor, when
  the loop ends normally, for the state.
\<close>

lemma fold_each_rounds:
  assumes "\<And>x c s. x \<in> set xs \<Longrightarrow> h x c s = (if bad x then (Panic, s) else (Ok (fst (g x (c, s))), snd (g x (c, s))))"
  shows "if \<exists>x\<in>set xs. bad x then fst (fold_each xs h c s) = Panic
    else fold_each xs h c s = (Ok (fst (fold g xs (c, s))), snd (fold g xs (c, s)))"
  using assms
proof (induction xs arbitrary: c s)
  case (Cons x xs)
  have x: "h x c s = (if bad x then (Panic, s) else (Ok (fst (g x (c, s))), snd (g x (c, s))))"
    using Cons.prems by simp
  show ?case
  proof (cases "bad x")
    case True
    then show ?thesis using x by (simp add: bnd_def)
  next
    case False
    have "fold_each (x # xs) h c s = fold_each xs h (fst (g x (c, s))) (snd (g x (c, s)))"
      using x False by (simp add: bnd_def)
    then show ?thesis using Cons.IH [of "fst (g x (c, s))" "snd (g x (c, s))"] Cons.prems False by auto
  qed
qed simp

lemma fold_each_order:
  assumes "mset xs = mset ys" "I (c, s)"
    and "\<And>x c s. x \<in> set xs \<Longrightarrow> h x c s = (if bad x then (Panic, s) else (Ok (fst (g x (c, s))), snd (g x (c, s))))"
    and "\<And>x p. x \<in> set xs \<Longrightarrow> I p \<Longrightarrow> I (g x p)"
    and "\<And>x y p. x \<in> set xs \<Longrightarrow> y \<in> set xs \<Longrightarrow> I p \<Longrightarrow> g x (g y p) = g y (g x p)"
  shows "fst (fold_each xs h c s) = fst (fold_each ys h c s) \<and>
    (fst (fold_each xs h c s) \<noteq> Panic \<longrightarrow> fold_each xs h c s = fold_each ys h c s)"
proof -
  have st: "set xs = set ys" using assms(1) by (rule mset_eq_setD)
  note A = fold_each_rounds [of xs h bad g c s, OF assms(3)]
  note B = fold_each_rounds [of ys h bad g c s, OF assms(3) [unfolded st]]
  have "fold g xs (c, s) = fold g ys (c, s)"
    by (rule fold_perm_inv [OF assms(1), of I]) (use assms in auto)
  then show ?thesis using A B st by (cases "\<exists>x\<in>set xs. bad x") auto
qed

lemma bnd_snd:
  assumes "I (snd (m s))" "\<And>x s'. m s = (Ok x, s') \<Longrightarrow> I (snd (f x s'))"
  shows "I (snd (bnd m f s))"
  using assms by (auto simp: bnd_def split: prod.splits outcome.splits)

lemma seq_snd:
  assumes "I (snd (m s))" "\<And>s'. m s = (Ok (), s') \<Longrightarrow> I (snd (f s'))"
  shows "I (snd (seq m f s))"
  using assms by (auto simp: seq_def intro!: bnd_snd [where I = I])

section \<open>Read-only calls\<close>

text \<open>\<open>errorsmod.Wrap(e, ...)\<close> around the error a call returns.\<close>

definition wrap_go :: "error \<Rightarrow> ('s, 'a) go \<Rightarrow> ('s, 'a) go" where
  "wrap_go e m = (\<lambda>s. case m s of (Err _, s') \<Rightarrow> (Err e, s') | r \<Rightarrow> r)"

text \<open>
  The contract of a getter or a query: it leaves the state alone.  Its callers reason about its
  result only.
\<close>

locale reader =
  fixes q :: "('s, 'a) go"
  assumes unchanged: "snd (q s) = s"
begin

lemma run: "q s = (r, s') \<longleftrightarrow> fst (q s) = r \<and> s' = s"
  using unchanged [of s] by (metis prod.collapse prod.inject)

lemma bnd_reader: "bnd q f s = (case fst (q s) of Ok x \<Rightarrow> f x s | Err e \<Rightarrow> (Err e, s) | Panic \<Rightarrow> (Panic, s))"
  using unchanged [of s] by (cases "q s") (auto simp: bnd_def split: outcome.splits)

lemma bnd_Ok_iff: "bnd q f s = (Ok y, s') \<longleftrightarrow> (\<exists>x. fst (q s) = Ok x \<and> f x s = (Ok y, s'))"
  by (auto simp: bnd_reader split: outcome.splits)

lemma fst_bnd_Ok_iff: "fst (bnd q f s) = Ok y \<longleftrightarrow> (\<exists>x. fst (q s) = Ok x \<and> fst (f x s) = Ok y)"
  by (auto simp: bnd_reader split: outcome.splits)

lemma keeps_reader: "keeps I q"
  unfolding keeps_def using unchanged by simp

end

lemma reader_ret: "reader (ret x)" and reader_raise: "reader (raise e)" and reader_lift: "reader (lift r)"
  and reader_gets: "reader (gets g)"
  by (simp_all add: reader_def)

lemma reader_bnd: "reader m \<Longrightarrow> (\<And>x. reader (f x)) \<Longrightarrow> reader (bnd m f)"
  unfolding reader_def by (auto simp: bnd_def split: prod.splits outcome.splits) (metis snd_conv)+

lemma reader_if: "reader m \<Longrightarrow> reader n \<Longrightarrow> reader (if b then m else n)"
  by simp

lemma reader_wrap: "reader m \<Longrightarrow> reader (wrap_go e m)"
  unfolding reader_def wrap_go_def by (auto split: prod.splits outcome.splits) (metis snd_conv)+

lemma reader_attempt: "reader m \<Longrightarrow> reader (attempt m)"
  unfolding reader_def attempt_def by (auto split: prod.splits outcome.splits) (metis snd_conv)+

lemma wrap_go_Ok [simp]: "wrap_go e m s = (Ok x, s') \<longleftrightarrow> m s = (Ok x, s')"
  by (auto simp: wrap_go_def split: prod.splits outcome.splits)

lemma fst_wrap_go_Ok [simp]: "fst (wrap_go e m s) = Ok x \<longleftrightarrow> fst (m s) = Ok x"
  by (auto simp: wrap_go_def split: prod.splits outcome.splits)

lemmas reader_intros = reader_ret reader_raise reader_lift reader_gets reader_bnd reader_if reader_wrap reader_attempt

lemma reader_fold_each: "(\<And>x c. reader (f x c)) \<Longrightarrow> reader (fold_each xs f c)"
  by (induction xs arbitrary: c) (auto intro!: reader_intros)

lemma reader_case_sum: "(\<And>e. reader (g e)) \<Longrightarrow> (\<And>x. reader (f x)) \<Longrightarrow> reader (case r of Inl e \<Rightarrow> g e | Inr x \<Rightarrow> f x)"
  by (cases r) simp_all

lemma mset_group:
  assumes "distinct ns"
  shows "mset (concat (map (\<lambda>n. filter (\<lambda>e. f e = n) es) ns)) = mset (filter (\<lambda>e. f e \<in> set ns) es)"
  using assms
proof (induction ns)
  case (Cons n ns)
  have "mset (filter (\<lambda>e. f e \<in> set (n # ns)) es) = mset (filter (\<lambda>e. f e = n) es) + mset (filter (\<lambda>e. f e \<in> set ns) es)"
    using Cons.prems by (induction es) auto
  then show ?case using Cons by simp
qed simp

end
