(* ===== verification/Kv_Store.thy ===== *)
theory Kv_Store
  imports Prelude
begin

text \<open>
  The key-value stores of the modules.  A store is the list of its entries in the byte order of their
  keys, which is the order in which \<open>sdk.KVStorePrefixIterator\<close> visits them; each key prefix of a module
  is a store of its own, with values of its own type, so that the protobuf encoding of a value is not
  modelled.  The locale \<open>kv_spec\<close> is the interface the keepers rely on; the lemmas the keepers share
  (among them the rebuilding of a store from its exported entries) are proved in it once.
\<close>

type_synonym 'v kv = "(string \<times> 'v) list"

fun kv_get :: "string \<Rightarrow> 'v kv \<Rightarrow> 'v option" where
  "kv_get k [] = None"
| "kv_get k ((a, v) # m) = (if k = a then Some v else kv_get k m)"

fun kv_set :: "string \<Rightarrow> 'v \<Rightarrow> 'v kv \<Rightarrow> 'v kv" where
  "kv_set k v [] = [(k, v)]"
| "kv_set k v ((a, w) # m) =
     (if k = a then (k, v) # m else if k < a then (k, v) # (a, w) # m else (a, w) # kv_set k v m)"

fun kv_delete :: "string \<Rightarrow> 'v kv \<Rightarrow> 'v kv" where
  "kv_delete k [] = []"
| "kv_delete k ((a, w) # m) = (if k = a then m else (a, w) # kv_delete k m)"

definition kv_has :: "string \<Rightarrow> 'v kv \<Rightarrow> bool" where
  "kv_has k m \<longleftrightarrow> kv_get k m \<noteq> None"

definition kv_ok :: "'v kv \<Rightarrow> bool" where
  "kv_ok m \<longleftrightarrow> sorted_wrt (<) (map fst m)"

section \<open>The interface\<close>

locale kv_spec =
  fixes get :: "string \<Rightarrow> 'm \<Rightarrow> 'v option"
    and put :: "string \<Rightarrow> 'v \<Rightarrow> 'm \<Rightarrow> 'm"
    and del :: "string \<Rightarrow> 'm \<Rightarrow> 'm"
    and entries :: "'m \<Rightarrow> (string \<times> 'v) list"
    and empty :: 'm
    and invar :: "'m \<Rightarrow> bool"
  assumes invar_empty: "invar empty"
    and invar_put: "invar m \<Longrightarrow> invar (put k v m)"
    and invar_del: "invar m \<Longrightarrow> invar (del k m)"
    and get_empty: "get k empty = None"
    and get_put: "invar m \<Longrightarrow> get j (put k v m) = (if j = k then Some v else get j m)"
    and get_del: "invar m \<Longrightarrow> get j (del k m) = (if j = k then None else get j m)"
    and entries_get: "invar m \<Longrightarrow> get k m = map_of (entries m) k"
    and entries_sorted: "invar m \<Longrightarrow> sorted_wrt (<) (map fst (entries m))"
    and entries_ext: "invar m \<Longrightarrow> invar n \<Longrightarrow> entries m = entries n \<Longrightarrow> m = n"
begin

lemma entries_distinct: "invar m \<Longrightarrow> distinct (map fst (entries m))"
  using entries_sorted strict_sorted_iff by blast

lemma in_entries: "invar m \<Longrightarrow> (k, v) \<in> set (entries m) \<longleftrightarrow> get k m = Some v"
  by (simp add: entries_get entries_distinct)

text \<open>Two stores with the same contents are equal.\<close>

lemma get_ext:
  assumes "invar m" "invar n" "\<And>k. get k m = get k n"
  shows "m = n"
proof (rule entries_ext)
  have s: "set (entries m) = set (entries n)"
    using in_entries [OF assms(1)] in_entries [OF assms(2)] assms(3) by auto
  have "map fst (entries m) = map fst (entries n)"
    using s assms entries_sorted strict_sorted_equal by (metis list.set_map)
  moreover have "inj_on fst (set (entries m) \<union> set (entries n))"
    using entries_distinct [OF assms(1)] s by (simp add: distinct_map)
  ultimately show "entries m = entries n"
    by (rule map_inj_on)
qed (use assms in auto)

lemma invar_fold_put: "invar m \<Longrightarrow> invar (fold (\<lambda>(k, v). put k v) kvs m)"
  by (induction kvs arbitrary: m) (auto simp: invar_put split: prod.splits)

lemma get_fold_put:
  assumes "invar m" "distinct (map fst kvs)"
  shows "get k (fold (\<lambda>(k, v). put k v) kvs m) = (case map_of kvs k of Some v \<Rightarrow> Some v | None \<Rightarrow> get k m)"
  using assms
proof (induction kvs arbitrary: m)
  case (Cons p kvs)
  obtain a v where p: "p = (a, v)" by fastforce
  have "map_of kvs a = None" using Cons.prems p by (simp add: map_of_eq_None_iff)
  then show ?case using Cons p by (auto simp: invar_put get_put split: option.splits)
qed simp

text \<open>Writing the exported entries into an empty store, in any order, gives the store back.\<close>

lemma rebuild:
  assumes "invar m" "mset kvs = mset (entries m)"
  shows "fold (\<lambda>(k, v). put k v) kvs empty = m"
proof (rule get_ext)
  have d: "distinct (map fst kvs)"
    using assms entries_distinct by (metis mset_eq_imp_distinct_iff mset_map)
  have "map_of kvs = map_of (entries m)"
    using assms d entries_distinct by (metis map_of_inject_set set_mset_mset)
  then show "get k (fold (\<lambda>(k, v). put k v) kvs empty) = get k m" for k
    using get_fold_put [OF invar_empty d] by (simp add: assms(1) entries_get get_empty split: option.splits)
qed (simp_all add: assms invar_empty invar_fold_put)

end

section \<open>The sorted list implements it\<close>

lemma kv_get_map_of: "kv_get k m = map_of m k"
  by (induction k m rule: kv_get.induct) auto

lemma set_kv_set: "fst ` set (kv_set k v m) = insert k (fst ` set m)"
  by (induction k v m rule: kv_set.induct) auto

lemma kv_ok_Cons: "kv_ok (p # m) \<longleftrightarrow> (\<forall>q\<in>set m. fst p < fst q) \<and> kv_ok m"
  by (auto simp: kv_ok_def)

lemma kv_ok_Nil [simp]: "kv_ok []"
  by (simp add: kv_ok_def)

lemma kv_ok_set [simp]: "kv_ok m \<Longrightarrow> kv_ok (kv_set k v m)"
proof (induction k v m rule: kv_set.induct)
  case (2 k v a w m)
  have "\<forall>b\<in>fst ` set m. a < b" using 2(2) by (simp add: kv_ok_Cons)
  then have "\<forall>b\<in>fst ` set (kv_set k v m). a < b" if "a < k"
    using that by (simp add: set_kv_set)
  then have "\<forall>q\<in>set (kv_set k v m). a < fst q" if "a < k"
    using that by simp
  then show ?case using 2 by (auto simp: kv_ok_Cons not_less_iff_gr_or_eq)
qed (simp add: kv_ok_Cons)

lemma set_kv_delete: "set (kv_delete k m) \<subseteq> set m"
  by (induction k m rule: kv_delete.induct) auto

lemma kv_ok_delete [simp]: "kv_ok m \<Longrightarrow> kv_ok (kv_delete k m)"
  by (induction k m rule: kv_delete.induct) (use set_kv_delete in \<open>fastforce simp: kv_ok_Cons\<close>)+

lemma kv_get_set [simp]: "kv_get j (kv_set k v m) = (if j = k then Some v else kv_get j m)"
  by (induction k v m rule: kv_set.induct) auto

lemma kv_get_None: "k \<notin> fst ` set m \<Longrightarrow> kv_get k m = None"
  by (induction m) auto

lemma kv_get_delete: "kv_ok m \<Longrightarrow> kv_get j (kv_delete k m) = (if j = k then None else kv_get j m)"
proof (induction k m rule: kv_delete.induct)
  case (2 k a w m)
  have "a \<notin> fst ` set m" using 2 by (auto simp: kv_ok_Cons)
  then show ?case using 2 by (auto simp: kv_ok_Cons kv_get_None)
qed simp

lemma kv_has_iff: "kv_has k m \<longleftrightarrow> k \<in> fst ` set m"
  by (induction m) (auto simp: kv_has_def)

lemma kv_keys_eq:
  assumes "kv_ok m" "kv_ok m'" "\<And>k. kv_has k m = kv_has k m'"
  shows "map fst m = map fst m'"
proof (rule strict_sorted_equal)
  show "set (map fst m) = set (map fst m')" using assms(3) by (simp only: kv_has_iff set_map) blast
qed (use assms in \<open>simp_all add: kv_ok_def\<close>)

interpretation kvs: kv_spec kv_get kv_set kv_delete "\<lambda>m. m" "[]" kv_ok
  by unfold_locales (simp_all add: kv_get_delete kv_get_map_of [symmetric] kv_ok_def [symmetric])

section \<open>Stores whose keys are built from typed keys\<close>

text \<open>
  \<open>keyed f A m\<close>: every key of \<open>m\<close> is \<open>f x\<close> for a typed key \<open>x\<close> that stands in the relation \<open>A\<close> to the
  value stored under it.
\<close>

definition keyed :: "('a \<Rightarrow> string) \<Rightarrow> ('a \<Rightarrow> 'v \<Rightarrow> bool) \<Rightarrow> 'v kv \<Rightarrow> bool" where
  "keyed f A m \<longleftrightarrow> kv_ok m \<and> (\<forall>(k, v)\<in>set m. \<exists>x. k = f x \<and> A x v)"

lemma keyed_ok [simp]: "keyed f A m \<Longrightarrow> kv_ok m"
  by (simp add: keyed_def)

lemma keyed_Nil [simp]: "keyed f A []"
  by (simp add: keyed_def)

lemma keyed_Cons: "A x v \<Longrightarrow> \<forall>q\<in>set m. f x < fst q \<Longrightarrow> keyed f A m \<Longrightarrow> keyed f A ((f x, v) # m)"
  by (auto simp: keyed_def kv_ok_Cons)

lemma set_kv_set_subset: "set (kv_set k v m) \<subseteq> insert (k, v) (set m)"
  by (induction k v m rule: kv_set.induct) auto

lemma keyed_set [intro]: "keyed f A m \<Longrightarrow> A x v \<Longrightarrow> keyed f A (kv_set (f x) v m)"
  using set_kv_set_subset [of "f x" v m] by (fastforce simp: keyed_def)

lemma keyed_delete [intro]: "keyed f A m \<Longrightarrow> keyed f A (kv_delete k m)"
  using set_kv_delete [of k m] by (fastforce simp: keyed_def)

lemma keyed_entry: "keyed f A m \<Longrightarrow> \<forall>e\<in>set m. \<exists>x. fst e = f x \<and> A x (snd e)"
  by (simp add: keyed_def case_prod_unfold)

lemma keyed_get: "keyed f A m \<Longrightarrow> kv_get k m = Some v \<Longrightarrow> \<exists>x. k = f x \<and> A x v"
  using kvs.in_entries [of m k v] by (fastforce simp: keyed_def)

text \<open>Deleting the entries one after the other leaves the empty store.\<close>

lemma fold_delete_all:
  assumes "kv_ok m" "fst ` set m \<subseteq> set ks"
  shows "fold kv_delete ks m = []"
proof (rule kvs.get_ext)
  have "kv_ok (fold kv_delete ks m) \<and> (\<forall>k. kv_get k (fold kv_delete ks m) = (if k \<in> set ks then None else kv_get k m))"
    using assms(1) by (induction ks arbitrary: m) (auto simp: kv_get_delete)
  then show "kv_ok (fold kv_delete ks m)" "kv_get k (fold kv_delete ks m) = kv_get k []" for k
    using assms(2) by (auto intro!: kv_get_None)
qed simp

lemma fold_delete_self: "kv_ok m \<Longrightarrow> fold kv_delete (map fst m) m = []"
  by (rule fold_delete_all) auto

section \<open>Filtering, permuting and updating\<close>

lemma kv_get_filter:
  assumes "kv_ok m"
  shows "kv_get k (filter P m) = (case kv_get k m of Some v \<Rightarrow> if P (k, v) then Some v else None | None \<Rightarrow> None)"
  using assms
proof (induction m)
  case (Cons p m)
  obtain a v where p: "p = (a, v)" by fastforce
  have "a \<notin> fst ` set m" using Cons.prems p by (auto simp: kv_ok_Cons)
  then have "kv_get a m = None" by (rule kv_get_None)
  then show ?case using Cons p by (auto simp: kv_ok_Cons split: option.splits)
qed simp

lemma kv_ok_filter: "kv_ok m \<Longrightarrow> kv_ok (filter P m)"
  by (induction m) (auto simp: kv_ok_Cons)

lemma perm_facts:
  assumes "mset es = mset V" "kv_ok V"
  shows "distinct (map fst es)" "set es = set V"
proof -
  have "mset (map fst es) = mset (map fst V)" using assms(1) by simp
  then show "distinct (map fst es)"
    using kvs.entries_distinct [OF assms(2)] mset_eq_imp_distinct_iff by blast
  show "set es = set V" using assms(1) by (rule mset_eq_setD)
qed

text \<open>Read-modify-write of one entry; a missing entry counts as \<open>d\<close>.\<close>

definition kv_update :: "('a \<Rightarrow> string) \<Rightarrow> ('a \<Rightarrow> 'v \<Rightarrow> 'v) \<Rightarrow> 'v \<Rightarrow> 'a \<Rightarrow> 'v kv \<Rightarrow> 'v kv" where
  "kv_update key upd d x m = kv_set (key x) (upd x (case kv_get (key x) m of Some v \<Rightarrow> v | None \<Rightarrow> d)) m"

lemma kv_ok_update [simp]: "kv_ok m \<Longrightarrow> kv_ok (kv_update key upd d x m)"
  by (simp add: kv_update_def)

lemma kv_update_commute:
  assumes "kv_ok m" "\<And>v. upd x (upd y v) = upd y (upd x v)"
  shows "kv_update key upd d x (kv_update key upd d y m) = kv_update key upd d y (kv_update key upd d x m)"
  by (rule kvs.get_ext) (use assms in \<open>auto simp: kv_update_def\<close>)

lemma kv_set_commute: "kv_ok m \<Longrightarrow> j \<noteq> k \<Longrightarrow> kv_set j v (kv_set k w m) = kv_set k w (kv_set j v m)"
  by (rule kvs.get_ext) auto

lemma kv_ok_fold_update: "kv_ok m \<Longrightarrow> kv_ok (fold (kv_update key upd d) xs m)"
  by (induction xs arbitrary: m) auto

lemma fold_update_perm:
  assumes "kv_ok m" "mset xs = mset ys" "\<And>x y v. upd x (upd y v) = upd y (upd x v)"
  shows "fold (kv_update key upd d) xs m = fold (kv_update key upd d) ys m"
  by (rule fold_perm_inv [OF assms(2), of kv_ok]) (use assms in \<open>auto intro: kv_update_commute\<close>)

text \<open>With distinct keys every entry is updated once.\<close>

lemma kv_get_fold_update:
  assumes "distinct (map key xs)"
  shows "kv_get k (fold (kv_update key upd d) xs m) =
    (case find (\<lambda>x. key x = k) xs of
       None \<Rightarrow> kv_get k m
     | Some x \<Rightarrow> Some (upd x (case kv_get k m of Some v \<Rightarrow> v | None \<Rightarrow> d)))"
  using assms
proof (induction xs arbitrary: m)
  case (Cons x xs)
  have "find (\<lambda>y. key y = key x) xs = None" using Cons.prems by (auto simp: find_None_iff image_iff)
  then show ?case using Cons by (auto simp: kv_update_def split: option.splits)
qed simp

text \<open>Looking for one key in a selection of the entries, taken in any order.\<close>

lemma find_entry:
  assumes "kv_ok m" "mset es = mset m" "\<And>e. e \<in> set m \<Longrightarrow> key e = k \<longleftrightarrow> fst e = j"
  shows "find (\<lambda>e. key e = k) (filter P es) =
    (case kv_get j m of Some v \<Rightarrow> if P (j, v) then Some (j, v) else None | None \<Rightarrow> None)"
proof -
  have s: "set es = set m" using assms(2) mset_eq_setD by blast
  have ent: "e \<in> set es \<and> key e = k \<longleftrightarrow> fst e = j \<and> kv_get j m = Some (snd e)" for e
    using assms(3) [of e] kvs.in_entries [OF assms(1), of "fst e" "snd e"] s by auto
  show ?thesis
  proof (cases "find (\<lambda>e. key e = k) (filter P es)")
    case None
    then have "\<not> (\<exists>e. e \<in> set es \<and> P e \<and> key e = k)" unfolding find_None_iff by auto
    then show ?thesis using None ent [of "(j, v)" for v] by (cases "kv_get j m") auto
  next
    case (Some e)
    then have "e \<in> set (filter P es)" "key e = k" unfolding find_Some_iff by (blast intro: nth_mem)+
    then have "e \<in> set es \<and> key e = k" "P e" by simp_all
    then show ?thesis using Some ent [of e] by (cases e) auto
  qed
qed

end
