(* ===== verification/Sdk.thy ===== *)
theory Sdk
  imports Prelude
begin

text \<open>
  The interface of the cosmos-sdk (v0.47) that the chain calls.  Its code is not part of the repository,
  so every operation is a field of a record \<open>K\<close> that the definitions of the other theories take as
  an argument, and what they rely on is a law of one of the locales below (\<open>dec_laws\<close>,
  \<open>coin_laws\<close>, \<open>bank_laws\<close>), assumed by name where a theorem needs it.

  Representation.  An \<open>sdk.Int\<close> is an \<open>int\<close>.  An \<open>sdk.Dec\<close> is the \<open>int\<close> of its
  units of 10 to the -18, on which addition, subtraction, negation, comparison and multiplication by an
  integer are exact; the operations that round are fields of \<open>dec_ops\<close>.  The panics of the exact
  operations beyond 256 and 315 bits are outside the model.  Coins are lists of \<open>coin\<close>; an
  account address is the \<open>string\<close> of its bytes.  The stores of the sdk's own modules (bank, staking,
  distribution, auth, ...) are one opaque value of type \<open>'b\<close>.
\<close>

section \<open>Decimals\<close>

type_synonym dec = int

abbreviation OneDec :: dec where
  "OneDec \<equiv> 1000000000000000000"

definition NewDec :: "int \<Rightarrow> dec" where
  "NewDec i = i * OneDec"

definition NewDecWithPrec :: "int \<Rightarrow> nat \<Rightarrow> dec" where
  "NewDecWithPrec i p = i * 10 ^ (18 - p)"

record dec_ops =
  dec_Mul :: "dec \<Rightarrow> dec \<Rightarrow> dec outcome"
  dec_Quo :: "dec \<Rightarrow> dec \<Rightarrow> dec outcome"
  dec_QuoInt :: "dec \<Rightarrow> int \<Rightarrow> dec outcome"
  dec_TruncateInt :: "dec \<Rightarrow> int"
  dec_RoundInt :: "dec \<Rightarrow> int"
  dec_Ceil :: "dec \<Rightarrow> dec"
  dec_FromStr :: "string \<Rightarrow> dec outcome"
  dec_String :: "dec \<Rightarrow> string"

text \<open>
  \<open>Mul\<close> is correctly rounded to 18 digits.  \<open>Quo\<close> truncates the quotient at 36 digits and then
  rounds to 18.  \<open>QuoInt\<close> truncates.  A division by zero panics, and so does a result of more than
  315 bits, which the range premises exclude.
\<close>

text \<open>\<open>TruncateInt64\<close> panics when the integer does not fit.\<close>

definition dec_TruncateInt64 :: "'z dec_ops_scheme \<Rightarrow> dec \<Rightarrow> int outcome" where
  "dec_TruncateInt64 K a = (let i = dec_TruncateInt K a in if in_i64 i then Ok i else Panic)"

locale dec_laws =
  fixes K :: "'z dec_ops_scheme"
  assumes Mul_upper: "dec_Mul K a b = Ok c \<Longrightarrow> 2 * (c * OneDec) \<le> 2 * (a * b) + OneDec"
    and Mul_lower: "dec_Mul K a b = Ok c \<Longrightarrow> 2 * (a * b) \<le> 2 * (c * OneDec) + OneDec"
    and Mul_total: "\<bar>a * b\<bar> < 2 ^ 314 * OneDec \<Longrightarrow> is_Ok (dec_Mul K a b)"
    and Mul_no_err: "dec_Mul K a b \<noteq> Err e"
    and Quo_upper: "dec_Quo K a b = Ok c \<Longrightarrow>
      2 * OneDec * (c * b) \<le> 2 * OneDec * (a * OneDec) + \<bar>b\<bar> * (OneDec + 2)"
    and Quo_lower: "dec_Quo K a b = Ok c \<Longrightarrow>
      2 * OneDec * (a * OneDec) \<le> 2 * OneDec * (c * b) + \<bar>b\<bar> * (OneDec + 2)"
    and Quo_zero: "dec_Quo K a 0 = Panic"
    and Quo_total: "b \<noteq> 0 \<Longrightarrow> \<bar>a * OneDec\<bar> < 2 ^ 314 * \<bar>b\<bar> \<Longrightarrow> is_Ok (dec_Quo K a b)"
    and Quo_no_err: "dec_Quo K a b \<noteq> Err e"
    and Quo_mono: "0 \<le> a \<Longrightarrow> 0 < b \<Longrightarrow> b \<le> b' \<Longrightarrow> dec_Quo K a b = Ok c \<Longrightarrow> dec_Quo K a b' = Ok c' \<Longrightarrow> c' \<le> c"
    and QuoInt_eq: "i \<noteq> 0 \<Longrightarrow> dec_QuoInt K a i = Ok (go_quot a i)"
    and QuoInt_zero: "dec_QuoInt K a 0 = Panic"
    and TruncateInt_eq: "dec_TruncateInt K a = go_quot a OneDec"
    and RoundInt_upper: "2 * (dec_RoundInt K a * OneDec) \<le> 2 * a + OneDec"
    and RoundInt_lower: "2 * a \<le> 2 * (dec_RoundInt K a * OneDec) + OneDec"
    and Ceil_eq: "dec_Ceil K a = - ((- a) div OneDec) * OneDec"
    and FromStr_no_panic: "dec_FromStr K t \<noteq> Panic"
    and FromStr_String: "dec_FromStr K (dec_String K a) = Ok a"
begin

lemma Mul_cases:
  obtains c where "dec_Mul K a b = Ok c" | "dec_Mul K a b = Panic"
  using Mul_no_err by (cases "dec_Mul K a b") auto

lemmas Mul_round = Mul_upper Mul_lower

lemmas Quo_round = Quo_upper Quo_lower

lemma Mul_nonneg:
  assumes "dec_Mul K a b = Ok c" "0 \<le> a" "0 \<le> b"
  shows "0 \<le> c"
proof -
  have "0 \<le> a * b" using assms by simp
  then show ?thesis using Mul_lower [OF assms(1)] by linarith
qed

text \<open>A factor of at most one does not increase a nonnegative decimal.\<close>

lemma Mul_le:
  assumes "dec_Mul K a b = Ok c" "0 \<le> a" "b \<le> OneDec"
  shows "c \<le> a"
proof -
  have "a * b \<le> a * OneDec" using assms by (intro mult_left_mono)
  then show ?thesis using Mul_upper [OF assms(1)] by linarith
qed

lemma Mul_exact:
  assumes "dec_Mul K a b = Ok c" "a * b = k * OneDec"
  shows "c = k"
  using Mul_round [OF assms(1)] unfolding assms(2) by linarith

lemma Mul_NewDec:
  assumes "dec_Mul K a (NewDec i) = Ok c"
  shows "c = a * i"
  by (rule Mul_exact [OF assms]) (simp add: NewDec_def)

lemma Mul_one:
  assumes "dec_Mul K a OneDec = Ok c"
  shows "c = a"
  by (rule Mul_exact [OF assms]) simp

lemma Mul_zero:
  assumes "dec_Mul K a 0 = Ok c"
  shows "c = 0"
  by (rule Mul_exact [OF assms]) simp

lemma Quo_nonneg:
  assumes "dec_Quo K a b = Ok c" "0 \<le> a" "0 < b"
  shows "0 \<le> c"
proof (rule ccontr)
  assume "\<not> 0 \<le> c"
  then have "c * b \<le> - b" using assms(3) mult_right_mono [of c "- 1" b] by simp
  then show False using Quo_lower [OF assms(1)] assms(2,3) by (simp add: distrib_left)
qed

text \<open>An integral bound of the true quotient bounds the rounded one.\<close>

lemma Quo_le:
  assumes "dec_Quo K a b = Ok c" "a * OneDec \<le> k * b" "0 < b"
  shows "c \<le> k"
proof (rule ccontr)
  assume "\<not> c \<le> k"
  then have "(k + 1) * b \<le> c * b" using assms(3) by (intro mult_right_mono) simp_all
  then show False using Quo_upper [OF assms(1)] assms(2,3) by (simp add: distrib_right)
qed

lemma Quo_le_one:
  assumes "dec_Quo K a b = Ok c" "a \<le> b" "0 < b"
  shows "c \<le> OneDec"
  by (rule Quo_le [OF assms(1) _ assms(3)]) (use assms(2) in simp)

lemma Quo_nonzero: "dec_Quo K a b = Ok c \<Longrightarrow> b \<noteq> 0"
  using Quo_zero by auto

lemma TruncateInt_nonneg: "0 \<le> a \<Longrightarrow> dec_TruncateInt K a = a div OneDec"
  by (simp add: TruncateInt_eq go_quot_nonneg)

lemma TruncateInt_bounds:
  assumes "0 \<le> a"
  shows "0 \<le> dec_TruncateInt K a" "dec_TruncateInt K a * OneDec \<le> a"
    "a < (dec_TruncateInt K a + 1) * OneDec"
  unfolding TruncateInt_nonneg [OF assms]
  using assms div_floor_bounds [of OneDec a] by (simp_all add: pos_imp_zdiv_nonneg_iff)

lemma RoundInt_NewDec [simp]: "dec_RoundInt K (NewDec i) = i"
  using RoundInt_upper [of "NewDec i"] RoundInt_lower [of "NewDec i"] unfolding NewDec_def by linarith

lemma RoundInt_nonneg: "0 \<le> a \<Longrightarrow> 0 \<le> dec_RoundInt K a"
  using RoundInt_lower [of a] by linarith

end

section \<open>Coins\<close>

record coin =
  Denom :: string
  Amount :: int

type_synonym coins = "coin list"

text \<open>\<open>sdk.DecCoin\<close> has the same shape, with a decimal amount.\<close>

type_synonym dec_coins = "coin list"

text \<open>The amount a coin list holds of a denomination; the laws speak of coin lists through it.\<close>

primrec amt :: "coins \<Rightarrow> string \<Rightarrow> int" where
  "amt [] d = 0"
| "amt (c # cs) d = (if Denom c = d then Amount c else 0) + amt cs d"

text \<open>What the sdk calls a valid coin list: strictly sorted by denomination, all amounts positive.\<close>

definition coins_ok :: "coins \<Rightarrow> bool" where
  "coins_ok cs \<longleftrightarrow> sorted_wrt (<) (map Denom cs) \<and> (\<forall>c\<in>set cs. 0 < Amount c)"

lemma amt_append [simp]: "amt (xs @ ys) d = amt xs d + amt ys d"
  by (induction xs) simp_all

lemma amt_notin [simp]: "d \<notin> Denom ` set cs \<Longrightarrow> amt cs d = 0"
  by (induction cs) auto

lemma amt_mset: "mset xs = mset ys \<Longrightarrow> amt xs d = amt ys d"
proof -
  have "amt cs d = (\<Sum>c\<in>#mset cs. if Denom c = d then Amount c else 0)" for cs
    by (induction cs) simp_all
  then show "mset xs = mset ys \<Longrightarrow> amt xs d = amt ys d" by metis
qed

lemma coins_ok_Nil [simp]: "coins_ok []"
  by (simp add: coins_ok_def)

lemma coins_ok_Cons: "coins_ok (c # cs) \<longleftrightarrow> 0 < Amount c \<and> (\<forall>x\<in>set cs. Denom c < Denom x) \<and> coins_ok cs"
  by (auto simp: coins_ok_def)

lemma coins_ok_single [simp]: "coins_ok [c] \<longleftrightarrow> 0 < Amount c"
  by (simp add: coins_ok_def)

lemma coins_ok_distinct: "coins_ok cs \<Longrightarrow> distinct (map Denom cs)"
  by (simp add: coins_ok_def strict_sorted_iff)

lemma amt_in:
  assumes "coins_ok cs" "c \<in> set cs"
  shows "amt cs (Denom c) = Amount c"
  using assms
proof (induction cs)
  case (Cons a cs)
  then show ?case
    by (cases "c = a") (auto simp: coins_ok_Cons dest: less_imp_neq intro!: amt_notin)
qed simp

lemma amt_nonneg: "coins_ok cs \<Longrightarrow> 0 \<le> amt cs d"
  by (induction cs) (auto simp: coins_ok_Cons)

lemma amt_pos_iff: "coins_ok cs \<Longrightarrow> 0 < amt cs d \<longleftrightarrow> d \<in> Denom ` set cs"
  by (metis amt_in amt_notin coins_ok_def image_iff order_less_irrefl)

text \<open>A valid coin list is determined by the amounts it holds.\<close>

lemma coins_ok_ext:
  assumes "coins_ok xs" "coins_ok ys" "\<And>d. amt xs d = amt ys d"
  shows "xs = ys"
proof -
  have "Denom ` set xs = Denom ` set ys" using assms amt_pos_iff by (metis subsetI subset_antisym)
  then have "map Denom xs = map Denom ys"
    using assms(1,2) strict_sorted_equal by (metis coins_ok_def list.set_map)
  moreover have "Amount (xs ! i) = Amount (ys ! i)" if "i < length xs" for i
    using assms that \<open>map Denom xs = map Denom ys\<close>
    by (metis amt_in length_map nth_map nth_mem)
  moreover have "Denom (xs ! i) = Denom (ys ! i)" if "i < length xs" for i
    using that \<open>map Denom xs = map Denom ys\<close> by (metis length_map nth_map)
  moreover have "length xs = length ys"
    using \<open>map Denom xs = map Denom ys\<close> by (rule map_eq_imp_length_eq)
  ultimately show ?thesis
    by (simp add: list_eq_iff_nth_eq [of xs ys] coin.equality)
qed

lemma coins_ok_empty_iff: "coins_ok cs \<Longrightarrow> cs = [] \<longleftrightarrow> (\<forall>d. amt cs d = 0)"
  using coins_ok_ext [of cs "[]"] by auto

record coin_ops = dec_ops +
  ValidDenom :: "string \<Rightarrow> bool"
  NewCoin :: "string \<Rightarrow> int \<Rightarrow> coin outcome"
  NewCoins :: "coins \<Rightarrow> coins outcome"
  coins_Add :: "coins \<Rightarrow> coins \<Rightarrow> coins outcome"
  coins_Sub :: "coins \<Rightarrow> coins \<Rightarrow> coins outcome"
  coins_AmountOf :: "coins \<Rightarrow> string \<Rightarrow> int outcome"
  coins_IsZero :: "coins \<Rightarrow> bool"
  coins_IsValid :: "coins \<Rightarrow> bool"
  coins_IsAllGTE :: "coins \<Rightarrow> coins \<Rightarrow> bool"
  coins_IsAnyGTE :: "coins \<Rightarrow> coins \<Rightarrow> bool"
  coins_Sort :: "coins \<Rightarrow> coins"
  NewDecCoins :: "dec_coins \<Rightarrow> dec_coins outcome"
  NewDecCoinsFromCoins :: "coins \<Rightarrow> dec_coins outcome"
  NewDecCoinFromDec :: "string \<Rightarrow> dec \<Rightarrow> coin outcome"
  deccoins_Add :: "dec_coins \<Rightarrow> dec_coins \<Rightarrow> dec_coins outcome"
  deccoins_Sub :: "dec_coins \<Rightarrow> dec_coins \<Rightarrow> dec_coins outcome"
  deccoins_MulDec :: "dec_coins \<Rightarrow> dec \<Rightarrow> dec_coins outcome"
  deccoins_TruncateDecimal :: "dec_coins \<Rightarrow> (coins \<times> dec_coins) outcome"
  coin_IsValid :: "coin \<Rightarrow> bool"
  coin_Add :: "coin \<Rightarrow> coin \<Rightarrow> coin outcome"
  NewDecCoin :: "string \<Rightarrow> int \<Rightarrow> coin outcome"
  NewDecCoinFromCoin :: "coin \<Rightarrow> coin outcome"
  deccoin_Add :: "coin \<Rightarrow> coin \<Rightarrow> coin outcome"
  deccoin_Sub :: "coin \<Rightarrow> coin \<Rightarrow> coin outcome"
  deccoin_TruncateDecimal :: "coin \<Rightarrow> (coin \<times> coin) outcome"
  ParseCoinNormalized :: "string \<Rightarrow> coin outcome"
  deccoins_AmountOf :: "dec_coins \<Rightarrow> string \<Rightarrow> dec outcome"
  deccoins_IsZero :: "dec_coins \<Rightarrow> bool"
  deccoins_Sort :: "dec_coins \<Rightarrow> dec_coins"

definition valid_coins :: "('z) coin_ops_scheme \<Rightarrow> coins \<Rightarrow> bool" where
  "valid_coins K cs \<longleftrightarrow> coins_ok cs \<and> (\<forall>c\<in>set cs. ValidDenom K (Denom c))"

text \<open>
  The constructors panic on an invalid denomination, a negative amount or a duplicate; \<open>Sub\<close> panics
  when a component would become negative.  \<open>IsAnyGTE\<close> ignores components the second list lacks.  The
  operations on one coin panic on different denominations and on a negative result.
\<close>

locale coin_laws = dec_laws K for K :: "'z coin_ops_scheme" +
  assumes NewCoin_eq: "NewCoin K d n =
      (if ValidDenom K d \<and> 0 \<le> n then Ok \<lparr>Denom = d, Amount = n\<rparr> else Panic)"
    and NewCoins_ok: "distinct (map Denom cs) \<Longrightarrow> \<forall>c\<in>set cs. ValidDenom K (Denom c) \<and> 0 \<le> Amount c \<Longrightarrow>
      \<exists>r. NewCoins K cs = Ok r \<and> valid_coins K r \<and> (\<forall>d. amt r d = amt cs d)"
    and Add_nonneg: "valid_coins K a \<Longrightarrow> sorted_wrt (<) (map Denom b) \<Longrightarrow>
      \<forall>c\<in>set b. ValidDenom K (Denom c) \<and> 0 \<le> Amount c \<Longrightarrow>
      \<exists>r. coins_Add K a b = Ok r \<and> valid_coins K r \<and> (\<forall>d. amt r d = amt a d + amt b d)"
    and Sub_ok: "valid_coins K a \<Longrightarrow> valid_coins K b \<Longrightarrow> \<forall>d. amt b d \<le> amt a d \<Longrightarrow>
      \<exists>r. coins_Sub K a b = Ok r \<and> valid_coins K r \<and> (\<forall>d. amt r d = amt a d - amt b d)"
    and Sub_neg: "valid_coins K a \<Longrightarrow> valid_coins K b \<Longrightarrow> amt a d < amt b d \<Longrightarrow> coins_Sub K a b = Panic"
    and AmountOf_sorted: "sorted_wrt (<) (map Denom a) \<Longrightarrow>
      coins_AmountOf K a d = (if ValidDenom K d then Ok (amt a d) else Panic)"
    and IsZero_all: "coins_IsZero K a \<longleftrightarrow> (\<forall>c\<in>set a. Amount c = 0)"
    and IsValid_iff: "coins_IsValid K a \<longleftrightarrow> valid_coins K a"
    and IsAllGTE_iff: "valid_coins K a \<Longrightarrow> valid_coins K b \<Longrightarrow>
      coins_IsAllGTE K a b \<longleftrightarrow> (\<forall>d. amt b d \<le> amt a d)"
    and IsAnyGTE_iff: "valid_coins K a \<Longrightarrow> sorted_wrt (<) (map Denom b) \<Longrightarrow> \<forall>c\<in>set b. 0 \<le> Amount c \<Longrightarrow>
      coins_IsAnyGTE K a b \<longleftrightarrow> (\<exists>d. 0 < amt b d \<and> amt b d \<le> amt a d)"
    and Sort_mset: "mset (coins_Sort K a) = mset a"
    and Sort_sorted: "sorted (map Denom (coins_Sort K a))"
    and coin_IsValid_iff: "coin_IsValid K x \<longleftrightarrow> ValidDenom K (Denom x) \<and> 0 \<le> Amount x"
    and coin_Add_eq: "coin_Add K x y =
      (if Denom x = Denom y then Ok \<lparr>Denom = Denom x, Amount = Amount x + Amount y\<rparr> else Panic)"
    and NewDecCoinFromDec_eq: "NewDecCoinFromDec K d n =
      (if ValidDenom K d \<and> 0 \<le> n then Ok \<lparr>Denom = d, Amount = n\<rparr> else Panic)"
    and NewDecCoin_eq: "NewDecCoin K d n =
      (if ValidDenom K d \<and> 0 \<le> n then Ok \<lparr>Denom = d, Amount = n * OneDec\<rparr> else Panic)"
    and NewDecCoinFromCoin_eq: "NewDecCoinFromCoin K x =
      (if ValidDenom K (Denom x) \<and> 0 \<le> Amount x then Ok \<lparr>Denom = Denom x, Amount = Amount x * OneDec\<rparr> else Panic)"
    and deccoin_Add_eq: "deccoin_Add K x y =
      (if Denom x = Denom y then Ok \<lparr>Denom = Denom x, Amount = Amount x + Amount y\<rparr> else Panic)"
    and deccoin_Sub_eq: "deccoin_Sub K x y =
      (if Denom x = Denom y \<and> Amount y \<le> Amount x then Ok \<lparr>Denom = Denom x, Amount = Amount x - Amount y\<rparr> else Panic)"
    and deccoin_Truncate_eq: "deccoin_TruncateDecimal K x =
      (if ValidDenom K (Denom x) \<and> 0 \<le> Amount x
       then Ok (\<lparr>Denom = Denom x, Amount = Amount x div OneDec\<rparr>, \<lparr>Denom = Denom x, Amount = Amount x mod OneDec\<rparr>)
       else Panic)"
    and ParseCoin_no_panic: "ParseCoinNormalized K t \<noteq> Panic"
    and DecFromCoins_ok: "valid_coins K a \<Longrightarrow>
      \<exists>r. NewDecCoinsFromCoins K a = Ok r \<and> valid_coins K r \<and> (\<forall>d. amt r d = amt a d * OneDec)"
    and DecAdd_ok: "valid_coins K a \<Longrightarrow> valid_coins K b \<Longrightarrow>
      \<exists>r. deccoins_Add K a b = Ok r \<and> valid_coins K r \<and> (\<forall>d. amt r d = amt a d + amt b d)"
    and DecAmountOf_sorted: "sorted_wrt (<) (map Denom a) \<Longrightarrow>
      deccoins_AmountOf K a d = (if ValidDenom K d then Ok (amt a d) else Panic)"
    and DecIsZero_all: "deccoins_IsZero K a \<longleftrightarrow> (\<forall>c\<in>set a. Amount c = 0)"
    and DecSort_mset: "mset (deccoins_Sort K a) = mset a"
    and DecSort_sorted: "sorted (map Denom (deccoins_Sort K a))"
begin

lemma IsZero_iff: "valid_coins K a \<Longrightarrow> coins_IsZero K a \<longleftrightarrow> a = []"
  by (cases a) (auto simp: IsZero_all valid_coins_def coins_ok_def)

lemma valid_coins_ok [intro]: "valid_coins K cs \<Longrightarrow> coins_ok cs"
  by (simp add: valid_coins_def)

lemma valid_coins_sorted: "valid_coins K cs \<Longrightarrow> sorted_wrt (<) (map Denom cs)"
  by (simp add: valid_coins_def coins_ok_def)

lemmas AmountOf_eq = AmountOf_sorted [OF valid_coins_sorted]
lemmas DecAmountOf_eq = DecAmountOf_sorted [OF valid_coins_sorted]

lemma DecFromCoins_map:
  assumes "valid_coins K a"
  shows "NewDecCoinsFromCoins K a = Ok (map (\<lambda>c. \<lparr>Denom = Denom c, Amount = Amount c * OneDec\<rparr>) a)"
proof -
  let ?m = "map (\<lambda>c. \<lparr>Denom = Denom c, Amount = Amount c * OneDec\<rparr>) a"
  obtain r where r: "NewDecCoinsFromCoins K a = Ok r" "valid_coins K r" "\<And>d. amt r d = amt a d * OneDec"
    using DecFromCoins_ok [OF assms] by auto
  have d: "map Denom ?m = map Denom a" by simp
  have "coins_ok ?m" using valid_coins_ok [OF assms] unfolding coins_ok_def d by auto
  moreover have "amt ?m d = amt a d * OneDec" for d by (induction a) (auto simp: algebra_simps)
  ultimately have "r = ?m" using coins_ok_ext [OF valid_coins_ok [OF r(2)]] r(3) by simp
  then show ?thesis using r(1) by simp
qed

lemma valid_coins_Nil [simp]: "valid_coins K []"
  by (simp add: valid_coins_def)

lemma valid_coins_nonneg: "valid_coins K cs \<Longrightarrow> 0 \<le> amt cs d"
  by (intro amt_nonneg valid_coins_ok)

text \<open>The operations on valid lists, with their results named.\<close>

lemma Add_ok:
  assumes "valid_coins K a" "valid_coins K b"
  shows "\<exists>r. coins_Add K a b = Ok r \<and> valid_coins K r \<and> (\<forall>d. amt r d = amt a d + amt b d)"
  by (rule Add_nonneg [OF assms(1)]) (use assms(2) in \<open>auto simp: valid_coins_def coins_ok_def less_imp_le\<close>)

text \<open>Adding one coin, whose amount may be zero.\<close>

lemma Add_coin:
  assumes "valid_coins K a" "ValidDenom K d" "0 \<le> n"
  obtains r where "coins_Add K a [\<lparr>Denom = d, Amount = n\<rparr>] = Ok r" "valid_coins K r"
    "\<And>x. amt r x = amt a x + (if d = x then n else 0)"
  using Add_nonneg [OF assms(1), of "[\<lparr>Denom = d, Amount = n\<rparr>]"] assms(2,3) by auto

lemma AddE:
  assumes "valid_coins K a" "valid_coins K b"
  obtains r where "coins_Add K a b = Ok r" "valid_coins K r" "\<And>d. amt r d = amt a d + amt b d"
  using Add_ok [OF assms] by auto

lemma Add_Ok:
  assumes "coins_Add K a b = Ok r" "valid_coins K a" "valid_coins K b"
  shows "valid_coins K r" "amt r d = amt a d + amt b d"
  using Add_ok [OF assms(2,3)] assms(1) by auto

lemma Sub_Ok:
  assumes "coins_Sub K a b = Ok r" "valid_coins K a" "valid_coins K b"
  shows "valid_coins K r" "amt r d = amt a d - amt b d" "amt b d \<le> amt a d"
proof -
  have le: "\<forall>d. amt b d \<le> amt a d"
    using Sub_neg [OF assms(2,3)] assms(1) by (metis linorder_not_le outcome.distinct(3))
  then show "valid_coins K r" "amt r d = amt a d - amt b d" "amt b d \<le> amt a d"
    using Sub_ok [OF assms(2,3)] assms(1) by auto
qed

lemma NewCoins_single:
  assumes "ValidDenom K d" "0 \<le> a"
  shows "\<exists>r. NewCoins K [\<lparr>Denom = d, Amount = a\<rparr>] = Ok r \<and> valid_coins K r
    \<and> (\<forall>x. amt r x = (if d = x then a else 0))"
  using NewCoins_ok [of "[\<lparr>Denom = d, Amount = a\<rparr>]"] assms by (auto cong: if_cong)

end

section \<open>Bank\<close>

record 'b bank_ops = coin_ops +
  GetModuleAddress :: "string \<Rightarrow> string"
  GetModuleAccount :: "string \<Rightarrow> ('b, bool) go"
  GetBalance :: "'b \<Rightarrow> string \<Rightarrow> string \<Rightarrow> coin"
  GetAllBalances :: "'b \<Rightarrow> string \<Rightarrow> coins"
  GetSupply :: "'b \<Rightarrow> string \<Rightarrow> coin"
  SendCoins :: "string \<Rightarrow> string \<Rightarrow> coins \<Rightarrow> ('b, unit) go"
  SendCoinsFromModuleToModule :: "string \<Rightarrow> string \<Rightarrow> coins \<Rightarrow> ('b, unit) go"
  SendCoinsFromModuleToAccount :: "string \<Rightarrow> string \<Rightarrow> coins \<Rightarrow> ('b, unit) go"
  SendCoinsFromAccountToModule :: "string \<Rightarrow> string \<Rightarrow> coins \<Rightarrow> ('b, unit) go"
  MintCoins :: "string \<Rightarrow> coins \<Rightarrow> ('b, unit) go"
  BurnCoins :: "string \<Rightarrow> coins \<Rightarrow> ('b, unit) go"

definition bal :: "('b, 'z) bank_ops_scheme \<Rightarrow> 'b \<Rightarrow> string \<Rightarrow> string \<Rightarrow> int" where
  "bal K b x d = Amount (GetBalance K b x d)"

definition supply_of :: "('b, 'z) bank_ops_scheme \<Rightarrow> 'b \<Rightarrow> string \<Rightarrow> int" where
  "supply_of K b d = Amount (GetSupply K b d)"

text \<open>
  \<open>GetModuleAccount\<close> answers whether the account exists, creating it when the module is registered;
  it touches no balance.
\<close>

text \<open>\<open>moved K x y cs b b'\<close>: the balances of \<open>b'\<close> are those of \<open>b\<close> with \<open>cs\<close> taken from \<open>x\<close> to \<open>y\<close>.\<close>

definition moved :: "('b, 'z) bank_ops_scheme \<Rightarrow> string \<Rightarrow> string \<Rightarrow> coins \<Rightarrow> 'b \<Rightarrow> 'b \<Rightarrow> bool" where
  "moved K x y cs b b' \<longleftrightarrow>
     (\<forall>z d. bal K b' z d = bal K b z d - (if z = x then amt cs d else 0) + (if z = y then amt cs d else 0))
     \<and> (\<forall>d. supply_of K b' d = supply_of K b d)"

text \<open>\<open>issued K x sg cs b b'\<close>: \<open>cs\<close> was minted to (\<open>sg = 1\<close>) or burned from (\<open>sg = -1\<close>) the account \<open>x\<close>.\<close>

definition issued :: "('b, 'z) bank_ops_scheme \<Rightarrow> string \<Rightarrow> int \<Rightarrow> coins \<Rightarrow> 'b \<Rightarrow> 'b \<Rightarrow> bool" where
  "issued K x sg cs b b' \<longleftrightarrow>
     (\<forall>z d. bal K b' z d = bal K b z d + (if z = x then sg * amt cs d else 0))
     \<and> (\<forall>d. supply_of K b' d = supply_of K b d + sg * amt cs d)"

locale bank_laws = coin_laws K for K :: "('b, 'z) bank_ops_scheme" +
  assumes bal_nonneg: "0 \<le> bal K b x d"
    and AllBalances_valid: "valid_coins K (GetAllBalances K b x)"
    and AllBalances_amt: "amt (GetAllBalances K b x) d = bal K b x d"
    and SendCoins_moved: "SendCoins K x y cs b = (Ok (), b') \<Longrightarrow> moved K x y cs b b'"
    and M2M_moved: "SendCoinsFromModuleToModule K m m' cs b = (Ok (), b') \<Longrightarrow>
      moved K (GetModuleAddress K m) (GetModuleAddress K m') cs b b'"
    and M2A_moved: "SendCoinsFromModuleToAccount K m y cs b = (Ok (), b') \<Longrightarrow>
      moved K (GetModuleAddress K m) y cs b b'"
    and A2M_moved: "SendCoinsFromAccountToModule K x m cs b = (Ok (), b') \<Longrightarrow>
      moved K x (GetModuleAddress K m) cs b b'"
    and Mint_issued: "MintCoins K m cs b = (Ok (), b') \<Longrightarrow> issued K (GetModuleAddress K m) 1 cs b b'"
    and Burn_issued: "BurnCoins K m cs b = (Ok (), b') \<Longrightarrow> issued K (GetModuleAddress K m) (- 1) cs b b'"

section \<open>Addresses\<close>

text \<open>
  The bech32 notation of an address, the key prefix by length, and the truncated hash.  Parsing ends with the address
  verifier of the configuration; \<open>cmd/terrad/root.go\<close> installs \<open>VerifyAddressLen\<close> of wasmd, which accepts the 20 bytes of
  an account and the 32 bytes of a contract.
\<close>

record 'b addr_ops = "'b bank_ops" +
  ValAddress_String :: "string \<Rightarrow> string"
  AccAddress_String :: "string \<Rightarrow> string"
  ValAddressFromBech32 :: "string \<Rightarrow> string outcome"
  AccAddressFromBech32 :: "string \<Rightarrow> string outcome"
  MustLengthPrefix :: "string \<Rightarrow> string"
  ParseDecCoin :: "string \<Rightarrow> coin outcome"
  tmhash_Truncated :: "string \<Rightarrow> string"

definition address_ok :: "string \<Rightarrow> bool" where
  "address_ok v \<longleftrightarrow> length v = 20 \<or> length v = 32"

lemma address_ok_length: "address_ok v \<Longrightarrow> length v \<le> 255"
  by (auto simp: address_ok_def)

locale addr_laws =
  fixes K :: "('b, 'z) addr_ops_scheme"
  assumes LengthPrefix_eq: "length v \<le> 255 \<Longrightarrow> MustLengthPrefix K v = char_of (length v) # v"
    and ValAddress_length: "ValAddressFromBech32 K t = Ok v \<Longrightarrow> address_ok v"
    and ValAddress_roundtrip: "address_ok v \<Longrightarrow> ValAddressFromBech32 K (ValAddress_String K v) = Ok v"
    and ValAddress_no_panic: "ValAddressFromBech32 K t \<noteq> Panic"
    and AccAddress_length: "AccAddressFromBech32 K t = Ok v \<Longrightarrow> address_ok v"
    and AccAddress_roundtrip: "address_ok v \<Longrightarrow> AccAddressFromBech32 K (AccAddress_String K v) = Ok v"
    and AccAddress_no_panic: "AccAddressFromBech32 K t \<noteq> Panic"
    and hash_length: "length (tmhash_Truncated K t) = 20"
begin

lemma ValAddress_String_inj:
  "address_ok v \<Longrightarrow> address_ok w \<Longrightarrow> ValAddress_String K v = ValAddress_String K w \<Longrightarrow> v = w"
  using ValAddress_roundtrip by (metis outcome.inject(1))

lemma LengthPrefix_inj:
  "address_ok v \<Longrightarrow> address_ok w \<Longrightarrow> MustLengthPrefix K v = MustLengthPrefix K w \<longleftrightarrow> v = w"
  by (auto simp: LengthPrefix_eq address_ok_length)

end

section \<open>Staking and distribution\<close>

record validator =
  v_Operator :: string
  v_IsBonded :: bool
  v_IsJailed :: bool
  v_Tokens :: int
  v_ConsAddr :: "string outcome"
  v_CommissionRate :: dec
  v_MaxRate :: dec

record denom_unit =
  du_Denom :: string
  du_Exponent :: int
  du_Aliases :: "string list"

record metadata =
  md_Description :: string
  md_DenomUnits :: "denom_unit list"
  md_Base :: string
  md_Display :: string
  md_Name :: string
  md_Symbol :: string

record 'b staking_ops = "'b addr_ops" +
  MaxValidators :: "'b \<Rightarrow> int"
  ValidatorsPowerStore :: "'b \<Rightarrow> string list"
  PowerReduction :: "'b \<Rightarrow> int"
  Validator :: "'b \<Rightarrow> string \<Rightarrow> validator option"
  GetConsensusPower :: "validator \<Rightarrow> int \<Rightarrow> int outcome"
  TotalBondedTokens :: "'b \<Rightarrow> int"
  TokensToConsensusPower :: "int \<Rightarrow> int \<Rightarrow> int outcome"
  Slash :: "string \<Rightarrow> int \<Rightarrow> int \<Rightarrow> dec \<Rightarrow> ('b, unit) go"
  Jail :: "string \<Rightarrow> ('b, unit) go"
  AllocateTokensToValidator :: "validator \<Rightarrow> dec_coins \<Rightarrow> ('b, unit) go"
  GetDenomMetaData :: "'b \<Rightarrow> string \<Rightarrow> metadata option"
  SetDenomMetaData :: "metadata \<Rightarrow> ('b, unit) go"
  CommunityPool :: "'b \<Rightarrow> dec_coins"
  SetCommunityPool :: "dec_coins \<Rightarrow> ('b, unit) go"
  GetCommunityTax :: "'b \<Rightarrow> dec"
  ValidateAbstract :: "string \<Rightarrow> string \<Rightarrow> unit outcome"

locale staking_laws = addr_laws K for K :: "('b, 'z) staking_ops_scheme" +
  assumes Validator_operator: "Validator K b a = Some v \<Longrightarrow> address_ok (v_Operator v)"

text \<open>
  The community pool is a field of the distribution module's fee pool; the bank does not touch it, and
  setting it touches no balance.
\<close>

definition bank_same :: "('b, 'z) bank_ops_scheme \<Rightarrow> 'b \<Rightarrow> 'b \<Rightarrow> bool" where
  "bank_same K b b' \<longleftrightarrow>
     (\<forall>z d. bal K b' z d = bal K b z d) \<and> (\<forall>d. supply_of K b' d = supply_of K b d)"

locale distr_laws = bank_laws K for K :: "('b, 'z) staking_ops_scheme" +
  assumes SetPool: "\<exists>b'. SetCommunityPool K p b = (Ok (), b') \<and> CommunityPool K b' = p \<and> bank_same K b b'"
    and M2M_pool: "CommunityPool K (snd (SendCoinsFromModuleToModule K m m' cs b)) = CommunityPool K b"
    and Mint_pool: "CommunityPool K (snd (MintCoins K m cs b)) = CommunityPool K b"
    and Burn_pool: "CommunityPool K (snd (BurnCoins K m cs b)) = CommunityPool K b"
    and A2M_pool: "CommunityPool K (snd (SendCoinsFromAccountToModule K x m cs b)) = CommunityPool K b"
    and A2M_tax: "GetCommunityTax K (snd (SendCoinsFromAccountToModule K x m cs b)) = GetCommunityTax K b"

text \<open>A transfer between registered module accounts fails only for want of coins; module accounts have no locked coins.\<close>

locale module_laws = distr_laws K for K :: "('b, 'z) staking_ops_scheme" +
  fixes registered :: "string \<Rightarrow> bool"
  assumes M2M_live: "registered m \<Longrightarrow> registered m' \<Longrightarrow> valid_coins K cs \<Longrightarrow>
    \<forall>d. amt cs d \<le> bal K b (GetModuleAddress K m) d \<Longrightarrow> fst (SendCoinsFromModuleToModule K m m' cs b) = Ok ()"

section \<open>Keeper calls\<close>

text \<open>The context of a keeper call: the block being executed, and the stores of the sdk's modules.\<close>

record 'b chain =
  BlockHeight :: int
  ext :: 'b

text \<open>
  \<open>SetParamSet\<close> of the sdk's parameter store: it takes the pairs of a parameter set in their order, and for each runs
  its validator, panics on an error, and else writes the value before it goes on.
\<close>

definition SetParamSet :: "(('p \<Rightarrow> 'p) \<Rightarrow> 's \<Rightarrow> 's) \<Rightarrow> (unit outcome \<times> ('p \<Rightarrow> 'p)) list \<Rightarrow> ('s, unit) go" where
  "SetParamSet update pairs = for_each pairs (\<lambda>(valid, write). seq (must (lift valid)) (modify (update write)))"

definition pairs_valid :: "(unit outcome \<times> ('p \<Rightarrow> 'p)) list \<Rightarrow> bool" where
  "pairs_valid pairs \<longleftrightarrow> list_all (\<lambda>(valid, write). valid = Ok ()) pairs"

lemma SetParamSet_run: "pairs_valid pairs \<Longrightarrow> SetParamSet update pairs s = (Ok (), fold (\<lambda>(valid, write). update write) pairs s)"
  unfolding SetParamSet_def pairs_valid_def by (induction pairs arbitrary: s) (auto simp: seq_run)

lemma keeps_SetParamSet: "(\<And>s f. I s \<Longrightarrow> I (update f s)) \<Longrightarrow> keeps I (SetParamSet update pairs)"
  unfolding SetParamSet_def by (auto intro!: keeps_intros keeps_modify)

text \<open>A call of an sdk keeper from the chain's code.\<close>

definition sdk_call :: "('b, 'a) go \<Rightarrow> (('b, 'x) chain_scheme, 'a) go" where
  "sdk_call m = (\<lambda>s. case m (ext s) of (r, b) \<Rightarrow> (r, s\<lparr>ext := b\<rparr>))"

lemma sdk_call_run: "sdk_call m s = (r, s') \<longleftrightarrow> (\<exists>b. m (ext s) = (r, b) \<and> s' = s\<lparr>ext := b\<rparr>)"
  by (auto simp: sdk_call_def split: prod.splits)

lemma keeps_sdk_call: "(\<And>s b. I s \<Longrightarrow> I (s\<lparr>ext := b\<rparr>)) \<Longrightarrow> keeps I (sdk_call m)"
  by (auto simp: keeps_def sdk_call_def split: prod.splits)

lemma must_sdk_Ok: "must (sdk_call m) s = (Ok x, s') \<longleftrightarrow> (\<exists>b. m (ext s) = (Ok x, b) \<and> s' = s\<lparr>ext := b\<rparr>)"
  by (auto simp: must_def sdk_call_def split: prod.splits outcome.splits)

end
