(* ===== verification/Core_Types.thy ===== *)
theory Core_Types
  imports Sdk
begin

text \<open>
  The constants and helpers every module shares: \<open>types/assets/assets.go\<close> (denominations),
  \<open>types/util/blocks.go\<close> (periods counted in blocks) and \<open>types/util/address.go\<close>.
\<close>

section \<open>Denominations\<close>

definition MicroLunaDenom :: string where "MicroLunaDenom = ''uluna''"
definition MicroUSDDenom :: string where "MicroUSDDenom = ''uusd''"
definition MicroKRWDenom :: string where "MicroKRWDenom = ''ukrw''"
definition MicroSDRDenom :: string where "MicroSDRDenom = ''usdr''"
definition MicroMNTDenom :: string where "MicroMNTDenom = ''umnt''"
definition MicroUnit :: int where "MicroUnit = 1000000"

lemmas denom_defs = MicroLunaDenom_def MicroUSDDenom_def MicroKRWDenom_def MicroSDRDenom_def
  MicroMNTDenom_def

section \<open>Periods\<close>

definition BlocksPerMinute :: int where "BlocksPerMinute = 10"
definition BlocksPerHour :: int where "BlocksPerHour = BlocksPerMinute * 60"
definition BlocksPerDay :: int where "BlocksPerDay = BlocksPerHour * 24"
definition BlocksPerWeek :: int where "BlocksPerWeek = BlocksPerDay * 7"
definition BlocksPerMonth :: int where "BlocksPerMonth = BlocksPerDay * 30"
definition BlocksPerYear :: int where "BlocksPerYear = BlocksPerDay * 365"

lemmas block_defs = BlocksPerMinute_def BlocksPerHour_def BlocksPerDay_def BlocksPerWeek_def
  BlocksPerMonth_def BlocksPerYear_def

text \<open>The conversion to \<open>uint64\<close>, the increment and the remainder wrap; a zero period panics.\<close>

definition IsPeriodLastBlock :: "int \<Rightarrow> int \<Rightarrow> bool outcome" where
  "IsPeriodLastBlock height blocksPerPeriod =
     (if blocksPerPeriod = 0 then Panic
      else Ok (u64 (u64 height + 1) mod blocksPerPeriod = 0))"

text \<open>The verifier of this package accepts 20 bytes only; no code of the chain installs it (see \<open>address_ok\<close> for the one that
  the command line installs).\<close>

definition AddressVerifier :: "string \<Rightarrow> unit outcome" where
  "AddressVerifier bz = (if length bz \<noteq> 20 then Err (FmtErr ''incorrect address length'') else Ok ())"

text \<open>At a height a chain can have, the test is that the next height is a multiple of the period.\<close>

lemma IsPeriodLastBlock_eq:
  assumes "0 \<le> height" "height < 2 ^ 63" "0 < n"
  shows "IsPeriodLastBlock height n = Ok (n dvd height + 1)"
  using assms by (simp add: IsPeriodLastBlock_def u64_def dvd_eq_mod_eq_0)

end
