(* ===== verification/Go_Strings.thy ===== *)
theory Go_Strings
  imports Prelude
begin

text \<open>
  The functions of the Go standard library on strings that the chain uses: \<open>strings.TrimSpace\<close>,
  \<open>strings.Split\<close> with a one-byte separator, \<open>encoding/hex\<close>, and the decimal notation of integers.
  A Go string is the list of its bytes.
\<close>

section \<open>TrimSpace\<close>

text \<open>The UTF-8 encodings of the characters \<open>unicode.IsSpace\<close> accepts.\<close>

definition unicode_spaces :: "string list" where
  "unicode_spaces =
     [[CHR 0x09], [CHR 0x0A], [CHR 0x0B], [CHR 0x0C], [CHR 0x0D], [CHR 0x20], [CHR 0xC2, CHR 0x85],
      [CHR 0xC2, CHR 0xA0], [CHR 0xE1, CHR 0x9A, CHR 0x80]]
     @ map (\<lambda>i. [CHR 0xE2, CHR 0x80, char_of i]) ([0x80 ..< 0x8B] @ [0xA8, 0xA9, 0xAF::nat])
     @ [[CHR 0xE2, CHR 0x81, CHR 0x9F], [CHR 0xE3, CHR 0x80, CHR 0x80]]"

text \<open>Each round removes one character, so the length bounds the number of rounds.\<close>

primrec trim_left_n :: "nat \<Rightarrow> string list \<Rightarrow> string \<Rightarrow> string" where
  "trim_left_n 0 sps s = s"
| "trim_left_n (Suc n) sps s =
     (case find (\<lambda>sp. take (length sp) s = sp) sps of
        None \<Rightarrow> s | Some sp \<Rightarrow> trim_left_n n sps (drop (length sp) s))"

definition TrimSpace :: "string \<Rightarrow> string" where
  "TrimSpace s =
     (let l = trim_left_n (length s) unicode_spaces s
      in rev (trim_left_n (length l) (map rev unicode_spaces) (rev l)))"

section \<open>Split\<close>

fun Split :: "char \<Rightarrow> string \<Rightarrow> string list" where
  "Split sep [] = [[]]"
| "Split sep (c # s) =
     (if c = sep then [] # Split sep s
      else case Split sep s of [] \<Rightarrow> [[c]] | w # ws \<Rightarrow> (c # w) # ws)"

fun Join :: "char \<Rightarrow> string list \<Rightarrow> string" where
  "Join sep [] = []"
| "Join sep [w] = w"
| "Join sep (w # v # ws) = w @ sep # Join sep (v # ws)"

lemma Split_nonempty [simp]: "Split sep s \<noteq> []"
  by (induction s) (auto split: list.splits)

lemma Join_Split: "Join sep (Split sep s) = s"
proof (induction s)
  case (Cons c s)
  obtain w ws where w: "Split sep s = w # ws" by (cases "Split sep s") auto
  then show ?case using Cons by (cases ws) auto
qed simp

lemma Split_single: "sep \<notin> set w \<Longrightarrow> Split sep w = [w]"
  by (induction w) auto

lemma Split_append: "sep \<notin> set w \<Longrightarrow> Split sep (w @ sep # s) = w # Split sep s"
  by (induction w) auto

lemma Split_Join:
  assumes "ws \<noteq> []" "\<forall>w\<in>set ws. sep \<notin> set w"
  shows "Split sep (Join sep ws) = ws"
  using assms by (induction sep ws rule: Join.induct) (auto simp: Split_single Split_append)

lemma Split_no_sep: "w \<in> set (Split sep s) \<Longrightarrow> sep \<notin> set w"
  by (induction s arbitrary: w) (auto split: if_splits list.splits)

section \<open>Hexadecimal\<close>

definition hex_digit :: "nat \<Rightarrow> char" where
  "hex_digit n = (if n < 10 then char_of (48 + n) else char_of (87 + n))"

definition hex_value :: "char \<Rightarrow> nat option" where
  "hex_value c =
     (let n = of_char c in
      if 48 \<le> n \<and> n \<le> 57 then Some (n - 48)
      else if 97 \<le> n \<and> n \<le> 102 then Some (n - 87)
      else if 65 \<le> n \<and> n \<le> 70 then Some (n - 55)
      else None)"

primrec hex_EncodeToString :: "string \<Rightarrow> string" where
  "hex_EncodeToString [] = []"
| "hex_EncodeToString (c # s) =
     hex_digit (of_char c div 16) # hex_digit (of_char c mod 16) # hex_EncodeToString s"

fun hex_DecodeString :: "string \<Rightarrow> string outcome" where
  "hex_DecodeString [] = Ok []"
| "hex_DecodeString [c] = Err (FmtErr ''hex'')"
| "hex_DecodeString (c # d # s) =
     (case (hex_value c, hex_value d) of
        (Some x, Some y) \<Rightarrow> obind (hex_DecodeString s) (\<lambda>r. Ok (char_of (16 * x + y) # r))
      | _ \<Rightarrow> Err (FmtErr ''hex''))"

lemma hex_value_digit: "n < 16 \<Longrightarrow> hex_value (hex_digit n) = Some n"
  by (auto simp: hex_value_def hex_digit_def Let_def)

text \<open>Decoding the notation of a byte string gives it back.\<close>

lemma hex_roundtrip: "hex_DecodeString (hex_EncodeToString s) = Ok s"
proof (induction s)
  case (Cons c s)
  have "(of_char c :: nat) < 256" using of_char_of [of "of_char c :: nat"] by simp
  then have "(of_char c :: nat) div 16 < 16" by (intro less_mult_imp_div_less) simp
  then show ?case using Cons by (simp add: hex_value_digit)
qed simp

lemma hex_EncodeToString_inj: "hex_EncodeToString s = hex_EncodeToString t \<Longrightarrow> s = t"
  using hex_roundtrip by (metis outcome.inject(1))

lemma length_hex: "length (hex_EncodeToString s) = 2 * length s"
  by (induction s) simp_all

section \<open>Decimal notation\<close>

text \<open>The decimal digits of a nonnegative integer, as \<open>strconv.Itoa\<close> and \<open>%d\<close> write them.\<close>

function itoa :: "int \<Rightarrow> string" where
  "itoa n = (if n < 10 then [char_of (48 + n)] else itoa (n div 10) @ [char_of (48 + n mod 10)])"
  by auto
termination by (relation "measure nat") auto

declare itoa.simps [simp del]

primrec atoi_acc :: "string \<Rightarrow> int \<Rightarrow> int" where
  "atoi_acc [] a = a"
| "atoi_acc (c # s) a = atoi_acc s (10 * a + (of_char c - 48))"

lemma atoi_acc_append: "atoi_acc (s @ t) a = atoi_acc t (atoi_acc s a)"
  by (induction s arbitrary: a) simp_all

lemma atoi_itoa: "0 \<le> n \<Longrightarrow> atoi_acc (itoa n) 0 = n"
proof (induction n rule: itoa.induct)
  case (1 n)
  show ?case
  proof (cases "n < 10")
    case True
    then have "(48 + n) mod 256 = 48 + n" using 1(2) by simp
    with True show ?thesis by (simp add: itoa.simps)
  next
    case False
    have "(48 + n mod 10) mod 256 = 48 + n mod 10" by simp
    then show ?thesis using 1 False by (subst itoa.simps) (simp add: atoi_acc_append)
  qed
qed

lemma itoa_inj: "0 \<le> m \<Longrightarrow> 0 \<le> n \<Longrightarrow> itoa m = itoa n \<Longrightarrow> m = n"
  by (metis atoi_itoa)

end
