(* ===== verification/Go_Float.thy ===== *)
theory Go_Float
  imports Go_Strings
begin

text \<open>
  The path through \<open>float64\<close> that the oracle's standard deviation takes:
  \<open>strconv.ParseFloat\<close>, \<open>math.Sqrt\<close> and the verb \<open>%f\<close>.  A finite float is the pair of its mantissa and
  exponent; each operation is correctly rounded to 53 bits, ties to even.  The decimals that reach this
  path are below 2 to the 315 and multiples of 10 to the -18, so neither overflow nor a subnormal
  number occurs and both are left out.
\<close>

datatype f64 = F64 int int | NaN

text \<open>The nearest integer to \<open>a / b\<close>, ties to even.\<close>

definition round_div :: "int \<Rightarrow> int \<Rightarrow> int" where
  "round_div a b =
     (let q = a div b; r = a mod b in
      if 2 * r < b \<or> (2 * r = b \<and> even q) then q else q + 1)"

function bit_len :: "int \<Rightarrow> int" where
  "bit_len n = (if n \<le> 0 then 0 else 1 + bit_len (n div 2))"
  by auto
termination by (relation "measure nat") auto

declare bit_len.simps [simp del]

definition scale :: "int \<Rightarrow> int \<Rightarrow> int" where
  "scale n e = (if 0 \<le> e then n * 2 ^ nat e else n)"

text \<open>
  The float nearest to \<open>a / b\<close>: the exponent is chosen so that the quotient has 53 bits, or 54 when the
  estimate from the bit lengths is one too small, in which case the next exponent is taken.
\<close>

definition f64_of_ratio :: "int \<Rightarrow> int \<Rightarrow> f64" where
  "f64_of_ratio a b =
     (if a = 0 then F64 0 0
      else let e0 = bit_len a - bit_len b - 53;
               e = (if scale a (- e0) div scale b e0 < 2 ^ 53 then e0 else e0 + 1)
           in F64 (round_div (scale a (- e)) (scale b e)) e)"

text \<open>The digits of a decimal string, with its sign and the number of digits after the point.\<close>

fun parse_digits :: "string \<Rightarrow> int \<Rightarrow> nat \<Rightarrow> bool \<Rightarrow> (int \<times> nat) option" where
  "parse_digits [] a k pt = Some (a, k)"
| "parse_digits (c # s) a k pt =
     (let n = of_char c in
      if 48 \<le> n \<and> n \<le> 57 then parse_digits s (10 * a + (n - 48)) (if pt then Suc k else k) pt
      else if n = 46 \<and> \<not> pt then parse_digits s a k True
      else None)"

text \<open>A negative number is kept as \<open>NaN\<close>, which is what the square root makes of it.\<close>

definition ParseFloat_Sqrt_arg :: "string \<Rightarrow> f64" where
  "ParseFloat_Sqrt_arg s =
     (case s of
        [] \<Rightarrow> F64 0 0
      | c # t \<Rightarrow>
          (if c = CHR ''-'' then
             (case parse_digits t 0 0 False of Some (a, k) \<Rightarrow> if a = 0 then F64 0 0 else NaN | None \<Rightarrow> F64 0 0)
           else
             (case parse_digits s 0 0 False of Some (a, k) \<Rightarrow> f64_of_ratio a (10 ^ k) | None \<Rightarrow> F64 0 0)))"

text \<open>The integer square root, two binary digits of the radicand at a time.\<close>

function isqrt :: "int \<Rightarrow> int" where
  "isqrt n = (if n \<le> 0 then 0 else let r = 2 * isqrt (n div 4) in if (r + 1) * (r + 1) \<le> n then r + 1 else r)"
  by auto
termination by (relation "measure nat") auto

declare isqrt.simps [simp del]

text \<open>
  The radicand is scaled by an even power of two to at least 105 bits, so that its integer square root
  has 53 bits or more; a root is never halfway between two integers.
\<close>

definition f64_Sqrt :: "f64 \<Rightarrow> f64" where
  "f64_Sqrt x =
     (case x of
        NaN \<Rightarrow> NaN
      | F64 m e \<Rightarrow>
          if m = 0 then F64 0 0
          else let j0 = 106 - bit_len m;
                   j = (if even (e - j0) then j0 else j0 - 1);
                   n = scale m j;
                   r = isqrt n
               in F64 (if n > r * r + r then r + 1 else r) ((e - j) div 2))"

text \<open>The verb \<open>%f\<close> writes six digits after the point.\<close>

definition f64_micro :: "int \<Rightarrow> int \<Rightarrow> int" where
  "f64_micro m e = (if 0 \<le> e then m * 2 ^ nat e * 1000000 else round_div (m * 1000000) (2 ^ nat (- e)))"

definition pad6 :: "int \<Rightarrow> string" where
  "pad6 n = (let s = itoa n in replicate (6 - length s) CHR ''0'' @ s)"

definition Sprintf_f :: "f64 \<Rightarrow> string" where
  "Sprintf_f x =
     (case x of
        NaN \<Rightarrow> ''NaN''
      | F64 m e \<Rightarrow> let u = f64_micro m e in itoa (u div 1000000) @ ''.'' @ pad6 (u mod 1000000))"

section \<open>Correctness of the rounding steps\<close>

lemma round_div_near:
  assumes "0 < b"
  shows "2 * (round_div a b * b) \<le> 2 * a + b" "2 * a \<le> 2 * (round_div a b * b) + b"
proof -
  define q r where "q = a div b" and "r = a mod b"
  have a: "a = q * b + r" "0 \<le> r" "r < b" using assms by (simp_all add: q_def r_def)
  show "2 * (round_div a b * b) \<le> 2 * a + b" "2 * a \<le> 2 * (round_div a b * b) + b"
    unfolding round_div_def Let_def q_def [symmetric] r_def [symmetric]
    using a by (auto simp: distrib_right)
qed

lemma round_div_exact: "0 < b \<Longrightarrow> round_div (k * b) b = k"
  by (simp add: round_div_def Let_def)

lemma isqrt_bounds: "0 \<le> n \<Longrightarrow> 0 \<le> isqrt n \<and> isqrt n * isqrt n \<le> n \<and> n < (isqrt n + 1) * (isqrt n + 1)"
proof (induction n rule: isqrt.induct)
  case (1 n)
  show ?case
  proof (cases "n = 0")
    case False
    define q where "q = isqrt (n div 4)"
    have q: "0 \<le> q" "q * q \<le> n div 4" "n div 4 < (q + 1) * (q + 1)" using 1 False q_def by auto
    have lo: "4 * (q * q) \<le> n" using q(2) div_floor_bounds [of 4 n] by linarith
    have "n div 4 + 1 \<le> (q + 1) * (q + 1)" using q(3) by simp
    then have hi: "n < 4 * ((q + 1) * (q + 1))" using div_floor_bounds [of 4 n] by linarith
    have "isqrt n = (let r = 2 * q in if (r + 1) * (r + 1) \<le> n then r + 1 else r)"
      using False 1(2) by (subst isqrt.simps) (simp add: q_def)
    then show ?thesis using lo hi q(1) by (auto simp: Let_def algebra_simps split: if_splits)
  qed (simp add: isqrt.simps)
qed

lemma isqrt_square:
  assumes "0 \<le> k"
  shows "isqrt (k * k) = k"
proof -
  have b: "0 \<le> isqrt (k * k)" "isqrt (k * k) * isqrt (k * k) \<le> k * k"
    "k * k < (isqrt (k * k) + 1) * (isqrt (k * k) + 1)"
    using isqrt_bounds [of "k * k"] by auto
  have "isqrt (k * k) \<le> k" using b(2) assms by (metis abs_le_square_iff abs_of_nonneg b(1) power2_eq_square)
  moreover have "k < isqrt (k * k) + 1"
    using b(1,3) assms by (metis abs_le_square_iff abs_of_nonneg add_increasing linorder_not_le power2_eq_square zero_le_one)
  ultimately show ?thesis by linarith
qed

end
