(* ===== verification/Oracle_Types.thy ===== *)
theory Oracle_Types
  imports Core_Types Kv_Store Go_Strings Go_Float
begin

text \<open>
  \<open>x/oracle/types\<close>: errors, store keys, parameters, votes and prevotes, the ballot arithmetic
  (\<open>ballot.go\<close>), the commitment hash, the parser of exchange rate tuples and the stateless
  validation of the messages.  A Go map is a \<open>kv\<close>, its entries sorted by key; the order in which a
  \<open>range\<close> statement visits it is a permutation given from outside.
\<close>

section \<open>Errors\<close>

definition oracle_ModuleName :: string where "oracle_ModuleName = ''oracle''"

definition ErrInvalidExchangeRate :: error where "ErrInvalidExchangeRate = RegErr oracle_ModuleName 2"
definition ErrNoVotingPermission :: error where "ErrNoVotingPermission = RegErr oracle_ModuleName 5"
definition ErrInvalidHash :: error where "ErrInvalidHash = RegErr oracle_ModuleName 6"
definition ErrInvalidHashLength :: error where "ErrInvalidHashLength = RegErr oracle_ModuleName 7"
definition ErrVerificationFailed :: error where "ErrVerificationFailed = RegErr oracle_ModuleName 8"
definition ErrRevealPeriodMissMatch :: error where "ErrRevealPeriodMissMatch = RegErr oracle_ModuleName 9"
definition ErrInvalidSaltLength :: error where "ErrInvalidSaltLength = RegErr oracle_ModuleName 10"
definition ErrNoAggregatePrevote :: error where "ErrNoAggregatePrevote = RegErr oracle_ModuleName 11"
definition ErrNoAggregateVote :: error where "ErrNoAggregateVote = RegErr oracle_ModuleName 12"
definition ErrNoTobinTax :: error where "ErrNoTobinTax = RegErr oracle_ModuleName 13"
definition ErrUnknownDenom :: error where "ErrUnknownDenom = RegErr oracle_ModuleName 14"

section \<open>Store keys\<close>

definition ExchangeRateKey :: string where "ExchangeRateKey = [CHR 0x01]"
definition FeederDelegationKey :: string where "FeederDelegationKey = [CHR 0x02]"
definition MissCounterKey :: string where "MissCounterKey = [CHR 0x03]"
definition AggregateExchangeRatePrevoteKey :: string where "AggregateExchangeRatePrevoteKey = [CHR 0x04]"
definition AggregateExchangeRateVoteKey :: string where "AggregateExchangeRateVoteKey = [CHR 0x05]"
definition TobinTaxKey :: string where "TobinTaxKey = [CHR 0x06]"

definition GetExchangeRateKey :: "string \<Rightarrow> string" where
  "GetExchangeRateKey denom = ExchangeRateKey @ denom"

definition GetFeederDelegationKey :: "('b, 'z) addr_ops_scheme \<Rightarrow> string \<Rightarrow> string" where
  "GetFeederDelegationKey K v = FeederDelegationKey @ MustLengthPrefix K v"

definition GetMissCounterKey :: "('b, 'z) addr_ops_scheme \<Rightarrow> string \<Rightarrow> string" where
  "GetMissCounterKey K v = MissCounterKey @ MustLengthPrefix K v"

definition GetAggregateExchangeRatePrevoteKey :: "('b, 'z) addr_ops_scheme \<Rightarrow> string \<Rightarrow> string" where
  "GetAggregateExchangeRatePrevoteKey K v = AggregateExchangeRatePrevoteKey @ MustLengthPrefix K v"

definition GetAggregateExchangeRateVoteKey :: "('b, 'z) addr_ops_scheme \<Rightarrow> string \<Rightarrow> string" where
  "GetAggregateExchangeRateVoteKey K v = AggregateExchangeRateVoteKey @ MustLengthPrefix K v"

definition GetTobinTaxKey :: "string \<Rightarrow> string" where
  "GetTobinTaxKey d = TobinTaxKey @ d"

definition ExtractDenomFromTobinTaxKey :: "string \<Rightarrow> string" where
  "ExtractDenomFromTobinTaxKey key = drop 1 key"

lemmas oracle_key_defs = ExchangeRateKey_def FeederDelegationKey_def MissCounterKey_def
  AggregateExchangeRatePrevoteKey_def AggregateExchangeRateVoteKey_def TobinTaxKey_def
  GetExchangeRateKey_def GetFeederDelegationKey_def GetMissCounterKey_def
  GetAggregateExchangeRatePrevoteKey_def GetAggregateExchangeRateVoteKey_def GetTobinTaxKey_def
  ExtractDenomFromTobinTaxKey_def

lemma GetExchangeRateKey_inj [simp]: "GetExchangeRateKey d = GetExchangeRateKey e \<longleftrightarrow> d = e"
  by (simp add: oracle_key_defs)

lemma GetTobinTaxKey_inj [simp]: "GetTobinTaxKey d = GetTobinTaxKey e \<longleftrightarrow> d = e"
  by (simp add: oracle_key_defs)

lemma drop_GetExchangeRateKey [simp]: "drop (length ExchangeRateKey) (GetExchangeRateKey d) = d"
  by (simp add: oracle_key_defs)

lemma ExtractDenom_GetTobinTaxKey [simp]: "ExtractDenomFromTobinTaxKey (GetTobinTaxKey d) = d"
  by (simp add: oracle_key_defs)

section \<open>Parameters\<close>

record denom_tax =
  dt_Name :: string
  dt_TobinTax :: dec

record oracle_params =
  op_VotePeriod :: int
  op_VoteThreshold :: dec
  op_RewardBand :: dec
  op_RewardDistributionWindow :: int
  op_Whitelist :: "denom_tax list"
  op_SlashFraction :: dec
  op_SlashWindow :: int
  op_MinValidPerWindow :: dec

definition DefaultTobinTax :: dec where "DefaultTobinTax = NewDecWithPrec 25 4"

definition oracle_DefaultWhitelist :: "denom_tax list" where
  "oracle_DefaultWhitelist =
     [\<lparr>dt_Name = MicroKRWDenom, dt_TobinTax = DefaultTobinTax\<rparr>,
      \<lparr>dt_Name = MicroSDRDenom, dt_TobinTax = DefaultTobinTax\<rparr>,
      \<lparr>dt_Name = MicroUSDDenom, dt_TobinTax = DefaultTobinTax\<rparr>,
      \<lparr>dt_Name = MicroMNTDenom, dt_TobinTax = DefaultTobinTax * 8\<rparr>]"

definition oracle_DefaultParams :: oracle_params where
  "oracle_DefaultParams = \<lparr>
     op_VotePeriod = BlocksPerMinute div 2,
     op_VoteThreshold = NewDecWithPrec 50 2,
     op_RewardBand = NewDecWithPrec 2 2,
     op_RewardDistributionWindow = BlocksPerYear,
     op_Whitelist = oracle_DefaultWhitelist,
     op_SlashFraction = NewDecWithPrec 1 4,
     op_SlashWindow = BlocksPerWeek,
     op_MinValidPerWindow = NewDecWithPrec 5 2\<rparr>"

definition oracle_Params_Validate :: "oracle_params \<Rightarrow> unit outcome" where
  "oracle_Params_Validate p =
     (if op_VotePeriod p = 0 then Err (FmtErr ''VotePeriod'')
      else if op_VoteThreshold p \<le> NewDecWithPrec 33 2 then Err (FmtErr ''VoteThreshold'')
      else if op_RewardBand p > OneDec \<or> op_RewardBand p < 0 then Err (FmtErr ''RewardBand'')
      else if op_RewardDistributionWindow p < op_VotePeriod p then Err (FmtErr ''RewardDistributionWindow'')
      else if op_SlashFraction p > OneDec \<or> op_SlashFraction p < 0 then Err (FmtErr ''SlashFraction'')
      else if op_SlashWindow p < op_VotePeriod p then Err (FmtErr ''SlashWindow'')
      else if op_MinValidPerWindow p > OneDec \<or> op_MinValidPerWindow p < 0
        then Err (FmtErr ''MinValidPerWindow'')
      else ofold (\<lambda>d _.
        if dt_TobinTax d > OneDec \<or> dt_TobinTax d < 0 then Err (FmtErr ''Whitelist TobinTax'')
        else if dt_Name d = [] then Err (FmtErr ''Whitelist name'')
        else Ok ()) (op_Whitelist p) ())"

text \<open>The validators of the parameter store, which \<open>SetParamSet\<close> runs on every value.\<close>

definition validateVotePeriod :: "int \<Rightarrow> unit outcome" where
  "validateVotePeriod v = (if v = 0 then Err (FmtErr ''vote period'') else Ok ())"

definition validateVoteThreshold :: "dec \<Rightarrow> unit outcome" where
  "validateVoteThreshold v =
     (if v < NewDecWithPrec 33 2 then Err (FmtErr ''vote threshold must be bigger than 33%'')
      else if v > OneDec then Err (FmtErr ''vote threshold too large'')
      else Ok ())"

definition validateRewardBand :: "dec \<Rightarrow> unit outcome" where
  "validateRewardBand v =
     (if v < 0 then Err (FmtErr ''reward band must be positive'')
      else if v > OneDec then Err (FmtErr ''reward band is too large'')
      else Ok ())"

definition validateRewardDistributionWindow :: "int \<Rightarrow> unit outcome" where
  "validateRewardDistributionWindow v = (if v = 0 then Err (FmtErr ''reward distribution window'') else Ok ())"

definition validateWhitelist :: "denom_tax list \<Rightarrow> unit outcome" where
  "validateWhitelist v =
     ofold (\<lambda>d _.
       if dt_TobinTax d > OneDec \<or> dt_TobinTax d < 0 then Err (FmtErr ''Whitelist TobinTax'')
       else if dt_Name d = [] then Err (FmtErr ''Whitelist name'')
       else Ok ()) v ()"

definition validateSlashFraction :: "dec \<Rightarrow> unit outcome" where
  "validateSlashFraction v =
     (if v < 0 then Err (FmtErr ''slash fraction must be positive'')
      else if v > OneDec then Err (FmtErr ''slash fraction is too large'')
      else Ok ())"

definition validateSlashWindow :: "int \<Rightarrow> unit outcome" where
  "validateSlashWindow v = (if v = 0 then Err (FmtErr ''slash window'') else Ok ())"

definition validateMinValidPerWindow :: "dec \<Rightarrow> unit outcome" where
  "validateMinValidPerWindow v =
     (if v < 0 then Err (FmtErr ''min valid per window must be positive'')
      else if v > OneDec then Err (FmtErr ''min valid per window is too large'')
      else Ok ())"

text \<open>The pairs of \<open>ParamSetPairs\<close>: the outcome of the validator on the value, and the write of the value.\<close>

definition oracle_ParamSetPairs :: "oracle_params \<Rightarrow> (unit outcome \<times> (oracle_params \<Rightarrow> oracle_params)) list" where
  "oracle_ParamSetPairs p =
     [(validateVotePeriod (op_VotePeriod p), op_VotePeriod_update (\<lambda>_. op_VotePeriod p)),
      (validateVoteThreshold (op_VoteThreshold p), op_VoteThreshold_update (\<lambda>_. op_VoteThreshold p)),
      (validateRewardBand (op_RewardBand p), op_RewardBand_update (\<lambda>_. op_RewardBand p)),
      (validateRewardDistributionWindow (op_RewardDistributionWindow p), op_RewardDistributionWindow_update (\<lambda>_. op_RewardDistributionWindow p)),
      (validateWhitelist (op_Whitelist p), op_Whitelist_update (\<lambda>_. op_Whitelist p)),
      (validateSlashFraction (op_SlashFraction p), op_SlashFraction_update (\<lambda>_. op_SlashFraction p)),
      (validateSlashWindow (op_SlashWindow p), op_SlashWindow_update (\<lambda>_. op_SlashWindow p)),
      (validateMinValidPerWindow (op_MinValidPerWindow p), op_MinValidPerWindow_update (\<lambda>_. op_MinValidPerWindow p))]"

section \<open>Votes\<close>

record rate_tuple =
  rt_Denom :: string
  rt_ExchangeRate :: dec

record agg_prevote =
  pv_Hash :: string
  pv_Voter :: string
  pv_SubmitBlock :: int

record agg_vote =
  av_ExchangeRateTuples :: "rate_tuple list"
  av_Voter :: string

text \<open>Only the commitment is kept of the hash; \<open>GetAggregateVoteHash\<close> hashes \<open>salt:rates:voter\<close>.\<close>

definition GetAggregateVoteHash :: "('b, 'z) addr_ops_scheme \<Rightarrow> string \<Rightarrow> string \<Rightarrow> string \<Rightarrow> string" where
  "GetAggregateVoteHash K salt exchangeRatesStr voter =
     tmhash_Truncated K (salt @ '':'' @ exchangeRatesStr @ '':'' @ ValAddress_String K voter)"

definition AggregateVoteHashFromHexString :: "string \<Rightarrow> string outcome" where
  "AggregateVoteHashFromHexString s = hex_DecodeString s"

definition AggregateVoteHash_String :: "string \<Rightarrow> string" where
  "AggregateVoteHash_String h = hex_EncodeToString h"

definition NewAggregateExchangeRatePrevote ::
  "('b, 'z) addr_ops_scheme \<Rightarrow> string \<Rightarrow> string \<Rightarrow> int \<Rightarrow> agg_prevote" where
  "NewAggregateExchangeRatePrevote K hash voter submitBlock =
     \<lparr>pv_Hash = AggregateVoteHash_String hash, pv_Voter = ValAddress_String K voter,
      pv_SubmitBlock = submitBlock\<rparr>"

definition NewAggregateExchangeRateVote ::
  "('b, 'z) addr_ops_scheme \<Rightarrow> rate_tuple list \<Rightarrow> string \<Rightarrow> agg_vote" where
  "NewAggregateExchangeRateVote K tuples voter =
     \<lparr>av_ExchangeRateTuples = tuples, av_Voter = ValAddress_String K voter\<rparr>"

text \<open>
  The loop carries the tuples read so far and the denominations seen; the duplicate check comes after
  the tuple has been parsed.
\<close>

definition parse_tuple ::
  "('b, 'z) addr_ops_scheme \<Rightarrow> string \<Rightarrow> rate_tuple list \<times> string list \<Rightarrow> (rate_tuple list \<times> string list) outcome" where
  "parse_tuple K tupleStr acc =
     obind (ParseDecCoin K tupleStr) (\<lambda>decCoin.
       if Denom decCoin \<in> set (snd acc) then Err (FmtErr ''duplicated denom'')
       else Ok (fst acc @ [\<lparr>rt_Denom = Denom decCoin, rt_ExchangeRate = Amount decCoin\<rparr>],
                Denom decCoin # snd acc))"

definition ParseExchangeRateTuples :: "('b, 'z) addr_ops_scheme \<Rightarrow> string \<Rightarrow> rate_tuple list outcome" where
  "ParseExchangeRateTuples K s =
     (let tuplesStr = TrimSpace s in
      if tuplesStr = [] then Ok []
      else obind (ofold (parse_tuple K) (Split CHR '','' tuplesStr) ([], [])) (\<lambda>acc. Ok (fst acc)))"

lemma parse_tuples_distinct:
  assumes "ofold (parse_tuple K) ss acc = Ok (ts, seen)"
    and "distinct (map rt_Denom (fst acc))" "set (snd acc) = rt_Denom ` set (fst acc)"
  shows "distinct (map rt_Denom ts) \<and> set seen = rt_Denom ` set ts"
proof -
  let ?I = "\<lambda>(ts, seen). distinct (map rt_Denom ts) \<and> set seen = rt_Denom ` set ts"
  have "?I (ts, seen)"
    by (rule ofold_invariant [OF assms(1), of ?I])
      (use assms(2,3) in \<open>auto simp: parse_tuple_def split: prod.splits if_splits\<close>)
  then show ?thesis by simp
qed

text \<open>A parsed list names each denomination once.\<close>

lemma ParseExchangeRateTuples_distinct:
  "ParseExchangeRateTuples K s = Ok ts \<Longrightarrow> distinct (map rt_Denom ts)"
  using parse_tuples_distinct [of K _ "([], [])"]
  by (fastforce simp: ParseExchangeRateTuples_def Let_def split: if_splits)

section \<open>Ballots\<close>

record vote_for_tally =
  vft_Denom :: string
  vft_ExchangeRate :: dec
  vft_Voter :: string
  vft_Power :: int

type_synonym ballot = "vote_for_tally list"

record claim =
  cl_Power :: int
  cl_Weight :: int
  cl_WinCount :: int
  cl_Recipient :: string

definition NewVoteForTally :: "dec \<Rightarrow> string \<Rightarrow> string \<Rightarrow> int \<Rightarrow> vote_for_tally" where
  "NewVoteForTally rate denom voter votePower =
     \<lparr>vft_Denom = denom, vft_ExchangeRate = rate, vft_Voter = voter, vft_Power = votePower\<rparr>"

definition NewClaim :: "int \<Rightarrow> int \<Rightarrow> int \<Rightarrow> string \<Rightarrow> claim" where
  "NewClaim claimPower weight winCount recipient =
     \<lparr>cl_Power = claimPower, cl_Weight = weight, cl_WinCount = winCount, cl_Recipient = recipient\<rparr>"

text \<open>The claim a lookup of an absent key gives.\<close>

definition zero_claim :: claim where
  "zero_claim = \<lparr>cl_Power = 0, cl_Weight = 0, cl_WinCount = 0, cl_Recipient = []\<rparr>"

definition ToMap :: "ballot \<Rightarrow> dec kv" where
  "ToMap pb = fold (\<lambda>vote m.
     if vft_ExchangeRate vote > 0 then kv_set (vft_Voter vote) (vft_ExchangeRate vote) m else m) pb []"

definition cross_vote :: "'z dec_ops_scheme \<Rightarrow> dec kv \<Rightarrow> vote_for_tally \<Rightarrow> vote_for_tally outcome" where
  "cross_vote K bases vote =
     (case kv_get (vft_Voter vote) bases of
        Some exchangeRateRT \<Rightarrow>
          if vft_ExchangeRate vote > 0
          then obind (dec_Quo K exchangeRateRT (vft_ExchangeRate vote)) (\<lambda>r. Ok (vote\<lparr>vft_ExchangeRate := r\<rparr>))
          else Ok (vote\<lparr>vft_ExchangeRate := 0, vft_Power := 0\<rparr>)
      | None \<Rightarrow> Ok (vote\<lparr>vft_ExchangeRate := 0, vft_Power := 0\<rparr>))"

definition ToCrossRate :: "'z dec_ops_scheme \<Rightarrow> dec kv \<Rightarrow> ballot \<Rightarrow> ballot outcome" where
  "ToCrossRate K bases pb =
     ofold (\<lambda>vote cb. obind (cross_vote K bases vote) (\<lambda>v. Ok (cb @ [v]))) pb []"

text \<open>
  \<open>sort.Sort\<close> orders by \<open>Less\<close> only, and is not stable.  The stable sort below is one of the results
  it may give; the results of the tally do not depend on which one it is, see
  \<open>WeightedMedian_perm\<close>.
\<close>

definition ballot_sort :: "ballot \<Rightarrow> ballot" where
  "ballot_sort pb = sort_key vft_ExchangeRate pb"

definition ToCrossRateWithSort :: "'z dec_ops_scheme \<Rightarrow> dec kv \<Rightarrow> ballot \<Rightarrow> ballot outcome" where
  "ToCrossRateWithSort K bases pb = obind (ToCrossRate K bases pb) (\<lambda>cb. Ok (ballot_sort cb))"

definition ballot_Power :: "ballot \<Rightarrow> int" where
  "ballot_Power pb = fold (\<lambda>vote totalPower. i64 (totalPower + vft_Power vote)) pb 0"

primrec median_loop :: "int \<Rightarrow> int \<Rightarrow> ballot \<Rightarrow> dec" where
  "median_loop half pivot [] = 0"
| "median_loop half pivot (v # vs) =
     (let pivot' = i64 (pivot + vft_Power v) in
      if pivot' \<ge> half then vft_ExchangeRate v else median_loop half pivot' vs)"

definition WeightedMedian :: "ballot \<Rightarrow> dec" where
  "WeightedMedian pb =
     (let totalPower = ballot_Power pb in
      if length pb > 0 then median_loop (go_quot totalPower 2) 0 pb else 0)"

text \<open>
  The deviation goes through \<open>float64\<close>; a panic of the decimal arithmetic is recovered to zero, and a
  failure of the final parse leaves the nil decimal, here \<open>None\<close>.
\<close>

definition deviation_sum :: "'z dec_ops_scheme \<Rightarrow> dec \<Rightarrow> ballot \<Rightarrow> dec outcome" where
  "deviation_sum K median pb =
     ofold (\<lambda>v sum. let deviation = vft_ExchangeRate v - median
       in obind (dec_Mul K deviation deviation) (\<lambda>sq. Ok (sum + sq))) pb 0"

definition StandardDeviation :: "'z dec_ops_scheme \<Rightarrow> ballot \<Rightarrow> dec \<Rightarrow> dec option" where
  "StandardDeviation K pb median =
     (if pb = [] then Some 0
      else case obind (deviation_sum K median pb) (\<lambda>sum. dec_QuoInt K sum (int (length pb))) of
        Ok variance \<Rightarrow>
          (case dec_FromStr K (Sprintf_f (f64_Sqrt (ParseFloat_Sqrt_arg (dec_String K variance)))) of
             Ok d \<Rightarrow> Some d | Err _ \<Rightarrow> None | Panic \<Rightarrow> Some 0)
      | _ \<Rightarrow> Some 0)"

section \<open>Messages\<close>

record msg_prevote =
  mp_Hash :: string
  mp_Feeder :: string
  mp_Validator :: string

record msg_vote =
  mv_Salt :: string
  mv_ExchangeRates :: string
  mv_Feeder :: string
  mv_Validator :: string

record msg_delegate =
  md_Operator :: string
  md_Delegate :: string

definition ErrInvalidAddress :: error where "ErrInvalidAddress = SdkErr ''ErrInvalidAddress''"
definition ErrInvalidCoins :: error where "ErrInvalidCoins = SdkErr ''ErrInvalidCoins''"
definition ErrUnknownRequest :: error where "ErrUnknownRequest = SdkErr ''ErrUnknownRequest''"
definition ErrInvalidRequest :: error where "ErrInvalidRequest = SdkErr ''ErrInvalidRequest''"

text \<open>\<open>errorsmod.Wrap\<close>: an error is replaced by the given one; a panic unwinds.\<close>

definition wrap_err :: "error \<Rightarrow> 'a outcome \<Rightarrow> 'a outcome" where
  "wrap_err e r = (case r of Ok x \<Rightarrow> Ok x | Err _ \<Rightarrow> Err e | Panic \<Rightarrow> Panic)"

definition MsgPrevote_ValidateBasic :: "('b, 'z) addr_ops_scheme \<Rightarrow> msg_prevote \<Rightarrow> unit outcome" where
  "MsgPrevote_ValidateBasic K msg =
     obind (wrap_err ErrInvalidHash (AggregateVoteHashFromHexString (mp_Hash msg))) (\<lambda>_.
     obind (ocheck (length (mp_Hash msg) = 20 * 2) ErrInvalidHashLength) (\<lambda>_.
     obind (wrap_err ErrInvalidAddress (AccAddressFromBech32 K (mp_Feeder msg))) (\<lambda>_.
     obind (wrap_err ErrInvalidAddress (ValAddressFromBech32 K (mp_Validator msg))) (\<lambda>_.
     Ok ()))))"

definition MsgVote_ValidateBasic :: "('b, 'z) addr_ops_scheme \<Rightarrow> msg_vote \<Rightarrow> unit outcome" where
  "MsgVote_ValidateBasic K msg =
     obind (wrap_err ErrInvalidAddress (AccAddressFromBech32 K (mv_Feeder msg))) (\<lambda>_.
     obind (wrap_err ErrInvalidAddress (ValAddressFromBech32 K (mv_Validator msg))) (\<lambda>_.
     if length (mv_ExchangeRates msg) = 0 then Err ErrUnknownRequest
     else if length (mv_ExchangeRates msg) > 4096 then Err ErrInvalidRequest
     else
     obind (wrap_err ErrInvalidCoins (ParseExchangeRateTuples K (mv_ExchangeRates msg))) (\<lambda>exchangeRates.
     obind (ofold (\<lambda>t _. ocheck (\<bar>rt_ExchangeRate t\<bar> < 2 ^ (255 + 60)) ErrInvalidExchangeRate) exchangeRates ()) (\<lambda>_.
     if length (mv_Salt msg) > 4 \<or> length (mv_Salt msg) < 1 then Err ErrInvalidSaltLength
     else Ok ()))))"

definition MsgDelegate_ValidateBasic :: "('b, 'z) addr_ops_scheme \<Rightarrow> msg_delegate \<Rightarrow> unit outcome" where
  "MsgDelegate_ValidateBasic K msg =
     obind (wrap_err ErrInvalidAddress (ValAddressFromBech32 K (md_Operator msg))) (\<lambda>_.
     obind (wrap_err ErrInvalidAddress (AccAddressFromBech32 K (md_Delegate msg))) (\<lambda>_.
     Ok ()))"

text \<open>The signer of a vote and of a prevote is its feeder, that of a delegation the operator.\<close>

definition must_signer :: "string outcome \<Rightarrow> string list outcome" where
  "must_signer r = (case r of Ok a \<Rightarrow> Ok [a] | _ \<Rightarrow> Panic)"

definition MsgPrevote_GetSigners :: "('b, 'z) addr_ops_scheme \<Rightarrow> msg_prevote \<Rightarrow> string list outcome" where
  "MsgPrevote_GetSigners K msg = must_signer (AccAddressFromBech32 K (mp_Feeder msg))"

definition MsgVote_GetSigners :: "('b, 'z) addr_ops_scheme \<Rightarrow> msg_vote \<Rightarrow> string list outcome" where
  "MsgVote_GetSigners K msg = must_signer (AccAddressFromBech32 K (mv_Feeder msg))"

definition MsgDelegate_GetSigners :: "('b, 'z) addr_ops_scheme \<Rightarrow> msg_delegate \<Rightarrow> string list outcome" where
  "MsgDelegate_GetSigners K msg = must_signer (ValAddressFromBech32 K (md_Operator msg))"

end
