(* ===== verification/Oracle_Median.thy ===== *)
theory Oracle_Median
  imports Oracle_Types
begin

text \<open>
  The weighted median of a ballot.  The loop of \<open>WeightedMedian\<close> is shown equal to a closed form over
  the multiset of the votes (\<open>median_spec\<close>), from which the median property and the independence
  of the order of equal rates follow.
\<close>

text \<open>The power of the votes whose rate satisfies \<open>P\<close>.\<close>

definition power_where :: "(dec \<Rightarrow> bool) \<Rightarrow> ballot \<Rightarrow> int" where
  "power_where P pb = sum_list (map vft_Power (filter (\<lambda>v. P (vft_ExchangeRate v)) pb))"

definition total_power :: "ballot \<Rightarrow> int" where
  "total_power pb = sum_list (map vft_Power pb)"

text \<open>The ballots of the chain: no negative power, and a total that fits an \<open>int64\<close>.\<close>

definition powers_ok :: "ballot \<Rightarrow> bool" where
  "powers_ok pb \<longleftrightarrow> (\<forall>v\<in>set pb. 0 \<le> vft_Power v) \<and> total_power pb < 2 ^ 63"

definition median_spec :: "ballot \<Rightarrow> dec" where
  "median_spec pb =
     Min {r \<in> vft_ExchangeRate ` set pb. total_power pb div 2 \<le> power_where (\<lambda>x. x \<le> r) pb}"

lemma power_where_Cons [simp]:
  "power_where P (v # pb) = (if P (vft_ExchangeRate v) then vft_Power v else 0) + power_where P pb"
  by (simp add: power_where_def)

lemma power_where_Nil [simp]: "power_where P [] = 0"
  by (simp add: power_where_def)

lemma total_power_Cons [simp]: "total_power (v # pb) = vft_Power v + total_power pb"
  by (simp add: total_power_def)

lemma total_power_Nil [simp]: "total_power [] = 0"
  by (simp add: total_power_def)

lemma powers_ok_Cons: "powers_ok (v # pb) \<Longrightarrow> 0 \<le> vft_Power v \<and> powers_ok pb"
  by (auto simp: powers_ok_def)

lemma power_where_nonneg: "\<forall>v\<in>set pb. 0 \<le> vft_Power v \<Longrightarrow> 0 \<le> power_where P pb"
  by (induction pb) auto

lemma total_power_nonneg: "\<forall>v\<in>set pb. 0 \<le> vft_Power v \<Longrightarrow> 0 \<le> total_power pb"
  by (induction pb) auto

lemma power_where_le_total: "\<forall>v\<in>set pb. 0 \<le> vft_Power v \<Longrightarrow> power_where P pb \<le> total_power pb"
  by (induction pb) auto

lemma power_where_all: "(\<And>v. v \<in> set pb \<Longrightarrow> P (vft_ExchangeRate v)) \<Longrightarrow> power_where P pb = total_power pb"
  by (induction pb) auto

lemma power_where_none: "(\<And>v. v \<in> set pb \<Longrightarrow> \<not> P (vft_ExchangeRate v)) \<Longrightarrow> power_where P pb = 0"
  by (induction pb) auto

lemma power_where_compl: "power_where P pb + power_where (\<lambda>r. \<not> P r) pb = total_power pb"
  by (induction pb) auto

lemma power_where_mset: "mset xs = mset ys \<Longrightarrow> power_where P xs = power_where P ys"
  by (simp add: power_where_def flip: sum_mset_sum_list)

lemma total_power_mset: "mset xs = mset ys \<Longrightarrow> total_power xs = total_power ys"
  by (simp add: total_power_def flip: sum_mset_sum_list)

lemma powers_ok_mset: "mset xs = mset ys \<Longrightarrow> powers_ok xs \<longleftrightarrow> powers_ok ys"
  by (simp add: powers_ok_def total_power_mset [of xs ys] mset_eq_setD [of xs ys])

lemma median_spec_mset: "mset xs = mset ys \<Longrightarrow> median_spec xs = median_spec ys"
  by (simp add: median_spec_def total_power_mset [of xs ys] mset_eq_setD [of xs ys] power_where_mset [of xs ys])

text \<open>Within the range of \<open>int64\<close> the running sums do not wrap.\<close>

lemma power_fold:
  assumes "\<forall>v\<in>set pb. 0 \<le> vft_Power v" "0 \<le> t" "t + total_power pb < 2 ^ 63"
  shows "fold (\<lambda>vote t. i64 (t + vft_Power vote)) pb t = t + total_power pb"
  using assms
proof (induction pb arbitrary: t)
  case (Cons v pb)
  have "in_i64 (t + vft_Power v)"
    using Cons.prems total_power_nonneg [of pb] by (auto simp: in_i64_def)
  then show ?case using Cons by simp
qed simp

lemma ballot_Power_eq: "powers_ok pb \<Longrightarrow> ballot_Power pb = total_power pb"
  unfolding ballot_Power_def using power_fold [of pb 0] by (simp add: powers_ok_def)

lemma ballot_Power_nonneg: "powers_ok pb \<Longrightarrow> 0 \<le> ballot_Power pb"
  by (simp add: ballot_Power_eq total_power_nonneg powers_ok_def)

lemma median_loop_eq:
  assumes "sorted (map vft_ExchangeRate pb)" "\<forall>v\<in>set pb. 0 \<le> vft_Power v" "pb \<noteq> []"
    and "0 \<le> t" "t + total_power pb < 2 ^ 63" "half \<le> t + total_power pb"
  shows "median_loop half t pb =
    Min {r \<in> vft_ExchangeRate ` set pb. half \<le> t + power_where (\<lambda>x. x \<le> r) pb}"
  using assms
proof (induction pb arbitrary: t)
  case (Cons v pb)
  let ?r = "vft_ExchangeRate v"
  let ?S = "{r \<in> vft_ExchangeRate ` set (v # pb). half \<le> t + power_where (\<lambda>x. x \<le> r) (v # pb)}"
  have nn: "\<forall>w\<in>set pb. 0 \<le> vft_Power w" "0 \<le> vft_Power v" using Cons.prems by auto
  have le: "\<And>r. r \<in> vft_ExchangeRate ` set pb \<Longrightarrow> ?r \<le> r" using Cons.prems(1) by auto
  have "in_i64 (t + vft_Power v)"
    using Cons.prems nn total_power_nonneg [OF nn(1)] by (auto simp: in_i64_def)
  then have step: "median_loop half t (v # pb) =
      (if half \<le> t + vft_Power v then ?r else median_loop half (t + vft_Power v) pb)"
    by simp
  show ?case
  proof (cases "half \<le> t + vft_Power v")
    case True
    have "?r \<in> ?S" using True power_where_nonneg [OF nn(1), of "\<lambda>x. x \<le> ?r"] by auto
    then have "Min ?S = ?r" using le by (intro Min_eqI) auto
    then show ?thesis using True step by simp
  next
    case False
    have ne: "pb \<noteq> []" using False Cons.prems(6) by auto
    have "?S = {r \<in> vft_ExchangeRate ` set pb. half \<le> t + vft_Power v + power_where (\<lambda>x. x \<le> r) pb}" (is "_ = ?T")
    proof
      show "?T \<subseteq> ?S" using le by auto
      show "?S \<subseteq> ?T"
      proof
        fix r assume r: "r \<in> ?S"
        have "r \<in> vft_ExchangeRate ` set pb"
        proof (rule ccontr)
          assume n: "r \<notin> vft_ExchangeRate ` set pb"
          then have "r = ?r" using r by auto
          moreover have "\<not> vft_ExchangeRate w \<le> r" if "w \<in> set pb" for w
          proof -
            have "vft_ExchangeRate w \<noteq> r" "?r \<le> vft_ExchangeRate w" using that n le by auto
            then show ?thesis using \<open>r = ?r\<close> by linarith
          qed
          ultimately have "power_where (\<lambda>x. x \<le> r) pb = 0"
            by (intro power_where_none)
          then show False using r False \<open>r = ?r\<close> by auto
        qed
        then show "r \<in> ?T" using r le by (auto split: if_splits)
      qed
    qed
    then show ?thesis using Cons.IH [of "t + vft_Power v"] False step ne Cons.prems nn by (simp add: add.assoc)
  qed
qed simp

lemma WeightedMedian_eq:
  assumes "sorted (map vft_ExchangeRate pb)" "powers_ok pb" "pb \<noteq> []"
  shows "WeightedMedian pb = median_spec pb"
proof -
  have nn: "0 \<le> total_power pb" using assms(2) total_power_nonneg by (simp add: powers_ok_def)
  then have "go_quot (ballot_Power pb) 2 = total_power pb div 2"
    using assms(2) by (simp add: ballot_Power_eq go_quot_nonneg)
  then show ?thesis
    using assms nn median_loop_eq [of pb 0 "total_power pb div 2"]
    by (simp add: WeightedMedian_def median_spec_def powers_ok_def)
qed

lemma median_spec_in:
  assumes "powers_ok pb" "pb \<noteq> []"
  shows "median_spec pb \<in> vft_ExchangeRate ` set pb"
    and "total_power pb div 2 \<le> power_where (\<lambda>x. x \<le> median_spec pb) pb"
    and "\<And>r. r \<in> vft_ExchangeRate ` set pb \<Longrightarrow> r < median_spec pb \<Longrightarrow>
      power_where (\<lambda>x. x \<le> r) pb < total_power pb div 2"
proof -
  let ?S = "{r \<in> vft_ExchangeRate ` set pb. total_power pb div 2 \<le> power_where (\<lambda>x. x \<le> r) pb}"
  have nn: "0 \<le> total_power pb" using assms(1) total_power_nonneg by (simp add: powers_ok_def)
  have fin: "finite ?S" by simp
  have "Max (vft_ExchangeRate ` set pb) \<in> ?S"
    using assms(2) nn power_where_all [of pb "\<lambda>x. x \<le> Max (vft_ExchangeRate ` set pb)"] by auto
  then have "Min ?S \<in> ?S" by (intro Min_in) auto
  then show "median_spec pb \<in> vft_ExchangeRate ` set pb"
    "total_power pb div 2 \<le> power_where (\<lambda>x. x \<le> median_spec pb) pb"
    by (auto simp: median_spec_def)
  show "power_where (\<lambda>x. x \<le> r) pb < total_power pb div 2"
    if "r \<in> vft_ExchangeRate ` set pb" "r < median_spec pb" for r
    using that Min_le [OF fin, of r] by (fastforce simp: median_spec_def)
qed

text \<open>At most half of the power is strictly below the median and at most half, rounded up, above it.\<close>

lemma median_spec_below:
  assumes "powers_ok pb" "pb \<noteq> []"
  shows "power_where (\<lambda>x. x < median_spec pb) pb \<le> total_power pb div 2"
proof (cases "\<exists>v\<in>set pb. vft_ExchangeRate v < median_spec pb")
  case False
  then have "power_where (\<lambda>x. x < median_spec pb) pb = 0"
    by (intro power_where_none) auto
  moreover have "0 \<le> total_power pb" using assms(1) total_power_nonneg by (simp add: powers_ok_def)
  ultimately show ?thesis by simp
next
  case True
  define r where "r = Max {x \<in> vft_ExchangeRate ` set pb. x < median_spec pb}"
  have "r \<in> {x \<in> vft_ExchangeRate ` set pb. x < median_spec pb}"
    unfolding r_def using True by (intro Max_in) auto
  then have r: "r \<in> vft_ExchangeRate ` set pb" "r < median_spec pb" by auto
  have m: "x \<le> r" if "x \<in> vft_ExchangeRate ` set pb" "x < median_spec pb" for x
    unfolding r_def using that by (intro Max_ge) auto
  have "filter (\<lambda>v. vft_ExchangeRate v < median_spec pb) pb = filter (\<lambda>v. vft_ExchangeRate v \<le> r) pb"
    using m r(2) by (intro filter_cong) auto
  then have "power_where (\<lambda>x. x < median_spec pb) pb = power_where (\<lambda>x. x \<le> r) pb"
    by (simp add: power_where_def)
  then show ?thesis using median_spec_in(3) [OF assms r] by simp
qed

lemma median_spec_above:
  assumes "powers_ok pb" "pb \<noteq> []"
  shows "power_where (\<lambda>x. x > median_spec pb) pb \<le> total_power pb - total_power pb div 2"
  using median_spec_in(2) [OF assms] power_where_compl [of "\<lambda>x. x \<le> median_spec pb" pb]
  by (simp add: not_le)

lemma ballot_sort_sorted [simp]: "sorted (map vft_ExchangeRate (ballot_sort pb))"
  by (simp add: ballot_sort_def)

lemma mset_ballot_sort [simp]: "mset (ballot_sort pb) = mset pb"
  by (simp add: ballot_sort_def)

lemma set_ballot_sort [simp]: "set (ballot_sort pb) = set pb"
  by (simp add: ballot_sort_def)

text \<open>The order in which the sort leaves votes of equal rate does not matter: every sorted
  arrangement of a ballot has the same weighted median.\<close>

lemma WeightedMedian_perm:
  assumes "mset pb = mset pb'" "sorted (map vft_ExchangeRate pb)" "sorted (map vft_ExchangeRate pb')"
    and "\<forall>v\<in>set pb. 0 \<le> vft_Power v" "sum_list (map vft_Power pb) < 2 ^ 63"
  shows "WeightedMedian pb = WeightedMedian pb'"
proof (cases "pb = []")
  case True
  then show ?thesis using assms(1) by simp
next
  case False
  have "powers_ok pb" using assms by (simp add: powers_ok_def total_power_def)
  then show ?thesis
    using False assms WeightedMedian_eq median_spec_mset powers_ok_mset by (metis mset.simps(1) mset_zero_iff)
qed

theorem WeightedMedian_perm_witness:
  "WeightedMedian
     [\<lparr>vft_Denom = ''uusd'', vft_ExchangeRate = 5, vft_Voter = ''a'', vft_Power = 10\<rparr>,
      \<lparr>vft_Denom = ''uusd'', vft_ExchangeRate = 7, vft_Voter = ''b'', vft_Power = 20\<rparr>,
      \<lparr>vft_Denom = ''uusd'', vft_ExchangeRate = 7, vft_Voter = ''c'', vft_Power = 30\<rparr>]
   = WeightedMedian
     [\<lparr>vft_Denom = ''uusd'', vft_ExchangeRate = 5, vft_Voter = ''a'', vft_Power = 10\<rparr>,
      \<lparr>vft_Denom = ''uusd'', vft_ExchangeRate = 7, vft_Voter = ''c'', vft_Power = 30\<rparr>,
      \<lparr>vft_Denom = ''uusd'', vft_ExchangeRate = 7, vft_Voter = ''b'', vft_Power = 20\<rparr>]"
  by (rule WeightedMedian_perm) (simp_all add: add_mset_commute)

text \<open>C3. The tally's median is the lower weighted median: it is the smallest rate of a vote at which the votes up to it
  reach half of the power (rounded down).  So the votes strictly below it hold at most half of the power, and the votes
  strictly above it at most the other half (rounded up).\<close>

theorem WeightedMedian_is_median:
  assumes "pb \<noteq> []" "sorted (map vft_ExchangeRate pb)"
    and "\<forall>v\<in>set pb. 0 \<le> vft_Power v" "sum_list (map vft_Power pb) < 2 ^ 63"
  shows "WeightedMedian pb \<in> vft_ExchangeRate ` set pb
    \<and> sum_list (map vft_Power pb) div 2
      \<le> sum_list (map vft_Power (filter (\<lambda>v. vft_ExchangeRate v \<le> WeightedMedian pb) pb))
    \<and> (\<forall>r\<in>vft_ExchangeRate ` set pb. r < WeightedMedian pb \<longrightarrow>
        sum_list (map vft_Power (filter (\<lambda>v. vft_ExchangeRate v \<le> r) pb)) < sum_list (map vft_Power pb) div 2)
    \<and> sum_list (map vft_Power (filter (\<lambda>v. vft_ExchangeRate v < WeightedMedian pb) pb))
      \<le> sum_list (map vft_Power pb) div 2
    \<and> sum_list (map vft_Power (filter (\<lambda>v. vft_ExchangeRate v > WeightedMedian pb) pb))
      \<le> sum_list (map vft_Power pb) - sum_list (map vft_Power pb) div 2"
proof -
  have p: "powers_ok pb" using assms by (simp add: powers_ok_def total_power_def)
  then have eq: "WeightedMedian pb = median_spec pb" using assms(1,2) WeightedMedian_eq by metis
  note m = median_spec_in [OF p assms(1)] median_spec_below [OF p assms(1)] median_spec_above [OF p assms(1)]
  show ?thesis
    unfolding eq using m by (simp only: power_where_def total_power_def) blast
qed

definition sample_ballot :: ballot where
  "sample_ballot =
     [\<lparr>vft_Denom = ''uusd'', vft_ExchangeRate = 5, vft_Voter = ''a'', vft_Power = 10\<rparr>,
      \<lparr>vft_Denom = ''uusd'', vft_ExchangeRate = 7, vft_Voter = ''b'', vft_Power = 20\<rparr>,
      \<lparr>vft_Denom = ''uusd'', vft_ExchangeRate = 9, vft_Voter = ''c'', vft_Power = 30\<rparr>]"

theorem WeightedMedian_is_median_witness:
  "WeightedMedian sample_ballot \<in> vft_ExchangeRate ` set sample_ballot \<and> WeightedMedian sample_ballot = 7"
  using WeightedMedian_is_median [of sample_ballot]
  by (simp add: sample_ballot_def WeightedMedian_def ballot_Power_def i64_def go_quot_def)

end
