(* ===== verification/Oracle_Keeper.thy ===== *)
theory Oracle_Keeper
  imports Oracle_Types
begin

text \<open>
  \<open>x/oracle/keeper\<close>: the state of the module, its typed access functions and iterators
  (\<open>keeper.go\<close>), the parameters, the vote targets, the message server (commit and reveal of the
  exchange rate votes, delegation of the feeder) and the queries.
\<close>

record 'b oracle_state = "'b chain" +
  o_params :: oracle_params
  ExchangeRates :: "dec kv"
  FeederDelegations :: "string kv"
  MissCounters :: "int kv"
  AggregatePrevotes :: "agg_prevote kv"
  AggregateVotes :: "agg_vote kv"
  TobinTaxes :: "dec kv"

section \<open>Exchange rates\<close>

definition GetLunaExchangeRate :: "string \<Rightarrow> (('b, 'x) oracle_state_scheme, dec) go" where
  "GetLunaExchangeRate denom =
     (if denom = MicroLunaDenom then ret OneDec
      else bnd (gets (\<lambda>s. kv_get (GetExchangeRateKey denom) (ExchangeRates s))) (\<lambda>b.
        case b of None \<Rightarrow> raise ErrUnknownDenom | Some r \<Rightarrow> ret r))"

definition SetLunaExchangeRate :: "string \<Rightarrow> dec \<Rightarrow> (('b, 'x) oracle_state_scheme, unit) go" where
  "SetLunaExchangeRate denom exchangeRate =
     modify (\<lambda>s. s\<lparr>ExchangeRates := kv_set (GetExchangeRateKey denom) exchangeRate (ExchangeRates s)\<rparr>)"

text \<open>The event is not part of the state.\<close>

definition SetLunaExchangeRateWithEvent :: "string \<Rightarrow> dec \<Rightarrow> (('b, 'x) oracle_state_scheme, unit) go" where
  "SetLunaExchangeRateWithEvent denom exchangeRate = SetLunaExchangeRate denom exchangeRate"

definition DeleteLunaExchangeRate :: "string \<Rightarrow> (('b, 'x) oracle_state_scheme, unit) go" where
  "DeleteLunaExchangeRate denom =
     modify (\<lambda>s. s\<lparr>ExchangeRates := kv_delete (GetExchangeRateKey denom) (ExchangeRates s)\<rparr>)"

definition IterateLunaExchangeRates ::
  "(string \<times> dec \<Rightarrow> 'c \<Rightarrow> (('b, 'x) oracle_state_scheme, 'c \<times> bool) go) \<Rightarrow> 'c
   \<Rightarrow> (('b, 'x) oracle_state_scheme, 'c) go" where
  "IterateLunaExchangeRates handler c =
     bnd (gets ExchangeRates) (\<lambda>m.
       iter_loop (map (\<lambda>(k, v). (drop (length ExchangeRateKey) k, v)) m) handler c)"

section \<open>Feeder delegations\<close>

definition GetFeederDelegation ::
  "('b, 'z) addr_ops_scheme \<Rightarrow> string \<Rightarrow> (('b, 'x) oracle_state_scheme, string) go" where
  "GetFeederDelegation K operator =
     bnd (gets (\<lambda>s. kv_get (GetFeederDelegationKey K operator) (FeederDelegations s))) (\<lambda>bz.
       case bz of None \<Rightarrow> ret operator | Some a \<Rightarrow> ret a)"

definition SetFeederDelegation ::
  "('b, 'z) addr_ops_scheme \<Rightarrow> string \<Rightarrow> string \<Rightarrow> (('b, 'x) oracle_state_scheme, unit) go" where
  "SetFeederDelegation K operator delegatedFeeder =
     modify (\<lambda>s. s\<lparr>FeederDelegations :=
       kv_set (GetFeederDelegationKey K operator) delegatedFeeder (FeederDelegations s)\<rparr>)"

definition IterateFeederDelegations ::
  "(string \<times> string \<Rightarrow> 'c \<Rightarrow> (('b, 'x) oracle_state_scheme, 'c \<times> bool) go) \<Rightarrow> 'c
   \<Rightarrow> (('b, 'x) oracle_state_scheme, 'c) go" where
  "IterateFeederDelegations handler c =
     bnd (gets FeederDelegations) (\<lambda>m. iter_loop (map (\<lambda>(k, v). (drop 2 k, v)) m) handler c)"

section \<open>Miss counters\<close>

definition GetMissCounter ::
  "('b, 'z) addr_ops_scheme \<Rightarrow> string \<Rightarrow> (('b, 'x) oracle_state_scheme, int) go" where
  "GetMissCounter K operator =
     bnd (gets (\<lambda>s. kv_get (GetMissCounterKey K operator) (MissCounters s))) (\<lambda>bz.
       case bz of None \<Rightarrow> ret 0 | Some n \<Rightarrow> ret n)"

definition SetMissCounter ::
  "('b, 'z) addr_ops_scheme \<Rightarrow> string \<Rightarrow> int \<Rightarrow> (('b, 'x) oracle_state_scheme, unit) go" where
  "SetMissCounter K operator missCounter =
     modify (\<lambda>s. s\<lparr>MissCounters := kv_set (GetMissCounterKey K operator) missCounter (MissCounters s)\<rparr>)"

definition DeleteMissCounter ::
  "('b, 'z) addr_ops_scheme \<Rightarrow> string \<Rightarrow> (('b, 'x) oracle_state_scheme, unit) go" where
  "DeleteMissCounter K operator =
     modify (\<lambda>s. s\<lparr>MissCounters := kv_delete (GetMissCounterKey K operator) (MissCounters s)\<rparr>)"

definition IterateMissCounters ::
  "(string \<times> int \<Rightarrow> 'c \<Rightarrow> (('b, 'x) oracle_state_scheme, 'c \<times> bool) go) \<Rightarrow> 'c
   \<Rightarrow> (('b, 'x) oracle_state_scheme, 'c) go" where
  "IterateMissCounters handler c =
     bnd (gets MissCounters) (\<lambda>m. iter_loop (map (\<lambda>(k, v). (drop 2 k, v)) m) handler c)"

section \<open>Prevotes and votes\<close>

definition GetAggregateExchangeRatePrevote ::
  "('b, 'z) addr_ops_scheme \<Rightarrow> string \<Rightarrow> (('b, 'x) oracle_state_scheme, agg_prevote) go" where
  "GetAggregateExchangeRatePrevote K voter =
     bnd (gets (\<lambda>s. kv_get (GetAggregateExchangeRatePrevoteKey K voter) (AggregatePrevotes s))) (\<lambda>b.
       case b of None \<Rightarrow> raise ErrNoAggregatePrevote | Some p \<Rightarrow> ret p)"

definition SetAggregateExchangeRatePrevote ::
  "('b, 'z) addr_ops_scheme \<Rightarrow> string \<Rightarrow> agg_prevote \<Rightarrow> (('b, 'x) oracle_state_scheme, unit) go" where
  "SetAggregateExchangeRatePrevote K voter prevote =
     modify (\<lambda>s. s\<lparr>AggregatePrevotes :=
       kv_set (GetAggregateExchangeRatePrevoteKey K voter) prevote (AggregatePrevotes s)\<rparr>)"

definition DeleteAggregateExchangeRatePrevote ::
  "('b, 'z) addr_ops_scheme \<Rightarrow> string \<Rightarrow> (('b, 'x) oracle_state_scheme, unit) go" where
  "DeleteAggregateExchangeRatePrevote K voter =
     modify (\<lambda>s. s\<lparr>AggregatePrevotes :=
       kv_delete (GetAggregateExchangeRatePrevoteKey K voter) (AggregatePrevotes s)\<rparr>)"

definition IterateAggregateExchangeRatePrevotes ::
  "(string \<times> agg_prevote \<Rightarrow> 'c \<Rightarrow> (('b, 'x) oracle_state_scheme, 'c \<times> bool) go) \<Rightarrow> 'c
   \<Rightarrow> (('b, 'x) oracle_state_scheme, 'c) go" where
  "IterateAggregateExchangeRatePrevotes handler c =
     bnd (gets AggregatePrevotes) (\<lambda>m. iter_loop (map (\<lambda>(k, v). (drop 2 k, v)) m) handler c)"

definition GetAggregateExchangeRateVote ::
  "('b, 'z) addr_ops_scheme \<Rightarrow> string \<Rightarrow> (('b, 'x) oracle_state_scheme, agg_vote) go" where
  "GetAggregateExchangeRateVote K voter =
     bnd (gets (\<lambda>s. kv_get (GetAggregateExchangeRateVoteKey K voter) (AggregateVotes s))) (\<lambda>b.
       case b of None \<Rightarrow> raise ErrNoAggregateVote | Some v \<Rightarrow> ret v)"

definition SetAggregateExchangeRateVote ::
  "('b, 'z) addr_ops_scheme \<Rightarrow> string \<Rightarrow> agg_vote \<Rightarrow> (('b, 'x) oracle_state_scheme, unit) go" where
  "SetAggregateExchangeRateVote K voter vote =
     modify (\<lambda>s. s\<lparr>AggregateVotes :=
       kv_set (GetAggregateExchangeRateVoteKey K voter) vote (AggregateVotes s)\<rparr>)"

definition DeleteAggregateExchangeRateVote ::
  "('b, 'z) addr_ops_scheme \<Rightarrow> string \<Rightarrow> (('b, 'x) oracle_state_scheme, unit) go" where
  "DeleteAggregateExchangeRateVote K voter =
     modify (\<lambda>s. s\<lparr>AggregateVotes :=
       kv_delete (GetAggregateExchangeRateVoteKey K voter) (AggregateVotes s)\<rparr>)"

definition IterateAggregateExchangeRateVotes ::
  "(string \<times> agg_vote \<Rightarrow> 'c \<Rightarrow> (('b, 'x) oracle_state_scheme, 'c \<times> bool) go) \<Rightarrow> 'c
   \<Rightarrow> (('b, 'x) oracle_state_scheme, 'c) go" where
  "IterateAggregateExchangeRateVotes handler c =
     bnd (gets AggregateVotes) (\<lambda>m. iter_loop (map (\<lambda>(k, v). (drop 2 k, v)) m) handler c)"

section \<open>Tobin taxes and vote targets\<close>

definition GetTobinTax :: "string \<Rightarrow> (('b, 'x) oracle_state_scheme, dec) go" where
  "GetTobinTax denom =
     bnd (gets (\<lambda>s. kv_get (GetTobinTaxKey denom) (TobinTaxes s))) (\<lambda>bz.
       case bz of None \<Rightarrow> raise ErrNoTobinTax | Some t \<Rightarrow> ret t)"

definition SetTobinTax :: "string \<Rightarrow> dec \<Rightarrow> (('b, 'x) oracle_state_scheme, unit) go" where
  "SetTobinTax denom tobinTax =
     modify (\<lambda>s. s\<lparr>TobinTaxes := kv_set (GetTobinTaxKey denom) tobinTax (TobinTaxes s)\<rparr>)"

definition IterateTobinTaxes ::
  "(string \<times> dec \<Rightarrow> 'c \<Rightarrow> (('b, 'x) oracle_state_scheme, 'c \<times> bool) go) \<Rightarrow> 'c
   \<Rightarrow> (('b, 'x) oracle_state_scheme, 'c) go" where
  "IterateTobinTaxes handler c =
     bnd (gets TobinTaxes) (\<lambda>m.
       iter_loop (map (\<lambda>(k, v). (ExtractDenomFromTobinTaxKey k, v)) m) handler c)"

definition ClearTobinTaxes :: "(('b, 'x) oracle_state_scheme, unit) go" where
  "ClearTobinTaxes =
     bnd (gets TobinTaxes) (\<lambda>m.
       for_each m (\<lambda>(k, _). modify (\<lambda>s. s\<lparr>TobinTaxes := kv_delete k (TobinTaxes s)\<rparr>)))"

definition IsVoteTarget :: "string \<Rightarrow> (('b, 'x) oracle_state_scheme, bool) go" where
  "IsVoteTarget denom =
     bnd (attempt (GetTobinTax denom)) (\<lambda>r. case r of Inl _ \<Rightarrow> ret False | Inr _ \<Rightarrow> ret True)"

definition GetVoteTargets :: "(('b, 'x) oracle_state_scheme, string list) go" where
  "GetVoteTargets = IterateTobinTaxes (\<lambda>(denom, _) voteTargets. ret (voteTargets @ [denom], False)) []"

section \<open>Parameters and accounts\<close>

definition oracle_GetParams :: "(('b, 'x) oracle_state_scheme, oracle_params) go" where
  "oracle_GetParams = gets o_params"

definition oracle_SetParams :: "oracle_params \<Rightarrow> (('b, 'x) oracle_state_scheme, unit) go" where
  "oracle_SetParams p =
     SetParamSet o_params_update (oracle_ParamSetPairs p)"

text \<open>\<open>paramSpace.Set\<close> writes one value and does not run its validator.\<close>

definition SetWhitelist :: "denom_tax list \<Rightarrow> (('b, 'x) oracle_state_scheme, unit) go" where
  "SetWhitelist whitelist = modify (\<lambda>s. s\<lparr>o_params := (o_params s)\<lparr>op_Whitelist := whitelist\<rparr>\<rparr>)"

definition oracle_VotePeriod :: "(('b, 'x) oracle_state_scheme, int) go" where
  "oracle_VotePeriod = gets (\<lambda>s. op_VotePeriod (o_params s))"

definition oracle_VoteThreshold :: "(('b, 'x) oracle_state_scheme, dec) go" where
  "oracle_VoteThreshold = gets (\<lambda>s. op_VoteThreshold (o_params s))"

definition oracle_SlashFraction :: "(('b, 'x) oracle_state_scheme, dec) go" where
  "oracle_SlashFraction = gets (\<lambda>s. op_SlashFraction (o_params s))"

definition oracle_SlashWindow :: "(('b, 'x) oracle_state_scheme, int) go" where
  "oracle_SlashWindow = gets (\<lambda>s. op_SlashWindow (o_params s))"

definition oracle_MinValidPerWindow :: "(('b, 'x) oracle_state_scheme, dec) go" where
  "oracle_MinValidPerWindow = gets (\<lambda>s. op_MinValidPerWindow (o_params s))"

definition GetRewardPool ::
  "('b, 'z) bank_ops_scheme \<Rightarrow> string \<Rightarrow> (('b, 'x) oracle_state_scheme, coin) go" where
  "GetRewardPool K denom = gets (\<lambda>s. GetBalance K (ext s) (GetModuleAddress K oracle_ModuleName) denom)"

section \<open>Message server\<close>

definition ErrNoValidatorFound :: error where "ErrNoValidatorFound = SdkErr ''ErrNoValidatorFound''"

definition ValidateFeeder ::
  "('b, 'z) staking_ops_scheme \<Rightarrow> string \<Rightarrow> string \<Rightarrow> (('b, 'x) oracle_state_scheme, unit) go" where
  "ValidateFeeder K feederAddr validatorAddr =
     seq (on_true (feederAddr \<noteq> validatorAddr)
            (bnd (GetFeederDelegation K validatorAddr) (\<lambda>delegate.
               on_true (delegate \<noteq> feederAddr) (raise ErrNoVotingPermission))))
       (bnd (gets (\<lambda>s. Validator K (ext s) validatorAddr)) (\<lambda>val.
          case val of
            None \<Rightarrow> raise ErrNoValidatorFound
          | Some v \<Rightarrow> if v_IsBonded v then ret () else raise ErrNoValidatorFound))"

definition AggregateExchangeRatePrevote ::
  "('b, 'z) staking_ops_scheme \<Rightarrow> msg_prevote \<Rightarrow> (('b, 'x) oracle_state_scheme, unit) go" where
  "AggregateExchangeRatePrevote K msg =
     bnd (lift (ValAddressFromBech32 K (mp_Validator msg))) (\<lambda>valAddr.
     bnd (lift (AccAddressFromBech32 K (mp_Feeder msg))) (\<lambda>feederAddr.
     seq (ValidateFeeder K feederAddr valAddr)
     (bnd (lift (wrap_err ErrInvalidHash (AggregateVoteHashFromHexString (mp_Hash msg)))) (\<lambda>voteHash.
     bnd (gets BlockHeight) (\<lambda>height.
     SetAggregateExchangeRatePrevote K valAddr
       (NewAggregateExchangeRatePrevote K voteHash valAddr (u64 height)))))))"

text \<open>A vote period of zero makes the division panic; the difference of the periods wraps.\<close>

definition reveal_period_ok :: "int \<Rightarrow> int \<Rightarrow> int \<Rightarrow> bool outcome" where
  "reveal_period_ok height submitBlock votePeriod =
     (if votePeriod = 0 then Panic
      else Ok (u64 (u64 height div votePeriod - submitBlock div votePeriod) = 1))"

definition AggregateExchangeRateVote ::
  "('b, 'z) staking_ops_scheme \<Rightarrow> msg_vote \<Rightarrow> (('b, 'x) oracle_state_scheme, unit) go" where
  "AggregateExchangeRateVote K msg =
     bnd (lift (ValAddressFromBech32 K (mv_Validator msg))) (\<lambda>valAddr.
     bnd (lift (AccAddressFromBech32 K (mv_Feeder msg))) (\<lambda>feederAddr.
     seq (ValidateFeeder K feederAddr valAddr)
     (bnd oracle_GetParams (\<lambda>params.
     bnd (GetAggregateExchangeRatePrevote K valAddr) (\<lambda>aggregatePrevote.
     bnd (gets BlockHeight) (\<lambda>height.
     bnd (lift (reveal_period_ok height (pv_SubmitBlock aggregatePrevote) (op_VotePeriod params))) (\<lambda>ok.
     seq (check ok ErrRevealPeriodMissMatch)
     (bnd (lift (wrap_err ErrInvalidCoins (ParseExchangeRateTuples K (mv_ExchangeRates msg)))) (\<lambda>tuples.
     seq (for_each tuples (\<lambda>tuple.
            bnd (IsVoteTarget (rt_Denom tuple)) (\<lambda>b. check b ErrUnknownDenom)))
     (seq (check (pv_Hash aggregatePrevote =
              AggregateVoteHash_String (GetAggregateVoteHash K (mv_Salt msg) (mv_ExchangeRates msg) valAddr))
            ErrVerificationFailed)
     (seq (SetAggregateExchangeRateVote K valAddr (NewAggregateExchangeRateVote K tuples valAddr))
     (DeleteAggregateExchangeRatePrevote K valAddr))))))))))))"

definition DelegateFeedConsent ::
  "('b, 'z) staking_ops_scheme \<Rightarrow> msg_delegate \<Rightarrow> (('b, 'x) oracle_state_scheme, unit) go" where
  "DelegateFeedConsent K msg =
     bnd (lift (ValAddressFromBech32 K (md_Operator msg))) (\<lambda>operatorAddr.
     bnd (lift (AccAddressFromBech32 K (md_Delegate msg))) (\<lambda>delegateAddr.
     bnd (gets (\<lambda>s. Validator K (ext s) operatorAddr)) (\<lambda>val.
     case val of
       None \<Rightarrow> raise ErrNoValidatorFound
     | Some _ \<Rightarrow> SetFeederDelegation K operatorAddr delegateAddr)))"

section \<open>Queries\<close>

definition InvalidArgument :: error where "InvalidArgument = SdkErr ''codes.InvalidArgument''"

definition q_Params :: "(('b, 'x) oracle_state_scheme, oracle_params) go" where
  "q_Params = oracle_GetParams"

definition q_ExchangeRate :: "string option \<Rightarrow> (('b, 'x) oracle_state_scheme, dec) go" where
  "q_ExchangeRate req =
     (case req of None \<Rightarrow> raise InvalidArgument
      | Some denom \<Rightarrow> if length denom = 0 then raise InvalidArgument else GetLunaExchangeRate denom)"

definition q_ExchangeRates ::
  "'z coin_ops_scheme \<Rightarrow> (('b, 'x) oracle_state_scheme, dec_coins) go" where
  "q_ExchangeRates K =
     IterateLunaExchangeRates (\<lambda>(denom, rate) cs.
       bnd (lift (NewDecCoinFromDec K denom rate)) (\<lambda>c. ret (cs @ [c], False))) []"

definition q_TobinTax :: "string option \<Rightarrow> (('b, 'x) oracle_state_scheme, dec) go" where
  "q_TobinTax req =
     (case req of None \<Rightarrow> raise InvalidArgument
      | Some denom \<Rightarrow> if length denom = 0 then raise InvalidArgument else GetTobinTax denom)"

definition q_TobinTaxes :: "(('b, 'x) oracle_state_scheme, denom_tax list) go" where
  "q_TobinTaxes =
     IterateTobinTaxes (\<lambda>(denom, rate) ts. ret (ts @ [\<lparr>dt_Name = denom, dt_TobinTax = rate\<rparr>], False)) []"

definition q_Actives :: "(('b, 'x) oracle_state_scheme, string list) go" where
  "q_Actives = IterateLunaExchangeRates (\<lambda>(denom, _) ds. ret (ds @ [denom], False)) []"

definition q_VoteTargets :: "(('b, 'x) oracle_state_scheme, string list) go" where
  "q_VoteTargets = GetVoteTargets"

text \<open>The queries about one validator parse the address of the request first.\<close>

definition with_validator ::
  "('b, 'z) addr_ops_scheme \<Rightarrow> string option \<Rightarrow> (string \<Rightarrow> ('s, 'a) go) \<Rightarrow> ('s, 'a) go" where
  "with_validator K req f =
     (case req of None \<Rightarrow> raise InvalidArgument
      | Some a \<Rightarrow> bnd (lift (wrap_err InvalidArgument (ValAddressFromBech32 K a))) f)"

definition q_FeederDelegation ::
  "('b, 'z) addr_ops_scheme \<Rightarrow> string option \<Rightarrow> (('b, 'x) oracle_state_scheme, string) go" where
  "q_FeederDelegation K req =
     with_validator K req (\<lambda>valAddr. bnd (GetFeederDelegation K valAddr) (\<lambda>a. ret (AccAddress_String K a)))"

definition q_MissCounter ::
  "('b, 'z) addr_ops_scheme \<Rightarrow> string option \<Rightarrow> (('b, 'x) oracle_state_scheme, int) go" where
  "q_MissCounter K req = with_validator K req (GetMissCounter K)"

definition q_AggregatePrevote ::
  "('b, 'z) addr_ops_scheme \<Rightarrow> string option \<Rightarrow> (('b, 'x) oracle_state_scheme, agg_prevote) go" where
  "q_AggregatePrevote K req = with_validator K req (GetAggregateExchangeRatePrevote K)"

definition q_AggregatePrevotes :: "(('b, 'x) oracle_state_scheme, agg_prevote list) go" where
  "q_AggregatePrevotes = IterateAggregateExchangeRatePrevotes (\<lambda>(_, p) ps. ret (ps @ [p], False)) []"

definition q_AggregateVote ::
  "('b, 'z) addr_ops_scheme \<Rightarrow> string option \<Rightarrow> (('b, 'x) oracle_state_scheme, agg_vote) go" where
  "q_AggregateVote K req = with_validator K req (GetAggregateExchangeRateVote K)"

definition q_AggregateVotes :: "(('b, 'x) oracle_state_scheme, agg_vote list) go" where
  "q_AggregateVotes = IterateAggregateExchangeRateVotes (\<lambda>(_, v) vs. ret (vs @ [v], False)) []"

lemmas oracle_store_defs = GetLunaExchangeRate_def SetLunaExchangeRate_def
  SetLunaExchangeRateWithEvent_def DeleteLunaExchangeRate_def
  GetFeederDelegation_def SetFeederDelegation_def GetMissCounter_def SetMissCounter_def
  DeleteMissCounter_def GetAggregateExchangeRatePrevote_def SetAggregateExchangeRatePrevote_def
  DeleteAggregateExchangeRatePrevote_def GetAggregateExchangeRateVote_def
  SetAggregateExchangeRateVote_def DeleteAggregateExchangeRateVote_def GetTobinTax_def SetTobinTax_def

section \<open>The store invariant\<close>

text \<open>
  Every key of the module's store is built by its key function from a denomination or a verified
  address; a vote names its voter and each denomination once; counters and heights fit their width.
\<close>

definition oracle_wf :: "('b, 'z) addr_ops_scheme \<Rightarrow> ('b, 'x) oracle_state_scheme \<Rightarrow> bool" where
  "oracle_wf K s \<longleftrightarrow>
     keyed GetExchangeRateKey (\<lambda>_ _. True) (ExchangeRates s) \<and>
     keyed (GetFeederDelegationKey K) (\<lambda>v a. address_ok v \<and> address_ok a) (FeederDelegations s) \<and>
     keyed (GetMissCounterKey K) (\<lambda>v n. address_ok v \<and> in_u64 n) (MissCounters s) \<and>
     keyed (GetAggregateExchangeRatePrevoteKey K)
       (\<lambda>v p. address_ok v \<and> pv_Voter p = ValAddress_String K v \<and> in_u64 (pv_SubmitBlock p)) (AggregatePrevotes s) \<and>
     keyed (GetAggregateExchangeRateVoteKey K)
       (\<lambda>v x. address_ok v \<and> av_Voter x = ValAddress_String K v
          \<and> distinct (map rt_Denom (av_ExchangeRateTuples x))) (AggregateVotes s) \<and>
     keyed GetTobinTaxKey (\<lambda>_ _. True) (TobinTaxes s)"

lemma oracle_wf_ext [simp]: "oracle_wf K (s\<lparr>ext := b\<rparr>) = oracle_wf K s"
  by (simp add: oracle_wf_def)

lemma keeps_wf_sdk_call [keeps_intros]: "keeps (oracle_wf K) (sdk_call m)"
  by (rule keeps_sdk_call) simp

lemma keeps_wf_rates [keeps_intros]:
  "keeps (oracle_wf K) (SetLunaExchangeRate d r)"
  "keeps (oracle_wf K) (SetLunaExchangeRateWithEvent d r)"
  "keeps (oracle_wf K) (DeleteLunaExchangeRate d)"
  "keeps (oracle_wf K) (GetLunaExchangeRate d)"
  by (auto simp: keeps_def oracle_store_defs oracle_wf_def split: option.splits)

lemma keeps_wf_feeder [keeps_intros]:
  "address_ok v \<Longrightarrow> address_ok a \<Longrightarrow> keeps (oracle_wf K) (SetFeederDelegation K v a)"
  "keeps (oracle_wf K) (GetFeederDelegation K v)"
  by (auto simp: keeps_def oracle_store_defs oracle_wf_def split: option.splits)

lemma keeps_wf_miss [keeps_intros]:
  "address_ok v \<Longrightarrow> in_u64 n \<Longrightarrow> keeps (oracle_wf K) (SetMissCounter K v n)"
  "keeps (oracle_wf K) (DeleteMissCounter K v)"
  "keeps (oracle_wf K) (GetMissCounter K v)"
  by (auto simp: keeps_def oracle_store_defs oracle_wf_def split: option.splits)

lemma keeps_wf_prevote [keeps_intros]:
  "address_ok v \<Longrightarrow> pv_Voter p = ValAddress_String K v \<Longrightarrow> in_u64 (pv_SubmitBlock p) \<Longrightarrow>
     keeps (oracle_wf K) (SetAggregateExchangeRatePrevote K v p)"
  "keeps (oracle_wf K) (DeleteAggregateExchangeRatePrevote K v)"
  "keeps (oracle_wf K) (GetAggregateExchangeRatePrevote K v)"
  by (auto simp: keeps_def oracle_store_defs oracle_wf_def split: option.splits)

lemma keeps_wf_vote [keeps_intros]:
  "address_ok v \<Longrightarrow> av_Voter x = ValAddress_String K v \<Longrightarrow> distinct (map rt_Denom (av_ExchangeRateTuples x)) \<Longrightarrow>
     keeps (oracle_wf K) (SetAggregateExchangeRateVote K v x)"
  "keeps (oracle_wf K) (DeleteAggregateExchangeRateVote K v)"
  "keeps (oracle_wf K) (GetAggregateExchangeRateVote K v)"
  by (auto simp: keeps_def oracle_store_defs oracle_wf_def split: option.splits)

lemma keeps_wf_tobin [keeps_intros]:
  "keeps (oracle_wf K) (SetTobinTax d t)"
  "keeps (oracle_wf K) (GetTobinTax d)"
  "keeps (oracle_wf K) ClearTobinTaxes"
  "keeps (oracle_wf K) (IsVoteTarget d)"
  unfolding ClearTobinTaxes_def IsVoteTarget_def
  by (auto simp: oracle_store_defs oracle_wf_def split: option.splits
      intro!: keeps_intros keeps_modify)

lemma keeps_wf_params [keeps_intros]:
  "keeps (oracle_wf K) (oracle_SetParams p)" "keeps (oracle_wf K) (SetWhitelist w)" "keeps (oracle_wf K) oracle_GetParams"
  unfolding oracle_SetParams_def SetWhitelist_def oracle_GetParams_def
  by (auto simp: oracle_wf_def intro!: keeps_intros keeps_modify keeps_SetParamSet)

lemma keeps_wf_ValidateFeeder [keeps_intros]: "keeps (oracle_wf K) (ValidateFeeder K f v)"
  unfolding ValidateFeeder_def by (auto intro!: keeps_intros split: option.splits)

lemma wrap_err_eq_Ok [simp]: "wrap_err e r = Ok x \<longleftrightarrow> r = Ok x"
  by (cases r) (simp_all add: wrap_err_def)

lemma keeps_wf_Prevote:
  assumes "addr_laws K"
  shows "keeps (oracle_wf K) (AggregateExchangeRatePrevote K msg)"
proof -
  note L = addr_laws.ValAddress_length [OF assms]
  show ?thesis
    unfolding AggregateExchangeRatePrevote_def
    by (intro keeps_bnd_lift keeps_seq keeps_wf_ValidateFeeder keeps_bnd keeps_gets keeps_wf_prevote)
      (auto simp: NewAggregateExchangeRatePrevote_def dest: L)
qed

lemma keeps_wf_Vote:
  assumes "addr_laws K"
  shows "keeps (oracle_wf K) (AggregateExchangeRateVote K msg)"
proof -
  note L = addr_laws.ValAddress_length [OF assms]
  show ?thesis
    unfolding AggregateExchangeRateVote_def
    by (intro keeps_bnd_lift keeps_seq keeps_wf_ValidateFeeder keeps_bnd [OF keeps_gets]
        keeps_bnd [OF keeps_wf_prevote(3)] keeps_bnd [OF keeps_wf_params(3)] keeps_bnd [OF keeps_wf_tobin(4)]
        keeps_check keeps_for_each keeps_wf_prevote(2) keeps_wf_vote(1))
      (auto simp: NewAggregateExchangeRateVote_def ParseExchangeRateTuples_distinct dest: L)
qed

lemma keeps_wf_Delegate:
  assumes "addr_laws K"
  shows "keeps (oracle_wf K) (DelegateFeedConsent K msg)"
  unfolding DelegateFeedConsent_def
  by (intro keeps_bnd_lift keeps_bnd [OF keeps_gets] keeps_case_option keeps_raise keeps_wf_feeder(1))
    (auto dest: addr_laws.ValAddress_length [OF assms] addr_laws.AccAddress_length [OF assms])

section \<open>Commit and reveal\<close>

lemma IsVoteTarget_run: "IsVoteTarget d s = (Ok (kv_get (GetTobinTaxKey d) (TobinTaxes s) \<noteq> None), s)"
  by (simp add: IsVoteTarget_def GetTobinTax_def attempt_def bnd_def split: option.splits)

lemma ValidateFeeder_run:
  "ValidateFeeder K f v s = (Ok (), s') \<longleftrightarrow>
     s' = s \<and>
     (f = v \<or> kv_get (GetFeederDelegationKey K v) (FeederDelegations s) = Some f) \<and>
     (\<exists>val. Validator K (ext s) v = Some val \<and> v_IsBonded val)"
  by (auto simp: ValidateFeeder_def GetFeederDelegation_def seq_run_iff_Ok bnd_run_iff_Ok
      split: option.splits if_splits)

lemma check_targets_run:
  "for_each tuples (\<lambda>t. bnd (IsVoteTarget (rt_Denom t)) (\<lambda>b. check b e)) s = (Ok (), s') \<longleftrightarrow>
     s' = s \<and> (\<forall>t\<in>set tuples. kv_get (GetTobinTaxKey (rt_Denom t)) (TobinTaxes s) \<noteq> None)"
  by (induction tuples) (auto simp: seq_run_iff_Ok bnd_run_iff_Ok IsVoteTarget_run split: if_splits)

text \<open>What a reveal needs, and what it does to the store.\<close>

definition reveal_accepted ::
  "('b, 'z) staking_ops_scheme \<Rightarrow> msg_vote \<Rightarrow> string \<Rightarrow> string \<Rightarrow> agg_prevote \<Rightarrow> rate_tuple list
   \<Rightarrow> ('b, 'x) oracle_state_scheme \<Rightarrow> bool" where
  "reveal_accepted K msg valAddr feederAddr prevote tuples s \<longleftrightarrow>
     ValAddressFromBech32 K (mv_Validator msg) = Ok valAddr \<and>
     AccAddressFromBech32 K (mv_Feeder msg) = Ok feederAddr \<and>
     (feederAddr = valAddr \<or> kv_get (GetFeederDelegationKey K valAddr) (FeederDelegations s) = Some feederAddr) \<and>
     (\<exists>val. Validator K (ext s) valAddr = Some val \<and> v_IsBonded val) \<and>
     kv_get (GetAggregateExchangeRatePrevoteKey K valAddr) (AggregatePrevotes s) = Some prevote \<and>
     reveal_period_ok (BlockHeight s) (pv_SubmitBlock prevote) (op_VotePeriod (o_params s)) = Ok True \<and>
     ParseExchangeRateTuples K (mv_ExchangeRates msg) = Ok tuples \<and>
     (\<forall>t\<in>set tuples. kv_get (GetTobinTaxKey (rt_Denom t)) (TobinTaxes s) \<noteq> None) \<and>
     pv_Hash prevote =
       AggregateVoteHash_String (GetAggregateVoteHash K (mv_Salt msg) (mv_ExchangeRates msg) valAddr)"

lemma bnd_prevote_Ok:
  "bnd (GetAggregateExchangeRatePrevote K v) f s = (Ok y, s') \<longleftrightarrow>
     (\<exists>p. kv_get (GetAggregateExchangeRatePrevoteKey K v) (AggregatePrevotes s) = Some p \<and> f p s = (Ok y, s'))"
  by (auto simp: GetAggregateExchangeRatePrevote_def bnd_def split: option.splits)

lemma seq_feeder_Ok:
  "seq (ValidateFeeder K f v) m s = (Ok y, s') \<longleftrightarrow>
     (f = v \<or> kv_get (GetFeederDelegationKey K v) (FeederDelegations s) = Some f) \<and>
     (\<exists>val. Validator K (ext s) v = Some val \<and> v_IsBonded val) \<and> m s = (Ok y, s')"
  by (auto simp: seq_run_iff_Ok ValidateFeeder_run)

lemma seq_targets_Ok:
  "seq (for_each tuples (\<lambda>t. bnd (IsVoteTarget (rt_Denom t)) (\<lambda>b. check b e))) m s = (Ok y, s') \<longleftrightarrow>
     (\<forall>t\<in>set tuples. kv_get (GetTobinTaxKey (rt_Denom t)) (TobinTaxes s) \<noteq> None) \<and> m s = (Ok y, s')"
  by (auto simp: seq_run_iff_Ok check_targets_run)

lemma AggregateExchangeRateVote_run:
  "AggregateExchangeRateVote K msg s = (Ok (), s') \<longleftrightarrow>
     (\<exists>valAddr feederAddr prevote tuples.
        reveal_accepted K msg valAddr feederAddr prevote tuples s \<and>
        s' = s\<lparr>AggregateVotes :=
            kv_set (GetAggregateExchangeRateVoteKey K valAddr) (NewAggregateExchangeRateVote K tuples valAddr) (AggregateVotes s),
          AggregatePrevotes :=
            kv_delete (GetAggregateExchangeRatePrevoteKey K valAddr) (AggregatePrevotes s)\<rparr>)"
  unfolding AggregateExchangeRateVote_def reveal_accepted_def
    bnd_lift_Ok seq_feeder_Ok bnd_prevote_Ok seq_check_Ok seq_targets_Ok oracle_GetParams_def bnd_gets
    SetAggregateExchangeRateVote_def DeleteAggregateExchangeRatePrevote_def seq_modify modify_run wrap_err_eq_Ok
  by auto

end
