(* ===== verification/Oracle_Endblock.thy ===== *)
theory Oracle_Endblock
  imports Oracle_Keeper
begin

text \<open>
  The end of a vote period: \<open>x/oracle/tally.go\<close>, \<open>keeper/ballot.go\<close>, \<open>keeper/reward.go\<close>,
  \<open>keeper/slash.go\<close> and \<open>abci.go\<close>.  A Go map is visited in an order that the runtime chooses: each
  \<open>range\<close> statement takes its order from a field of \<open>range_orders\<close>, a permutation of the entries.
\<close>

section \<open>Collecting the ballots\<close>

definition add_vote :: "string \<Rightarrow> int \<Rightarrow> rate_tuple \<Rightarrow> ballot kv \<Rightarrow> ballot kv" where
  "add_vote voterAddr claimPower tuple votes =
     (let tmpPower = (if rt_ExchangeRate tuple > 0 then claimPower else 0);
          old = (case kv_get (rt_Denom tuple) votes of Some b \<Rightarrow> b | None \<Rightarrow> [])
      in kv_set (rt_Denom tuple)
           (old @ [NewVoteForTally (rt_ExchangeRate tuple) (rt_Denom tuple) voterAddr tmpPower]) votes)"

definition aggregateHandler :: "claim kv \<Rightarrow> string \<times> agg_vote \<Rightarrow> ballot kv \<Rightarrow> ballot kv" where
  "aggregateHandler validatorClaimMap e votes =
     (case kv_get (av_Voter (snd e)) validatorClaimMap of
        None \<Rightarrow> votes
      | Some c \<Rightarrow> fold (add_vote (fst e) (cl_Power c)) (av_ExchangeRateTuples (snd e)) votes)"

text \<open>The final loop sorts each ballot in its own entry.\<close>

definition OrganizeBallotByDenom :: "claim kv \<Rightarrow> (('b, 'x) oracle_state_scheme, ballot kv) go" where
  "OrganizeBallotByDenom validatorClaimMap =
     bnd (IterateAggregateExchangeRateVotes (\<lambda>e votes. ret (aggregateHandler validatorClaimMap e votes, False)) [])
       (\<lambda>votes. ret (map (\<lambda>(denom, ballot). (denom, ballot_sort ballot)) votes))"

definition ClearBallots :: "('b, 'z) addr_ops_scheme \<Rightarrow> int \<Rightarrow> (('b, 'x) oracle_state_scheme, unit) go" where
  "ClearBallots K votePeriod =
     bnd (gets BlockHeight) (\<lambda>height.
     seq (IterateAggregateExchangeRatePrevotes (\<lambda>(voterAddr, aggregatePrevote) _.
            seq (on_true (height > i64 (u64 (pv_SubmitBlock aggregatePrevote + votePeriod)))
                  (DeleteAggregateExchangeRatePrevote K voterAddr))
              (ret ((), False))) ())
       (IterateAggregateExchangeRateVotes (\<lambda>(voterAddr, _) _.
            seq (DeleteAggregateExchangeRateVote K voterAddr) (ret ((), False))) ()))"

text \<open>The names of the whitelist are ASCII, on which \<open>strings.ToUpper\<close> works bytewise.\<close>

definition ToUpper :: "string \<Rightarrow> string" where
  "ToUpper = map (\<lambda>c. let n = (of_char c :: nat) in if 97 \<le> n \<and> n \<le> 122 then char_of (n - 32) else c)"

definition whitelist_metadata :: "string \<Rightarrow> metadata outcome" where
  "whitelist_metadata base =
     (if base = [] \<or> tl base = [] then Panic
      else let display = tl base in Ok \<lparr>
        md_Description = ''The native stable token of the Terra Columbus.'',
        md_DenomUnits =
          [\<lparr>du_Denom = ''u'' @ display, du_Exponent = 0, du_Aliases = [''micro'' @ display]\<rparr>,
           \<lparr>du_Denom = ''m'' @ display, du_Exponent = 3, du_Aliases = [''milli'' @ display]\<rparr>,
           \<lparr>du_Denom = display, du_Exponent = 6, du_Aliases = []\<rparr>],
        md_Base = base,
        md_Display = display,
        md_Name = ToUpper display @ '' TERRA'',
        md_Symbol = ToUpper (butlast display) @ ''T''\<rparr>)"

definition whitelist_changed :: "denom_tax list \<Rightarrow> dec kv \<Rightarrow> bool" where
  "whitelist_changed whitelist voteTargets \<longleftrightarrow>
     (if length voteTargets \<noteq> length whitelist then True
      else list_ex (\<lambda>item. kv_get (dt_Name item) voteTargets \<noteq> Some (dt_TobinTax item)) whitelist)"

definition ApplyWhitelist ::
  "('b, 'z) staking_ops_scheme \<Rightarrow> denom_tax list \<Rightarrow> dec kv \<Rightarrow> (('b, 'x) oracle_state_scheme, unit) go" where
  "ApplyWhitelist K whitelist voteTargets =
     on_true (whitelist_changed whitelist voteTargets)
       (seq ClearTobinTaxes
         (for_each whitelist (\<lambda>item.
            seq (SetTobinTax (dt_Name item) (dt_TobinTax item))
              (bnd (gets (\<lambda>s. GetDenomMetaData K (ext s) (dt_Name item))) (\<lambda>md.
                 case md of
                   Some _ \<Rightarrow> ret ()
                 | None \<Rightarrow> bnd (lift (whitelist_metadata (dt_Name item))) (\<lambda>m. sdk_call (SetDenomMetaData K m)))))))"

section \<open>The tally\<close>

text \<open>The voters within the spread of the median, and those that abstain, win.\<close>

definition ballot_winner :: "dec \<Rightarrow> dec \<Rightarrow> vote_for_tally \<Rightarrow> bool" where
  "ballot_winner weightedMedian rewardSpread vote \<longleftrightarrow>
     (vft_ExchangeRate vote \<ge> weightedMedian - rewardSpread
        \<and> vft_ExchangeRate vote \<le> weightedMedian + rewardSpread)
     \<or> \<not> vft_ExchangeRate vote > 0"

definition credit_claim :: "('b, 'z) addr_ops_scheme \<Rightarrow> vote_for_tally \<Rightarrow> claim kv \<Rightarrow> claim kv" where
  "credit_claim K vote m =
     (let key = ValAddress_String K (vft_Voter vote);
          c = (case kv_get key m of Some c \<Rightarrow> c | None \<Rightarrow> zero_claim)
      in kv_set key (c\<lparr>cl_Weight := i64 (cl_Weight c + vft_Power vote), cl_WinCount := i64 (cl_WinCount c + 1)\<rparr>) m)"

definition Tally ::
  "('b, 'z) addr_ops_scheme \<Rightarrow> ballot \<Rightarrow> dec \<Rightarrow> claim kv \<Rightarrow> (dec \<times> claim kv) outcome" where
  "Tally K pb rewardBand validatorClaimMap =
     (let weightedMedian = WeightedMedian pb;
          standardDeviation = StandardDeviation K pb weightedMedian
      in obind (obind (dec_QuoInt K rewardBand 2) (dec_Mul K weightedMedian)) (\<lambda>spread.
         case standardDeviation of
           None \<Rightarrow> Panic
         | Some sd \<Rightarrow>
             let rewardSpread = (if sd > spread then sd else spread)
             in Ok (weightedMedian,
                    fold (\<lambda>vote m. if ballot_winner weightedMedian rewardSpread vote
                                   then credit_claim K vote m else m) pb validatorClaimMap)))"

definition ballotIsPassing :: "ballot \<Rightarrow> int \<Rightarrow> int \<times> bool" where
  "ballotIsPassing ballot thresholdVotes =
     (let ballotPower = ballot_Power ballot in (ballotPower, ballotPower \<noteq> 0 \<and> ballotPower \<ge> thresholdVotes))"

record range_orders =
  ord_pick :: "ballot kv \<Rightarrow> ballot kv"
  ord_tally :: "ballot kv \<Rightarrow> ballot kv"
  ord_miss :: "claim kv \<Rightarrow> claim kv"
  ord_targets :: "dec kv \<Rightarrow> dec kv"
  ord_sum :: "claim kv \<Rightarrow> claim kv"
  ord_reward :: "claim kv \<Rightarrow> claim kv"

text \<open>The loop variables of \<open>PickReferenceTerra\<close>; the two maps are the caller's and change in place.\<close>

record pick_vars =
  pk_largest :: int
  pk_reference :: string
  pk_targets :: "dec kv"
  pk_votes :: "ballot kv"

definition pick_step :: "int \<Rightarrow> string \<times> ballot \<Rightarrow> pick_vars \<Rightarrow> pick_vars" where
  "pick_step thresholdVotes e p =
     (let denom = fst e; ballot = snd e in
      if kv_get denom (pk_targets p) = None then p\<lparr>pk_votes := kv_delete denom (pk_votes p)\<rparr>
      else if \<not> snd (ballotIsPassing ballot thresholdVotes)
      then p\<lparr>pk_targets := kv_delete denom (pk_targets p), pk_votes := kv_delete denom (pk_votes p)\<rparr>
      else let ballotPower = fst (ballotIsPassing ballot thresholdVotes) in
        if ballotPower > pk_largest p \<or> pk_largest p = 0
        then p\<lparr>pk_reference := denom, pk_largest := ballotPower\<rparr>
        else if pk_largest p = ballotPower \<and> pk_reference p > denom then p\<lparr>pk_reference := denom\<rparr>
        else p)"

definition PickReferenceTerra ::
  "('b, 'z) staking_ops_scheme \<Rightarrow> range_orders \<Rightarrow> dec kv \<Rightarrow> ballot kv
   \<Rightarrow> (('b, 'x) oracle_state_scheme, pick_vars) go" where
  "PickReferenceTerra K R voteTargets voteMap =
     bnd (gets ext) (\<lambda>b.
     bnd (lift (TokensToConsensusPower K (TotalBondedTokens K b) (PowerReduction K b))) (\<lambda>totalBondedPower.
     bnd oracle_VoteThreshold (\<lambda>voteThreshold.
       let thresholdVotes = dec_RoundInt K (voteThreshold * totalBondedPower) in
       ret (fold (pick_step thresholdVotes) (ord_pick R voteMap)
              \<lparr>pk_largest = 0, pk_reference = [], pk_targets = voteTargets, pk_votes = voteMap\<rparr>))))"

section \<open>Rewards\<close>

definition distrName :: string where "distrName = ''distribution''"

definition period_rewards ::
  "('b, 'z) staking_ops_scheme \<Rightarrow> dec \<Rightarrow> string list \<Rightarrow> (('b, 'x) oracle_state_scheme, dec_coins) go" where
  "period_rewards K distributionRatio rewardDenoms =
     fold_each rewardDenoms (\<lambda>denom periodRewards.
       bnd (GetRewardPool K denom) (\<lambda>rewardPool.
         if Amount rewardPool = 0 then ret periodRewards
         else bnd (lift (obind (dec_Mul K (NewDec (Amount rewardPool)) distributionRatio) (NewDecCoinFromDec K denom)))
                (\<lambda>c. lift (deccoins_Add K periodRewards [c])))) []"

text \<open>
  In the branch without a reward the log line reads the moniker of the validator, which panics when
  there is none.
\<close>

definition reward_winner ::
  "('b, 'z) staking_ops_scheme \<Rightarrow> dec_coins \<Rightarrow> int \<Rightarrow> string \<times> claim \<Rightarrow> coins
   \<Rightarrow> (('b, 'x) oracle_state_scheme, coins) go" where
  "reward_winner K periodRewards ballotPowerSum e distributedReward =
     bnd (gets (\<lambda>s. Validator K (ext s) (cl_Recipient (snd e)))) (\<lambda>receiverVal.
     bnd (lift (obind (dec_QuoInt K (NewDec (cl_Weight (snd e))) ballotPowerSum) (\<lambda>share.
                obind (deccoins_MulDec K periodRewards share) (deccoins_TruncateDecimal K)))) (\<lambda>tr.
       let rewardCoins = fst tr in
       case receiverVal of
         None \<Rightarrow> panic
       | Some val \<Rightarrow>
           if coins_IsZero K rewardCoins then ret distributedReward
           else bnd (lift (NewDecCoinsFromCoins K rewardCoins)) (\<lambda>decRewards.
                seq (sdk_call (AllocateTokensToValidator K val decRewards))
                  (lift (coins_Add K distributedReward rewardCoins)))))"

definition RewardBallotWinners ::
  "('b, 'z) staking_ops_scheme \<Rightarrow> range_orders \<Rightarrow> int \<Rightarrow> int \<Rightarrow> dec kv \<Rightarrow> claim kv
   \<Rightarrow> (('b, 'x) oracle_state_scheme, unit) go" where
  "RewardBallotWinners K R votePeriod rewardDistributionWindow voteTargets ballotWinners =
     (let rewardDenoms = MicroLunaDenom # map fst (ord_targets R voteTargets);
          ballotPowerSum = fold (\<lambda>e t. i64 (t + cl_Weight (snd e))) (ord_sum R ballotWinners) 0
      in if ballotPowerSum = 0 then ret ()
         else bnd (lift (dec_QuoInt K (NewDec votePeriod) rewardDistributionWindow)) (\<lambda>distributionRatio.
              bnd (period_rewards K distributionRatio rewardDenoms) (\<lambda>periodRewards.
              bnd (fold_each (ord_reward R ballotWinners) (reward_winner K periodRewards ballotPowerSum) [])
                (\<lambda>distributedReward.
              must (sdk_call (SendCoinsFromModuleToModule K oracle_ModuleName distrName distributedReward))))))"

section \<open>Slashing\<close>

definition ValidatorUpdateDelay :: int where "ValidatorUpdateDelay = 1"

definition slash_operator ::
  "('b, 'z) staking_ops_scheme \<Rightarrow> int \<Rightarrow> dec \<Rightarrow> int \<Rightarrow> string \<Rightarrow> (('b, 'x) oracle_state_scheme, unit) go" where
  "slash_operator K distributionHeight slashFraction powerReduction operator =
     bnd (gets (\<lambda>s. Validator K (ext s) operator)) (\<lambda>validator.
     case validator of
       None \<Rightarrow> panic
     | Some val \<Rightarrow>
         on_true (v_IsBonded val \<and> \<not> v_IsJailed val)
           (bnd (must (lift (v_ConsAddr val))) (\<lambda>consAddr.
            bnd (lift (GetConsensusPower K val powerReduction)) (\<lambda>consPower.
            seq (sdk_call (Slash K consAddr distributionHeight consPower slashFraction))
              (sdk_call (Jail K consAddr))))))"

definition valid_vote_rate :: "'z dec_ops_scheme \<Rightarrow> int \<Rightarrow> int \<Rightarrow> dec outcome" where
  "valid_vote_rate K votePeriodsPerWindow missCounter =
     dec_QuoInt K (NewDec (i64 (u64 (votePeriodsPerWindow - missCounter)))) (i64 votePeriodsPerWindow)"

definition slash_handler ::
  "('b, 'z) staking_ops_scheme \<Rightarrow> int \<Rightarrow> dec \<Rightarrow> int \<Rightarrow> dec \<Rightarrow> int \<Rightarrow> string \<times> int \<Rightarrow> unit
   \<Rightarrow> (('b, 'x) oracle_state_scheme, unit \<times> bool) go" where
  "slash_handler K votePeriodsPerWindow minValidPerWindow distributionHeight slashFraction powerReduction e u =
     bnd (lift (valid_vote_rate K votePeriodsPerWindow (snd e))) (\<lambda>validVoteRate.
     seq (on_true (validVoteRate < minValidPerWindow)
           (slash_operator K distributionHeight slashFraction powerReduction (fst e)))
       (seq (DeleteMissCounter K (fst e)) (ret ((), False))))"

definition SlashAndResetMissCounters ::
  "('b, 'z) staking_ops_scheme \<Rightarrow> (('b, 'x) oracle_state_scheme, unit) go" where
  "SlashAndResetMissCounters K =
     bnd (gets BlockHeight) (\<lambda>height.
     bnd oracle_SlashWindow (\<lambda>slashWindow.
     bnd oracle_VotePeriod (\<lambda>votePeriod.
     bnd (lift (obind (dec_QuoInt K (NewDec (i64 slashWindow)) (i64 votePeriod)) (dec_TruncateInt64 K))) (\<lambda>periods.
     bnd oracle_MinValidPerWindow (\<lambda>minValidPerWindow.
     bnd oracle_SlashFraction (\<lambda>slashFraction.
     bnd (gets (\<lambda>s. PowerReduction K (ext s))) (\<lambda>powerReduction.
       IterateMissCounters
         (slash_handler K (u64 periods) minValidPerWindow (i64 (height - ValidatorUpdateDelay - 1))
            slashFraction powerReduction) ())))))))"

section \<open>EndBlocker\<close>

text \<open>
  The loop over the power store: \<open>i\<close> counts the bonded validators and the loop stops at the maximum; a
  store entry without a validator makes \<open>IsBonded\<close> panic.
\<close>

fun build_claims ::
  "('b, 'z) staking_ops_scheme \<Rightarrow> 'b \<Rightarrow> string list \<Rightarrow> int \<Rightarrow> claim kv \<Rightarrow> claim kv outcome" where
  "build_claims K b [] i m = Ok m"
| "build_claims K b (a # as) i m =
     (if \<not> i < MaxValidators K b then Ok m
      else case Validator K b a of
        None \<Rightarrow> Panic
      | Some val \<Rightarrow>
          if v_IsBonded val
          then obind (GetConsensusPower K val (PowerReduction K b)) (\<lambda>consPower.
                 build_claims K b as (i + 1)
                   (kv_set (ValAddress_String K (v_Operator val)) (NewClaim consPower 0 0 (v_Operator val)) m))
          else build_claims K b as i m)"

definition clear_rates :: "(('b, 'x) oracle_state_scheme, unit) go" where
  "clear_rates =
     IterateLunaExchangeRates (\<lambda>(denom, _) _. seq (DeleteLunaExchangeRate denom) (ret ((), False))) ()"

text \<open>One round of the loop over the ballots: cross rates, tally, and the rate that is stored.\<close>

definition tally_denom ::
  "('b, 'z) addr_ops_scheme \<Rightarrow> dec \<Rightarrow> string \<Rightarrow> dec kv \<Rightarrow> dec \<Rightarrow> string \<times> ballot \<Rightarrow> claim kv
   \<Rightarrow> (('b, 'x) oracle_state_scheme, claim kv) go" where
  "tally_denom K rewardBand referenceTerra voteMapRT exchangeRateRT e claims =
     bnd (lift (if fst e \<noteq> referenceTerra then ToCrossRateWithSort K voteMapRT (snd e) else Ok (snd e))) (\<lambda>ballot.
     bnd (lift (Tally K ballot rewardBand claims)) (\<lambda>(exchangeRate, claims').
     bnd (lift (if fst e \<noteq> referenceTerra then dec_Quo K exchangeRateRT exchangeRate else Ok exchangeRate)) (\<lambda>rate.
     seq (SetLunaExchangeRateWithEvent (fst e) rate) (ret claims'))))"

definition tally_ballots ::
  "('b, 'z) addr_ops_scheme \<Rightarrow> range_orders \<Rightarrow> dec \<Rightarrow> string \<Rightarrow> ballot kv \<Rightarrow> claim kv
   \<Rightarrow> (('b, 'x) oracle_state_scheme, claim kv) go" where
  "tally_ballots K R rewardBand referenceTerra voteMap claims =
     (if referenceTerra = [] then ret claims
      else let ballotRT = (case kv_get referenceTerra voteMap of Some b \<Rightarrow> b | None \<Rightarrow> []) in
        fold_each (ord_tally R voteMap)
          (tally_denom K rewardBand referenceTerra (ToMap ballotRT) (WeightedMedian ballotRT)) claims)"

definition count_misses ::
  "('b, 'z) addr_ops_scheme \<Rightarrow> range_orders \<Rightarrow> int \<Rightarrow> claim kv \<Rightarrow> (('b, 'x) oracle_state_scheme, unit) go" where
  "count_misses K R voteTargetsLen claims =
     for_each (ord_miss R claims) (\<lambda>e.
       on_true (cl_WinCount (snd e) \<noteq> voteTargetsLen)
         (bnd (GetMissCounter K (cl_Recipient (snd e))) (\<lambda>n.
            SetMissCounter K (cl_Recipient (snd e)) (u64 (n + 1)))))"

definition end_vote_period ::
  "('b, 'z) staking_ops_scheme \<Rightarrow> range_orders \<Rightarrow> oracle_params \<Rightarrow> (('b, 'x) oracle_state_scheme, unit) go" where
  "end_vote_period K R params =
     bnd (gets ext) (\<lambda>b.
     bnd (lift (build_claims K b (ValidatorsPowerStore K b) 0 [])) (\<lambda>validatorClaimMap.
     bnd (IterateTobinTaxes (\<lambda>(denom, tobinTax) m. ret (kv_set denom tobinTax m, False)) []) (\<lambda>voteTargets0.
     seq clear_rates
     (bnd (OrganizeBallotByDenom validatorClaimMap) (\<lambda>voteMap0.
     bnd (PickReferenceTerra K R voteTargets0 voteMap0) (\<lambda>p.
     bnd (tally_ballots K R (op_RewardBand params) (pk_reference p) (pk_votes p) validatorClaimMap) (\<lambda>claims.
     seq (count_misses K R (int (length (pk_targets p))) claims)
     (seq (RewardBallotWinners K R (i64 (op_VotePeriod params)) (i64 (op_RewardDistributionWindow params))
            (pk_targets p) claims)
     (seq (ClearBallots K (op_VotePeriod params))
     (ApplyWhitelist K (op_Whitelist params) (pk_targets p)))))))))))"

definition oracle_EndBlocker ::
  "('b, 'z) staking_ops_scheme \<Rightarrow> range_orders \<Rightarrow> (('b, 'x) oracle_state_scheme, unit) go" where
  "oracle_EndBlocker K R =
     bnd oracle_GetParams (\<lambda>params.
     bnd (gets BlockHeight) (\<lambda>height.
     bnd (lift (IsPeriodLastBlock height (op_VotePeriod params))) (\<lambda>voteEnd.
     seq (on_true voteEnd (end_vote_period K R params))
     (bnd (lift (IsPeriodLastBlock height (op_SlashWindow params))) (\<lambda>slashEnd.
     on_true slashEnd (SlashAndResetMissCounters K))))))"

end
