(* ===== verification/Oracle_Tally.thy ===== *)
theory Oracle_Tally
  imports Oracle_Endblock Oracle_Median
begin

text \<open>
  The tally at the end of a vote period: which denomination becomes the reference, and the
  independence of every loop over a Go map from the order in which the map is visited, so that all
  nodes compute the same rates, claims and miss counters.
\<close>

section \<open>The reference denomination\<close>

definition passing :: "int \<Rightarrow> dec kv \<Rightarrow> string \<times> ballot \<Rightarrow> bool" where
  "passing th targets e \<longleftrightarrow> kv_get (fst e) targets \<noteq> None \<and> snd (ballotIsPassing (snd e) th)"

definition pick_init :: "dec kv \<Rightarrow> ballot kv \<Rightarrow> pick_vars" where
  "pick_init T V = \<lparr>pk_largest = 0, pk_reference = [], pk_targets = T, pk_votes = V\<rparr>"

text \<open>The strongest of the passing ballots \<open>es\<close>, the alphabetically first one of equals.\<close>

definition strongest :: "(string \<times> ballot) set \<Rightarrow> int \<Rightarrow> string \<Rightarrow> bool" where
  "strongest E L r \<longleftrightarrow>
     (if E = {} then L = 0 \<and> r = []
      else (\<exists>e\<in>E. fst e = r \<and> ballot_Power (snd e) = L) \<and>
           (\<forall>e\<in>E. ballot_Power (snd e) < L \<or> ballot_Power (snd e) = L \<and> r \<le> fst e))"

lemma strongest_unique: "strongest E L r \<Longrightarrow> strongest E L' r' \<Longrightarrow> L = L' \<and> r = r'"
  unfolding strongest_def by (auto split: if_splits) fastforce+

lemma strongest_insert:
  assumes "strongest E L r" "\<forall>e\<in>E. 0 < ballot_Power (snd e)" "0 < ballot_Power (snd e)"
  shows "if ballot_Power (snd e) > L \<or> L = 0 then strongest (insert e E) (ballot_Power (snd e)) (fst e)
    else if L = ballot_Power (snd e) \<and> r > fst e then strongest (insert e E) L (fst e)
    else strongest (insert e E) L r"
proof (cases "E = {}")
  case True
  then show ?thesis using assms by (simp add: strongest_def)
next
  case False
  then obtain a where a: "a \<in> E" "fst a = r" "ballot_Power (snd a) = L"
    and all: "\<forall>x\<in>E. ballot_Power (snd x) < L \<or> ballot_Power (snd x) = L \<and> r \<le> fst x"
    using assms(1) by (auto simp: strongest_def)
  have L: "0 < L" using a assms(2) by auto
  consider "ballot_Power (snd e) > L" | "ballot_Power (snd e) = L" "fst e < r" | "ballot_Power (snd e) = L" "r \<le> fst e"
    | "ballot_Power (snd e) < L" by fastforce
  then show ?thesis
  proof cases
    case 1
    then have "strongest (insert e E) (ballot_Power (snd e)) (fst e)"
      using all by (fastforce simp: strongest_def)
    then show ?thesis using 1 by simp
  next
    case 2
    then have "\<forall>x\<in>E. ballot_Power (snd x) < L \<or> ballot_Power (snd x) = L \<and> fst e \<le> fst x"
      using all by (meson less_imp_le order_trans)
    then show ?thesis using 2 L by (simp add: strongest_def)
  next
    case 3
    then have "strongest (insert e E) L r" using a all by (auto simp: strongest_def)
    then show ?thesis using 3 L by auto
  next
    case 4
    then have "strongest (insert e E) L r" using a all by (auto simp: strongest_def)
    then show ?thesis using 4 L by auto
  qed
qed

text \<open>The state of the loop after the entries \<open>es\<close>, whatever their order.\<close>

definition pick_inv :: "int \<Rightarrow> dec kv \<Rightarrow> ballot kv \<Rightarrow> (string \<times> ballot) set \<Rightarrow> pick_vars \<Rightarrow> bool" where
  "pick_inv th T V E p \<longleftrightarrow>
     kv_ok (pk_targets p) \<and> kv_ok (pk_votes p) \<and>
     (\<forall>d. kv_get d (pk_targets p) = (if \<exists>e\<in>E. fst e = d \<and> \<not> passing th T e then None else kv_get d T)) \<and>
     (\<forall>d. kv_get d (pk_votes p) = (if \<exists>e\<in>E. fst e = d \<and> \<not> passing th T e then None else kv_get d V)) \<and>
     strongest {e \<in> E. passing th T e} (pk_largest p) (pk_reference p)"

lemma pick_inv_unique: "pick_inv th T V E p \<Longrightarrow> pick_inv th T V E p' \<Longrightarrow> p = p'"
  unfolding pick_inv_def using strongest_unique
  by (intro pick_vars.equality) (auto intro: kvs.get_ext)

lemma pick_step_inv:
  assumes I: "pick_inv th T V E p" and nin: "\<forall>x\<in>E. fst x \<noteq> fst e"
    and pos: "\<forall>x\<in>insert e E. 0 \<le> ballot_Power (snd x)"
  shows "pick_inv th T V (insert e E) (pick_step th e p)"
proof (cases "passing th T e")
  case False
  have "kv_get (fst e) (pk_targets p) = kv_get (fst e) T" using I nin by (auto simp: pick_inv_def)
  then have "pick_step th e p =
      (if kv_get (fst e) T = None then p\<lparr>pk_votes := kv_delete (fst e) (pk_votes p)\<rparr>
       else p\<lparr>pk_targets := kv_delete (fst e) (pk_targets p), pk_votes := kv_delete (fst e) (pk_votes p)\<rparr>)"
    using False by (auto simp: pick_step_def passing_def Let_def)
  moreover have "{x \<in> insert e E. passing th T x} = {x \<in> E. passing th T x}" using False by auto
  ultimately show ?thesis using I False nin by (auto simp: pick_inv_def kv_get_delete)
next
  case True
  have p1: "0 < ballot_Power (snd x)" if "passing th T x" "x \<in> insert e E" for x
    using that pos by (fastforce simp: passing_def ballotIsPassing_def Let_def less_le)
  have T: "kv_get (fst e) (pk_targets p) = kv_get (fst e) T" using I nin by (auto simp: pick_inv_def)
  have E: "{x \<in> insert e E. passing th T x} = insert e {x \<in> E. passing th T x}" using True by auto
  have st: "pick_step th e p =
      (if ballot_Power (snd e) > pk_largest p \<or> pk_largest p = 0
       then p\<lparr>pk_reference := fst e, pk_largest := ballot_Power (snd e)\<rparr>
       else if pk_largest p = ballot_Power (snd e) \<and> pk_reference p > fst e then p\<lparr>pk_reference := fst e\<rparr> else p)"
    using True T by (auto simp: pick_step_def passing_def ballotIsPassing_def Let_def)
  have s: "strongest {x \<in> E. passing th T x} (pk_largest p) (pk_reference p)"
    using I by (simp add: pick_inv_def)
  have "strongest (insert e {x \<in> E. passing th T x}) (pk_largest (pick_step th e p)) (pk_reference (pick_step th e p))"
    using strongest_insert [OF s, of e] p1 True unfolding st by (auto split: if_splits)
  moreover have "pk_targets (pick_step th e p) = pk_targets p" "pk_votes (pick_step th e p) = pk_votes p"
    by (simp_all add: st)
  ultimately show ?thesis unfolding pick_inv_def E using I True by (auto simp: pick_inv_def)
qed

lemma pick_inv_fold:
  assumes "kv_ok T" "kv_ok V" "distinct (map fst es)" "\<forall>e\<in>set es. 0 \<le> ballot_Power (snd e)"
  shows "pick_inv th T V (set es) (fold (pick_step th) es (pick_init T V))"
  using assms(3,4)
proof (induction es rule: rev_induct)
  case Nil
  then show ?case using assms by (simp add: pick_inv_def pick_init_def strongest_def)
next
  case (snoc e es)
  have "\<forall>x\<in>set es. fst x \<noteq> fst e" using snoc.prems(1) by (auto simp: image_iff)
  then show ?case using snoc pick_step_inv [of th T V "set es"] by simp
qed

lemma PickReferenceTerra_run:
  "PickReferenceTerra K R T V s = (Ok p, s') \<longleftrightarrow>
     (\<exists>bonded. TokensToConsensusPower K (TotalBondedTokens K (ext s)) (PowerReduction K (ext s)) = Ok bonded \<and> s' = s \<and>
        p = fold (pick_step (dec_RoundInt K (op_VoteThreshold (o_params s) * bonded))) (ord_pick R V) (pick_init T V))"
  by (auto simp: PickReferenceTerra_def oracle_VoteThreshold_def bnd_lift_Ok pick_init_def Let_def)

text \<open>C5. The reference denomination. Of the ballots, those survive whose denomination is a vote target and
  whose power reaches the threshold; among them the reference is the denomination of the largest power, the
  smallest name deciding between equals.\<close>

theorem PickReferenceTerra_strongest:
  assumes "mset (ord_pick R voteMap) = mset voteMap" "kv_ok voteMap" "kv_ok voteTargets"
    and "\<forall>(d, b)\<in>set voteMap. \<forall>v\<in>set b. 0 \<le> vft_Power v"
    and "\<forall>(d, b)\<in>set voteMap. sum_list (map vft_Power b) < 2 ^ 63"
    and "TokensToConsensusPower K (TotalBondedTokens K (ext s)) (PowerReduction K (ext s)) = Ok bonded"
  shows "\<exists>p. PickReferenceTerra K R voteTargets voteMap s = (Ok p, s)
    \<and> pk_votes p = filter (\<lambda>(d, b). kv_get d voteTargets \<noteq> None \<and>
        snd (ballotIsPassing b (dec_RoundInt K (op_VoteThreshold (o_params s) * bonded)))) voteMap
    \<and> (if pk_votes p = [] then pk_reference p = []
       else \<exists>b. kv_get (pk_reference p) (pk_votes p) = Some b \<and>
            (\<forall>(d, b')\<in>set (pk_votes p). ballot_Power b' < ballot_Power b
               \<or> ballot_Power b' = ballot_Power b \<and> pk_reference p \<le> d))"
proof -
  define th where "th = dec_RoundInt K (op_VoteThreshold (o_params s) * bonded)"
  define p where "p = fold (pick_step th) (ord_pick R voteMap) (pick_init voteTargets voteMap)"
  have run: "PickReferenceTerra K R voteTargets voteMap s = (Ok p, s)"
    using assms(6) PickReferenceTerra_run by (fastforce simp: p_def th_def)
  have "powers_ok (snd e)" if "e \<in> set voteMap" for e
    using that assms(4,5) by (cases e) (auto simp: powers_ok_def total_power_def)
  then have "\<forall>e\<in>set voteMap. 0 \<le> ballot_Power (snd e)"
    using ballot_Power_nonneg by blast
  then have I: "pick_inv th voteTargets voteMap (set voteMap) p"
    using pick_inv_fold [OF assms(3,2), of "ord_pick R voteMap" th] perm_facts [OF assms(1,2)] by (simp add: p_def)
  let ?P = "\<lambda>(d, b). kv_get d voteTargets \<noteq> None \<and> snd (ballotIsPassing b th)"
  have P: "?P = passing th voteTargets" by (auto simp: passing_def)
  have votes: "pk_votes p = filter ?P voteMap"
  proof (rule kvs.get_ext)
    show "kv_ok (pk_votes p)" "kv_ok (filter ?P voteMap)" using I assms(2) by (auto simp: pick_inv_def kv_ok_filter)
    show "kv_get k (pk_votes p) = kv_get k (filter ?P voteMap)" for k
    proof (cases "kv_get k voteMap")
      case None
      then show ?thesis using I assms(2) by (simp add: pick_inv_def kv_get_filter)
    next
      case (Some b)
      then have u: "(k, x) \<in> set voteMap \<longleftrightarrow> x = b" for x
        using kvs.in_entries [OF assms(2), of k x] by auto
      then have "(\<exists>e\<in>set voteMap. fst e = k \<and> \<not> passing th voteTargets e) \<longleftrightarrow> \<not> passing th voteTargets (k, b)"
        by (metis fst_conv prod.collapse)
      then show ?thesis using I assms(2) Some unfolding P by (simp add: pick_inv_def kv_get_filter)
    qed
  qed
  have st: "strongest (set (pk_votes p)) (pk_largest p) (pk_reference p)"
    using I unfolding votes P pick_inv_def by simp
  have "if pk_votes p = [] then pk_reference p = []
       else \<exists>b. kv_get (pk_reference p) (pk_votes p) = Some b \<and>
            (\<forall>(d, b')\<in>set (pk_votes p). ballot_Power b' < ballot_Power b
               \<or> ballot_Power b' = ballot_Power b \<and> pk_reference p \<le> d)"
  proof (cases "pk_votes p = []")
    case False
    then have A: "\<exists>e\<in>set (pk_votes p). fst e = pk_reference p \<and> ballot_Power (snd e) = pk_largest p"
      and B: "\<forall>e\<in>set (pk_votes p). ballot_Power (snd e) < pk_largest p
        \<or> ballot_Power (snd e) = pk_largest p \<and> pk_reference p \<le> fst e"
      using st by (simp_all add: strongest_def)
    from A obtain e where e: "e \<in> set (pk_votes p)" "fst e = pk_reference p" "ballot_Power (snd e) = pk_largest p"
      by blast
    have "kv_ok (pk_votes p)" using I by (simp add: pick_inv_def)
    then have "kv_get (pk_reference p) (pk_votes p) = Some (snd e)"
      using e kvs.in_entries by (metis prod.collapse)
    then show ?thesis using False B e(3) by (simp add: case_prod_unfold)
  qed (use st in \<open>simp add: strongest_def\<close>)
  then show ?thesis using run votes th_def by blast
qed

lemma PickReferenceTerra_order:
  assumes "mset (ord_pick R voteMap) = mset voteMap" "mset (ord_pick R' voteMap) = mset voteMap"
    and "kv_ok voteMap" "kv_ok voteTargets" "\<forall>(d, b)\<in>set voteMap. 0 \<le> ballot_Power b"
  shows "PickReferenceTerra K R voteTargets voteMap s = PickReferenceTerra K R' voteTargets voteMap s"
proof -
  have "fold (pick_step th) (ord_pick R voteMap) (pick_init voteTargets voteMap)
      = fold (pick_step th) (ord_pick R' voteMap) (pick_init voteTargets voteMap)" for th
  proof (rule pick_inv_unique)
    have pos: "\<forall>e\<in>set voteMap. 0 \<le> ballot_Power (snd e)" using assms(5) by auto
    show "pick_inv th voteTargets voteMap (set voteMap)
        (fold (pick_step th) (ord_pick R voteMap) (pick_init voteTargets voteMap))"
      using pick_inv_fold [OF assms(4,3), of "ord_pick R voteMap" th] perm_facts [OF assms(1,3)] pos by simp
    show "pick_inv th voteTargets voteMap (set voteMap)
        (fold (pick_step th) (ord_pick R' voteMap) (pick_init voteTargets voteMap))"
      using pick_inv_fold [OF assms(4,3), of "ord_pick R' voteMap" th] perm_facts [OF assms(2,3)] pos by simp
  qed
  then show ?thesis
    by (simp add: PickReferenceTerra_def oracle_VoteThreshold_def pick_init_def [symmetric])
qed

section \<open>The loop over the ballots\<close>

definition credit :: "vote_for_tally \<Rightarrow> claim \<Rightarrow> claim" where
  "credit vote c = c\<lparr>cl_Weight := i64 (cl_Weight c + vft_Power vote), cl_WinCount := i64 (cl_WinCount c + 1)\<rparr>"

lemma credit_claim_update:
  "credit_claim K = kv_update (\<lambda>v. ValAddress_String K (vft_Voter v)) credit zero_claim"
  by (simp add: fun_eq_iff credit_claim_def kv_update_def credit_def Let_def)

lemma credit_commute: "credit v (credit w c) = credit w (credit v c)"
  by (simp add: credit_def i64_add_left add.assoc add.commute [of "vft_Power v"])

text \<open>The part of a round that does not depend on the claims: the stored rate and the winners.\<close>

definition tally_core ::
  "('b, 'z) addr_ops_scheme \<Rightarrow> dec \<Rightarrow> string \<Rightarrow> dec kv \<Rightarrow> dec \<Rightarrow> string \<times> ballot \<Rightarrow> (dec \<times> ballot) outcome" where
  "tally_core K rewardBand ref bases rateRT e =
     obind (if fst e \<noteq> ref then ToCrossRateWithSort K bases (snd e) else Ok (snd e)) (\<lambda>pb.
     obind (obind (dec_QuoInt K rewardBand 2) (dec_Mul K (WeightedMedian pb))) (\<lambda>spread.
       case StandardDeviation K pb (WeightedMedian pb) of
         None \<Rightarrow> Panic
       | Some sd \<Rightarrow>
           obind (if fst e \<noteq> ref then dec_Quo K rateRT (WeightedMedian pb) else Ok (WeightedMedian pb)) (\<lambda>rate.
             Ok (rate, filter (ballot_winner (WeightedMedian pb) (max sd spread)) pb))))"

lemma fold_if_filter: "fold (\<lambda>x m. if P x then f x m else m) xs m = fold f (filter P xs) m"
  by (induction xs arbitrary: m) auto

lemma tally_denom_core:
  "tally_denom K band ref bases rateRT e claims s =
     (case tally_core K band ref bases rateRT e of
        Ok (rate, ws) \<Rightarrow> (Ok (fold (credit_claim K) ws claims),
          s\<lparr>ExchangeRates := kv_set (GetExchangeRateKey (fst e)) rate (ExchangeRates s)\<rparr>)
      | Err x \<Rightarrow> (Err x, s)
      | Panic \<Rightarrow> (Panic, s))"
proof -
  have mx: "(if sd > sp then sd else sp) = max sd sp" for sd sp :: dec by (simp add: max_def)
  define r1 where "r1 = (if fst e \<noteq> ref then ToCrossRateWithSort K bases (snd e) else Ok (snd e))"
  show ?thesis
  proof (cases r1)
    case (Ok pb)
    define r2 where "r2 = obind (dec_QuoInt K band 2) (dec_Mul K (WeightedMedian pb))"
    define r3 where "r3 = (if fst e \<noteq> ref then dec_Quo K rateRT (WeightedMedian pb) else Ok (WeightedMedian pb))"
    show ?thesis
      unfolding tally_denom_def tally_core_def Tally_def Let_def fold_if_filter mx
        r1_def [symmetric] Ok r2_def [symmetric] r3_def [symmetric]
      by (cases r2; cases "StandardDeviation K pb (WeightedMedian pb)"; cases r3)
        (simp_all add: r2_def [symmetric] r3_def [symmetric] SetLunaExchangeRateWithEvent_def SetLunaExchangeRate_def)
  qed (simp_all add: tally_denom_def tally_core_def r1_def [symmetric])
qed

lemma ToCrossRate_no_Err:
  assumes "dec_laws K"
  shows "ToCrossRateWithSort K bases pb \<noteq> Err x"
proof -
  have c: "cross_vote K bases v \<noteq> Err x" for v
    using dec_laws.Quo_no_err [OF assms] by (auto simp: cross_vote_def obind_eq_Err split: option.splits)
  have "ofold (\<lambda>vote cb. obind (cross_vote K bases vote) (\<lambda>v. Ok (cb @ [v]))) pb acc \<noteq> Err x" for acc
    by (induction pb arbitrary: acc) (auto simp: obind_eq_Err c)
  then show ?thesis by (simp add: ToCrossRateWithSort_def ToCrossRate_def obind_eq_Err)
qed

lemma tally_core_no_Err:
  assumes "dec_laws K"
  shows "tally_core K band ref bases rateRT e \<noteq> Err x"
proof -
  have "dec_QuoInt K band 2 \<noteq> Err x" using dec_laws.QuoInt_eq [OF assms, of 2 band] by simp
  then show ?thesis
    using ToCrossRate_no_Err [OF assms] dec_laws.Mul_no_err [OF assms] dec_laws.Quo_no_err [OF assms]
    by (auto simp: tally_core_def obind_eq_Err split: option.splits if_splits)
qed

text \<open>The effect of a round on the claims and the state.\<close>

definition tally_effect ::
  "('b, 'z) addr_ops_scheme \<Rightarrow> dec \<Rightarrow> string \<Rightarrow> dec kv \<Rightarrow> dec \<Rightarrow> string \<times> ballot
   \<Rightarrow> claim kv \<times> ('b, 'x) oracle_state_scheme \<Rightarrow> claim kv \<times> ('b, 'x) oracle_state_scheme" where
  "tally_effect K band ref bases rateRT e p =
     (case tally_core K band ref bases rateRT e of
        Ok (rate, ws) \<Rightarrow> (fold (credit_claim K) ws (fst p),
          (snd p)\<lparr>ExchangeRates := kv_set (GetExchangeRateKey (fst e)) rate (ExchangeRates (snd p))\<rparr>)
      | _ \<Rightarrow> p)"

lemma tally_denom_effect:
  assumes "dec_laws K"
  shows "tally_denom K band ref bases rateRT e claims s =
    (if tally_core K band ref bases rateRT e = Panic then (Panic, s)
     else (Ok (fst (tally_effect K band ref bases rateRT e (claims, s))),
           snd (tally_effect K band ref bases rateRT e (claims, s))))"
  using tally_core_no_Err [OF assms]
  by (cases "tally_core K band ref bases rateRT e") (auto simp: tally_denom_core tally_effect_def split: prod.splits)

lemma tally_effect_commute:
  assumes "kv_ok (fst p)" "kv_ok (ExchangeRates (snd p))" "fst e \<noteq> fst e' \<or> e = e'"
  shows "tally_effect K band ref bases rateRT e (tally_effect K band ref bases rateRT e' p) =
    tally_effect K band ref bases rateRT e' (tally_effect K band ref bases rateRT e p)"
proof (cases "e = e'")
  case False
  have "fold (credit_claim K) ws (fold (credit_claim K) ws' (fst p)) =
      fold (credit_claim K) ws' (fold (credit_claim K) ws (fst p))" for ws ws'
    using fold_update_perm [OF assms(1), of "ws' @ ws" "ws @ ws'" credit] credit_commute
    unfolding credit_claim_update by (metis (no_types, lifting) fold_append comp_apply mset_append union_commute)
  moreover have "kv_set (GetExchangeRateKey (fst e)) r (kv_set (GetExchangeRateKey (fst e')) r' (ExchangeRates (snd p))) =
      kv_set (GetExchangeRateKey (fst e')) r' (kv_set (GetExchangeRateKey (fst e)) r (ExchangeRates (snd p)))" for r r'
    using False assms by (intro kv_set_commute) auto
  ultimately show ?thesis
    by (cases "tally_core K band ref bases rateRT e"; cases "tally_core K band ref bases rateRT e'")
      (auto simp: tally_effect_def split: prod.splits)
qed simp

lemma tally_effect_ok:
  "kv_ok (fst p) \<Longrightarrow> kv_ok (ExchangeRates (snd p)) \<Longrightarrow>
    kv_ok (fst (tally_effect K band ref bases rateRT e p)) \<and>
    kv_ok (ExchangeRates (snd (tally_effect K band ref bases rateRT e p)))"
  by (auto simp: tally_effect_def credit_claim_update kv_ok_fold_update split: outcome.splits prod.splits)

text \<open>C6. The rates and the winners of a period do not depend on the order in which the runtime visits the
  map of ballots: every order gives the same result, the same claims and the same stored rates, unless
  one of the ballots panics, and then it panics in every order.\<close>

theorem tally_ballots_order:
  assumes "dec_laws K" "kv_ok voteMap" "kv_ok claims" "kv_ok (ExchangeRates s)"
    and "mset (ord_tally R voteMap) = mset voteMap" "mset (ord_tally R' voteMap) = mset voteMap"
  shows "fst (tally_ballots K R band ref voteMap claims s) = fst (tally_ballots K R' band ref voteMap claims s) \<and>
    (fst (tally_ballots K R band ref voteMap claims s) \<noteq> Panic \<longrightarrow>
      tally_ballots K R band ref voteMap claims s = tally_ballots K R' band ref voteMap claims s)"
proof (cases "ref = []")
  case False
  define bases where "bases = ToMap (case kv_get ref voteMap of Some b \<Rightarrow> b | None \<Rightarrow> [])"
  define rateRT where "rateRT = WeightedMedian (case kv_get ref voteMap of Some b \<Rightarrow> b | None \<Rightarrow> [])"
  let ?xs = "ord_tally R voteMap" and ?ys = "ord_tally R' voteMap"
  let ?h = "tally_denom K band ref bases rateRT" and ?g = "tally_effect K band ref bases rateRT"
  let ?I = "\<lambda>p. kv_ok (fst p) \<and> kv_ok (ExchangeRates (snd p))"
  have d: "distinct (map fst ?xs)" using perm_facts(1) [OF assms(5,2)] .
  have main: "fst (fold_each ?xs ?h claims s) = fst (fold_each ?ys ?h claims s) \<and>
    (fst (fold_each ?xs ?h claims s) \<noteq> Panic \<longrightarrow> fold_each ?xs ?h claims s = fold_each ?ys ?h claims s)"
  proof (rule fold_each_order [where I = ?I and bad = "\<lambda>e. tally_core K band ref bases rateRT e = Panic" and g = ?g])
    show "mset ?xs = mset ?ys" "?I (claims, s)" using assms by simp_all
    show "?h e c s = (if tally_core K band ref bases rateRT e = Panic then (Panic, s)
        else (Ok (fst (?g e (c, s))), snd (?g e (c, s))))" for e c s
      by (rule tally_denom_effect [OF assms(1)])
    show "?I (?g e p)" if "?I p" for e p using that tally_effect_ok by blast
    show "?g e (?g e' p) = ?g e' (?g e p)" if "e \<in> set ?xs" "e' \<in> set ?xs" "?I p" for e e' p
    proof (rule tally_effect_commute)
      have "inj_on fst (set ?xs)" using d by (simp add: distinct_map)
      then show "fst e \<noteq> fst e' \<or> e = e'" using that(1,2) by (metis inj_onD)
      show "kv_ok (fst p)" "kv_ok (ExchangeRates (snd p))" using that(3) by simp_all
    qed
  qed
  have tb: "tally_ballots K Q band ref voteMap claims s = fold_each (ord_tally Q voteMap) ?h claims s" for Q
    using False by (simp add: tally_ballots_def bases_def rateRT_def Let_def)
  show ?thesis unfolding tb by (rule main)
qed (simp add: tally_ballots_def)

lemma count_misses_run:
  "count_misses K R n claims s =
     (Ok (), s\<lparr>MissCounters := fold (kv_update (\<lambda>e. GetMissCounterKey K (cl_Recipient (snd e))) (\<lambda>_ c. u64 (c + 1)) 0)
        (filter (\<lambda>e. cl_WinCount (snd e) \<noteq> n) (ord_miss R claims)) (MissCounters s)\<rparr>)"
proof -
  have "for_each es (\<lambda>e. on_true (cl_WinCount (snd e) \<noteq> n)
         (bnd (GetMissCounter K (cl_Recipient (snd e))) (\<lambda>n. SetMissCounter K (cl_Recipient (snd e)) (u64 (n + 1))))) s =
     (Ok (), s\<lparr>MissCounters := fold (kv_update (\<lambda>e. GetMissCounterKey K (cl_Recipient (snd e))) (\<lambda>_ c. u64 (c + 1)) 0)
        (filter (\<lambda>e. cl_WinCount (snd e) \<noteq> n) es) (MissCounters s)\<rparr>)" for es
    by (induction es arbitrary: s)
      (auto simp: seq_def bnd_def GetMissCounter_def SetMissCounter_def kv_update_def split: option.splits)
  then show ?thesis by (simp add: count_misses_def)
qed

lemma count_misses_order:
  assumes "kv_ok (MissCounters s)" "mset (ord_miss R claims) = mset claims" "mset (ord_miss R' claims) = mset claims"
  shows "count_misses K R n claims s = count_misses K R' n claims s"
proof -
  have "mset (filter (\<lambda>e. cl_WinCount (snd e) \<noteq> n) (ord_miss R claims))
      = mset (filter (\<lambda>e. cl_WinCount (snd e) \<noteq> n) (ord_miss R' claims))"
    using assms by (simp add: mset_filter)
  then show ?thesis unfolding count_misses_run by (subst fold_update_perm [OF assms(1)]) simp_all
qed

end
