(* ===== verification/Oracle_Wf.thy ===== *)
theory Oracle_Wf
  imports Oracle_Tally
begin

text \<open>
  The votes that reach the tally and the store invariant at the end of a block: the ballots are
  exactly the stored votes of the validators with a claim, every claim belongs to a validator of the
  active set, and \<open>oracle_wf\<close> survives the whole \<open>EndBlocker\<close>.
\<close>

section \<open>Claims and ballots\<close>

text \<open>Every claim is filed under the notation of its recipient.\<close>

definition claims_ok :: "('b, 'z) addr_ops_scheme \<Rightarrow> claim kv \<Rightarrow> bool" where
  "claims_ok K m \<longleftrightarrow> keyed (ValAddress_String K) (\<lambda>v c. address_ok v \<and> cl_Recipient c = v) m"

text \<open>Every vote of a ballot is from a validator that has a claim.\<close>

definition voters_in :: "('b, 'z) addr_ops_scheme \<Rightarrow> claim kv \<Rightarrow> ballot \<Rightarrow> bool" where
  "voters_in K m pb \<longleftrightarrow> (\<forall>v\<in>set pb. kv_get (ValAddress_String K (vft_Voter v)) m \<noteq> None)"

lemma voters_in_image:
  "voters_in K m pb \<longleftrightarrow> (\<forall>a\<in>vft_Voter ` set pb. kv_get (ValAddress_String K a) m \<noteq> None)"
  by (simp add: voters_in_def)

lemma ball_subset: "A \<subseteq> B \<Longrightarrow> \<forall>x\<in>B. P x \<Longrightarrow> \<forall>x\<in>A. P x"
  by blast

lemma build_claims_ok:
  assumes "staking_laws K" "build_claims K b as i m = Ok m'" "claims_ok K m"
  shows "claims_ok K m'"
  using assms(2,3)
proof (induction as arbitrary: i m)
  case (Cons a as)
  have "claims_ok K (kv_set (ValAddress_String K (v_Operator val)) (NewClaim p 0 0 (v_Operator val)) m)"
    if "Validator K b a = Some val" for val p
    using Cons.prems(2) staking_laws.Validator_operator [OF assms(1) that]
    unfolding claims_ok_def by (intro keyed_set) (auto simp: NewClaim_def)
  then show ?case using Cons by (auto split: option.splits if_splits)
qed simp

lemma credit_claim_ok:
  assumes "claims_ok K m" "kv_get (ValAddress_String K (vft_Voter v)) m \<noteq> None"
  shows "claims_ok K (credit_claim K v m)"
    and "kv_get k (credit_claim K v m) = None \<longleftrightarrow> kv_get k m = None"
proof -
  obtain c where c: "kv_get (ValAddress_String K (vft_Voter v)) m = Some c" using assms(2) by auto
  then obtain w where w: "ValAddress_String K (vft_Voter v) = ValAddress_String K w" "address_ok w" "cl_Recipient c = w"
    using keyed_get [OF assms(1) [unfolded claims_ok_def] c] by blast
  then show "claims_ok K (credit_claim K v m)"
    using assms(1) c unfolding claims_ok_def credit_claim_def Let_def by (auto intro: keyed_set)
  show "kv_get k (credit_claim K v m) = None \<longleftrightarrow> kv_get k m = None"
    using c by (simp add: credit_claim_def Let_def)
qed

lemma credit_fold_ok:
  assumes "claims_ok K m" "voters_in K m ws"
  shows "claims_ok K (fold (credit_claim K) ws m) \<and> (\<forall>k. kv_get k (fold (credit_claim K) ws m) = None \<longleftrightarrow> kv_get k m = None)"
  using assms
proof (induction ws arbitrary: m)
  case (Cons v ws)
  have v: "kv_get (ValAddress_String K (vft_Voter v)) m \<noteq> None" using Cons.prems by (simp add: voters_in_def)
  note c = credit_claim_ok [OF Cons.prems(1) v]
  have "voters_in K (credit_claim K v m) ws" using Cons.prems(2) c(2) by (simp add: voters_in_def)
  then show ?case using Cons.IH [OF c(1)] c(2) by simp
qed simp

lemma ToCrossRate_voters:
  assumes "ofold (\<lambda>vote cb. obind (cross_vote K bases vote) (\<lambda>v. Ok (cb @ [v]))) pb acc = Ok cb"
  shows "map vft_Voter cb = map vft_Voter acc @ map vft_Voter pb"
  using assms
proof (induction pb arbitrary: acc)
  case (Cons v pb)
  then obtain w where "cross_vote K bases v = Ok w" "ofold (\<lambda>vote cb. obind (cross_vote K bases vote) (\<lambda>v. Ok (cb @ [v]))) pb (acc @ [w]) = Ok cb"
    by auto
  moreover from this have "vft_Voter w = vft_Voter v"
    by (auto simp: cross_vote_def split: option.splits if_splits)
  ultimately show ?case using Cons.IH by simp
qed simp

lemma ToCrossRateWithSort_voters:
  assumes "ToCrossRateWithSort K bases pb = Ok cb"
  shows "vft_Voter ` set cb = vft_Voter ` set pb"
proof -
  obtain x where "ToCrossRate K bases pb = Ok x" "cb = ballot_sort x" using assms by (auto simp: ToCrossRateWithSort_def)
  then show ?thesis using ToCrossRate_voters [of K bases pb "[]" x] by (metis ToCrossRate_def append_Nil list.set_map list.simps(8) set_ballot_sort)
qed

lemma tally_core_voters:
  assumes "tally_core K band ref bases rateRT e = Ok (rate, ws)" "voters_in K' m (snd e)"
  shows "voters_in K' m ws"
proof -
  define r1 where "r1 = (if fst e \<noteq> ref then ToCrossRateWithSort K bases (snd e) else Ok (snd e))"
  obtain pb where pb: "r1 = Ok pb" using assms(1) by (cases r1) (auto simp: tally_core_def r1_def [symmetric])
  have "\<exists>P. ws = filter P pb"
    using assms(1) unfolding tally_core_def r1_def [symmetric] pb by (auto split: option.splits)
  then have "set ws \<subseteq> set pb" by auto
  moreover have "vft_Voter ` set pb = vft_Voter ` set (snd e)"
    using pb ToCrossRateWithSort_voters [of K bases "snd e" pb] by (auto simp: r1_def split: if_splits)
  ultimately have "vft_Voter ` set ws \<subseteq> vft_Voter ` set (snd e)" by (metis image_mono)
  then show ?thesis using assms(2) unfolding voters_in_image by (rule ball_subset)
qed

lemma tally_ballots_run:
  assumes "tally_ballots K R band ref voteMap claims s = (Ok claims', s')"
    and "set (ord_tally R voteMap) \<subseteq> set voteMap"
    and "claims_ok K claims" "\<forall>e\<in>set voteMap. voters_in K claims (snd e)" "oracle_wf K s"
  shows "claims_ok K claims' \<and> oracle_wf K s'"
proof (cases "ref = []")
  case False
  define bases where "bases = ToMap (case kv_get ref voteMap of Some b \<Rightarrow> b | None \<Rightarrow> [])"
  define rateRT where "rateRT = WeightedMedian (case kv_get ref voteMap of Some b \<Rightarrow> b | None \<Rightarrow> [])"
  let ?I = "\<lambda>c s. claims_ok K c \<and> (\<forall>k. kv_get k c = None \<longleftrightarrow> kv_get k claims = None) \<and> oracle_wf K s"
  have run: "fold_each (ord_tally R voteMap) (tally_denom K band ref bases rateRT) claims s = (Ok claims', s')"
    using assms(1) False by (simp add: tally_ballots_def bases_def rateRT_def Let_def)
  have "?I claims' s'"
  proof (rule fold_each_Ok_invariant [OF run, of ?I])
    show "?I claims s" using assms by simp
    fix e c s c' s'
    assume e: "e \<in> set (ord_tally R voteMap)" and I: "?I c s" and r: "tally_denom K band ref bases rateRT e c s = (Ok c', s')"
    obtain rate ws where core: "tally_core K band ref bases rateRT e = Ok (rate, ws)" and
      c': "c' = fold (credit_claim K) ws c" and
      s': "s' = s\<lparr>ExchangeRates := kv_set (GetExchangeRateKey (fst e)) rate (ExchangeRates s)\<rparr>"
      using r by (auto simp: tally_denom_core split: outcome.splits)
    have "voters_in K claims (snd e)" using e assms(2,4) by auto
    then have "voters_in K c (snd e)" using I by (simp add: voters_in_def)
    then have "voters_in K c ws" by (rule tally_core_voters [OF core])
    then have "claims_ok K c' \<and> (\<forall>k. kv_get k c' = None \<longleftrightarrow> kv_get k c = None)"
      unfolding c' using I by (intro credit_fold_ok) auto
    moreover have "oracle_wf K s'" using I s' by (auto simp: oracle_wf_def)
    ultimately show "?I c' s'" using I by simp
  qed
  then show ?thesis by simp
qed (use assms in \<open>simp add: tally_ballots_def\<close>)


section \<open>Collecting the ballots\<close>

definition ballot_of :: "string \<Rightarrow> ballot kv \<Rightarrow> ballot" where
  "ballot_of d m = (case kv_get d m of Some b \<Rightarrow> b | None \<Rightarrow> [])"

text \<open>The votes for the denomination \<open>d\<close> of the validators that have a claim, abstentions with zero power.\<close>

definition tuple_vote :: "string \<Rightarrow> int \<Rightarrow> rate_tuple \<Rightarrow> vote_for_tally" where
  "tuple_vote voter p t =
     \<lparr>vft_Denom = rt_Denom t, vft_ExchangeRate = rt_ExchangeRate t, vft_Voter = voter,
      vft_Power = (if rt_ExchangeRate t > 0 then p else 0)\<rparr>"

definition votes_for :: "claim kv \<Rightarrow> string \<Rightarrow> string \<times> agg_vote \<Rightarrow> ballot" where
  "votes_for claims d e =
     (case kv_get (av_Voter (snd e)) claims of
        None \<Rightarrow> []
      | Some c \<Rightarrow> map (tuple_vote (fst e) (cl_Power c)) (filter (\<lambda>t. rt_Denom t = d) (av_ExchangeRateTuples (snd e))))"

lemma ballot_of_add_vote:
  "ballot_of d (add_vote voter p t m) = ballot_of d m @ (if rt_Denom t = d then [tuple_vote voter p t] else [])"
  by (auto simp: ballot_of_def add_vote_def Let_def tuple_vote_def NewVoteForTally_def split: option.splits)

lemma ballot_of_add_votes:
  "ballot_of d (fold (add_vote voter p) ts m) = ballot_of d m @ map (tuple_vote voter p) (filter (\<lambda>t. rt_Denom t = d) ts)"
  by (induction ts arbitrary: m) (simp_all add: ballot_of_add_vote)

lemma ballot_of_handler: "ballot_of d (aggregateHandler claims e m) = ballot_of d m @ votes_for claims d e"
  by (simp add: aggregateHandler_def votes_for_def ballot_of_add_votes split: option.splits)

lemma ballot_of_fold: "ballot_of d (fold (aggregateHandler claims) es m) = ballot_of d m @ concat (map (votes_for claims d) es)"
  by (induction es arbitrary: m) (simp_all add: ballot_of_handler)

definition no_empty :: "ballot kv \<Rightarrow> bool" where
  "no_empty m \<longleftrightarrow> kv_ok m \<and> (\<forall>d. kv_get d m \<noteq> Some [])"

lemma no_empty_add_votes: "no_empty m \<Longrightarrow> no_empty (fold (add_vote voter p) ts m)"
  by (induction ts arbitrary: m) (auto simp: no_empty_def add_vote_def Let_def)

lemma no_empty_fold: "no_empty m \<Longrightarrow> no_empty (fold (aggregateHandler claims) es m)"
  by (induction es arbitrary: m) (auto simp: aggregateHandler_def no_empty_add_votes split: option.splits)

lemma kv_get_map_values: "kv_get k (map (\<lambda>(k, v). (k, f v)) m) = map_option f (kv_get k m)"
  by (induction m) auto

lemma kv_ok_map_values: "kv_ok (map (\<lambda>(k, v). (k, f v)) m) = kv_ok m"
  by (induction m) (auto simp: kv_ok_Cons)

text \<open>The votes as the iterator presents them: the address is cut out of the key.\<close>

definition vote_entries :: "('b, 'x) oracle_state_scheme \<Rightarrow> (string \<times> agg_vote) list" where
  "vote_entries s = map (\<lambda>(k, v). (drop 2 k, v)) (AggregateVotes s)"

lemma OrganizeBallotByDenom_run:
  "OrganizeBallotByDenom claims s =
     (Ok (map (\<lambda>(d, b). (d, ballot_sort b)) (fold (aggregateHandler claims) (vote_entries s) [])), s)"
  by (simp add: OrganizeBallotByDenom_def IterateAggregateExchangeRateVotes_def vote_entries_def iter_loop_collect bnd_def)

lemma Organize_get:
  assumes "OrganizeBallotByDenom claims s = (Ok voteMap, s')"
  shows "kv_get d voteMap =
    (let votes = concat (map (votes_for claims d) (vote_entries s)) in if votes = [] then None else Some (ballot_sort votes))"
    and "kv_ok voteMap" "s' = s"
proof -
  define m where "m = fold (aggregateHandler claims) (vote_entries s) []"
  have vm: "voteMap = map (\<lambda>(d, b). (d, ballot_sort b)) m" and "s' = s"
    using assms by (auto simp: OrganizeBallotByDenom_run m_def)
  then show "s' = s" by simp
  have ne: "no_empty m" unfolding m_def by (rule no_empty_fold) (simp add: no_empty_def)
  then show "kv_ok voteMap" by (simp add: vm kv_ok_map_values no_empty_def)
  define vs where "vs = concat (map (votes_for claims d) (vote_entries s))"
  have "ballot_of d m = vs"
    unfolding m_def vs_def ballot_of_fold by (simp add: ballot_of_def)
  then show "kv_get d voteMap =
    (let votes = concat (map (votes_for claims d) (vote_entries s)) in if votes = [] then None else Some (ballot_sort votes))"
    unfolding vs_def [symmetric] using ne by (auto simp: vm kv_get_map_values no_empty_def ballot_of_def Let_def split: option.splits)
qed

lemma drop_key [simp]:
  "addr_laws K \<Longrightarrow> address_ok v \<Longrightarrow> drop 2 (GetAggregateExchangeRateVoteKey K v) = v"
  "addr_laws K \<Longrightarrow> address_ok v \<Longrightarrow> drop 2 (GetAggregateExchangeRatePrevoteKey K v) = v"
  "addr_laws K \<Longrightarrow> address_ok v \<Longrightarrow> drop 2 (GetMissCounterKey K v) = v"
  "addr_laws K \<Longrightarrow> address_ok v \<Longrightarrow> drop 2 (GetFeederDelegationKey K v) = v"
  by (simp_all add: oracle_key_defs addr_laws.LengthPrefix_eq address_ok_length)

lemma vote_entries_wf:
  assumes "addr_laws K" "oracle_wf K s" "e \<in> set (vote_entries s)"
  shows "address_ok (fst e)" "av_Voter (snd e) = ValAddress_String K (fst e)"
    "distinct (map rt_Denom (av_ExchangeRateTuples (snd e)))"
proof -
  obtain k x where kx: "(k, x) \<in> set (AggregateVotes s)" "e = (drop 2 k, x)"
    using assms(3) by (auto simp: vote_entries_def)
  then obtain v where "k = GetAggregateExchangeRateVoteKey K v" "address_ok v" "av_Voter x = ValAddress_String K v"
    "distinct (map rt_Denom (av_ExchangeRateTuples x))"
    using assms(2) unfolding oracle_wf_def keyed_def by blast
  then show "address_ok (fst e)" "av_Voter (snd e) = ValAddress_String K (fst e)"
    "distinct (map rt_Denom (av_ExchangeRateTuples (snd e)))"
    using kx(2) assms(1) by simp_all
qed

lemma Organize_voters:
  assumes "addr_laws K" "oracle_wf K s" "OrganizeBallotByDenom claims s = (Ok voteMap, s')"
  shows "\<forall>e\<in>set voteMap. voters_in K claims (snd e)"
proof
  fix e assume "e \<in> set voteMap"
  then have "kv_get (fst e) voteMap = Some (snd e)"
    using kvs.in_entries [OF Organize_get(2) [OF assms(3)], of "fst e" "snd e"] by simp
  then have "snd e = ballot_sort (concat (map (votes_for claims (fst e)) (vote_entries s)))"
    using Organize_get(1) [OF assms(3), of "fst e"] unfolding Let_def by (metis option.distinct(1) option.inject)
  then have "set (snd e) = set (concat (map (votes_for claims (fst e)) (vote_entries s)))"
    by (metis set_ballot_sort)
  moreover have "kv_get (ValAddress_String K (vft_Voter v)) claims \<noteq> None"
    if "x \<in> set (vote_entries s)" "v \<in> set (votes_for claims (fst e) x)" for x v
    using that vote_entries_wf(2) [OF assms(1,2) that(1)]
    by (cases "kv_get (av_Voter (snd x)) claims") (auto simp: votes_for_def tuple_vote_def)
  ultimately show "voters_in K claims (snd e)" by (auto simp: voters_in_def)
qed


section \<open>The store invariant at the end of a block\<close>

lemma keeps_wf_clear_rates [keeps_intros]: "keeps (oracle_wf K) clear_rates"
proof -
  have "keeps (oracle_wf K) (iter_loop es (\<lambda>(denom, _) _. seq (DeleteLunaExchangeRate denom) (ret ((), False))) ())" for es :: "(string \<times> dec) list"
    by (induction es) (auto intro!: keeps_intros split: prod.splits)
  then show ?thesis unfolding clear_rates_def IterateLunaExchangeRates_def by (intro keeps_bnd keeps_gets)
qed

lemma keeps_iter_loop [keeps_intros]: "(\<And>x c. keeps I (h x c)) \<Longrightarrow> keeps I (iter_loop xs h c)"
  by (induction xs arbitrary: c) (auto intro!: keeps_intros)

lemma keeps_wf_ClearBallots [keeps_intros]: "keeps (oracle_wf K) (ClearBallots K p)"
  unfolding ClearBallots_def IterateAggregateExchangeRatePrevotes_def IterateAggregateExchangeRateVotes_def
  by (auto intro!: keeps_intros split: prod.splits)

lemma keeps_wf_ApplyWhitelist [keeps_intros]: "keeps (oracle_wf K) (ApplyWhitelist K w t)"
  unfolding ApplyWhitelist_def by (auto intro!: keeps_intros split: option.splits)

lemma keeps_wf_Reward [keeps_intros]: "keeps (oracle_wf K) (RewardBallotWinners K R p w t c)"
  unfolding RewardBallotWinners_def period_rewards_def reward_winner_def GetRewardPool_def Let_def
  by (auto intro!: keeps_intros split: option.splits)

lemma keeps_wf_Slash [keeps_intros]: "keeps (oracle_wf K) (SlashAndResetMissCounters K)"
  unfolding SlashAndResetMissCounters_def slash_operator_def IterateMissCounters_def slash_handler_def
    oracle_SlashWindow_def oracle_VotePeriod_def oracle_MinValidPerWindow_def oracle_SlashFraction_def
  by (auto intro!: keeps_intros split: option.splits prod.splits)

lemma count_misses_wf:
  assumes "claims_ok K claims" "set (ord_miss R claims) \<subseteq> set claims"
  shows "keeps (oracle_wf K) (count_misses K R n claims)"
proof -
  have "address_ok (cl_Recipient (snd e))" if "e \<in> set (ord_miss R claims)" for e
    using that assms by (auto simp: claims_ok_def keyed_def case_prod_unfold)
  then show ?thesis unfolding count_misses_def by (auto intro!: keeps_intros)
qed

text \<open>The order of every \<open>range\<close> statement is a permutation of the map.\<close>

definition orders_ok :: "range_orders \<Rightarrow> bool" where
  "orders_ok R \<longleftrightarrow>
     (\<forall>m. mset (ord_pick R m) = mset m) \<and> (\<forall>m. mset (ord_tally R m) = mset m) \<and>
     (\<forall>m. mset (ord_miss R m) = mset m) \<and> (\<forall>m. mset (ord_targets R m) = mset m) \<and>
     (\<forall>m. mset (ord_sum R m) = mset m) \<and> (\<forall>m. mset (ord_reward R m) = mset m)"

lemma pick_votes_sub:
  assumes "PickReferenceTerra K R T V s = (Ok p, s')"
  shows "set (pk_votes p) \<subseteq> set V" "s' = s"
proof -
  have "set (pk_votes (fold (pick_step th) es q)) \<subseteq> set (pk_votes q)" for th es q
  proof (induction es arbitrary: q)
    case (Cons e es)
    have "set (pk_votes (pick_step th e q)) \<subseteq> set (pk_votes q)"
      using set_kv_delete by (auto simp: pick_step_def Let_def)
    then show ?case using Cons.IH [of "pick_step th e q"] by simp
  qed simp
  from this [of _ _ "pick_init T V"] show "set (pk_votes p) \<subseteq> set V"
    using assms by (auto simp: PickReferenceTerra_run pick_init_def)
  show "s' = s" using assms by (auto simp: PickReferenceTerra_run)
qed

lemma keeps_wf_tally [keeps_intros]: "keeps (oracle_wf K) (tally_ballots K R band ref voteMap claims)"
  unfolding tally_ballots_def tally_denom_def Let_def by (auto intro!: keeps_intros split: prod.splits)

lemma end_vote_period_wf:
  assumes "staking_laws K" "orders_ok R" "oracle_wf K s"
  shows "oracle_wf K (snd (end_vote_period K R params s))"
proof -
  have A: "addr_laws K" using assms(1) by (rule staking_laws.axioms(1))
  have main: "oracle_wf K (snd (bnd (tally_ballots K R band ref votes claims0) (\<lambda>claims.
     seq (count_misses K R n claims)
     (seq (RewardBallotWinners K R p w t claims) (seq (ClearBallots K q) (ApplyWhitelist K l t)))) s2))"
    if "oracle_wf K s2" "claims_ok K claims0" "\<forall>e\<in>set votes. voters_in K claims0 (snd e)" for band ref votes claims0 n p w t q l s2
  proof (rule bnd_snd)
    show "oracle_wf K (snd (tally_ballots K R band ref votes claims0 s2))"
      using keepsD [OF keeps_wf_tally that(1)] .
    fix claims s5 assume r: "tally_ballots K R band ref votes claims0 s2 = (Ok claims, s5)"
    have "set (ord_tally R votes) \<subseteq> set votes" using assms(2) mset_eq_setD by (fastforce simp: orders_ok_def)
    then have w5: "claims_ok K claims" "oracle_wf K s5" using tally_ballots_run [OF r _ that(2,3,1)] by auto
    have "set (ord_miss R claims) \<subseteq> set claims" using assms(2) mset_eq_setD by (fastforce simp: orders_ok_def)
    then have c: "keeps (oracle_wf K) (count_misses K R n claims)" by (rule count_misses_wf [OF w5(1)])
    show "oracle_wf K (snd (seq (count_misses K R n claims)
       (seq (RewardBallotWinners K R p w t claims) (seq (ClearBallots K q) (ApplyWhitelist K l t))) s5))"
      by (rule keepsD [where I = "oracle_wf K"], intro keeps_intros c) (rule w5(2))
  qed
  have read: "IterateTobinTaxes (\<lambda>(denom, tobinTax) m. ret (kv_set denom tobinTax m, False)) [] s = (Ok T, s1) \<Longrightarrow> s1 = s" for T s1
    by (simp add: IterateTobinTaxes_def iter_loop_collect case_prod_unfold)
  define rest where "rest claims0 p = (bnd (tally_ballots K R (op_RewardBand params) (pk_reference p) (pk_votes p) claims0) (\<lambda>claims.
     seq (count_misses K R (int (length (pk_targets p))) claims)
     (seq (RewardBallotWinners K R (i64 (op_VotePeriod params)) (i64 (op_RewardDistributionWindow params)) (pk_targets p) claims)
     (seq (ClearBallots K (op_VotePeriod params)) (ApplyWhitelist K (op_Whitelist params) (pk_targets p)))))
     :: (('a, 'c) oracle_state_scheme, unit) go)" for claims0 and p :: pick_vars
  show ?thesis
    unfolding end_vote_period_def bnd_gets rest_def [symmetric]
  proof (intro bnd_snd [where I = "oracle_wf K"] seq_snd [where I = "oracle_wf K"], goal_cases)
    case (2 claims0 s0)
    then show ?case using assms(3) by (simp add: IterateTobinTaxes_def iter_loop_collect case_prod_unfold)
  next
    case (3 claims0 s0 T s1)
    then show ?case using keepsD [OF keeps_wf_clear_rates, of K s] assms(3) read by auto
  next
    case (4 claims0 s0 T s1 s2)
    then have "oracle_wf K s2" using keeps_run [OF keeps_wf_clear_rates, of K s] assms(3) read by auto
    then show ?case by (simp add: OrganizeBallotByDenom_run)
  next
    case (5 claims0 s0 T s1 s2 V s3)
    then have "oracle_wf K s3" using keeps_run [OF keeps_wf_clear_rates, of K s] assms(3) read Organize_get(3) by auto
    then show ?case by (auto simp: PickReferenceTerra_def oracle_VoteThreshold_def bnd_def Let_def split: outcome.splits)
  next
    case (6 claims0 s0 T s1 s2 V s3 p s4)
    then have w: "oracle_wf K s2" using keeps_run [OF keeps_wf_clear_rates, of K s] assms(3) read by auto
    have "build_claims K (ext s) (ValidatorsPowerStore K (ext s)) 0 [] = Ok claims0" using 6(1) by auto
    then have c0: "claims_ok K claims0" using build_claims_ok [OF assms(1)] by (simp add: claims_ok_def)
    have "\<forall>e\<in>set (pk_votes p). voters_in K claims0 (snd e)"
      using Organize_voters [OF A w 6(4)] pick_votes_sub(1) [OF 6(5)] by blast
    then have "oracle_wf K (snd (rest claims0 p s2))" unfolding rest_def by (intro main w c0)
    then show ?case using Organize_get(3) [OF 6(4)] pick_votes_sub(2) [OF 6(5)] by simp
  qed (use assms(3) in simp_all)
qed

lemma EndBlocker_wf:
  assumes "staking_laws K" "orders_ok R" "oracle_wf K s"
  shows "oracle_wf K (snd (oracle_EndBlocker K R s))"
  unfolding oracle_EndBlocker_def oracle_GetParams_def bnd_gets
proof (intro bnd_snd [where I = "oracle_wf K"] seq_snd [where I = "oracle_wf K"], goal_cases)
  case (2 voteEnd s0)
  then show ?case using end_vote_period_wf [OF assms] assms(3) by auto
next
  case (3 voteEnd s0 s1)
  then have "s0 = s" by auto
  then have "oracle_wf K s1"
    using 3(2) end_vote_period_wf [OF assms, of "o_params s"] assms(3) by (auto split: if_splits)
  then show ?case by simp
next
  case (4 voteEnd s0 s1 slashEnd s2)
  then have "s0 = s" "s2 = s1" by auto
  then have "oracle_wf K s1"
    using 4(2) end_vote_period_wf [OF assms, of "o_params s"] assms(3) by (auto split: if_splits)
  then show ?case using keepsD [OF keeps_wf_Slash, of K s1] \<open>s2 = s1\<close> by simp
qed (use assms(3) in simp)

section \<open>The module as a transition system\<close>

text \<open>
  One step of the chain as the oracle module sees it: a message of its own, the end of a block, the
  beginning of the next one, or any activity of the other modules.
\<close>

inductive oracle_step ::
  "('b, 'z) staking_ops_scheme \<Rightarrow> ('b, 'x) oracle_state_scheme \<Rightarrow> ('b, 'x) oracle_state_scheme \<Rightarrow> bool"
  for K :: "('b, 'z) staking_ops_scheme" where
  step_prevote: "oracle_step K s (snd (AggregateExchangeRatePrevote K pm s))"
| step_vote: "oracle_step K s (snd (AggregateExchangeRateVote K vm s))"
| step_delegate: "oracle_step K s (snd (DelegateFeedConsent K dm s))"
| step_end_block: "orders_ok R \<Longrightarrow> oracle_step K s (snd (oracle_EndBlocker K R s))"
| step_params: "oracle_step K s (snd (oracle_SetParams p s))"
| step_begin_block: "oracle_step K s (s\<lparr>BlockHeight := BlockHeight s + 1\<rparr>)"
| step_other: "oracle_step K s (s\<lparr>ext := b\<rparr>)"

inductive_cases oracle_stepE: "oracle_step K s s'"

inductive oracle_reachable ::
  "('b, 'z) staking_ops_scheme \<Rightarrow> ('b, 'x) oracle_state_scheme \<Rightarrow> ('b, 'x) oracle_state_scheme \<Rightarrow> bool"
  for K :: "('b, 'z) staking_ops_scheme" and s0 :: "('b, 'x) oracle_state_scheme" where
  reach_init: "oracle_reachable K s0 s0"
| reach_step: "oracle_reachable K s0 s \<Longrightarrow> oracle_step K s s' \<Longrightarrow> oracle_reachable K s0 s'"

lemma oracle_wf_height [simp]: "oracle_wf K (s\<lparr>BlockHeight := h\<rparr>) = oracle_wf K s"
  by (simp add: oracle_wf_def)

lemma oracle_step_wf:
  assumes "staking_laws K" "oracle_step K s s'" "oracle_wf K s"
  shows "oracle_wf K s'"
proof -
  have A: "addr_laws K" using assms(1) by (rule staking_laws.axioms(1))
  show ?thesis using assms(2)
  proof cases
    case (step_end_block R)
    then show ?thesis using EndBlocker_wf [OF assms(1) _ assms(3)] by simp
  qed (use assms(3) keepsD [OF keeps_wf_params(1)] keepsD [OF keeps_wf_Prevote [OF A]] keepsD [OF keeps_wf_Vote [OF A]]
      keepsD [OF keeps_wf_Delegate [OF A]] in simp_all)
qed

text \<open>C2. Store integrity. From a well-formed state every sequence of votes, prevotes, delegations,
  parameter changes and ends of blocks, on success and on every error or panic path, leads to
  well-formed states: each key is built from an address of 20 or 32 bytes or from a denomination, each vote names its
  voter and every denomination at most once, and the counters fit their width.\<close>

theorem oracle_reachable_wf:
  assumes "staking_laws K" "oracle_wf K s0" "oracle_reachable K s0 s"
  shows "oracle_wf K s"
  using assms(3) by induction (use assms(1,2) oracle_step_wf in blast)+

end
