(* ===== verification/Oracle_Slash.thy ===== *)
theory Oracle_Slash
  imports Oracle_Wf
begin

text \<open>
  The slash window (\<open>keeper/slash.go\<close>): the decision to slash an operator and the reset of the
  miss counters.
\<close>

section \<open>Slashing\<close>

text \<open>The vote rate of an operator that missed no more periods than the window has.\<close>

lemma valid_vote_rate_eq:
  assumes "dec_laws K" "0 < n" "n < 2 ^ 63" "0 \<le> m" "m \<le> n"
  shows "valid_vote_rate K n m = Ok ((n - m) * OneDec div n)"
proof -
  have "in_u64 (n - m)" "in_i64 (n - m)" "in_i64 n" using assms by (auto simp: in_u64_def in_i64_def)
  then show ?thesis
    using assms dec_laws.QuoInt_eq [OF assms(1), of n] by (simp add: valid_vote_rate_def NewDec_def go_quot_nonneg)
qed

text \<open>C39. An operator that missed \<open>m\<close> of the \<open>n\<close> vote periods of a window is below the threshold exactly
  when its share of valid votes is, with no rounding error: the division is exact enough for the
  comparison.\<close>

theorem slash_decision:
  assumes "dec_laws K" "0 < n" "n < 2 ^ 63" "0 \<le> m" "m \<le> n"
  shows "\<exists>r. valid_vote_rate K n m = Ok r \<and> (r < minValidPerWindow \<longleftrightarrow> (n - m) * OneDec < minValidPerWindow * n)"
  using valid_vote_rate_eq [OF assms] div_less_iff [OF assms(2)] by simp

lemma slash_operator_miss:
  "slash_operator K h f r operator s = (Ok (), s') \<Longrightarrow> MissCounters s' = MissCounters s"
  by (auto simp: slash_operator_def bnd_run_iff_Ok seq_run_iff_Ok must_def sdk_call_run
      split: option.splits if_splits outcome.splits prod.splits)

lemma slash_loop_miss:
  assumes "iter_loop es (slash_handler K n minv h f r) () s = (Ok (), s')"
  shows "MissCounters s' = fold kv_delete (map (\<lambda>e. GetMissCounterKey K (fst e)) es) (MissCounters s)"
  using assms
proof (induction es arbitrary: s)
  case (Cons e es)
  obtain s0 p where 0: "slash_handler K n minv h f r e () s = (Ok p, s0)"
    and 2: "(if snd p then ret (fst p) else iter_loop es (slash_handler K n minv h f r) (fst p)) s0 = (Ok (), s')"
    using Cons.prems by (auto simp only: iter_loop.simps bnd_run_iff_Ok)
  obtain s1 rate where 1: "on_true (rate < minv) (slash_operator K h f r (fst e)) s = (Ok (), s1)"
    and s0: "s0 = s1\<lparr>MissCounters := kv_delete (GetMissCounterKey K (fst e)) (MissCounters s1)\<rparr>" "p = ((), False)"
    using 0 unfolding slash_handler_def bnd_lift_Ok seq_run_iff_Ok DeleteMissCounter_def by auto
  have "MissCounters s1 = MissCounters s" using 1 slash_operator_miss by (auto split: if_splits)
  then show ?case using Cons.IH [of s0] 2 s0 by simp
qed simp

text \<open>The end of a slash window resets the miss counter of every validator.\<close>

lemma SlashAndResetMissCounters_resets:
  assumes "addr_laws K" "oracle_wf K s" "SlashAndResetMissCounters K s = (Ok (), s')"
  shows "MissCounters s' = []"
proof -
  obtain n minv h f r where
    "iter_loop (map (\<lambda>(k, v). (drop 2 k, v)) (MissCounters s)) (slash_handler K n minv h f r) () s = (Ok (), s')"
    using assms(3) unfolding SlashAndResetMissCounters_def IterateMissCounters_def
      oracle_SlashWindow_def oracle_VotePeriod_def oracle_MinValidPerWindow_def oracle_SlashFraction_def
      bnd_gets bnd_lift_Ok by blast
  from slash_loop_miss [OF this]
  have "MissCounters s' = fold kv_delete (map (\<lambda>e. GetMissCounterKey K (drop 2 (fst e))) (MissCounters s)) (MissCounters s)"
    by (simp add: case_prod_unfold comp_def)
  moreover have "map (\<lambda>e. GetMissCounterKey K (drop 2 (fst e))) (MissCounters s) = map fst (MissCounters s)"
    using assms(1,2) by (auto simp: oracle_wf_def keyed_def)
  moreover have "kv_ok (MissCounters s)" using assms(2) keyed_ok by (auto simp: oracle_wf_def)
  ultimately show ?thesis using fold_delete_self by simp
qed

end
