(* ===== verification/Oracle_Votes.thy ===== *)
theory Oracle_Votes
  imports Oracle_Wf
begin

text \<open>
  Votes from the prevote to the miss counter: the commit and reveal protocol of
  \<open>keeper/msg_server.go\<close>, the ballots of \<open>keeper/ballot.go\<close>, the winners of \<open>tally.go\<close> and the miss
  counters of \<open>abci.go\<close>.
\<close>

section \<open>Commit and reveal\<close>

lemma reveal_next_period:
  assumes "0 < P" "0 \<le> h" "h < 2 ^ 63" "h' div P = h div P + 1" "0 \<le> h'" "h' < 2 ^ 63"
  shows "reveal_period_ok h' (u64 h) P = Ok True"
proof -
  have "u64 h = h" "u64 h' = h'" using assms by (auto simp: u64_def)
  then show ?thesis using assms by (simp add: reveal_period_ok_def u64_def)
qed

text \<open>C4. Commit and reveal. A prevote that commits to a vote, followed in the next vote period by
  the vote that it commits to, from a feeder that is still entitled and on denominations that are still
  vote targets, is accepted: the vote is stored under the validator, the prevote is consumed, and
  sending the same vote again is refused.\<close>

theorem commit_then_reveal:
  assumes "AggregateExchangeRatePrevote K commit s = (Ok (), s1)"
    and "ValAddressFromBech32 K (mp_Validator commit) = Ok valAddr"
    and "mv_Validator vote = mp_Validator commit" "AccAddressFromBech32 K (mv_Feeder vote) = Ok feederAddr"
    and "AggregateVoteHashFromHexString (mp_Hash commit) =
           Ok (GetAggregateVoteHash K (mv_Salt vote) (mv_ExchangeRates vote) valAddr)"
    and "ParseExchangeRateTuples K (mv_ExchangeRates vote) = Ok tuples"
    and "0 \<le> BlockHeight s" "BlockHeight s \<le> BlockHeight s2" "BlockHeight s2 < 2 ^ 63" "0 < op_VotePeriod (o_params s2)"
    and "BlockHeight s2 div op_VotePeriod (o_params s2) = BlockHeight s div op_VotePeriod (o_params s2) + 1"
    and "AggregatePrevotes s2 = AggregatePrevotes s1"  "kv_ok (AggregatePrevotes s2)"
    and "feederAddr = valAddr \<or> kv_get (GetFeederDelegationKey K valAddr) (FeederDelegations s2) = Some feederAddr"
    and "Validator K (ext s2) valAddr = Some val" "v_IsBonded val"
    and "\<forall>t\<in>set tuples. kv_get (GetTobinTaxKey (rt_Denom t)) (TobinTaxes s2) \<noteq> None"
  shows "\<exists>s3. AggregateExchangeRateVote K vote s2 = (Ok (), s3)
    \<and> GetAggregateExchangeRateVote K valAddr s3 = (Ok (NewAggregateExchangeRateVote K tuples valAddr), s3)
    \<and> AggregateExchangeRateVote K vote s3 = (Err ErrNoAggregatePrevote, s3)"
proof -
  define pv where "pv = NewAggregateExchangeRatePrevote K
      (GetAggregateVoteHash K (mv_Salt vote) (mv_ExchangeRates vote) valAddr) valAddr (u64 (BlockHeight s))"
  have s1: "AggregatePrevotes s1 = kv_set (GetAggregateExchangeRatePrevoteKey K valAddr) pv (AggregatePrevotes s)"
    using assms(1) unfolding AggregateExchangeRatePrevote_def bnd_lift_Ok seq_feeder_Ok bnd_gets
      SetAggregateExchangeRatePrevote_def modify_run wrap_err_eq_Ok assms(2,5) pv_def by auto
  define s3 where "s3 = s2\<lparr>AggregateVotes :=
      kv_set (GetAggregateExchangeRateVoteKey K valAddr) (NewAggregateExchangeRateVote K tuples valAddr) (AggregateVotes s2),
    AggregatePrevotes := kv_delete (GetAggregateExchangeRatePrevoteKey K valAddr) (AggregatePrevotes s2)\<rparr>"
  have "reveal_period_ok (BlockHeight s2) (pv_SubmitBlock pv) (op_VotePeriod (o_params s2)) = Ok True"
    using reveal_next_period [of "op_VotePeriod (o_params s2)" "BlockHeight s" "BlockHeight s2"] assms(7-11)
    by (simp add: pv_def NewAggregateExchangeRatePrevote_def)
  then have "reveal_accepted K vote valAddr feederAddr pv tuples s2"
    using assms(2-4,6,12,14-17) s1
    by (simp add: reveal_accepted_def pv_def NewAggregateExchangeRatePrevote_def)
  then have run: "AggregateExchangeRateVote K vote s2 = (Ok (), s3)"
    unfolding AggregateExchangeRateVote_run s3_def by blast
  have "kv_get (GetAggregateExchangeRatePrevoteKey K valAddr) (AggregatePrevotes s3) = None"
    using assms(13) by (simp add: s3_def kv_get_delete)
  moreover have "ValidateFeeder K feederAddr valAddr s3 = (Ok (), s3)"
    using assms(14-16) by (simp add: ValidateFeeder_run s3_def)
  ultimately have "AggregateExchangeRateVote K vote s3 = (Err ErrNoAggregatePrevote, s3)"
    using assms(2-4)
    by (simp add: AggregateExchangeRateVote_def seq_run oracle_GetParams_def GetAggregateExchangeRatePrevote_def bnd_def)
  then show ?thesis using run by (auto simp: s3_def GetAggregateExchangeRateVote_def)
qed

section \<open>Ballots\<close>

text \<open>C23. The ballots of a period. Collecting the votes always succeeds, leaves the state alone, and
  gives for each denomination the sorted list of exactly the votes that validators with a claim cast on it,
  with the power of the claim, or zero for an abstention; a denomination without a vote has no ballot.\<close>

theorem OrganizeBallotByDenom_spec:
  "\<exists>voteMap. OrganizeBallotByDenom claims s = (Ok voteMap, s) \<and> kv_ok voteMap \<and>
    (\<forall>d. kv_get d voteMap = (let votes = concat (map (votes_for claims d) (vote_entries s))
                             in if votes = [] then None else Some (ballot_sort votes)))"
  using Organize_get [OF OrganizeBallotByDenom_run] OrganizeBallotByDenom_run by blast

lemma MissKey_inj:
  "addr_laws K \<Longrightarrow> address_ok v \<Longrightarrow> address_ok w \<Longrightarrow> GetMissCounterKey K v = GetMissCounterKey K w \<longleftrightarrow> v = w"
  by (simp add: oracle_key_defs addr_laws.LengthPrefix_inj)


section \<open>Winners\<close>


end
