(* ===== verification/Oracle_Genesis.thy ===== *)
theory Oracle_Genesis
  imports Oracle_Wf
begin

text \<open>
  \<open>x/oracle/genesis.go\<close> and \<open>types/genesis.go\<close>: export and import of the module's state.
\<close>

record oracle_genesis =
  og_Params :: oracle_params
  og_ExchangeRates :: "rate_tuple list"
  og_FeederDelegations :: "(string \<times> string) list"   \<comment> \<open>feeder, validator\<close>
  og_MissCounters :: "(string \<times> int) list"
  og_Prevotes :: "agg_prevote list"
  og_Votes :: "agg_vote list"
  og_TobinTaxes :: "denom_tax list"

definition oracle_DefaultGenesisState :: oracle_genesis where
  "oracle_DefaultGenesisState = \<lparr>og_Params = oracle_DefaultParams, og_ExchangeRates = [],
     og_FeederDelegations = [], og_MissCounters = [], og_Prevotes = [], og_Votes = [], og_TobinTaxes = []\<rparr>"

definition oracle_ValidateGenesis :: "oracle_genesis \<Rightarrow> unit outcome" where
  "oracle_ValidateGenesis data = oracle_Params_Validate (og_Params data)"

text \<open>An address that does not parse panics.\<close>

definition oracle_InitGenesis ::
  "('b, 'z) addr_ops_scheme \<Rightarrow> oracle_genesis \<Rightarrow> (('b, 'x) oracle_state_scheme, unit) go" where
  "oracle_InitGenesis K data =
     seq (for_each (og_FeederDelegations data) (\<lambda>(feederAddress, validatorAddress).
            bnd (must (lift (ValAddressFromBech32 K validatorAddress))) (\<lambda>voter.
            bnd (must (lift (AccAddressFromBech32 K feederAddress))) (\<lambda>feeder.
            SetFeederDelegation K voter feeder))))
     (seq (for_each (og_ExchangeRates data) (\<lambda>ex. SetLunaExchangeRate (rt_Denom ex) (rt_ExchangeRate ex)))
     (seq (for_each (og_MissCounters data) (\<lambda>(validatorAddress, missCounter).
            bnd (must (lift (ValAddressFromBech32 K validatorAddress))) (\<lambda>operator.
            SetMissCounter K operator missCounter)))
     (seq (for_each (og_Prevotes data) (\<lambda>ap.
            bnd (must (lift (ValAddressFromBech32 K (pv_Voter ap)))) (\<lambda>valAddr.
            SetAggregateExchangeRatePrevote K valAddr ap)))
     (seq (for_each (og_Votes data) (\<lambda>av.
            bnd (must (lift (ValAddressFromBech32 K (av_Voter av)))) (\<lambda>valAddr.
            SetAggregateExchangeRateVote K valAddr av)))
     (seq (if og_TobinTaxes data \<noteq> []
           then for_each (og_TobinTaxes data) (\<lambda>tt. SetTobinTax (dt_Name tt) (dt_TobinTax tt))
           else for_each (op_Whitelist (og_Params data)) (\<lambda>item. SetTobinTax (dt_Name item) (dt_TobinTax item)))
     (seq (oracle_SetParams (og_Params data))
     (bnd (sdk_call (GetModuleAccount K oracle_ModuleName)) (\<lambda>ok. if ok then ret () else panic))))))))"

definition oracle_ExportGenesis ::
  "('b, 'z) addr_ops_scheme \<Rightarrow> (('b, 'x) oracle_state_scheme, oracle_genesis) go" where
  "oracle_ExportGenesis K =
     bnd oracle_GetParams (\<lambda>params.
     bnd (IterateFeederDelegations (\<lambda>(valAddr, feederAddr) l.
            ret (l @ [(AccAddress_String K feederAddr, ValAddress_String K valAddr)], False)) []) (\<lambda>feederDelegations.
     bnd (IterateLunaExchangeRates (\<lambda>(denom, rate) l.
            ret (l @ [\<lparr>rt_Denom = denom, rt_ExchangeRate = rate\<rparr>], False)) []) (\<lambda>exchangeRates.
     bnd (IterateMissCounters (\<lambda>(operator, missCounter) l.
            ret (l @ [(ValAddress_String K operator, missCounter)], False)) []) (\<lambda>missCounters.
     bnd (IterateAggregateExchangeRatePrevotes (\<lambda>(_, p) l. ret (l @ [p], False)) []) (\<lambda>prevotes.
     bnd (IterateAggregateExchangeRateVotes (\<lambda>(_, v) l. ret (l @ [v], False)) []) (\<lambda>votes.
     bnd (IterateTobinTaxes (\<lambda>(denom, tobinTax) l.
            ret (l @ [\<lparr>dt_Name = denom, dt_TobinTax = tobinTax\<rparr>], False)) []) (\<lambda>tobinTaxes.
     ret \<lparr>og_Params = params, og_ExchangeRates = exchangeRates, og_FeederDelegations = feederDelegations,
          og_MissCounters = missCounters, og_Prevotes = prevotes, og_Votes = votes,
          og_TobinTaxes = tobinTaxes\<rparr>)))))))"

text \<open>What is exported is the image of the stores.\<close>

lemma ExportGenesis_run:
  "oracle_ExportGenesis K s = (Ok \<lparr>
     og_Params = o_params s,
     og_ExchangeRates = map (\<lambda>e. \<lparr>rt_Denom = drop 1 (fst e), rt_ExchangeRate = snd e\<rparr>) (ExchangeRates s),
     og_FeederDelegations = map (\<lambda>e. (AccAddress_String K (snd e), ValAddress_String K (drop 2 (fst e)))) (FeederDelegations s),
     og_MissCounters = map (\<lambda>e. (ValAddress_String K (drop 2 (fst e)), snd e)) (MissCounters s),
     og_Prevotes = map snd (AggregatePrevotes s),
     og_Votes = map snd (AggregateVotes s),
     og_TobinTaxes = map (\<lambda>e. \<lparr>dt_Name = drop 1 (fst e), dt_TobinTax = snd e\<rparr>) (TobinTaxes s)\<rparr>, s)"
  unfolding oracle_ExportGenesis_def oracle_GetParams_def IterateFeederDelegations_def IterateLunaExchangeRates_def
    IterateMissCounters_def IterateAggregateExchangeRatePrevotes_def IterateAggregateExchangeRateVotes_def
    IterateTobinTaxes_def
  by (simp add: case_prod_unfold iter_loop_collect fold_snoc comp_def oracle_key_defs bnd_def)

lemma import_feeders:
  assumes "addr_laws K" "keyed (GetFeederDelegationKey K) (\<lambda>v a. address_ok v \<and> address_ok a) m"
  shows "for_each (map (\<lambda>e. (AccAddress_String K (snd e), ValAddress_String K (drop 2 (fst e)))) m) (\<lambda>(feederAddress, validatorAddress).
            bnd (must (lift (ValAddressFromBech32 K validatorAddress))) (\<lambda>voter.
            bnd (must (lift (AccAddressFromBech32 K feederAddress))) (\<lambda>feeder.
            SetFeederDelegation K voter feeder))) s
      = (Ok (), s\<lparr>FeederDelegations := fold (\<lambda>(k, v). kv_set k v) m (FeederDelegations s)\<rparr>)"
proof -
  have "\<forall>e\<in>set m. \<exists>v. fst e = GetFeederDelegationKey K v \<and> address_ok v \<and> address_ok (snd e)"
    using keyed_entry [OF assms(2)] by blast
  then show ?thesis
  proof (induction m arbitrary: s)
    case (Cons e m)
    then obtain v where v: "fst e = GetFeederDelegationKey K v" "address_ok v" "address_ok (snd e)" by auto
    then have "SetFeederDelegation K v (snd e) s = (Ok (), s\<lparr>FeederDelegations := kv_set (fst e) (snd e) (FeederDelegations s)\<rparr>)"
      by (simp add: SetFeederDelegation_def)
    then show ?case
      using Cons v assms(1) addr_laws.ValAddress_roundtrip [OF assms(1)] addr_laws.AccAddress_roundtrip [OF assms(1)]
      by (simp add: seq_run case_prod_unfold)
  qed simp
qed

lemma import_misses:
  assumes "addr_laws K" "keyed (GetMissCounterKey K) (\<lambda>v n. address_ok v \<and> in_u64 n) m"
  shows "for_each (map (\<lambda>e. (ValAddress_String K (drop 2 (fst e)), snd e)) m) (\<lambda>(validatorAddress, missCounter).
            bnd (must (lift (ValAddressFromBech32 K validatorAddress))) (\<lambda>operator.
            SetMissCounter K operator missCounter)) s
      = (Ok (), s\<lparr>MissCounters := fold (\<lambda>(k, v). kv_set k v) m (MissCounters s)\<rparr>)"
proof -
  have "\<forall>e\<in>set m. \<exists>v. fst e = GetMissCounterKey K v \<and> address_ok v"
    using keyed_entry [OF assms(2)] by blast
  then show ?thesis
  proof (induction m arbitrary: s)
    case (Cons e m)
    then obtain v where v: "fst e = GetMissCounterKey K v" "address_ok v" by auto
    then have "SetMissCounter K v (snd e) s = (Ok (), s\<lparr>MissCounters := kv_set (fst e) (snd e) (MissCounters s)\<rparr>)"
      by (simp add: SetMissCounter_def)
    then show ?case
      using Cons v assms(1) addr_laws.ValAddress_roundtrip [OF assms(1)]
      by (simp add: seq_run case_prod_unfold)
  qed simp
qed

lemma import_prevotes:
  assumes "addr_laws K" "keyed (GetAggregateExchangeRatePrevoteKey K)
       (\<lambda>v p. address_ok v \<and> pv_Voter p = ValAddress_String K v \<and> in_u64 (pv_SubmitBlock p)) m"
  shows "for_each (map snd m) (\<lambda>ap. bnd (must (lift (ValAddressFromBech32 K (pv_Voter ap)))) (\<lambda>valAddr.
            SetAggregateExchangeRatePrevote K valAddr ap)) s
      = (Ok (), s\<lparr>AggregatePrevotes := fold (\<lambda>(k, v). kv_set k v) m (AggregatePrevotes s)\<rparr>)"
proof -
  have "\<forall>e\<in>set m. \<exists>v. fst e = GetAggregateExchangeRatePrevoteKey K v \<and> address_ok v \<and> pv_Voter (snd e) = ValAddress_String K v"
    using keyed_entry [OF assms(2)] by blast
  then show ?thesis
  proof (induction m arbitrary: s)
    case (Cons e m)
    then obtain v where v: "fst e = GetAggregateExchangeRatePrevoteKey K v" "address_ok v"
      "pv_Voter (snd e) = ValAddress_String K v" by auto
    then have "SetAggregateExchangeRatePrevote K v (snd e) s =
        (Ok (), s\<lparr>AggregatePrevotes := kv_set (fst e) (snd e) (AggregatePrevotes s)\<rparr>)"
      by (simp add: SetAggregateExchangeRatePrevote_def)
    then show ?case
      using Cons v addr_laws.ValAddress_roundtrip [OF assms(1)] by (simp add: seq_run case_prod_unfold)
  qed simp
qed

lemma import_votes:
  assumes "addr_laws K" "keyed (GetAggregateExchangeRateVoteKey K)
       (\<lambda>v x. address_ok v \<and> av_Voter x = ValAddress_String K v \<and> distinct (map rt_Denom (av_ExchangeRateTuples x))) m"
  shows "for_each (map snd m) (\<lambda>av. bnd (must (lift (ValAddressFromBech32 K (av_Voter av)))) (\<lambda>valAddr.
            SetAggregateExchangeRateVote K valAddr av)) s
      = (Ok (), s\<lparr>AggregateVotes := fold (\<lambda>(k, v). kv_set k v) m (AggregateVotes s)\<rparr>)"
proof -
  have "\<forall>e\<in>set m. \<exists>v. fst e = GetAggregateExchangeRateVoteKey K v \<and> address_ok v \<and> av_Voter (snd e) = ValAddress_String K v"
    using keyed_entry [OF assms(2)] by blast
  then show ?thesis
  proof (induction m arbitrary: s)
    case (Cons e m)
    then obtain v where v: "fst e = GetAggregateExchangeRateVoteKey K v" "address_ok v"
      "av_Voter (snd e) = ValAddress_String K v" by auto
    then have "SetAggregateExchangeRateVote K v (snd e) s =
        (Ok (), s\<lparr>AggregateVotes := kv_set (fst e) (snd e) (AggregateVotes s)\<rparr>)"
      by (simp add: SetAggregateExchangeRateVote_def)
    then show ?case
      using Cons v addr_laws.ValAddress_roundtrip [OF assms(1)] by (simp add: seq_run case_prod_unfold)
  qed simp
qed

lemma import_rates:
  assumes "keyed GetExchangeRateKey (\<lambda>_ _. True) m"
  shows "for_each (map (\<lambda>e. \<lparr>rt_Denom = drop 1 (fst e), rt_ExchangeRate = snd e\<rparr>) m)
      (\<lambda>ex. SetLunaExchangeRate (rt_Denom ex) (rt_ExchangeRate ex)) s
      = (Ok (), s\<lparr>ExchangeRates := fold (\<lambda>(k, v). kv_set k v) m (ExchangeRates s)\<rparr>)"
proof -
  have "\<forall>e\<in>set m. GetExchangeRateKey (drop 1 (fst e)) = fst e"
    using assms by (auto simp: keyed_def oracle_key_defs)
  then show ?thesis
    by (induction m arbitrary: s) (simp_all add: SetLunaExchangeRate_def case_prod_unfold)
qed

lemma import_taxes:
  assumes "keyed GetTobinTaxKey (\<lambda>_ _. True) m"
  shows "for_each (map (\<lambda>e. \<lparr>dt_Name = drop 1 (fst e), dt_TobinTax = snd e\<rparr>) m)
      (\<lambda>tt. SetTobinTax (dt_Name tt) (dt_TobinTax tt)) s
      = (Ok (), s\<lparr>TobinTaxes := fold (\<lambda>(k, v). kv_set k v) m (TobinTaxes s)\<rparr>)"
proof -
  have "\<forall>e\<in>set m. GetTobinTaxKey (drop 1 (fst e)) = fst e"
    using assms by (auto simp: keyed_def oracle_key_defs)
  then show ?thesis
    by (induction m arbitrary: s) (simp_all add: SetTobinTax_def case_prod_unfold)
qed

lemma oracle_SetParams_run:
  assumes "pairs_valid (oracle_ParamSetPairs p)"
  shows "oracle_SetParams p s = (Ok (), s\<lparr>o_params := p\<rparr>)"
  using SetParamSet_run [OF assms, of o_params_update s] by (simp add: oracle_SetParams_def oracle_ParamSetPairs_def)

text \<open>The stores of the module, and the same state with other stores of the sdk.\<close>

definition oracle_stores ::
  "('b, 'x) oracle_state_scheme \<Rightarrow> oracle_params \<times> dec kv \<times> string kv \<times> int kv \<times> agg_prevote kv \<times> agg_vote kv \<times> dec kv" where
  "oracle_stores s = (o_params s, ExchangeRates s, FeederDelegations s, MissCounters s, AggregatePrevotes s,
     AggregateVotes s, TobinTaxes s)"

text \<open>C38. Exporting a well-formed module with valid parameters and at least one Tobin tax, and importing the result into an
  empty one, gives the same parameters and the same stores, entry for entry.  (Without a Tobin tax the import would take
  the whitelist of the parameters instead.)\<close>

theorem oracle_genesis_roundtrip:
  assumes "addr_laws K" "oracle_wf K s" "TobinTaxes s \<noteq> []"
    and "pairs_valid (oracle_ParamSetPairs (o_params s))"
    and "oracle_stores s0 = (p0, [], [], [], [], [], [])"
    and "GetModuleAccount K oracle_ModuleName (ext s0) = (Ok True, b)"
  shows "\<exists>g s'. oracle_ExportGenesis K s = (Ok g, s) \<and> oracle_InitGenesis K g s0 = (Ok (), s')
    \<and> oracle_stores s' = oracle_stores s"
proof -
  have keyed: "keyed GetExchangeRateKey (\<lambda>_ _. True) (ExchangeRates s)"
    "keyed (GetFeederDelegationKey K) (\<lambda>v a. address_ok v \<and> address_ok a) (FeederDelegations s)"
    "keyed (GetMissCounterKey K) (\<lambda>v n. address_ok v \<and> in_u64 n) (MissCounters s)"
    "keyed (GetAggregateExchangeRatePrevoteKey K)
       (\<lambda>v p. address_ok v \<and> pv_Voter p = ValAddress_String K v \<and> in_u64 (pv_SubmitBlock p)) (AggregatePrevotes s)"
    "keyed (GetAggregateExchangeRateVoteKey K)
       (\<lambda>v x. address_ok v \<and> av_Voter x = ValAddress_String K v
          \<and> distinct (map rt_Denom (av_ExchangeRateTuples x))) (AggregateVotes s)"
    "keyed GetTobinTaxKey (\<lambda>_ _. True) (TobinTaxes s)"
    using assms(2) by (auto simp: oracle_wf_def)
  note imp = import_feeders [OF assms(1) keyed(2)] import_rates [OF keyed(1)] import_misses [OF assms(1) keyed(3)]
    import_prevotes [OF assms(1) keyed(4)] import_votes [OF assms(1) keyed(5)] import_taxes [OF keyed(6)]
  have empty: "ExchangeRates s0 = []" "FeederDelegations s0 = []" "MissCounters s0 = []" "AggregatePrevotes s0 = []"
    "AggregateVotes s0 = []" "TobinTaxes s0 = []"
    using assms(5) by (auto simp: oracle_stores_def)
  note bk = kvs.rebuild [OF keyed_ok refl]
  have "oracle_InitGenesis K (case oracle_ExportGenesis K s of (Ok g, _) \<Rightarrow> g) s0 = (Ok (), s0\<lparr>FeederDelegations := FeederDelegations s,
      ExchangeRates := ExchangeRates s, MissCounters := MissCounters s, AggregatePrevotes := AggregatePrevotes s,
      AggregateVotes := AggregateVotes s, TobinTaxes := TobinTaxes s, o_params := o_params s, ext := b\<rparr>)"
    unfolding ExportGenesis_run oracle_InitGenesis_def prod.case outcome.case oracle_genesis.select_convs
    using assms(3,6)
    by (simp only: seq_case imp oracle_SetParams_run [OF assms(4)] map_is_Nil_conv if_True not_False_eq_True prod.case outcome.case)
      (simp add: empty bk [OF keyed(1)] bk [OF keyed(2)] bk [OF keyed(3)] bk [OF keyed(4)] bk [OF keyed(5)] bk [OF keyed(6)]
        sdk_call_def bnd_def)
  then show ?thesis by (auto simp: ExportGenesis_run oracle_stores_def)
qed
end
