(* ===== verification/Sdk_Instance.thy ===== *)
theory Sdk_Instance
  imports Sdk Go_Strings
begin

text \<open>
  A reference instance \<open>sdk0\<close> of the sdk interface, on which the law locales of \<open>Sdk\<close> are
  interpreted: fixed-point decimals with half-even rounding, coin lists tabulated from their amounts,
  and a bank ledger.  It shows that the laws are consistent and it is what the concrete examples of
  the development run on; no theorem about the chain is proved from its definitions.
\<close>

section \<open>Decimals\<close>

text \<open>Division by \<open>OneDec\<close>, ties to even, on the magnitude.\<close>

definition chop_nonneg :: "int \<Rightarrow> int" where
  "chop_nonneg a =
     (let q = a div OneDec; r = a mod OneDec in
      if 2 * r < OneDec \<or> (2 * r = OneDec \<and> even q) then q else q + 1)"

definition chop_round :: "int \<Rightarrow> int" where
  "chop_round a = (if a < 0 then - chop_nonneg (- a) else chop_nonneg a)"

definition in_range315 :: "dec \<Rightarrow> dec outcome" where
  "in_range315 c = (if \<bar>c\<bar> < 2 ^ 315 then Ok c else Panic)"

definition ref_Mul :: "dec \<Rightarrow> dec \<Rightarrow> dec outcome" where
  "ref_Mul a b = in_range315 (chop_round (a * b))"

definition ref_Quo :: "dec \<Rightarrow> dec \<Rightarrow> dec outcome" where
  "ref_Quo a b = (if b = 0 then Panic else in_range315 (chop_round (go_quot (a * OneDec * OneDec) b)))"

definition ref_QuoInt :: "dec \<Rightarrow> int \<Rightarrow> dec outcome" where
  "ref_QuoInt a i = (if i = 0 then Panic else Ok (go_quot a i))"

definition pad18 :: "int \<Rightarrow> string" where
  "pad18 n = (let s = itoa n in replicate (18 - length s) CHR ''0'' @ s)"

definition ref_String :: "dec \<Rightarrow> string" where
  "ref_String a = (if a < 0 then ''-'' else []) @ itoa (\<bar>a\<bar> div OneDec) @ ''.'' @ pad18 (\<bar>a\<bar> mod OneDec)"

definition is_digit :: "char \<Rightarrow> bool" where
  "is_digit c \<longleftrightarrow> 48 \<le> (of_char c :: int) \<and> (of_char c :: int) \<le> 57"

definition parse_parts :: "string list \<Rightarrow> dec outcome" where
  "parse_parts ps =
     (case ps of
        [i] \<Rightarrow> if i \<noteq> [] \<and> list_all is_digit i then Ok (atoi_acc i 0 * OneDec) else Err (FmtErr ''dec'')
      | [i, f] \<Rightarrow>
          if i \<noteq> [] \<and> f \<noteq> [] \<and> length f \<le> 18 \<and> list_all is_digit i \<and> list_all is_digit f
          then Ok (atoi_acc i 0 * OneDec + atoi_acc f 0 * 10 ^ (18 - length f)) else Err (FmtErr ''dec'')
      | _ \<Rightarrow> Err (FmtErr ''dec''))"

definition ref_FromStr :: "string \<Rightarrow> dec outcome" where
  "ref_FromStr s =
     (case s of
        [] \<Rightarrow> Err (FmtErr ''dec'')
      | c # t \<Rightarrow>
          if c = CHR ''-'' then obind (parse_parts (Split CHR ''.'' t)) (\<lambda>d. Ok (- d))
          else parse_parts (Split CHR ''.'' s))"

lemma chop_nonneg_near:
  "2 * (chop_nonneg a * OneDec) \<le> 2 * a + OneDec" "2 * a \<le> 2 * (chop_nonneg a * OneDec) + OneDec"
proof -
  define q r where "q = a div OneDec" and "r = a mod OneDec"
  have a: "a = q * OneDec + r" "0 \<le> r" "r < OneDec" by (simp_all add: q_def r_def)
  show "2 * (chop_nonneg a * OneDec) \<le> 2 * a + OneDec" "2 * a \<le> 2 * (chop_nonneg a * OneDec) + OneDec"
    unfolding chop_nonneg_def Let_def q_def [symmetric] r_def [symmetric] using a by auto
qed

lemma chop_round_near:
  "2 * (chop_round a * OneDec) \<le> 2 * a + OneDec" "2 * a \<le> 2 * (chop_round a * OneDec) + OneDec"
  using chop_nonneg_near [of a] chop_nonneg_near [of "- a"] by (auto simp: chop_round_def)

lemma go_quot_near:
  assumes "b \<noteq> 0"
  shows "go_quot a b * b \<le> a + (\<bar>b\<bar> - 1)" "a \<le> go_quot a b * b + (\<bar>b\<bar> - 1)"
proof -
  define q where "q = \<bar>a\<bar> div \<bar>b\<bar>"
  have q: "q * \<bar>b\<bar> \<le> \<bar>a\<bar>" "\<bar>a\<bar> < (q + 1) * \<bar>b\<bar>" "0 \<le> q"
    using div_floor_bounds [of "\<bar>b\<bar>" "\<bar>a\<bar>"] assms by (simp_all add: q_def pos_imp_zdiv_nonneg_iff)
  have "go_quot a b * b = sgn a * (q * (b * sgn b))"
    by (simp add: go_quot_def q_def [symmetric] ac_simps)
  then have "go_quot a b * b = sgn a * (q * \<bar>b\<bar>)" by (simp only: abs_sgn)
  then show "go_quot a b * b \<le> a + (\<bar>b\<bar> - 1)" "a \<le> go_quot a b * b + (\<bar>b\<bar> - 1)"
    using q assms by (auto simp: sgn_if distrib_right split: if_splits)
qed

lemma go_quot_abs:
  assumes "b \<noteq> 0"
  shows "\<bar>go_quot a b\<bar> \<le> \<bar>a\<bar> div \<bar>b\<bar>"
proof -
  have "\<bar>sgn a * sgn b * q\<bar> \<le> q" if "0 \<le> q" for q :: int
    using that by (cases "a = 0"; cases "b = 0") (auto simp: abs_mult)
  then show ?thesis using assms by (simp add: go_quot_def pos_imp_zdiv_nonneg_iff)
qed

lemma chop_nonneg_mono:
  assumes "a \<le> b"
  shows "chop_nonneg a \<le> chop_nonneg b"
proof -
  have "a div OneDec \<le> b div OneDec" using assms by (rule zdiv_mono1) simp
  moreover have "a mod OneDec \<le> b mod OneDec" if "a div OneDec = b div OneDec"
    using assms that div_mult_mod_eq [of a OneDec] div_mult_mod_eq [of b OneDec] by linarith
  ultimately show ?thesis
    unfolding chop_nonneg_def Let_def by (cases "a div OneDec = b div OneDec") auto
qed

lemma ref_Quo_mono:
  assumes "0 \<le> a" "0 < b" "b \<le> b'"
  shows "chop_round (go_quot (a * OneDec * OneDec) b') \<le> chop_round (go_quot (a * OneDec * OneDec) b)"
proof -
  have "a * OneDec * OneDec div b' \<le> a * OneDec * OneDec div b"
    using assms by (intro zdiv_mono2) simp_all
  then show ?thesis
    using assms chop_nonneg_mono pos_imp_zdiv_nonneg_iff [of b' "a * OneDec * OneDec"]
      pos_imp_zdiv_nonneg_iff [of b "a * OneDec * OneDec"]
    by (simp add: go_quot_nonneg chop_round_def)
qed

lemma ref_Quo_near:
  assumes "b \<noteq> 0" and c_def: "c = chop_round (go_quot (a * OneDec * OneDec) b)"
  shows "2 * OneDec * (c * b) \<le> 2 * OneDec * (a * OneDec) + \<bar>b\<bar> * (OneDec + 2)"
    and "2 * OneDec * (a * OneDec) \<le> 2 * OneDec * (c * b) + \<bar>b\<bar> * (OneDec + 2)"
proof -
  define t where "t = go_quot (a * OneDec * OneDec) b"
  have t: "t * b \<le> a * OneDec * OneDec + \<bar>b\<bar>" "a * OneDec * OneDec \<le> t * b + \<bar>b\<bar>"
    using go_quot_near [OF assms(1), of "a * OneDec * OneDec"] by (simp_all add: t_def)
  have c: "2 * (c * OneDec) \<le> 2 * t + OneDec" "2 * t \<le> 2 * (c * OneDec) + OneDec"
    unfolding c_def t_def by (rule chop_round_near)+
  have cb: "2 * OneDec * (c * b) \<le> 2 * (t * b) + OneDec * \<bar>b\<bar>" "2 * (t * b) \<le> 2 * OneDec * (c * b) + OneDec * \<bar>b\<bar>"
  proof (atomize (full), cases "0 < b")
    case True
    then have "2 * (c * OneDec) * b \<le> (2 * t + OneDec) * b" "2 * t * b \<le> (2 * (c * OneDec) + OneDec) * b"
      using c by (simp_all add: mult_right_mono)
    then show "2 * OneDec * (c * b) \<le> 2 * (t * b) + OneDec * \<bar>b\<bar> \<and> 2 * (t * b) \<le> 2 * OneDec * (c * b) + OneDec * \<bar>b\<bar>"
      using True by (simp add: distrib_right mult.assoc mult.left_commute)
  next
    case False
    then have "(2 * t + OneDec) * b \<le> 2 * (c * OneDec) * b" "(2 * (c * OneDec) + OneDec) * b \<le> 2 * t * b"
      using c by (simp_all add: mult_right_mono_neg)
    then show "2 * OneDec * (c * b) \<le> 2 * (t * b) + OneDec * \<bar>b\<bar> \<and> 2 * (t * b) \<le> 2 * OneDec * (c * b) + OneDec * \<bar>b\<bar>"
      using False by (simp add: distrib_right mult.assoc mult.left_commute)
  qed
  show "2 * OneDec * (c * b) \<le> 2 * OneDec * (a * OneDec) + \<bar>b\<bar> * (OneDec + 2)"
    "2 * OneDec * (a * OneDec) \<le> 2 * OneDec * (c * b) + \<bar>b\<bar> * (OneDec + 2)"
    using t cb unfolding distrib_left by linarith+
qed

lemma range315:
  assumes "2 * (c * OneDec) \<le> 2 * x + OneDec" "2 * x \<le> 2 * (c * OneDec) + OneDec" "\<bar>x\<bar> < 2 ^ 314 * OneDec"
  shows "in_range315 c = Ok c"
proof -
  have "\<bar>c\<bar> < 2 ^ 315" using assms by (auto simp: abs_less_iff)
  then show ?thesis by (simp add: in_range315_def)
qed

text \<open>Printing and parsing.\<close>

lemma itoa_digits: "0 \<le> n \<Longrightarrow> list_all is_digit (itoa n) \<and> itoa n \<noteq> []"
proof (induction n rule: itoa.induct)
  case (1 n)
  have d: "is_digit (char_of (48 + k))" if "0 \<le> k" "k < 10" for k :: int
  proof -
    have "(48 + k) mod 256 = 48 + k" using that by simp
    then show ?thesis using that by (simp add: is_digit_def)
  qed
  show ?case using 1 d [of n] d [of "n mod 10"] by (subst (1 2) itoa.simps) simp
qed

lemma is_digit_not_point: "list_all is_digit s \<Longrightarrow> CHR ''.'' \<notin> set s \<and> CHR ''-'' \<notin> set s"
  by (induction s) (auto simp: is_digit_def)

lemma itoa_length: "0 \<le> n \<Longrightarrow> n < 10 ^ Suc k \<Longrightarrow> length (itoa n) \<le> Suc k"
proof (induction k arbitrary: n)
  case 0
  then show ?case by (simp add: itoa.simps)
next
  case (Suc k)
  show ?case
  proof (cases "n < 10")
    case True
    then show ?thesis by (simp add: itoa.simps)
  next
    case False
    have "10 * (n div 10) \<le> n" using div_floor_bounds [of 10 n] by simp
    then have "n div 10 < 10 ^ Suc k" using Suc.prems(2) by simp
    then show ?thesis using Suc.IH [of "n div 10"] Suc.prems False by (subst itoa.simps) simp
  qed
qed

lemma atoi_zeros: "atoi_acc (replicate k CHR ''0'' @ s) 0 = atoi_acc s 0"
  by (induction k) simp_all

lemma pad18_facts:
  assumes "0 \<le> n" "n < OneDec"
  shows "length (pad18 n) = 18" "list_all is_digit (pad18 n)" "atoi_acc (pad18 n) 0 = n"
proof -
  have "length (itoa n) \<le> 18" using itoa_length [of n 17] assms by simp
  then show "length (pad18 n) = 18" by (simp add: pad18_def Let_def)
  show "list_all is_digit (pad18 n)"
    using itoa_digits [OF assms(1)] by (auto simp: pad18_def Let_def list_all_iff is_digit_def)
  show "atoi_acc (pad18 n) 0 = n"
    using atoi_itoa [OF assms(1)] by (simp add: pad18_def Let_def atoi_zeros)
qed

lemma parse_parts_print:
  assumes "0 \<le> a"
  shows "parse_parts (Split CHR ''.'' (itoa (a div OneDec) @ ''.'' @ pad18 (a mod OneDec))) = Ok a"
proof -
  have i: "list_all is_digit (itoa (a div OneDec))" "itoa (a div OneDec) \<noteq> []" "atoi_acc (itoa (a div OneDec)) 0 = a div OneDec"
    using itoa_digits [of "a div OneDec"] atoi_itoa [of "a div OneDec"] assms by (simp_all add: pos_imp_zdiv_nonneg_iff)
  have f: "length (pad18 (a mod OneDec)) = 18" "list_all is_digit (pad18 (a mod OneDec))" "atoi_acc (pad18 (a mod OneDec)) 0 = a mod OneDec"
    using pad18_facts [of "a mod OneDec"] by simp_all
  have "Split CHR ''.'' (itoa (a div OneDec) @ ''.'' @ pad18 (a mod OneDec)) = [itoa (a div OneDec), pad18 (a mod OneDec)]"
    using is_digit_not_point [OF i(1)] is_digit_not_point [OF f(2)] by (simp add: Split_append Split_single)
  then show ?thesis using i f by (auto simp: parse_parts_def)
qed

lemma ref_FromStr_String: "ref_FromStr (ref_String a) = Ok a"
proof (cases "a < 0")
  case True
  then show ?thesis using parse_parts_print [of "- a"] by (simp add: ref_FromStr_def ref_String_def)
next
  case False
  obtain c t where ct: "itoa (a div OneDec) = c # t" using itoa_digits [of "a div OneDec"] False
    by (cases "itoa (a div OneDec)") (auto simp: pos_imp_zdiv_nonneg_iff)
  have "c \<noteq> CHR ''-''" using itoa_digits [of "a div OneDec"] False is_digit_not_point ct
    by (metis list.set_intros(1) linorder_not_le pos_imp_zdiv_nonneg_iff zero_less_numeral)
  then show ?thesis using parse_parts_print [of a] False ct by (simp add: ref_FromStr_def ref_String_def)
qed

section \<open>Coins\<close>

text \<open>The valid coin list with the amounts \<open>f\<close> on the denominations \<open>ds\<close>.\<close>

definition tabulate :: "string list \<Rightarrow> (string \<Rightarrow> int) \<Rightarrow> coins" where
  "tabulate ds f = filter (\<lambda>c. Amount c \<noteq> 0) (map (\<lambda>d. \<lparr>Denom = d, Amount = f d\<rparr>) (sort (remdups ds)))"

lemma amt_tabulate_aux:
  "distinct ds \<Longrightarrow> amt (filter (\<lambda>c. Amount c \<noteq> 0) (map (\<lambda>d. \<lparr>Denom = d, Amount = f d\<rparr>) ds)) d = (if d \<in> set ds then f d else 0)"
  by (induction ds) auto

lemma amt_tabulate: "amt (tabulate ds f) d = (if d \<in> set ds then f d else 0)"
  using amt_tabulate_aux [of "sort (remdups ds)"] by (simp add: tabulate_def)

lemma sorted_wrt_filter_map:
  "sorted_wrt (<) ds \<Longrightarrow> sorted_wrt (<) (map Denom (filter P (map (\<lambda>d. \<lparr>Denom = d, Amount = f d\<rparr>) ds)))"
  by (induction ds) auto

lemma coins_ok_tabulate: "(\<And>d. d \<in> set ds \<Longrightarrow> 0 \<le> f d) \<Longrightarrow> coins_ok (tabulate ds f)"
proof -
  assume f: "\<And>d. d \<in> set ds \<Longrightarrow> 0 \<le> f d"
  have "sorted_wrt (<) (sort (remdups ds))" by (simp add: strict_sorted_iff)
  then show ?thesis
    unfolding coins_ok_def tabulate_def using f by (auto intro: sorted_wrt_filter_map simp: less_le)
qed

lemma Denom_tabulate: "c \<in> set (tabulate ds f) \<Longrightarrow> Denom c \<in> set ds"
  by (auto simp: tabulate_def)

definition denoms :: "coins \<Rightarrow> string list" where
  "denoms cs = map Denom cs"

definition is_alpha :: "char \<Rightarrow> bool" where
  "is_alpha c \<longleftrightarrow> (let n = (of_char c :: int) in (65 \<le> n \<and> n \<le> 90) \<or> (97 \<le> n \<and> n \<le> 122))"

definition ref_ValidDenom :: "string \<Rightarrow> bool" where
  "ref_ValidDenom d \<longleftrightarrow> 3 \<le> length d \<and> length d \<le> 128 \<and> is_alpha (hd d)
     \<and> list_all (\<lambda>c. is_alpha c \<or> is_digit c \<or> c \<in> set ''/:._-'') d"

definition ref_NewCoin :: "string \<Rightarrow> int \<Rightarrow> coin outcome" where
  "ref_NewCoin d n = (if ref_ValidDenom d \<and> 0 \<le> n then Ok \<lparr>Denom = d, Amount = n\<rparr> else Panic)"

definition ref_NewCoins :: "coins \<Rightarrow> coins outcome" where
  "ref_NewCoins cs =
     (if distinct (denoms cs) \<and> list_all (\<lambda>c. ref_ValidDenom (Denom c) \<and> 0 \<le> Amount c) cs
      then Ok (tabulate (denoms cs) (amt cs)) else Panic)"

definition ref_Add :: "coins \<Rightarrow> coins \<Rightarrow> coins outcome" where
  "ref_Add a b = Ok (tabulate (denoms a @ denoms b) (\<lambda>d. amt a d + amt b d))"

definition ref_Sub :: "coins \<Rightarrow> coins \<Rightarrow> coins outcome" where
  "ref_Sub a b =
     (if list_all (\<lambda>c. Amount c \<le> amt a (Denom c)) b
      then Ok (tabulate (denoms a) (\<lambda>d. amt a d - amt b d)) else Panic)"

definition ref_AmountOf :: "coins \<Rightarrow> string \<Rightarrow> int outcome" where
  "ref_AmountOf a d = (if ref_ValidDenom d then Ok (amt a d) else Panic)"

definition ref_IsValid :: "coins \<Rightarrow> bool" where
  "ref_IsValid a \<longleftrightarrow> sorted_wrt (<) (map Denom a) \<and> list_all (\<lambda>c. 0 < Amount c \<and> ref_ValidDenom (Denom c)) a"

definition ref_IsAllGTE :: "coins \<Rightarrow> coins \<Rightarrow> bool" where
  "ref_IsAllGTE a b \<longleftrightarrow> list_all (\<lambda>c. Amount c \<le> amt a (Denom c)) b"

definition ref_IsAnyGTE :: "coins \<Rightarrow> coins \<Rightarrow> bool" where
  "ref_IsAnyGTE a b \<longleftrightarrow> list_ex (\<lambda>c. amt b (Denom c) \<noteq> 0 \<and> amt b (Denom c) \<le> Amount c) a"

definition ref_MulDec :: "dec_coins \<Rightarrow> dec \<Rightarrow> dec_coins outcome" where
  "ref_MulDec a x = Ok (tabulate (denoms a) (\<lambda>d. chop_round (amt a d * x)))"

definition ref_TruncateDecimal :: "dec_coins \<Rightarrow> (coins \<times> dec_coins) outcome" where
  "ref_TruncateDecimal a =
     Ok (tabulate (denoms a) (\<lambda>d. go_quot (amt a d) OneDec), tabulate (denoms a) (\<lambda>d. go_rem (amt a d) OneDec))"

lemma all_le_iff:
  assumes "coins_ok a" "coins_ok b"
  shows "list_all (\<lambda>c. Amount c \<le> amt a (Denom c)) b \<longleftrightarrow> (\<forall>d. amt b d \<le> amt a d)"
proof
  assume *: "list_all (\<lambda>c. Amount c \<le> amt a (Denom c)) b"
  show "\<forall>d. amt b d \<le> amt a d"
  proof
    fix d
    show "amt b d \<le> amt a d"
    proof (cases "d \<in> Denom ` set b")
      case True
      then show ?thesis using * amt_in [OF assms(2)] by (auto simp: list_all_iff)
    qed (use amt_nonneg [OF assms(1)] in simp)
  qed
next
  assume "\<forall>d. amt b d \<le> amt a d"
  then show "list_all (\<lambda>c. Amount c \<le> amt a (Denom c)) b"
    unfolding list_all_iff using amt_in [OF assms(2)] by metis
qed

lemma amt_nonneg_all: "\<forall>c\<in>set cs. 0 \<le> Amount c \<Longrightarrow> 0 \<le> amt cs d"
  by (induction cs) auto

lemma any_ge_iff:
  assumes "coins_ok a" "\<forall>c\<in>set b. 0 \<le> Amount c"
  shows "ref_IsAnyGTE a b \<longleftrightarrow> (\<exists>d. 0 < amt b d \<and> amt b d \<le> amt a d)"
proof
  assume "ref_IsAnyGTE a b"
  then obtain c where "c \<in> set a" "amt b (Denom c) \<noteq> 0" "amt b (Denom c) \<le> Amount c"
    by (auto simp: ref_IsAnyGTE_def list_ex_iff)
  then show "\<exists>d. 0 < amt b d \<and> amt b d \<le> amt a d"
    using amt_in [OF assms(1)] amt_nonneg_all [OF assms(2), of "Denom c"] by (intro exI [of _ "Denom c"]) auto
next
  assume "\<exists>d. 0 < amt b d \<and> amt b d \<le> amt a d"
  then obtain d where d: "0 < amt b d" "amt b d \<le> amt a d" by blast
  then have "d \<in> Denom ` set a" using amt_notin [of d a] by fastforce
  then obtain c where "c \<in> set a" "d = Denom c" by blast
  then show "ref_IsAnyGTE a b"
    using d amt_in [OF assms(1)] by (auto simp: ref_IsAnyGTE_def list_ex_iff intro!: bexI [of _ c])
qed

section \<open>Bank\<close>

record ledger =
  lg_entries :: "(string \<times> string \<times> nat) list"
  lg_supply :: "string \<Rightarrow> int"
  lg_validators :: "validator list"
  lg_power :: "string list"
  lg_max :: int
  lg_bonded :: int
  lg_meta :: "metadata list"
  lg_alloc :: "(string \<times> dec_coins) list"
  lg_slashed :: "(string \<times> int \<times> int \<times> dec) list"
  lg_jailed :: "string list"
  lg_pool :: dec_coins
  lg_community_tax :: dec

primrec entry_sum :: "(string \<times> string \<times> nat) list \<Rightarrow> string \<Rightarrow> string \<Rightarrow> nat" where
  "entry_sum [] x d = 0"
| "entry_sum (e # es) x d = (if fst e = x \<and> fst (snd e) = d then snd (snd e) else 0) + entry_sum es x d"

definition ref_bal :: "ledger \<Rightarrow> string \<Rightarrow> string \<Rightarrow> int" where
  "ref_bal b x d = (if ref_ValidDenom d then int (entry_sum (lg_entries b) x d) else 0)"

definition ref_AllBalances :: "ledger \<Rightarrow> string \<Rightarrow> coins" where
  "ref_AllBalances b x =
     tabulate (filter ref_ValidDenom (map (\<lambda>e. fst (snd e)) (filter (\<lambda>e. fst e = x) (lg_entries b)))) (ref_bal b x)"

text \<open>The ledger with the amounts \<open>f\<close> on its own accounts and denominations and on those of \<open>ks\<close>.\<close>

definition rebuild_entries ::
  "(string \<times> string) list \<Rightarrow> (string \<Rightarrow> string \<Rightarrow> int) \<Rightarrow> ledger \<Rightarrow> ledger" where
  "rebuild_entries ks f b =
     b\<lparr>lg_entries := map (\<lambda>(x, d). (x, d, nat (f x d)))
        (remdups (map (\<lambda>e. (fst e, fst (snd e))) (lg_entries b) @ ks))\<rparr>"

definition ref_send :: "string \<Rightarrow> string \<Rightarrow> coins \<Rightarrow> (ledger, unit) go" where
  "ref_send x y cs = (\<lambda>b.
     if ref_IsValid cs \<and> list_all (\<lambda>c. Amount c \<le> ref_bal b x (Denom c)) cs
     then (Ok (), rebuild_entries (map (Pair x) (denoms cs) @ map (Pair y) (denoms cs))
       (\<lambda>z d. ref_bal b z d - (if z = x then amt cs d else 0) + (if z = y then amt cs d else 0)) b)
     else (Err (SdkErr ''ErrInsufficientFunds''), b))"

definition module_addr :: "string \<Rightarrow> string" where
  "module_addr m = ''module/'' @ m"

definition ref_mint :: "int \<Rightarrow> string \<Rightarrow> coins \<Rightarrow> (ledger, unit) go" where
  "ref_mint sg m cs = (\<lambda>b.
     let x = module_addr m in
     if ref_IsValid cs \<and> list_all (\<lambda>c. 0 \<le> ref_bal b x (Denom c) + sg * Amount c) cs
     then (Ok (), (rebuild_entries (map (Pair x) (denoms cs))
        (\<lambda>z d. ref_bal b z d + (if z = x then sg * amt cs d else 0)) b)
        \<lparr>lg_supply := \<lambda>d. lg_supply b d + sg * amt cs d\<rparr>)
     else (Err (SdkErr ''ErrInsufficientFunds''), b))"

lemma entry_sum_map:
  "distinct ks \<Longrightarrow> entry_sum (map (\<lambda>(x, d). (x, d, g x d)) ks) x d = (if (x, d) \<in> set ks then g x d else 0)"
  by (induction ks) auto

lemma entry_sum_notin: "(x, d) \<notin> (\<lambda>e. (fst e, fst (snd e))) ` set es \<Longrightarrow> entry_sum es x d = 0"
  by (induction es) auto

lemma ref_bal_rebuild:
  assumes "\<And>x d. 0 \<le> f x d" "\<And>x d. \<not> ref_ValidDenom d \<Longrightarrow> f x d = 0"
    and "\<And>x d. (x, d) \<notin> set ks \<Longrightarrow> f x d = ref_bal b x d"
  shows "ref_bal (rebuild_entries ks f b) x d = f x d"
proof -
  let ?ks = "remdups (map (\<lambda>e. (fst e, fst (snd e))) (lg_entries b) @ ks)"
  have "entry_sum (lg_entries (rebuild_entries ks f b)) x d = (if (x, d) \<in> set ?ks then nat (f x d) else 0)"
    unfolding rebuild_entries_def by (simp add: entry_sum_map [of ?ks "\<lambda>x d. nat (f x d)", unfolded case_prod_unfold] case_prod_unfold del: set_remdups remdups.simps)
  moreover have "f x d = 0" if "(x, d) \<notin> set ?ks"
    using that assms(3) [of x d] entry_sum_notin [of x d "lg_entries b"] by (auto simp: ref_bal_def image_iff)
  ultimately show ?thesis using assms(1) [of x d] assms(2) [of d x] by (auto simp: ref_bal_def)
qed

section \<open>Addresses and staking\<close>

definition bech_encode :: "string \<Rightarrow> string \<Rightarrow> string" where
  "bech_encode hrp v = hrp @ hex_EncodeToString v"

definition bech_decode :: "string \<Rightarrow> string \<Rightarrow> string outcome" where
  "bech_decode hrp s =
     (if take (length hrp) s = hrp
      then obind (hex_DecodeString (drop (length hrp) s)) (\<lambda>v. if address_ok v then Ok v else Err (FmtErr ''length''))
      else Err (FmtErr ''prefix''))"

definition ref_ParseDecCoin :: "string \<Rightarrow> coin outcome" where
  "ref_ParseDecCoin s =
     (let a = takeWhile (\<lambda>c. is_digit c \<or> c = CHR ''.'') s; d = dropWhile (\<lambda>c. is_digit c \<or> c = CHR ''.'') s in
      if ref_ValidDenom d then obind (ref_FromStr a) (\<lambda>r. Ok \<lparr>Denom = d, Amount = r\<rparr>) else Err (FmtErr ''denom''))"

definition ref_NewDecCoin :: "string \<Rightarrow> int \<Rightarrow> coin outcome" where
  "ref_NewDecCoin d n = ref_NewCoin d (n * OneDec)"

definition ref_coin_Add :: "coin \<Rightarrow> coin \<Rightarrow> coin outcome" where
  "ref_coin_Add x y = (if Denom x = Denom y then Ok \<lparr>Denom = Denom x, Amount = Amount x + Amount y\<rparr> else Panic)"

definition ref_coin_Sub :: "coin \<Rightarrow> coin \<Rightarrow> coin outcome" where
  "ref_coin_Sub x y =
     (if Denom x = Denom y \<and> Amount y \<le> Amount x then Ok \<lparr>Denom = Denom x, Amount = Amount x - Amount y\<rparr> else Panic)"

definition ref_coin_Truncate :: "coin \<Rightarrow> (coin \<times> coin) outcome" where
  "ref_coin_Truncate x =
     (if ref_ValidDenom (Denom x) \<and> 0 \<le> Amount x
      then Ok (\<lparr>Denom = Denom x, Amount = Amount x div OneDec\<rparr>, \<lparr>Denom = Denom x, Amount = Amount x mod OneDec\<rparr>)
      else Panic)"

definition ref_ParseCoin :: "string \<Rightarrow> coin outcome" where
  "ref_ParseCoin s =
     (let a = takeWhile is_digit s; d = dropWhile is_digit s in
      if a \<noteq> [] \<and> ref_ValidDenom d then Ok \<lparr>Denom = d, Amount = atoi_acc a 0\<rparr> else Err (FmtErr ''coin''))"

definition sdk0 :: "ledger staking_ops" where
  "sdk0 = \<lparr>
     dec_Mul = ref_Mul, dec_Quo = ref_Quo, dec_QuoInt = ref_QuoInt,
     dec_TruncateInt = (\<lambda>a. go_quot a OneDec), dec_RoundInt = chop_round,
     dec_Ceil = (\<lambda>a. - ((- a) div OneDec) * OneDec),
     dec_FromStr = ref_FromStr, dec_String = ref_String,
     ValidDenom = ref_ValidDenom, NewCoin = ref_NewCoin, NewCoins = ref_NewCoins,
     coins_Add = ref_Add, coins_Sub = ref_Sub, coins_AmountOf = ref_AmountOf,
     coins_IsZero = (\<lambda>a. list_all (\<lambda>c. Amount c = 0) a), coins_IsValid = ref_IsValid,
     coins_IsAllGTE = ref_IsAllGTE, coins_IsAnyGTE = ref_IsAnyGTE, coins_Sort = sort_key Denom,
     NewDecCoins = ref_NewCoins,
     NewDecCoinsFromCoins = (\<lambda>a. Ok (tabulate (denoms a) (\<lambda>d. amt a d * OneDec))),
     NewDecCoinFromDec = ref_NewCoin,
     deccoins_Add = ref_Add, deccoins_Sub = ref_Sub, deccoins_MulDec = ref_MulDec,
     deccoins_TruncateDecimal = ref_TruncateDecimal,
     coin_IsValid = (\<lambda>x. ref_ValidDenom (Denom x) \<and> 0 \<le> Amount x), coin_Add = ref_coin_Add,
     NewDecCoin = ref_NewDecCoin, NewDecCoinFromCoin = (\<lambda>x. ref_NewDecCoin (Denom x) (Amount x)),
     deccoin_Add = ref_coin_Add, deccoin_Sub = ref_coin_Sub, deccoin_TruncateDecimal = ref_coin_Truncate,
     ParseCoinNormalized = ref_ParseCoin, deccoins_AmountOf = ref_AmountOf,
     deccoins_IsZero = (\<lambda>a. list_all (\<lambda>c. Amount c = 0) a), deccoins_Sort = sort_key Denom,
     GetModuleAddress = module_addr, GetModuleAccount = (\<lambda>m b. (Ok True, b)),
     GetBalance = (\<lambda>b x d. \<lparr>Denom = d, Amount = ref_bal b x d\<rparr>),
     GetAllBalances = ref_AllBalances,
     GetSupply = (\<lambda>b d. \<lparr>Denom = d, Amount = lg_supply b d\<rparr>),
     SendCoins = ref_send,
     SendCoinsFromModuleToModule = (\<lambda>m n. ref_send (module_addr m) (module_addr n)),
     SendCoinsFromModuleToAccount = (\<lambda>m y. ref_send (module_addr m) y),
     SendCoinsFromAccountToModule = (\<lambda>x n. ref_send x (module_addr n)),
     MintCoins = ref_mint 1, BurnCoins = ref_mint (- 1),
     ValAddress_String = bech_encode ''terravaloper1'',
     AccAddress_String = bech_encode ''terra1'',
     ValAddressFromBech32 = bech_decode ''terravaloper1'',
     AccAddressFromBech32 = bech_decode ''terra1'',
     MustLengthPrefix = (\<lambda>v. char_of (length v) # v),
     ParseDecCoin = ref_ParseDecCoin,
     tmhash_Truncated = (\<lambda>t. take 20 (rev t @ replicate 20 CHR ''0'')),
     MaxValidators = lg_max,
     ValidatorsPowerStore = lg_power,
     PowerReduction = (\<lambda>b. 1000000),
     Validator = (\<lambda>b a. find (\<lambda>v. v_Operator v = a \<and> address_ok a) (lg_validators b)),
     GetConsensusPower = (\<lambda>v r. Ok (if v_IsBonded v then go_quot (v_Tokens v) r else 0)),
     TotalBondedTokens = lg_bonded,
     TokensToConsensusPower = (\<lambda>n r. if r = 0 then Panic else Ok (go_quot n r)),
     Slash = (\<lambda>a h p f b. (Ok (), b\<lparr>lg_slashed := lg_slashed b @ [(a, h, p, f)]\<rparr>)),
     Jail = (\<lambda>a b. (Ok (), b\<lparr>lg_jailed := lg_jailed b @ [a]\<rparr>)),
     AllocateTokensToValidator = (\<lambda>v cs b. (Ok (), b\<lparr>lg_alloc := lg_alloc b @ [(v_Operator v, cs)]\<rparr>)),
     GetDenomMetaData = (\<lambda>b d. find (\<lambda>m. md_Base m = d) (lg_meta b)),
     SetDenomMetaData = (\<lambda>m b. (Ok (), b\<lparr>lg_meta := m # lg_meta b\<rparr>)),
     CommunityPool = lg_pool, SetCommunityPool = (\<lambda>p b. (Ok (), b\<lparr>lg_pool := p\<rparr>)),
     GetCommunityTax = lg_community_tax,
     ValidateAbstract = (\<lambda>t d. if t = [] \<or> d = [] then Err (SdkErr ''ErrInvalidProposalContent'') else Ok ())\<rparr>"

section \<open>The laws hold\<close>

lemma sdk0_dec: "dec_laws sdk0"
proof
  fix a b c i :: int and e t
  show "dec_Mul sdk0 a b = Ok c \<Longrightarrow> 2 * (c * OneDec) \<le> 2 * (a * b) + OneDec"
    "dec_Mul sdk0 a b = Ok c \<Longrightarrow> 2 * (a * b) \<le> 2 * (c * OneDec) + OneDec"
    using chop_round_near [of "a * b"] by (auto simp: sdk0_def ref_Mul_def in_range315_def split: if_splits)
  show "\<bar>a * b\<bar> < 2 ^ 314 * OneDec \<Longrightarrow> is_Ok (dec_Mul sdk0 a b)"
    using range315 [OF chop_round_near, of "a * b"] by (simp add: sdk0_def ref_Mul_def)
  show "dec_Mul sdk0 a b \<noteq> Err e" by (simp add: sdk0_def ref_Mul_def in_range315_def)
  show "dec_Quo sdk0 a b = Ok c \<Longrightarrow> 2 * OneDec * (c * b) \<le> 2 * OneDec * (a * OneDec) + \<bar>b\<bar> * (OneDec + 2)"
    "dec_Quo sdk0 a b = Ok c \<Longrightarrow> 2 * OneDec * (a * OneDec) \<le> 2 * OneDec * (c * b) + \<bar>b\<bar> * (OneDec + 2)"
    using ref_Quo_near [of b c a] by (auto simp: sdk0_def ref_Quo_def in_range315_def split: if_splits)
  show "dec_Quo sdk0 a 0 = Panic" by (simp add: sdk0_def ref_Quo_def)
  show "dec_Quo sdk0 a b \<noteq> Err e" by (simp add: sdk0_def ref_Quo_def in_range315_def)
  show "c' \<le> c" if "0 \<le> a" "0 < b" "b \<le> b'" "dec_Quo sdk0 a b = Ok c" "dec_Quo sdk0 a b' = Ok c'" for b' c'
    using that ref_Quo_mono [of a b b'] by (auto simp: sdk0_def ref_Quo_def in_range315_def split: if_splits)
  show "is_Ok (dec_Quo sdk0 a b)" if b: "b \<noteq> 0" and ab: "\<bar>a * OneDec\<bar> < 2 ^ 314 * \<bar>b\<bar>"
  proof -
    define q where "q = \<bar>a * OneDec * OneDec\<bar> div \<bar>b\<bar>"
    have "\<bar>a * OneDec * OneDec\<bar> < (2 ^ 314 * OneDec) * \<bar>b\<bar>" using ab by (simp add: abs_mult)
    then have "q < 2 ^ 314 * OneDec" unfolding q_def using b by (intro div_less_mult) simp_all
    then have "\<bar>go_quot (a * OneDec * OneDec) b\<bar> < 2 ^ 314 * OneDec"
      using go_quot_abs [OF b, of "a * OneDec * OneDec"] unfolding q_def [symmetric] by linarith
    then show ?thesis using b range315 [OF chop_round_near] by (simp add: sdk0_def ref_Quo_def)
  qed
  show "i \<noteq> 0 \<Longrightarrow> dec_QuoInt sdk0 a i = Ok (go_quot a i)" "dec_QuoInt sdk0 a 0 = Panic"
    by (simp_all add: sdk0_def ref_QuoInt_def)
  show "dec_TruncateInt sdk0 a = go_quot a OneDec" by (simp add: sdk0_def)
  show "2 * (dec_RoundInt sdk0 a * OneDec) \<le> 2 * a + OneDec" "2 * a \<le> 2 * (dec_RoundInt sdk0 a * OneDec) + OneDec"
    using chop_round_near [of a] by (simp_all add: sdk0_def)
  show "dec_Ceil sdk0 a = - ((- a) div OneDec) * OneDec" by (simp add: sdk0_def)
  show "dec_FromStr sdk0 t \<noteq> Panic"
    by (auto simp: sdk0_def ref_FromStr_def parse_parts_def obind_eq_Panic split: list.splits)
  show "dec_FromStr sdk0 (dec_String sdk0 a) = Ok a" by (simp add: sdk0_def ref_FromStr_String)
qed

lemma valid_coins_sdk0: "valid_coins sdk0 a \<longleftrightarrow> ref_IsValid a"
  by (auto simp: valid_coins_def coins_ok_def ref_IsValid_def list_all_iff sdk0_def)

lemma ref_IsValidD: "ref_IsValid a \<Longrightarrow> coins_ok a"
  by (simp add: ref_IsValid_def coins_ok_def list_all_iff)

lemma ref_IsValid_tabulate:
  assumes "\<And>d. d \<in> set ds \<Longrightarrow> 0 \<le> f d \<and> ref_ValidDenom d"
  shows "ref_IsValid (tabulate ds f)"
proof -
  have "coins_ok (tabulate ds f)" using assms by (intro coins_ok_tabulate) auto
  then show ?thesis using Denom_tabulate [of _ ds f] assms by (auto simp: ref_IsValid_def coins_ok_def list_all_iff)
qed

lemma ref_IsValid_denoms: "ref_IsValid a \<Longrightarrow> d \<in> set (denoms a) \<Longrightarrow> ref_ValidDenom d"
  by (auto simp: ref_IsValid_def denoms_def list_all_iff)

lemma amt_notin_denoms: "d \<notin> set (denoms a) \<Longrightarrow> amt a d = 0"
  by (simp add: denoms_def)

lemma ref_Add_ok:
  assumes "ref_IsValid a" "\<forall>c\<in>set b. ref_ValidDenom (Denom c) \<and> 0 \<le> Amount c"
  shows "\<exists>r. ref_Add a b = Ok r \<and> ref_IsValid r \<and> (\<forall>d. amt r d = amt a d + amt b d)"
proof -
  have "0 \<le> amt a d" for d using assms(1) by (intro amt_nonneg ref_IsValidD)
  moreover have "0 \<le> amt b d" for d using assms(2) by (intro amt_nonneg_all) auto
  moreover have "ref_ValidDenom d" if "d \<in> set (denoms a @ denoms b)" for d
    using that ref_IsValid_denoms [OF assms(1)] assms(2) by (auto simp: denoms_def)
  ultimately show ?thesis
    by (auto simp: ref_Add_def amt_tabulate amt_notin_denoms intro!: ref_IsValid_tabulate)
qed

lemma ref_Sub_ok:
  assumes "ref_IsValid a" "ref_IsValid b" "\<forall>d. amt b d \<le> amt a d"
  shows "\<exists>r. ref_Sub a b = Ok r \<and> ref_IsValid r \<and> (\<forall>d. amt r d = amt a d - amt b d)"
proof -
  have "amt b d = 0" if "d \<notin> set (denoms a)" for d
    using assms(3) amt_nonneg [OF ref_IsValidD [OF assms(2)], of d] amt_notin_denoms [OF that] by (metis order_antisym)
  moreover have "ref_Sub a b = Ok (tabulate (denoms a) (\<lambda>d. amt a d - amt b d))"
    using all_le_iff [OF ref_IsValidD ref_IsValidD, OF assms(1,2)] assms(3) by (simp add: ref_Sub_def)
  ultimately show ?thesis
    using assms ref_IsValid_denoms by (auto simp: amt_tabulate amt_notin_denoms intro!: ref_IsValid_tabulate)
qed

lemma ref_Sub_neg:
  assumes "ref_IsValid a" "ref_IsValid b" "amt a d < amt b d"
  shows "ref_Sub a b = Panic"
proof -
  have "\<not> list_all (\<lambda>c. Amount c \<le> amt a (Denom c)) b"
    using all_le_iff [OF ref_IsValidD ref_IsValidD, OF assms(1,2)] assms(3) by (metis linorder_not_le)
  then show ?thesis by (simp add: ref_Sub_def)
qed

lemma ref_NewCoins_ok:
  assumes "distinct (map Denom cs)" "\<forall>c\<in>set cs. ref_ValidDenom (Denom c) \<and> 0 \<le> Amount c"
  shows "\<exists>r. ref_NewCoins cs = Ok r \<and> ref_IsValid r \<and> (\<forall>d. amt r d = amt cs d)"
proof -
  have "0 \<le> amt cs d" for d using assms(2) by (induction cs) auto
  then have "ref_IsValid (tabulate (denoms cs) (amt cs))"
    using assms(2) by (intro ref_IsValid_tabulate) (auto simp: denoms_def)
  moreover have "ref_NewCoins cs = Ok (tabulate (denoms cs) (amt cs))"
    using assms by (simp add: ref_NewCoins_def denoms_def list_all_iff)
  ultimately show ?thesis using amt_notin_denoms by (auto simp: amt_tabulate)
qed

lemma ref_FromCoins_ok:
  assumes "ref_IsValid a"
  shows "ref_IsValid (tabulate (denoms a) (\<lambda>d. amt a d * OneDec))"
    "amt (tabulate (denoms a) (\<lambda>d. amt a d * OneDec)) d = amt a d * OneDec"
  using assms amt_nonneg [OF ref_IsValidD [OF assms]] ref_IsValid_denoms [OF assms] amt_notin_denoms [of _ a]
  by (auto intro!: ref_IsValid_tabulate simp: amt_tabulate)

lemma sdk0_coin: "coin_laws sdk0"
proof -
  have sel: "NewCoin sdk0 = ref_NewCoin" "NewCoins sdk0 = ref_NewCoins" "coins_Add sdk0 = ref_Add"
    "coins_Sub sdk0 = ref_Sub" "coins_AmountOf sdk0 = ref_AmountOf" "coins_IsValid sdk0 = ref_IsValid"
    "coins_IsAllGTE sdk0 = ref_IsAllGTE" "coins_IsAnyGTE sdk0 = ref_IsAnyGTE" "coins_Sort sdk0 = sort_key Denom"
    "ValidDenom sdk0 = ref_ValidDenom" "coins_IsZero sdk0 = list_all (\<lambda>c. Amount c = 0)"
    "coin_IsValid sdk0 = (\<lambda>x. ref_ValidDenom (Denom x) \<and> 0 \<le> Amount x)" "coin_Add sdk0 = ref_coin_Add"
    "NewDecCoinFromDec sdk0 = ref_NewCoin" "NewDecCoin sdk0 = ref_NewDecCoin"
    "NewDecCoinFromCoin sdk0 = (\<lambda>x. ref_NewDecCoin (Denom x) (Amount x))" "deccoin_Add sdk0 = ref_coin_Add"
    "deccoin_Sub sdk0 = ref_coin_Sub" "deccoin_TruncateDecimal sdk0 = ref_coin_Truncate"
    "ParseCoinNormalized sdk0 = ref_ParseCoin" "deccoins_AmountOf sdk0 = ref_AmountOf"
    "deccoins_IsZero sdk0 = list_all (\<lambda>c. Amount c = 0)" "deccoins_Sort sdk0 = sort_key Denom"
    "deccoins_Add sdk0 = ref_Add" "NewDecCoinsFromCoins sdk0 = (\<lambda>a. Ok (tabulate (denoms a) (\<lambda>d. amt a d * OneDec)))"
    by (simp_all add: sdk0_def)
  show ?thesis
  proof (intro coin_laws.intro [OF sdk0_dec] coin_laws_axioms.intro, unfold sel valid_coins_sdk0)
    show "ref_NewCoin d n = (if ref_ValidDenom d \<and> 0 \<le> n then Ok \<lparr>Denom = d, Amount = n\<rparr> else Panic)" for d n
      by (simp add: ref_NewCoin_def)
    show "\<exists>r. ref_NewCoins cs = Ok r \<and> ref_IsValid r \<and> (\<forall>d. amt r d = amt cs d)"
      if "distinct (map Denom cs)" "\<forall>c\<in>set cs. ref_ValidDenom (Denom c) \<and> 0 \<le> Amount c" for cs
      using that by (rule ref_NewCoins_ok)
    show "ref_IsAllGTE a b \<longleftrightarrow> (\<forall>d. amt b d \<le> amt a d)" if "ref_IsValid a" "ref_IsValid b" for a b
      using all_le_iff [OF ref_IsValidD ref_IsValidD, OF that] by (simp add: ref_IsAllGTE_def)
    show "ref_IsAnyGTE a b \<longleftrightarrow> (\<exists>d. 0 < amt b d \<and> amt b d \<le> amt a d)"
      if "ref_IsValid a" "sorted_wrt (<) (map Denom b)" "\<forall>c\<in>set b. 0 \<le> Amount c" for a b
      using any_ge_iff [OF ref_IsValidD [OF that(1)] that(3)] .
    show "\<exists>r. ref_Add a b = Ok r \<and> ref_IsValid r \<and> (\<forall>d. amt r d = amt a d + amt b d)"
      if "ref_IsValid a" "ref_IsValid b" for a b
      using that by (intro ref_Add_ok) (auto simp: ref_IsValid_def list_all_iff less_imp_le)
    show "\<exists>r. (Ok (tabulate (denoms a) (\<lambda>d. amt a d * OneDec)) :: coins outcome) = Ok r \<and> ref_IsValid r
      \<and> (\<forall>d. amt r d = amt a d * OneDec)" if "ref_IsValid a" for a
      using ref_FromCoins_ok [OF that] by simp
  qed (simp_all add: ref_AmountOf_def ref_Add_ok ref_Sub_ok ref_Sub_neg ref_coin_Add_def ref_NewCoin_def
      ref_NewDecCoin_def ref_coin_Sub_def ref_coin_Truncate_def ref_ParseCoin_def Let_def zero_le_mult_iff list_all_iff)
qed

lemma ref_IsValid_amt_invalid: "ref_IsValid cs \<Longrightarrow> \<not> ref_ValidDenom d \<Longrightarrow> amt cs d = 0"
  using ref_IsValid_denoms amt_notin_denoms by blast

lemma ref_bal_nonneg: "0 \<le> ref_bal b x d"
  by (simp add: ref_bal_def)

lemma ref_send_bal:
  assumes "ref_send x y cs b = (Ok (), b')"
  shows "ref_bal b' z d = ref_bal b z d - (if z = x then amt cs d else 0) + (if z = y then amt cs d else 0)"
    and "lg_supply b' = lg_supply b"
proof -
  let ?f = "\<lambda>z d. ref_bal b z d - (if z = x then amt cs d else 0) + (if z = y then amt cs d else 0)"
  let ?ks = "map (Pair x) (denoms cs) @ map (Pair y) (denoms cs)"
  have v: "ref_IsValid cs" "list_all (\<lambda>c. Amount c \<le> ref_bal b x (Denom c)) cs" and b': "b' = rebuild_entries ?ks ?f b"
    using assms by (auto simp: ref_send_def split: if_splits)
  have nn: "0 \<le> amt cs d" for d using v(1) ref_IsValidD amt_nonneg by blast
  have le: "amt cs d \<le> ref_bal b x d" for d
    using v amt_in [OF ref_IsValidD [OF v(1)]] ref_bal_nonneg [of b x d] amt_notin [of d cs]
    by (cases "d \<in> Denom ` set cs") (auto simp: list_all_iff)
  show "ref_bal b' z d = ?f z d"
    unfolding b'
  proof (rule ref_bal_rebuild)
    show "0 \<le> ?f z d" for z d using ref_bal_nonneg [of b z d] nn [of d] le [of d] by auto
    show "?f z d = 0" if "\<not> ref_ValidDenom d" for z d
      using that ref_IsValid_amt_invalid [OF v(1) that] by (simp add: ref_bal_def)
    show "?f z d = ref_bal b z d" if "(z, d) \<notin> set ?ks" for z d
      using that amt_notin_denoms [of d cs] by auto
  qed
  show "lg_supply b' = lg_supply b" by (simp add: b' rebuild_entries_def)
qed

lemma ref_mint_bal:
  assumes "ref_mint sg m cs b = (Ok (), b')" "sg = 1 \<or> sg = - 1"
  shows "ref_bal b' z d = ref_bal b z d + (if z = module_addr m then sg * amt cs d else 0)"
    and "lg_supply b' d = lg_supply b d + sg * amt cs d"
proof -
  let ?x = "module_addr m"
  let ?f = "\<lambda>z d. ref_bal b z d + (if z = ?x then sg * amt cs d else 0)"
  let ?ks = "map (Pair ?x) (denoms cs)"
  have v: "ref_IsValid cs" "list_all (\<lambda>c. 0 \<le> ref_bal b ?x (Denom c) + sg * Amount c) cs"
    and b': "b' = (rebuild_entries ?ks ?f b)\<lparr>lg_supply := \<lambda>d. lg_supply b d + sg * amt cs d\<rparr>"
    using assms(1) by (auto simp: ref_mint_def Let_def split: if_splits)
  have le: "0 \<le> ref_bal b ?x d + sg * amt cs d" for d
    using v amt_in [OF ref_IsValidD [OF v(1)]] ref_bal_nonneg [of b ?x d] amt_notin [of d cs]
    by (cases "d \<in> Denom ` set cs") (auto simp: list_all_iff)
  have "ref_bal b' z d = ref_bal (rebuild_entries ?ks ?f b) z d" by (simp add: b' ref_bal_def)
  also have "\<dots> = ?f z d"
  proof (rule ref_bal_rebuild)
    show "0 \<le> ?f z d" for z d using ref_bal_nonneg [of b z d] le [of d] by auto
    show "?f z d = 0" if "\<not> ref_ValidDenom d" for z d
      using that ref_IsValid_amt_invalid [OF v(1) that] by (simp add: ref_bal_def)
    show "?f z d = ref_bal b z d" if "(z, d) \<notin> set ?ks" for z d
      using that amt_notin_denoms [of d cs] by auto
  qed
  finally show "ref_bal b' z d = ?f z d" .
  show "lg_supply b' d = lg_supply b d + sg * amt cs d" by (simp add: b')
qed

lemma ref_AllBalances_amt: "amt (ref_AllBalances b x) d = ref_bal b x d"
proof -
  have "ref_bal b x d = 0"
    if "d \<notin> set (filter ref_ValidDenom (map (\<lambda>e. fst (snd e)) (filter (\<lambda>e. fst e = x) (lg_entries b))))"
  proof (cases "ref_ValidDenom d")
    case True
    then have "(x, d) \<notin> (\<lambda>e. (fst e, fst (snd e))) ` set (lg_entries b)" using that by force
    then show ?thesis by (simp add: ref_bal_def entry_sum_notin)
  qed (simp add: ref_bal_def)
  then show ?thesis by (auto simp: ref_AllBalances_def amt_tabulate)
qed

lemma sdk0_bank: "bank_laws sdk0"
proof -
  have bal0: "bal sdk0 = ref_bal" and sup0: "supply_of sdk0 b d = lg_supply b d" for b d
    by (simp_all add: fun_eq_iff bal_def supply_of_def sdk0_def)
  have mv: "moved sdk0 x y cs b b'" if "ref_send x y cs b = (Ok (), b')" for x y cs b b'
    using ref_send_bal [OF that] by (simp add: moved_def bal0 sup0)
  have iss: "issued sdk0 (module_addr m) sg cs b b'" if "ref_mint sg m cs b = (Ok (), b')" "sg = 1 \<or> sg = - 1" for sg m cs b b'
    using ref_mint_bal [OF that] by (simp add: issued_def bal0 sup0)
  have "ref_IsValid (ref_AllBalances b x)" for b x
    unfolding ref_AllBalances_def by (intro ref_IsValid_tabulate) (simp add: ref_bal_nonneg)
  then show ?thesis
    by (intro bank_laws.intro [OF sdk0_coin] bank_laws_axioms.intro)
      (auto simp: bal0 ref_bal_nonneg valid_coins_sdk0 sdk0_def [THEN arg_cong, of GetAllBalances]
        sdk0_def [THEN arg_cong, of SendCoins] sdk0_def [THEN arg_cong, of SendCoinsFromModuleToModule]
        sdk0_def [THEN arg_cong, of SendCoinsFromModuleToAccount] sdk0_def [THEN arg_cong, of SendCoinsFromAccountToModule]
        sdk0_def [THEN arg_cong, of MintCoins] sdk0_def [THEN arg_cong, of BurnCoins]
        sdk0_def [THEN arg_cong, of GetModuleAddress] ref_AllBalances_amt intro!: mv iss)
qed

lemma hex_decode_length: "hex_DecodeString s = Ok v \<Longrightarrow> length s = 2 * length v"
  by (induction s arbitrary: v rule: hex_DecodeString.induct) (auto split: option.splits)

lemma hex_decode_no_panic: "hex_DecodeString s \<noteq> Panic"
  by (induction s rule: hex_DecodeString.induct) (auto simp: obind_eq_Panic split: option.splits)

lemma sdk0_addr: "addr_laws sdk0"
  by unfold_locales
    (auto simp: sdk0_def bech_encode_def bech_decode_def hex_roundtrip hex_decode_no_panic obind_eq_Panic split: if_splits)

interpretation ref: bank_laws sdk0
  by (rule sdk0_bank)

lemma sdk0_staking: "staking_laws sdk0"
  by (intro staking_laws.intro [OF sdk0_addr] staking_laws_axioms.intro)
    (auto simp: sdk0_def find_Some_iff)

interpretation ref_staking: staking_laws sdk0
  by (rule sdk0_staking)

lemma ref_pool: "lg_pool (snd (ref_send x y cs b)) = lg_pool b" "lg_community_tax (snd (ref_send x y cs b)) = lg_community_tax b"
  "lg_pool (snd (ref_mint sg m cs b)) = lg_pool b"
  by (simp_all add: ref_send_def ref_mint_def rebuild_entries_def Let_def)

lemma sdk0_distr: "distr_laws sdk0"
  by (intro distr_laws.intro [OF sdk0_bank] distr_laws_axioms.intro)
    (simp_all add: sdk0_def ref_pool bank_same_def bal_def supply_of_def ref_bal_def)

text \<open>The fields of the instance, for evaluation.\<close>

lemma sdk0_sel [simp]:
  "dec_Mul sdk0 = ref_Mul"
  "dec_Quo sdk0 = ref_Quo"
  "dec_QuoInt sdk0 = ref_QuoInt"
  "dec_TruncateInt sdk0 = (\<lambda>a. go_quot a OneDec)"
  "dec_RoundInt sdk0 = chop_round"
  "dec_Ceil sdk0 = (\<lambda>a. - ((- a) div OneDec) * OneDec)"
  "dec_FromStr sdk0 = ref_FromStr"
  "dec_String sdk0 = ref_String"
  "ValidDenom sdk0 = ref_ValidDenom"
  "NewCoin sdk0 = ref_NewCoin"
  "NewCoins sdk0 = ref_NewCoins"
  "coins_Add sdk0 = ref_Add"
  "coins_Sub sdk0 = ref_Sub"
  "coins_AmountOf sdk0 = ref_AmountOf"
  "coins_IsZero sdk0 = (\<lambda>a. list_all (\<lambda>c. Amount c = 0) a)"
  "coins_IsValid sdk0 = ref_IsValid"
  "coins_IsAllGTE sdk0 = ref_IsAllGTE"
  "coins_IsAnyGTE sdk0 = ref_IsAnyGTE"
  "coins_Sort sdk0 = sort_key Denom"
  "NewDecCoins sdk0 = ref_NewCoins"
  "NewDecCoinsFromCoins sdk0 = (\<lambda>a. Ok (tabulate (denoms a) (\<lambda>d. amt a d * OneDec)))"
  "NewDecCoinFromDec sdk0 = ref_NewCoin"
  "deccoins_Add sdk0 = ref_Add"
  "deccoins_Sub sdk0 = ref_Sub"
  "deccoins_MulDec sdk0 = ref_MulDec"
  "deccoins_TruncateDecimal sdk0 = ref_TruncateDecimal"
  "coin_IsValid sdk0 = (\<lambda>x. ref_ValidDenom (Denom x) \<and> 0 \<le> Amount x)"
  "coin_Add sdk0 = ref_coin_Add"
  "NewDecCoin sdk0 = ref_NewDecCoin"
  "NewDecCoinFromCoin sdk0 = (\<lambda>x. ref_NewDecCoin (Denom x) (Amount x))"
  "deccoin_Add sdk0 = ref_coin_Add"
  "deccoin_Sub sdk0 = ref_coin_Sub"
  "deccoin_TruncateDecimal sdk0 = ref_coin_Truncate"
  "ParseCoinNormalized sdk0 = ref_ParseCoin"
  "deccoins_AmountOf sdk0 = ref_AmountOf"
  "deccoins_IsZero sdk0 = (\<lambda>a. list_all (\<lambda>c. Amount c = 0) a)"
  "deccoins_Sort sdk0 = sort_key Denom"
  "GetModuleAddress sdk0 = module_addr"
  "GetModuleAccount sdk0 = (\<lambda>m b. (Ok True, b))"
  "GetBalance sdk0 = (\<lambda>b x d. \<lparr>Denom = d, Amount = ref_bal b x d\<rparr>)"
  "GetAllBalances sdk0 = ref_AllBalances"
  "GetSupply sdk0 = (\<lambda>b d. \<lparr>Denom = d, Amount = lg_supply b d\<rparr>)"
  "SendCoins sdk0 = ref_send"
  "SendCoinsFromModuleToModule sdk0 = (\<lambda>m n. ref_send (module_addr m) (module_addr n))"
  "SendCoinsFromModuleToAccount sdk0 = (\<lambda>m y. ref_send (module_addr m) y)"
  "SendCoinsFromAccountToModule sdk0 = (\<lambda>x n. ref_send x (module_addr n))"
  "MintCoins sdk0 = ref_mint 1"
  "BurnCoins sdk0 = ref_mint (- 1)"
  "ValAddress_String sdk0 = bech_encode ''terravaloper1''"
  "AccAddress_String sdk0 = bech_encode ''terra1''"
  "ValAddressFromBech32 sdk0 = bech_decode ''terravaloper1''"
  "AccAddressFromBech32 sdk0 = bech_decode ''terra1''"
  "MustLengthPrefix sdk0 = (\<lambda>v. char_of (length v) # v)"
  "ParseDecCoin sdk0 = ref_ParseDecCoin"
  "tmhash_Truncated sdk0 = (\<lambda>t. take 20 (rev t @ replicate 20 CHR ''0''))"
  "MaxValidators sdk0 = lg_max"
  "ValidatorsPowerStore sdk0 = lg_power"
  "PowerReduction sdk0 = (\<lambda>b. 1000000)"
  "Validator sdk0 = (\<lambda>b a. find (\<lambda>v. v_Operator v = a \<and> address_ok a) (lg_validators b))"
  "GetConsensusPower sdk0 = (\<lambda>v r. Ok (if v_IsBonded v then go_quot (v_Tokens v) r else 0))"
  "TotalBondedTokens sdk0 = lg_bonded"
  "TokensToConsensusPower sdk0 = (\<lambda>n r. if r = 0 then Panic else Ok (go_quot n r))"
  "Slash sdk0 = (\<lambda>a h p f b. (Ok (), b\<lparr>lg_slashed := lg_slashed b @ [(a, h, p, f)]\<rparr>))"
  "Jail sdk0 = (\<lambda>a b. (Ok (), b\<lparr>lg_jailed := lg_jailed b @ [a]\<rparr>))"
  "AllocateTokensToValidator sdk0 = (\<lambda>v cs b. (Ok (), b\<lparr>lg_alloc := lg_alloc b @ [(v_Operator v, cs)]\<rparr>))"
  "GetDenomMetaData sdk0 = (\<lambda>b d. find (\<lambda>m. md_Base m = d) (lg_meta b))"
  "SetDenomMetaData sdk0 = (\<lambda>m b. (Ok (), b\<lparr>lg_meta := m # lg_meta b\<rparr>))"
  "CommunityPool sdk0 = lg_pool"
  "SetCommunityPool sdk0 = (\<lambda>p b. (Ok (), b\<lparr>lg_pool := p\<rparr>))"
  "GetCommunityTax sdk0 = lg_community_tax"
  by (simp_all add: sdk0_def)

text \<open>Calls of the bank on one coin that succeed.\<close>

lemma sdk0_module: "module_laws sdk0 (\<lambda>_. True)"
proof (intro module_laws.intro [OF sdk0_distr] module_laws_axioms.intro)
  fix m m' cs b
  assume v: "valid_coins sdk0 cs" and le: "\<forall>d. amt cs d \<le> bal sdk0 b (GetModuleAddress sdk0 m) d"
  have "Amount c \<le> ref_bal b (module_addr m) (Denom c)" if "c \<in> set cs" for c
    using le [rule_format, of "Denom c"] amt_in [OF ref_IsValidD [of cs] that] v by (simp add: valid_coins_sdk0 bal_def)
  then show "fst (SendCoinsFromModuleToModule sdk0 m m' cs b) = Ok ()"
    using v by (simp add: valid_coins_sdk0 ref_send_def list_all_iff)
qed

interpretation ref_module: module_laws sdk0 "\<lambda>_. True"
  by (rule sdk0_module)

lemma ref_NewCoins_one: "ref_ValidDenom d \<Longrightarrow> 0 < n \<Longrightarrow> ref_NewCoins [\<lparr>Denom = d, Amount = n\<rparr>] = Ok [\<lparr>Denom = d, Amount = n\<rparr>]"
  by (simp add: ref_NewCoins_def tabulate_def denoms_def)

lemma ref_send_one:
  assumes "ref_ValidDenom d" "0 < n" "n \<le> ref_bal b x d"
  obtains b' where "ref_send x y [\<lparr>Denom = d, Amount = n\<rparr>] b = (Ok (), b')"
    "\<And>z e. ref_bal b' z e = ref_bal b z e - (if z = x \<and> e = d then n else 0) + (if z = y \<and> e = d then n else 0)"
proof -
  obtain b' where b': "ref_send x y [\<lparr>Denom = d, Amount = n\<rparr>] b = (Ok (), b')"
    using assms by (simp add: ref_send_def ref_IsValid_def)
  then show thesis using ref_send_bal(1) [OF b'] by (intro that) auto
qed

lemma ref_mint_one:
  assumes "ref_ValidDenom d" "0 < n" "0 \<le> ref_bal b (module_addr m) d + sg * n" "sg = 1 \<or> sg = - 1"
  obtains b' where "ref_mint sg m [\<lparr>Denom = d, Amount = n\<rparr>] b = (Ok (), b')"
    "\<And>z e. ref_bal b' z e = ref_bal b z e + (if z = module_addr m \<and> e = d then sg * n else 0)"
proof -
  obtain b' where b': "ref_mint sg m [\<lparr>Denom = d, Amount = n\<rparr>] b = (Ok (), b')"
    using assms by (simp add: ref_mint_def ref_IsValid_def Let_def)
  then show thesis using ref_mint_bal(1) [OF b' assms(4)] by (intro that) auto
qed

end
