(* ===== verification/Oracle_Sample.thy ===== *)
theory Oracle_Sample
  imports Oracle_Slash Oracle_Votes Oracle_Genesis Sdk_Instance
begin

text \<open>
  A concrete chain state of two validators, on which the theorems of the oracle are instantiated.
\<close>

definition val_a :: string where "val_a = ''aaaaaaaaaaaaaaaaaaaa''"
definition val_b :: string where "val_b = ''bbbbbbbbbbbbbbbbbbbb''"

definition sample_validator :: "string \<Rightarrow> int \<Rightarrow> validator" where
  "sample_validator a n = \<lparr>v_Operator = a, v_IsBonded = True, v_IsJailed = False, v_Tokens = n,
     v_ConsAddr = Ok a, v_CommissionRate = 0, v_MaxRate = OneDec\<rparr>"

definition sample_ledger :: ledger where
  "sample_ledger = \<lparr>
     lg_entries = [(module_addr ''oracle'', ''uluna'', 1000000), (val_a, ''uluna'', 5000)],
     lg_supply = (\<lambda>d. if d = ''uluna'' then 1005000 else 0),
     lg_validators = [sample_validator val_a 10000000, sample_validator val_b 20000000],
     lg_power = [val_b, val_a], lg_max = 130, lg_bonded = 30000000, lg_meta = [], lg_alloc = [],
     lg_slashed = [], lg_jailed = [], lg_pool = [], lg_community_tax = 0\<rparr>"

definition sample_oracle :: "ledger oracle_state" where
  "sample_oracle = \<lparr>
     BlockHeight = 4, ext = sample_ledger, o_params = oracle_DefaultParams,
     ExchangeRates = [], FeederDelegations = [],
     MissCounters = [(GetMissCounterKey sdk0 val_a, 3), (GetMissCounterKey sdk0 val_b, 19999)],
     AggregatePrevotes = [],
     AggregateVotes =
       [(GetAggregateExchangeRateVoteKey sdk0 val_a,
           \<lparr>av_ExchangeRateTuples = [\<lparr>rt_Denom = ''ukrw'', rt_ExchangeRate = 17 * OneDec\<rparr>,
              \<lparr>rt_Denom = ''uusd'', rt_ExchangeRate = 2 * OneDec\<rparr>], av_Voter = ValAddress_String sdk0 val_a\<rparr>),
        (GetAggregateExchangeRateVoteKey sdk0 val_b,
           \<lparr>av_ExchangeRateTuples = [\<lparr>rt_Denom = ''ukrw'', rt_ExchangeRate = 18 * OneDec\<rparr>,
              \<lparr>rt_Denom = ''uusd'', rt_ExchangeRate = 3 * OneDec\<rparr>], av_Voter = ValAddress_String sdk0 val_b\<rparr>)],
     TobinTaxes = [(GetTobinTaxKey ''ukrw'', DefaultTobinTax), (GetTobinTaxKey ''uusd'', DefaultTobinTax)]\<rparr>"

definition id_orders :: range_orders where
  "id_orders = \<lparr>ord_pick = id, ord_tally = id, ord_miss = id, ord_targets = id, ord_sum = id, ord_reward = id\<rparr>"

definition rev_orders :: range_orders where
  "rev_orders = \<lparr>ord_pick = rev, ord_tally = rev, ord_miss = rev, ord_targets = rev, ord_sum = rev, ord_reward = rev\<rparr>"

lemma sample_oracle_wf: "oracle_wf sdk0 sample_oracle"
  unfolding oracle_wf_def sample_oracle_def
  by (simp only: oracle_state.select_convs chain.select_convs, intro conjI keyed_Cons keyed_Nil)
    (simp_all add: val_a_def val_b_def address_ok_def oracle_key_defs in_u64_def)

theorem slash_decision_witness:
  "\<exists>r. valid_vote_rate sdk0 20160 19153 = Ok r \<and>
    (r < NewDecWithPrec 5 2 \<longleftrightarrow> (20160 - 19153) * OneDec < NewDecWithPrec 5 2 * 20160)"
  by (rule slash_decision [OF sdk0_dec]) simp_all


theorem SlashAndResetMissCounters_resets_witness:
  "MissCounters (snd (SlashAndResetMissCounters sdk0 sample_oracle)) = []"
proof (rule SlashAndResetMissCounters_resets [OF sdk0_addr sample_oracle_wf])
  have "fst (SlashAndResetMissCounters sdk0 sample_oracle) = Ok ()"
    by (simp add: SlashAndResetMissCounters_def sample_oracle_def IterateMissCounters_def oracle_DefaultParams_def
        oracle_SlashWindow_def oracle_VotePeriod_def oracle_MinValidPerWindow_def oracle_SlashFraction_def block_defs
        ref_QuoInt_def NewDec_def NewDecWithPrec_def i64_def u64_def go_quot_def dec_TruncateInt64_def in_i64_def Let_def
        slash_handler_def valid_vote_rate_def slash_operator_def oracle_key_defs val_a_def val_b_def address_ok_def DeleteMissCounter_def
        sample_ledger_def sample_validator_def must_def sdk_call_def seq_def bnd_def ValidatorUpdateDelay_def)
  then show "SlashAndResetMissCounters sdk0 sample_oracle = (Ok (), snd (SlashAndResetMissCounters sdk0 sample_oracle))"
    by (metis prod.collapse)
qed

definition empty_oracle :: "ledger oracle_state" where
  "empty_oracle = \<lparr>BlockHeight = 0, ext = sample_ledger, o_params = oracle_DefaultParams, ExchangeRates = [],
     FeederDelegations = [], MissCounters = [], AggregatePrevotes = [], AggregateVotes = [], TobinTaxes = []\<rparr>"

theorem oracle_genesis_roundtrip_witness:
  "\<exists>g s'. oracle_ExportGenesis sdk0 sample_oracle = (Ok g, sample_oracle)
    \<and> oracle_InitGenesis sdk0 g empty_oracle = (Ok (), s') \<and> oracle_stores s' = oracle_stores sample_oracle"
proof (rule oracle_genesis_roundtrip [OF sdk0_addr sample_oracle_wf])
  show "pairs_valid (oracle_ParamSetPairs (o_params sample_oracle))"
    by (simp add: pairs_valid_def sample_oracle_def oracle_DefaultParams_def oracle_ParamSetPairs_def validateVotePeriod_def
        validateVoteThreshold_def validateRewardBand_def validateRewardDistributionWindow_def validateWhitelist_def
        validateSlashFraction_def validateSlashWindow_def validateMinValidPerWindow_def oracle_DefaultWhitelist_def
        DefaultTobinTax_def denom_defs block_defs NewDecWithPrec_def)
qed (simp_all add: sample_oracle_def empty_oracle_def oracle_stores_def)

theorem oracle_reachable_wf_witness:
  "oracle_wf sdk0 (snd (oracle_EndBlocker sdk0 id_orders sample_oracle))"
proof (rule oracle_reachable_wf [OF sdk0_staking sample_oracle_wf])
  have "orders_ok id_orders" by (simp add: orders_ok_def id_orders_def)
  then show "oracle_reachable sdk0 sample_oracle (snd (oracle_EndBlocker sdk0 id_orders sample_oracle))"
    by (intro reach_step [OF reach_init] step_end_block)
qed

section \<open>Votes\<close>

definition sample_vote :: msg_vote where
  "sample_vote = \<lparr>mv_Salt = ''salt'', mv_ExchangeRates = ''17ukrw'', mv_Feeder = AccAddress_String sdk0 val_a,
     mv_Validator = ValAddress_String sdk0 val_a\<rparr>"

definition sample_commit :: msg_prevote where
  "sample_commit = \<lparr>mp_Hash = hex_EncodeToString (GetAggregateVoteHash sdk0 ''salt'' ''17ukrw'' val_a),
     mp_Feeder = AccAddress_String sdk0 val_a, mp_Validator = ValAddress_String sdk0 val_a\<rparr>"

lemma sample_length [simp]: "address_ok val_a" "address_ok val_b"
  by (simp_all add: address_ok_def val_a_def val_b_def)

lemma sample_addr [simp]:
  "address_ok v \<Longrightarrow> ValAddressFromBech32 sdk0 (ValAddress_String sdk0 v) = Ok v"
  "address_ok v \<Longrightarrow> AccAddressFromBech32 sdk0 (AccAddress_String sdk0 v) = Ok v"
  using addr_laws.ValAddress_roundtrip [OF sdk0_addr] addr_laws.AccAddress_roundtrip [OF sdk0_addr] by simp_all

lemma sample_val_a:
  "Validator sdk0 sample_ledger val_a = Some (sample_validator val_a 10000000)"
  by (simp add: sample_ledger_def sample_validator_def)

lemma sample_parse: "ParseExchangeRateTuples sdk0 ''17ukrw'' = Ok [\<lparr>rt_Denom = ''ukrw'', rt_ExchangeRate = 17 * OneDec\<rparr>]"
proof -
  have trim: "TrimSpace ''17ukrw'' = ''17ukrw''" by code_simp
  have coin: "ref_ParseDecCoin ''17ukrw'' = Ok \<lparr>Denom = ''ukrw'', Amount = 17 * OneDec\<rparr>" by code_simp
  show ?thesis by (simp add: ParseExchangeRateTuples_def parse_tuple_def trim coin)
qed

definition committed :: "ledger oracle_state" where
  "committed = (snd (AggregateExchangeRatePrevote sdk0 sample_commit sample_oracle))\<lparr>BlockHeight := 5\<rparr>"

lemma sample_commit_run:
  "AggregateExchangeRatePrevote sdk0 sample_commit sample_oracle =
     (Ok (), sample_oracle\<lparr>AggregatePrevotes := [(GetAggregateExchangeRatePrevoteKey sdk0 val_a,
        NewAggregateExchangeRatePrevote sdk0 (GetAggregateVoteHash sdk0 ''salt'' ''17ukrw'' val_a) val_a 4)]\<rparr>)"
proof -
  have "ValAddressFromBech32 sdk0 (mp_Validator sample_commit) = Ok val_a"
    "AccAddressFromBech32 sdk0 (mp_Feeder sample_commit) = Ok val_a"
    by (simp_all only: sample_commit_def msg_prevote.select_convs sample_addr sample_length)
  moreover have "ValidateFeeder sdk0 val_a val_a sample_oracle = (Ok (), sample_oracle)"
    unfolding ValidateFeeder_run using sample_val_a by (auto simp: sample_oracle_def sample_validator_def)
  moreover have "AggregateVoteHashFromHexString (mp_Hash sample_commit) = Ok (GetAggregateVoteHash sdk0 ''salt'' ''17ukrw'' val_a)"
    by (simp add: AggregateVoteHashFromHexString_def sample_commit_def hex_roundtrip del: hex_EncodeToString.simps)
  ultimately show ?thesis
    unfolding AggregateExchangeRatePrevote_def
    by (simp only: bnd_lift outcome.case bnd_gets seq_run wrap_err_def)
       (simp add: SetAggregateExchangeRatePrevote_def sample_oracle_def u64_def modify_def)
qed

theorem commit_then_reveal_witness:
  "\<exists>s3. AggregateExchangeRateVote sdk0 sample_vote committed = (Ok (), s3)
    \<and> GetAggregateExchangeRateVote sdk0 val_a s3
        = (Ok (NewAggregateExchangeRateVote sdk0 [\<lparr>rt_Denom = ''ukrw'', rt_ExchangeRate = 17 * OneDec\<rparr>] val_a), s3)
    \<and> AggregateExchangeRateVote sdk0 sample_vote s3 = (Err ErrNoAggregatePrevote, s3)"
proof (rule commit_then_reveal [OF sample_commit_run _ _ _ _ _ _ _ _ _ _ _ _ disjI1])
  show "ValAddressFromBech32 sdk0 (mp_Validator sample_commit) = Ok val_a"
    "AccAddressFromBech32 sdk0 (mv_Feeder sample_vote) = Ok val_a"
    "mv_Validator sample_vote = mp_Validator sample_commit"
    by (simp_all only: sample_commit_def sample_vote_def msg_prevote.select_convs msg_vote.select_convs sample_addr sample_length)
  show "AggregateVoteHashFromHexString (mp_Hash sample_commit) =
      Ok (GetAggregateVoteHash sdk0 (mv_Salt sample_vote) (mv_ExchangeRates sample_vote) val_a)"
    by (simp add: AggregateVoteHashFromHexString_def sample_commit_def sample_vote_def hex_roundtrip del: hex_EncodeToString.simps)
  show "ParseExchangeRateTuples sdk0 (mv_ExchangeRates sample_vote) = Ok [\<lparr>rt_Denom = ''ukrw'', rt_ExchangeRate = 17 * OneDec\<rparr>]"
    by (simp only: sample_vote_def msg_vote.select_convs sample_parse)
  show "Validator sdk0 (ext committed) val_a = Some (sample_validator val_a 10000000)"
    by (simp only: committed_def sample_commit_run) (simp add: sample_oracle_def sample_val_a del: sdk0_sel)
qed (unfold committed_def sample_commit_run,
    simp_all add: sample_validator_def sample_oracle_def oracle_DefaultParams_def block_defs GetTobinTaxKey_def kv_ok_def)


section \<open>Tally\<close>

definition krw_ballot :: ballot where
  "krw_ballot =
     [\<lparr>vft_Denom = ''ukrw'', vft_ExchangeRate = 17 * OneDec, vft_Voter = val_a, vft_Power = 10\<rparr>,
      \<lparr>vft_Denom = ''ukrw'', vft_ExchangeRate = 18 * OneDec, vft_Voter = val_b, vft_Power = 20\<rparr>]"

definition sample_claims :: "claim kv" where
  "sample_claims =
     [(ValAddress_String sdk0 val_a, NewClaim 10 0 0 val_a), (ValAddress_String sdk0 val_b, NewClaim 20 0 0 val_b)]"

lemma sample_claims_ok: "claims_ok sdk0 sample_claims"
  unfolding claims_ok_def sample_claims_def
  by (intro keyed_Cons keyed_Nil) (simp_all add: NewClaim_def bech_encode_def val_a_def val_b_def address_ok_def hex_digit_def less_char_def)

lemma sample_WeightedMedian: "WeightedMedian krw_ballot = 18000000000000000000"
  by code_simp


lemma sample_deviation: "StandardDeviation sdk0 krw_ballot 18000000000000000000 = Some 707107000000000000"
proof -
  have sum: "deviation_sum sdk0 18000000000000000000 krw_ballot = Ok OneDec"
    by (simp add: deviation_sum_def krw_ballot_def ref_Mul_def chop_round_def chop_nonneg_def in_range315_def Let_def)
  have str: "ref_String (OneDec div 2) = ''0.500000000000000000''" by code_simp
  have flt: "Sprintf_f (f64_Sqrt (ParseFloat_Sqrt_arg ''0.500000000000000000'')) = ''0.707107''" by code_simp
  have dec: "ref_FromStr ''0.707107'' = Ok 707107000000000000" by code_simp
  show ?thesis
    unfolding StandardDeviation_def sum
    using str flt dec by (simp add: krw_ballot_def ref_QuoInt_def go_quot_def)
qed


theorem PickReferenceTerra_strongest_witness:
  "\<exists>p. PickReferenceTerra sdk0 rev_orders [(''ukrw'', 0)] [(''ukrw'', krw_ballot)] sample_oracle = (Ok p, sample_oracle)
    \<and> pk_reference p = ''ukrw''"
proof -
  let ?V = "[(''ukrw'', krw_ballot)]" and ?T = "[(''ukrw'', 0 :: dec)]"
  have "mset (ord_pick rev_orders ?V) = mset ?V" "kv_ok ?V" "kv_ok ?T"
    "\<forall>(d, b)\<in>set ?V. \<forall>v\<in>set b. 0 \<le> vft_Power v" "\<forall>(d, b)\<in>set ?V. sum_list (map vft_Power b) < 2 ^ 63"
    by (simp_all add: rev_orders_def kv_ok_def krw_ballot_def)
  moreover have "TokensToConsensusPower sdk0 (TotalBondedTokens sdk0 (ext sample_oracle)) (PowerReduction sdk0 (ext sample_oracle)) = Ok 30"
    by (simp add: sample_oracle_def sample_ledger_def go_quot_def)
  ultimately obtain p where p: "PickReferenceTerra sdk0 rev_orders ?T ?V sample_oracle = (Ok p, sample_oracle)"
    "pk_votes p = filter (\<lambda>(d, b). kv_get d ?T \<noteq> None \<and>
        snd (ballotIsPassing b (dec_RoundInt sdk0 (op_VoteThreshold (o_params sample_oracle) * 30)))) ?V"
    "if pk_votes p = [] then pk_reference p = [] else \<exists>b. kv_get (pk_reference p) (pk_votes p) = Some b \<and>
            (\<forall>(d, b')\<in>set (pk_votes p). ballot_Power b' < ballot_Power b
               \<or> ballot_Power b' = ballot_Power b \<and> pk_reference p \<le> d)"
    using PickReferenceTerra_strongest [of rev_orders ?V ?T sdk0 sample_oracle 30] by blast
  have "pk_votes p = ?V"
    using p(2) by (simp add: ballotIsPassing_def krw_ballot_def ballot_Power_def sample_oracle_def i64_def
        oracle_DefaultParams_def NewDecWithPrec_def chop_round_def chop_nonneg_def Let_def)
  then show ?thesis using p by (auto split: if_splits)
qed

theorem tally_ballots_order_witness:
  "fst (tally_ballots sdk0 id_orders 0 ''ukrw'' [(''ukrw'', krw_ballot), (''uusd'', krw_ballot)] sample_claims sample_oracle)
   = fst (tally_ballots sdk0 rev_orders 0 ''ukrw'' [(''ukrw'', krw_ballot), (''uusd'', krw_ballot)] sample_claims sample_oracle)"
proof -
  have "kv_ok sample_claims" using sample_claims_ok keyed_ok by (auto simp: claims_ok_def)
  then show ?thesis
    using tally_ballots_order [OF sdk0_dec, of "[(''ukrw'', krw_ballot), (''uusd'', krw_ballot)]" sample_claims sample_oracle
        id_orders rev_orders 0 "''ukrw''"]
    by (simp add: kv_ok_def id_orders_def rev_orders_def sample_oracle_def)
qed

end
