(* ===== verification/Market.thy ===== *)
theory Market
  imports Oracle_Keeper
begin

text \<open>
  The market module (\<open>x/market\<close>): parameters, the pool delta, the two swap computations of
  \<open>keeper/swap.go\<close>, the swap messages of \<open>keeper/msg_server.go\<close>, the replenishing of the pools at the
  end of a block, genesis and queries.  The oracle keeper it reads prices and Tobin taxes from is the
  one of \<open>Oracle_Keeper\<close>; its state extends that of the oracle.
\<close>

section \<open>Types\<close>

definition market_ModuleName :: string where "market_ModuleName = ''market''"

definition ErrRecursiveSwap :: error where "ErrRecursiveSwap = RegErr market_ModuleName 2"
definition ErrNoEffectivePrice :: error where "ErrNoEffectivePrice = RegErr market_ModuleName 3"
definition ErrZeroSwapCoin :: error where "ErrZeroSwapCoin = RegErr market_ModuleName 4"
definition ErrPanic :: error where "ErrPanic = SdkErr ''ErrPanic''"

record market_params =
  mk_BasePool :: dec
  mk_PoolRecoveryPeriod :: int
  mk_MinStabilitySpread :: dec

definition market_DefaultParams :: market_params where
  "market_DefaultParams = \<lparr>
     mk_BasePool = NewDec (1000000 * MicroUnit),
     mk_PoolRecoveryPeriod = BlocksPerDay,
     mk_MinStabilitySpread = NewDecWithPrec 2 2\<rparr>"

definition validateBasePool :: "dec \<Rightarrow> unit outcome" where
  "validateBasePool v = (if v < 0 then Err (FmtErr ''mint base pool must be positive or zero'') else Ok ())"

definition validatePoolRecoveryPeriod :: "int \<Rightarrow> unit outcome" where
  "validatePoolRecoveryPeriod v = (if v \<le> 0 then Err (FmtErr ''pool recovery period must be positive'') else Ok ())"

definition validateMinStabilitySpread :: "dec \<Rightarrow> unit outcome" where
  "validateMinStabilitySpread v =
     (if v < 0 then Err (FmtErr ''min spread must be positive or zero'')
      else if v > OneDec then Err (FmtErr ''min spread is too large'')
      else Ok ())"

definition market_ParamSetPairs :: "market_params \<Rightarrow> (unit outcome \<times> (market_params \<Rightarrow> market_params)) list" where
  "market_ParamSetPairs p =
     [(validateBasePool (mk_BasePool p), mk_BasePool_update (\<lambda>_. mk_BasePool p)),
      (validatePoolRecoveryPeriod (mk_PoolRecoveryPeriod p), mk_PoolRecoveryPeriod_update (\<lambda>_. mk_PoolRecoveryPeriod p)),
      (validateMinStabilitySpread (mk_MinStabilitySpread p), mk_MinStabilitySpread_update (\<lambda>_. mk_MinStabilitySpread p))]"

definition market_Params_Validate :: "market_params \<Rightarrow> unit outcome" where
  "market_Params_Validate p =
     (if mk_BasePool p < 0 then Err (FmtErr ''mint base pool should be positive or zero'')
      else if mk_PoolRecoveryPeriod p = 0 then Err (FmtErr ''pool recovery period should be positive'')
      else if mk_MinStabilitySpread p < 0 \<or> mk_MinStabilitySpread p > OneDec
      then Err (FmtErr ''market minimum stability spead should be a value between [0,1]'')
      else Ok ())"

record msg_swap =
  ms_Trader :: string
  ms_OfferCoin :: coin
  ms_AskDenom :: string

record msg_swap_send =
  mss_FromAddress :: string
  mss_ToAddress :: string
  mss_OfferCoin :: coin
  mss_AskDenom :: string

text \<open>\<open>Amount.BigInt().BitLen() > n\<close>.\<close>

definition longer_than_bits :: "nat \<Rightarrow> int \<Rightarrow> bool" where
  "longer_than_bits n x \<longleftrightarrow> 2 ^ n \<le> \<bar>x\<bar>"

definition swap_coin_check :: "coin \<Rightarrow> string \<Rightarrow> unit outcome" where
  "swap_coin_check offerCoin askDenom =
     (if Amount offerCoin \<le> 0 \<or> longer_than_bits 100 (Amount offerCoin) then Err ErrInvalidCoins
      else if Denom offerCoin = askDenom then Err ErrRecursiveSwap
      else Ok ())"

definition MsgSwap_ValidateBasic :: "('b, 'z) addr_ops_scheme \<Rightarrow> msg_swap \<Rightarrow> unit outcome" where
  "MsgSwap_ValidateBasic K msg =
     obind (wrap_err ErrInvalidAddress (AccAddressFromBech32 K (ms_Trader msg))) (\<lambda>_.
     swap_coin_check (ms_OfferCoin msg) (ms_AskDenom msg))"

definition MsgSwapSend_ValidateBasic :: "('b, 'z) addr_ops_scheme \<Rightarrow> msg_swap_send \<Rightarrow> unit outcome" where
  "MsgSwapSend_ValidateBasic K msg =
     obind (wrap_err ErrInvalidAddress (AccAddressFromBech32 K (mss_FromAddress msg))) (\<lambda>_.
     obind (wrap_err ErrInvalidAddress (AccAddressFromBech32 K (mss_ToAddress msg))) (\<lambda>_.
     swap_coin_check (mss_OfferCoin msg) (mss_AskDenom msg)))"

definition MsgSwap_GetSigners :: "('b, 'z) addr_ops_scheme \<Rightarrow> msg_swap \<Rightarrow> string list outcome" where
  "MsgSwap_GetSigners K msg = must_signer (AccAddressFromBech32 K (ms_Trader msg))"

definition MsgSwapSend_GetSigners :: "('b, 'z) addr_ops_scheme \<Rightarrow> msg_swap_send \<Rightarrow> string list outcome" where
  "MsgSwapSend_GetSigners K msg = must_signer (AccAddressFromBech32 K (mss_FromAddress msg))"

section \<open>Keeper\<close>

record 'b market_state = "'b oracle_state" +
  m_params :: market_params
  TerraPoolDelta :: "dec option"

definition BasePool :: "(('b, 'x) market_state_scheme, dec) go" where
  "BasePool = gets (\<lambda>s. mk_BasePool (m_params s))"

definition MinStabilitySpread :: "(('b, 'x) market_state_scheme, dec) go" where
  "MinStabilitySpread = gets (\<lambda>s. mk_MinStabilitySpread (m_params s))"

definition PoolRecoveryPeriod :: "(('b, 'x) market_state_scheme, int) go" where
  "PoolRecoveryPeriod = gets (\<lambda>s. mk_PoolRecoveryPeriod (m_params s))"

definition market_GetParams :: "(('b, 'x) market_state_scheme, market_params) go" where
  "market_GetParams = gets m_params"

text \<open>\<open>SetParamSet\<close> runs the validator of every field and panics on an error before it writes.\<close>

definition market_SetParams :: "market_params \<Rightarrow> (('b, 'x) market_state_scheme, unit) go" where
  "market_SetParams p =
     SetParamSet m_params_update (market_ParamSetPairs p)"

definition GetTerraPoolDelta :: "(('b, 'x) market_state_scheme, dec) go" where
  "GetTerraPoolDelta = gets (\<lambda>s. case TerraPoolDelta s of None \<Rightarrow> 0 | Some d \<Rightarrow> d)"

definition SetTerraPoolDelta :: "dec \<Rightarrow> (('b, 'x) market_state_scheme, unit) go" where
  "SetTerraPoolDelta delta = modify (\<lambda>s. s\<lparr>TerraPoolDelta := Some delta\<rparr>)"

definition ReplenishPools :: "'z dec_ops_scheme \<Rightarrow> (('b, 'x) market_state_scheme, unit) go" where
  "ReplenishPools K =
     bnd GetTerraPoolDelta (\<lambda>poolDelta.
     bnd PoolRecoveryPeriod (\<lambda>period.
     bnd (lift (dec_QuoInt K poolDelta (i64 period))) (\<lambda>poolRegressionAmt.
     SetTerraPoolDelta (poolDelta - poolRegressionAmt))))"

definition market_EndBlocker :: "'z dec_ops_scheme \<Rightarrow> (('b, 'x) market_state_scheme, unit) go" where
  "market_EndBlocker K = ReplenishPools K"

section \<open>Swaps\<close>

definition ComputeInternalSwap ::
  "'z coin_ops_scheme \<Rightarrow> coin \<Rightarrow> string \<Rightarrow> (('b, 'x) market_state_scheme, coin) go" where
  "ComputeInternalSwap K offerCoin askDenom =
     (if Denom offerCoin = askDenom then ret offerCoin
      else bnd (wrap_go ErrNoEffectivePrice (GetLunaExchangeRate (Denom offerCoin))) (\<lambda>offerRate.
           bnd (wrap_go ErrNoEffectivePrice (GetLunaExchangeRate askDenom)) (\<lambda>askRate.
           bnd (lift (obind (dec_Mul K (Amount offerCoin) askRate) (\<lambda>p. dec_Quo K p offerRate))) (\<lambda>retAmount.
             if retAmount \<le> 0 then raise ErrInvalidCoins
             else lift (NewDecCoinFromDec K askDenom retAmount)))))"

definition ApplySwapToPool ::
  "'z coin_ops_scheme \<Rightarrow> coin \<Rightarrow> coin \<Rightarrow> (('b, 'x) market_state_scheme, unit) go" where
  "ApplySwapToPool K offerCoin askCoin =
     (if Denom offerCoin \<noteq> MicroLunaDenom \<and> Denom askCoin \<noteq> MicroLunaDenom then ret ()
      else bnd GetTerraPoolDelta (\<lambda>delta0.
           bnd (if Denom offerCoin \<noteq> MicroLunaDenom \<and> Denom askCoin = MicroLunaDenom
                then bnd (lift (NewDecCoinFromCoin K offerCoin)) (\<lambda>c.
                     bnd (ComputeInternalSwap K c MicroSDRDenom) (\<lambda>offerBaseCoin.
                     ret (delta0 + Amount offerBaseCoin)))
                else ret delta0) (\<lambda>delta1.
           bnd (if Denom offerCoin = MicroLunaDenom \<and> Denom askCoin \<noteq> MicroLunaDenom
                then bnd (ComputeInternalSwap K askCoin MicroSDRDenom) (\<lambda>askBaseCoin.
                     ret (delta1 - Amount askBaseCoin))
                else ret delta1) (\<lambda>delta2.
           SetTerraPoolDelta delta2))))"

text \<open>The constant-product spread of a swap from or to Luna, before the minimum applies.\<close>

definition pool_spread ::
  "'z dec_ops_scheme \<Rightarrow> dec \<Rightarrow> dec \<Rightarrow> bool \<Rightarrow> dec \<Rightarrow> dec outcome" where
  "pool_spread K basePool terraPoolDelta offersTerra baseOfferAmount =
     obind (dec_Mul K basePool basePool) (\<lambda>cp.
     let terraPool = basePool + terraPoolDelta in
     obind (dec_Quo K cp terraPool) (\<lambda>lunaPool.
     let offerPool = (if offersTerra then terraPool else lunaPool);
         askPool = (if offersTerra then lunaPool else terraPool) in
     obind (dec_Quo K cp (offerPool + baseOfferAmount)) (\<lambda>q.
     let askBaseAmount = askPool - q in
     dec_Quo K (baseOfferAmount - askBaseAmount) baseOfferAmount)))"

text \<open>
  The spread: the larger Tobin tax of the two denominations between two Terra coins, the pool spread
  with its minimum when Luna is on one side.
\<close>

definition swap_spread ::
  "'z dec_ops_scheme \<Rightarrow> string \<Rightarrow> string \<Rightarrow> dec \<Rightarrow> (('b, 'x) market_state_scheme, dec) go" where
  "swap_spread K offerDenom askDenom baseOfferAmount =
     (if offerDenom \<noteq> MicroLunaDenom \<and> askDenom \<noteq> MicroLunaDenom
      then bnd (GetTobinTax offerDenom) (\<lambda>offerTobinTax.
           bnd (GetTobinTax askDenom) (\<lambda>askTobinTax.
           ret (if askTobinTax > offerTobinTax then askTobinTax else offerTobinTax)))
      else bnd BasePool (\<lambda>basePool.
           bnd MinStabilitySpread (\<lambda>minSpread.
           bnd GetTerraPoolDelta (\<lambda>terraPoolDelta.
           bnd (lift (pool_spread K basePool terraPoolDelta (offerDenom \<noteq> MicroLunaDenom) baseOfferAmount)) (\<lambda>spread.
           ret (if spread < minSpread then minSpread else spread))))))"

definition ComputeSwap ::
  "'z coin_ops_scheme \<Rightarrow> coin \<Rightarrow> string \<Rightarrow> (('b, 'x) market_state_scheme, coin \<times> dec) go" where
  "ComputeSwap K offerCoin askDenom =
     (if Denom offerCoin = askDenom then raise ErrRecursiveSwap
      else bnd (lift (NewDecCoinFromCoin K offerCoin)) (\<lambda>offerDecCoin.
           bnd (ComputeInternalSwap K offerDecCoin MicroSDRDenom) (\<lambda>baseOfferDecCoin.
           bnd (ComputeInternalSwap K baseOfferDecCoin askDenom) (\<lambda>retDecCoin.
           bnd (swap_spread K (Denom offerCoin) askDenom (Amount baseOfferDecCoin)) (\<lambda>spread.
           ret (retDecCoin, spread))))))"

definition simulateSwap ::
  "'z coin_ops_scheme \<Rightarrow> coin \<Rightarrow> string \<Rightarrow> (('b, 'x) market_state_scheme, coin) go" where
  "simulateSwap K offerCoin askDenom =
     (if askDenom = Denom offerCoin then raise ErrRecursiveSwap
      else if longer_than_bits 100 (Amount offerCoin) then raise ErrInvalidCoins
      else bnd (wrap_go ErrPanic (ComputeSwap K offerCoin askDenom)) (\<lambda>(swapCoin, spread).
           bnd (lift (if spread > 0
                      then obind (dec_Mul K spread (Amount swapCoin)) (\<lambda>swapFeeAmt.
                           if swapFeeAmt > 0
                           then obind (NewDecCoinFromDec K (Denom swapCoin) swapFeeAmt) (deccoin_Sub K swapCoin)
                           else Ok swapCoin)
                      else Ok swapCoin)) (\<lambda>swapCoin'.
           bnd (lift (deccoin_TruncateDecimal K swapCoin')) (\<lambda>r. ret (fst r)))))"

section \<open>Messages\<close>

definition swap_fee :: "'z coin_ops_scheme \<Rightarrow> coin \<Rightarrow> dec \<Rightarrow> coin outcome" where
  "swap_fee K swapDecCoin spread =
     (if spread > 0 then obind (dec_Mul K spread (Amount swapDecCoin)) (NewDecCoinFromDec K (Denom swapDecCoin))
      else NewDecCoin K (Denom swapDecCoin) 0)"

definition handleSwapRequest ::
  "('b, 'z) bank_ops_scheme \<Rightarrow> string \<Rightarrow> string \<Rightarrow> coin \<Rightarrow> string
   \<Rightarrow> (('b, 'x) market_state_scheme, coin \<times> coin) go" where
  "handleSwapRequest K trader receiver offerCoin askDenom =
     bnd (ComputeSwap K offerCoin askDenom) (\<lambda>(swapDecCoin0, spread).
     bnd (lift (swap_fee K swapDecCoin0 spread)) (\<lambda>feeDecCoin0.
     let swapDecCoin = swapDecCoin0\<lparr>Amount := Amount swapDecCoin0 - Amount feeDecCoin0\<rparr> in
     seq (ApplySwapToPool K offerCoin swapDecCoin)
     (bnd (lift (NewCoins K [offerCoin])) (\<lambda>offerCoins.
     seq (sdk_call (SendCoinsFromAccountToModule K trader market_ModuleName offerCoins))
     (seq (sdk_call (BurnCoins K market_ModuleName offerCoins))
     (bnd (lift (deccoin_TruncateDecimal K swapDecCoin)) (\<lambda>(swapCoin, decimalCoin).
     seq (check (Amount swapCoin > 0) ErrZeroSwapCoin)
     (bnd (lift (obind (deccoin_Add K feeDecCoin0 decimalCoin) (deccoin_TruncateDecimal K))) (\<lambda>(feeCoin, _).
     bnd (lift (obind (coin_Add K swapCoin feeCoin) (\<lambda>c. NewCoins K [c]))) (\<lambda>mintCoins.
     seq (sdk_call (MintCoins K market_ModuleName mintCoins))
     (bnd (lift (NewCoins K [swapCoin])) (\<lambda>swapCoins.
     seq (sdk_call (SendCoinsFromModuleToAccount K market_ModuleName receiver swapCoins))
     (seq (on_true (Amount feeCoin > 0)
            (bnd (lift (NewCoins K [feeCoin])) (\<lambda>feeCoins.
             sdk_call (SendCoinsFromModuleToModule K market_ModuleName oracle_ModuleName feeCoins))))
     (ret (swapCoin, feeCoin)))))))))))))))"

definition Swap ::
  "('b, 'z) addr_ops_scheme \<Rightarrow> msg_swap \<Rightarrow> (('b, 'x) market_state_scheme, coin \<times> coin) go" where
  "Swap K msg =
     bnd (lift (AccAddressFromBech32 K (ms_Trader msg))) (\<lambda>addr.
     handleSwapRequest K addr addr (ms_OfferCoin msg) (ms_AskDenom msg))"

definition SwapSend ::
  "('b, 'z) addr_ops_scheme \<Rightarrow> msg_swap_send \<Rightarrow> (('b, 'x) market_state_scheme, coin \<times> coin) go" where
  "SwapSend K msg =
     bnd (lift (AccAddressFromBech32 K (mss_FromAddress msg))) (\<lambda>fromAddr.
     bnd (lift (AccAddressFromBech32 K (mss_ToAddress msg))) (\<lambda>toAddr.
     handleSwapRequest K fromAddr toAddr (mss_OfferCoin msg) (mss_AskDenom msg)))"

section \<open>Queries\<close>

definition GrpcInternal :: error where "GrpcInternal = SdkErr ''codes.Internal''"

definition q_market_Params :: "(('b, 'x) market_state_scheme, market_params) go" where
  "q_market_Params = market_GetParams"

text \<open>The request holds the offered coin in its printed form and the denomination asked for.\<close>

definition q_Swap ::
  "'z coin_ops_scheme \<Rightarrow> (string \<times> string) option \<Rightarrow> (('b, 'x) market_state_scheme, coin) go" where
  "q_Swap K req =
     (case req of
        None \<Rightarrow> raise InvalidArgument
      | Some (offer, askDenom) \<Rightarrow>
          if \<not> ValidDenom K askDenom then raise InvalidArgument
          else bnd (lift (wrap_err InvalidArgument (ParseCoinNormalized K offer))) (\<lambda>offerCoin.
               wrap_go GrpcInternal (simulateSwap K offerCoin askDenom)))"

definition q_TerraPoolDelta :: "(('b, 'x) market_state_scheme, dec) go" where
  "q_TerraPoolDelta = GetTerraPoolDelta"

section \<open>Genesis\<close>

record market_genesis =
  mg_Params :: market_params
  mg_TerraPoolDelta :: dec

definition market_DefaultGenesisState :: market_genesis where
  "market_DefaultGenesisState = \<lparr>mg_Params = market_DefaultParams, mg_TerraPoolDelta = 0\<rparr>"

definition market_ValidateGenesis :: "market_genesis \<Rightarrow> unit outcome" where
  "market_ValidateGenesis g = market_Params_Validate (mg_Params g)"

definition market_InitGenesis ::
  "('b, 'z) bank_ops_scheme \<Rightarrow> market_genesis \<Rightarrow> (('b, 'x) market_state_scheme, unit) go" where
  "market_InitGenesis K data =
     seq (market_SetParams (mg_Params data))
     (seq (SetTerraPoolDelta (mg_TerraPoolDelta data))
     (bnd (sdk_call (GetModuleAccount K market_ModuleName)) (\<lambda>exists. if exists then ret () else panic)))"

definition market_ExportGenesis :: "(('b, 'x) market_state_scheme, market_genesis) go" where
  "market_ExportGenesis =
     bnd market_GetParams (\<lambda>params.
     bnd GetTerraPoolDelta (\<lambda>delta.
     ret \<lparr>mg_Params = params, mg_TerraPoolDelta = delta\<rparr>))"

end
