(* ===== verification/Market_Swap.thy ===== *)
theory Market_Swap
  imports Market
begin

text \<open>
  What a swap does: the price it is made at, the spread it pays, its effect on the ledger, the agreement of
  the simulation with the swap, and the return of the pools to equilibrium.  The getters and the
  computations of a swap are readers of the state; the proofs use them through that contract.
\<close>

section \<open>Readers\<close>

interpretation rate: reader "GetLunaExchangeRate d :: (('b, 'x) oracle_state_scheme, dec) go" for d
  by unfold_locales (simp add: GetLunaExchangeRate_def split: option.splits)

interpretation tobin: reader "GetTobinTax d :: (('b, 'x) oracle_state_scheme, dec) go" for d
  by unfold_locales (simp add: GetTobinTax_def split: option.splits)

interpretation internal: reader "ComputeInternalSwap K c d :: (('b, 'x) market_state_scheme, coin) go" for K c d
  unfolding ComputeInternalSwap_def by (intro reader_intros rate.reader_axioms)

interpretation spread: reader "swap_spread K c d a :: (('b, 'x) market_state_scheme, dec) go" for K c d a
  unfolding swap_spread_def BasePool_def MinStabilitySpread_def GetTerraPoolDelta_def
  by (intro reader_intros tobin.reader_axioms)

interpretation swap: reader "ComputeSwap K c d :: (('b, 'x) market_state_scheme, coin \<times> dec) go" for K c d
  unfolding ComputeSwap_def by (intro reader_intros internal.reader_axioms spread.reader_axioms)

interpretation simulate: reader "simulateSwap K c d :: (('b, 'x) market_state_scheme, coin) go" for K c d
  unfolding simulateSwap_def case_prod_beta by (intro reader_intros swap.reader_axioms)

text \<open>A successful conversion, and what it reads.\<close>

lemma ComputeInternalSwap_Ok:
  assumes "coin_laws K"
  shows "ComputeInternalSwap K c d s = (Ok r, s') \<longleftrightarrow> s' = s \<and>
    (if Denom c = d then r = c
     else \<exists>ro ra p a. fst (GetLunaExchangeRate (Denom c) s) = Ok ro \<and> fst (GetLunaExchangeRate d s) = Ok ra \<and>
       dec_Mul K (Amount c) ra = Ok p \<and> dec_Quo K p ro = Ok a \<and> 0 < a \<and>
       r = \<lparr>Denom = d, Amount = a\<rparr> \<and> ValidDenom K d)"
proof -
  have "reader (wrap_go ErrNoEffectivePrice (GetLunaExchangeRate d'))" for d'
    by (intro reader_wrap rate.reader_axioms)
  note rd = reader.bnd_Ok_iff [OF this]
  show ?thesis
    unfolding ComputeInternalSwap_def
    by (auto simp: rd bnd_lift_Ok coin_laws.NewDecCoinFromDec_eq [OF assms] linorder_not_le)
qed

text \<open>Prices. A conversion between two denominations keeps the value at the oracle's prices up to the
  rounding of one multiplication and one division in the last decimal place, and never returns nothing.\<close>

lemma ComputeInternalSwap_value:
  assumes "coin_laws K" "Denom c \<noteq> d"
    and "fst (GetLunaExchangeRate (Denom c) s) = Ok offerRate" "fst (GetLunaExchangeRate d s) = Ok askRate" "0 < offerRate"
    and "ComputeInternalSwap K c d s = (Ok r, s')"
  shows "s' = s \<and> Denom r = d \<and> 0 < Amount r \<and>
    \<bar>2 * OneDec * (Amount r * offerRate) - 2 * OneDec * (Amount c * askRate)\<bar>
      \<le> OneDec * OneDec + offerRate * (OneDec + 2)"
proof -
  have L: "dec_laws K" using assms(1) by (rule coin_laws.axioms(1))
  obtain p where p: "dec_Mul K (Amount c) askRate = Ok p" "dec_Quo K p offerRate = Ok (Amount r)" "0 < Amount r" "Denom r = d" "s' = s"
    using assms(2-6) by (auto simp: ComputeInternalSwap_Ok [OF assms(1)])
  show ?thesis
    using p(3-5) assms(5) dec_laws.Mul_round [OF L p(1)] dec_laws.Quo_round [OF L p(2)] by auto
qed

section \<open>Spread\<close>

lemma pool_spread_le:
  assumes "dec_laws K" "pool_spread K basePool delta offersTerra amount = Ok spread"
    and "0 < basePool + delta" "0 \<le> basePool" "0 < amount"
  shows "spread \<le> OneDec"
proof -
  let ?tp = "basePool + delta"
  obtain cp lp q where r: "dec_Mul K basePool basePool = Ok cp" "dec_Quo K cp ?tp = Ok lp"
    "dec_Quo K cp ((if offersTerra then ?tp else lp) + amount) = Ok q"
    "dec_Quo K (amount - ((if offersTerra then lp else ?tp) - q)) amount = Ok spread"
    using assms(2) by (auto simp: pool_spread_def Let_def)
  have cp: "0 \<le> cp" using dec_laws.Mul_nonneg [OF assms(1) r(1)] assms(4) by simp
  have lp: "0 \<le> lp" using dec_laws.Quo_nonneg [OF assms(1) r(2) cp assms(3)] .
  have "q \<le> (if offersTerra then lp else ?tp)"
  proof (cases offersTerra)
    case True
    then show ?thesis using dec_laws.Quo_mono [OF assms(1) cp assms(3) _ r(2), of "?tp + amount" q] r(3) assms(5) by simp
  next
    case False
    have "cp * OneDec \<le> ?tp * (lp + amount)"
    proof -
      have "?tp \<le> ?tp * amount" using assms(3,5) by simp
      then show ?thesis using dec_laws.Quo_lower [OF assms(1) r(2)] assms(3) by (simp add: algebra_simps)
    qed
    then show ?thesis using dec_laws.Quo_le [OF assms(1), of cp "lp + amount" q ?tp] r(3) False lp assms(5) by simp
  qed
  then show ?thesis using dec_laws.Quo_le_one [OF assms(1) r(4)] assms(5) by simp
qed

lemma swap_spread_Ok:
  "swap_spread K offerDenom askDenom amount s = (Ok spread, s') \<longleftrightarrow> s' = s \<and>
    (if offerDenom \<noteq> MicroLunaDenom \<and> askDenom \<noteq> MicroLunaDenom
     then \<exists>t u. fst (GetTobinTax offerDenom s) = Ok t \<and> fst (GetTobinTax askDenom s) = Ok u \<and> spread = max t u
     else \<exists>sp. pool_spread K (mk_BasePool (m_params s)) (case TerraPoolDelta s of None \<Rightarrow> 0 | Some d \<Rightarrow> d)
            (offerDenom \<noteq> MicroLunaDenom) amount = Ok sp \<and> spread = max sp (mk_MinStabilitySpread (m_params s)))"
proof -
  have mx: "(if a < b then b else a) = max a b" for a b :: dec by (simp add: max_def)
  show ?thesis
  proof (cases "offerDenom \<noteq> MicroLunaDenom \<and> askDenom \<noteq> MicroLunaDenom")
    case True
    show ?thesis
      unfolding swap_spread_def if_P [OF True] mx tobin.bnd_Ok_iff by auto
  next
    case False
    show ?thesis
      unfolding swap_spread_def if_not_P [OF False] mx BasePool_def MinStabilitySpread_def GetTerraPoolDelta_def
        bnd_gets bnd_lift_Ok by auto
  qed
qed

lemma ComputeSwap_Ok:
  assumes "coin_laws K"
  shows "ComputeSwap K offerCoin askDenom s = (Ok (rc, spread), s') \<longleftrightarrow> s' = s \<and> Denom offerCoin \<noteq> askDenom \<and>
    ValidDenom K (Denom offerCoin) \<and> 0 \<le> Amount offerCoin \<and>
    (\<exists>base. ComputeInternalSwap K \<lparr>Denom = Denom offerCoin, Amount = Amount offerCoin * OneDec\<rparr> MicroSDRDenom s = (Ok base, s) \<and>
      ComputeInternalSwap K base askDenom s = (Ok rc, s) \<and>
      swap_spread K (Denom offerCoin) askDenom (Amount base) s = (Ok spread, s))"
proof (cases "Denom offerCoin = askDenom")
  case True
  then show ?thesis by (simp add: ComputeSwap_def)
next
  case False
  show ?thesis
    unfolding ComputeSwap_def if_not_P [OF False] bnd_lift_Ok internal.bnd_Ok_iff spread.bnd_Ok_iff internal.run spread.run
      coin_laws.NewDecCoinFromCoin_eq [OF assms]
    using False by auto
qed

text \<open>C28. Spread of a swap. Between Terra coins the spread is the larger of the two Tobin taxes.  When Luna is on
  one side it is at least the minimum spread and, as long as the pools are not exhausted, at most one, so
  that the fee never exceeds what the swap returns.\<close>

theorem ComputeSwap_spread:
  assumes "coin_laws K" "ComputeSwap K offerCoin askDenom s = (Ok (rc, spread), s')"
    and "0 \<le> mk_BasePool (m_params s)" "mk_MinStabilitySpread (m_params s) \<le> OneDec"
    and "0 < mk_BasePool (m_params s) + (case TerraPoolDelta s of None \<Rightarrow> 0 | Some d \<Rightarrow> d)"
  shows "if Denom offerCoin = MicroLunaDenom \<or> askDenom = MicroLunaDenom
    then mk_MinStabilitySpread (m_params s) \<le> spread \<and> spread \<le> OneDec
    else \<exists>t u. GetTobinTax (Denom offerCoin) s = (Ok t, s) \<and> GetTobinTax askDenom s = (Ok u, s) \<and> spread = max t u"
proof (cases "Denom offerCoin = MicroLunaDenom \<or> askDenom = MicroLunaDenom")
  case True
  have L: "dec_laws K" using assms(1) by (rule coin_laws.axioms(1))
  obtain base where b: "ComputeInternalSwap K \<lparr>Denom = Denom offerCoin, Amount = Amount offerCoin * OneDec\<rparr> MicroSDRDenom s = (Ok base, s)"
    "swap_spread K (Denom offerCoin) askDenom (Amount base) s = (Ok spread, s)" "0 \<le> Amount offerCoin"
    using assms(2) unfolding ComputeSwap_Ok [OF assms(1)] by blast
  obtain sp where sp: "pool_spread K (mk_BasePool (m_params s)) (case TerraPoolDelta s of None \<Rightarrow> 0 | Some d \<Rightarrow> d)
      (Denom offerCoin \<noteq> MicroLunaDenom) (Amount base) = Ok sp" "spread = max sp (mk_MinStabilitySpread (m_params s))"
    using b(2) True unfolding swap_spread_Ok by (auto split: if_splits)
  have "Amount base \<noteq> 0" using sp(1) dec_laws.Quo_zero [OF L] by (auto simp: pool_spread_def Let_def)
  moreover have "0 \<le> Amount base" using b(1,3) unfolding ComputeInternalSwap_Ok [OF assms(1)] by (auto split: if_splits)
  ultimately have "sp \<le> OneDec" using pool_spread_le [OF L sp(1) assms(5,3)] by simp
  then show ?thesis using True sp(2) assms(4) by simp
next
  case False
  then show ?thesis using assms(2) unfolding ComputeSwap_Ok [OF assms(1)] swap_spread_Ok by (auto simp: tobin.run)
qed


section \<open>Accounting\<close>

lemma ApplySwapToPool_ext:
  assumes "ApplySwapToPool K offerCoin askCoin s = (Ok (), s')"
  shows "ext s' = ext s"
  using assms unfolding ApplySwapToPool_def GetTerraPoolDelta_def SetTerraPoolDelta_def
  by (auto simp: bnd_run_iff_Ok internal.run split: if_splits)

lemma swap_fee_Ok:
  assumes "coin_laws K" "swap_fee K rc spread = Ok fee"
  shows "Denom fee = Denom rc" "0 \<le> Amount fee"
    "0 < spread \<Longrightarrow> dec_Mul K spread (Amount rc) = Ok (Amount fee)" "\<not> 0 < spread \<Longrightarrow> Amount fee = 0"
    "ValidDenom K (Denom rc)"
  using assms(2) by (auto simp: swap_fee_def coin_laws.NewDecCoinFromDec_eq [OF assms(1)] coin_laws.NewDecCoin_eq [OF assms(1)]
      split: if_splits)

text \<open>The split of a swapped amount into the coin paid out and the fee, whole units each.\<close>

lemma swap_split:
  fixes A f :: int
  shows "(A - f) div OneDec + (f + (A - f) mod OneDec) div OneDec = A div OneDec"
proof -
  have "A = (f + (A - f) mod OneDec) + ((A - f) div OneDec) * OneDec"
    using div_mult_mod_eq [of "A - f" OneDec] by linarith
  then have "A div OneDec = ((f + (A - f) mod OneDec) + ((A - f) div OneDec) * OneDec) div OneDec" by simp
  also have "\<dots> = (A - f) div OneDec + (f + (A - f) mod OneDec) div OneDec" by (rule div_mult_self1) simp
  finally show ?thesis by simp
qed

lemma handleSwapRequest_steps:
  assumes "bank_laws K" "handleSwapRequest K trader receiver offerCoin askDenom s = (Ok (swapCoin, feeCoin), s')"
  obtains rc spread fee oc mc sc fc b1 b2 b3 b4 where
    "ComputeSwap K offerCoin askDenom s = (Ok (rc, spread), s)" "swap_fee K rc spread = Ok fee"
    "swapCoin = \<lparr>Denom = Denom rc, Amount = (Amount rc - Amount fee) div OneDec\<rparr>"
    "feeCoin = \<lparr>Denom = Denom rc, Amount = (Amount fee + (Amount rc - Amount fee) mod OneDec) div OneDec\<rparr>"
    "Amount fee \<le> Amount rc" "0 < Amount swapCoin" "0 \<le> Amount feeCoin"
    "NewCoins K [offerCoin] = Ok oc" "NewCoins K [swapCoin] = Ok sc" "NewCoins K [feeCoin] = Ok fc"
    "NewCoins K [\<lparr>Denom = Denom rc, Amount = Amount swapCoin + Amount feeCoin\<rparr>] = Ok mc"
    "SendCoinsFromAccountToModule K trader market_ModuleName oc (ext s) = (Ok (), b1)"
    "BurnCoins K market_ModuleName oc b1 = (Ok (), b2)"
    "MintCoins K market_ModuleName mc b2 = (Ok (), b3)"
    "SendCoinsFromModuleToAccount K market_ModuleName receiver sc b3 = (Ok (), b4)"
    "if 0 < Amount feeCoin then SendCoinsFromModuleToModule K market_ModuleName oracle_ModuleName fc b4 = (Ok (), ext s')
     else ext s' = b4"
proof -
  have C: "coin_laws K" using assms(1) by (rule bank_laws.axioms(1))
  obtain x fee s1 oc b1 s2 b2 s3 tr s4 ft mc b3 s5 sc b4 s6 s7 where
    r: "fst (ComputeSwap K offerCoin askDenom s) = Ok x" "swap_fee K (fst x) (snd x) = Ok fee"
      "ApplySwapToPool K offerCoin ((fst x)\<lparr>Amount := Amount (fst x) - Amount fee\<rparr>) s = (Ok (), s1)"
      "NewCoins K [offerCoin] = Ok oc"
      "SendCoinsFromAccountToModule K trader market_ModuleName oc (ext s1) = (Ok (), b1)"
    and st: "s2 = s1\<lparr>ext := b1\<rparr>"
    and r2: "BurnCoins K market_ModuleName oc (ext s2) = (Ok (), b2)"
    and st2: "s3 = s2\<lparr>ext := b2\<rparr>"
    and r3: "deccoin_TruncateDecimal K ((fst x)\<lparr>Amount := Amount (fst x) - Amount fee\<rparr>) = Ok tr"
      "check (0 < Amount (fst tr)) ErrZeroSwapCoin s3 = (Ok (), s4)"
      "obind (deccoin_Add K fee (snd tr)) (deccoin_TruncateDecimal K) = Ok ft"
      "obind (coin_Add K (fst tr) (fst ft)) (\<lambda>c. NewCoins K [c]) = Ok mc"
      "MintCoins K market_ModuleName mc (ext s4) = (Ok (), b3)"
    and st3: "s5 = s4\<lparr>ext := b3\<rparr>"
    and r4: "NewCoins K [fst tr] = Ok sc"
      "SendCoinsFromModuleToAccount K market_ModuleName receiver sc (ext s5) = (Ok (), b4)"
    and st4: "s6 = s5\<lparr>ext := b4\<rparr>"
    and r5: "on_true (Amount (fst ft) > 0)
            (bnd (lift (NewCoins K [fst ft])) (\<lambda>feeCoins.
             sdk_call (SendCoinsFromModuleToModule K market_ModuleName oracle_ModuleName feeCoins))) s6 = (Ok (), s7)"
      "ret (fst tr, fst ft) s7 = (Ok (swapCoin, feeCoin), s')"
    using assms(2) unfolding handleSwapRequest_def Let_def case_prod_beta swap.bnd_Ok_iff bnd_lift_Ok seq_run_iff_Ok
      sdk_call_run
    by (elim exE conjE) (rule that)
  define rc spread where "rc = fst x" and "spread = snd x"
  note r = r [folded rc_def spread_def] and r3 = r3 [folded rc_def]
  have x: "x = (rc, spread)" by (simp add: rc_def spread_def)
  note fee = swap_fee_Ok [OF C r(2)]
  have ext1: "ext s1 = ext s" using ApplySwapToPool_ext [OF r(3)] .
  have out: "0 < Amount swapCoin" "swapCoin = fst tr" "feeCoin = fst ft" "s7 = s'" "s4 = s3"
    using r3(2) r5(2) by (auto split: if_splits)
  have tr: "swapCoin = \<lparr>Denom = Denom rc, Amount = (Amount rc - Amount fee) div OneDec\<rparr>"
    "snd tr = \<lparr>Denom = Denom rc, Amount = (Amount rc - Amount fee) mod OneDec\<rparr>" "Amount fee \<le> Amount rc"
    using r3(1) by (auto simp: coin_laws.deccoin_Truncate_eq [OF C] out(2) split: if_splits)
  have ft: "feeCoin = \<lparr>Denom = Denom rc, Amount = (Amount fee + (Amount rc - Amount fee) mod OneDec) div OneDec\<rparr>"
    using r3(3) fee(1)
    by (auto simp: coin_laws.deccoin_Truncate_eq [OF C] coin_laws.deccoin_Add_eq [OF C] tr(2) out(3) split: if_splits)
  have nn: "0 \<le> Amount feeCoin" using fee(2) by (simp add: ft pos_imp_zdiv_nonneg_iff)
  obtain fc where fc: "NewCoins K [feeCoin] = Ok fc"
    using coin_laws.NewCoins_single [OF C fee(5), of "Amount feeCoin"] nn by (auto simp: ft)
  have last: "if 0 < Amount feeCoin then SendCoinsFromModuleToModule K market_ModuleName oracle_ModuleName fc b4 = (Ok (), ext s')
     else ext s' = b4"
    using r5(1) fc st4 by (auto simp: bnd_lift_Ok sdk_call_run out)
  have mint: "NewCoins K [\<lparr>Denom = Denom rc, Amount = Amount swapCoin + Amount feeCoin\<rparr>] = Ok mc"
    using r3(4) by (auto simp: coin_laws.coin_Add_eq [OF C] out(2,3) [symmetric] tr(1) ft split: if_splits)
  have cs: "ComputeSwap K offerCoin askDenom s = (Ok (rc, spread), s)" using r(1) x by (simp add: swap.run)
  have calls: "SendCoinsFromAccountToModule K trader market_ModuleName oc (ext s) = (Ok (), b1)"
    "BurnCoins K market_ModuleName oc b1 = (Ok (), b2)" "MintCoins K market_ModuleName mc b2 = (Ok (), b3)"
    "SendCoinsFromModuleToAccount K market_ModuleName receiver sc b3 = (Ok (), b4)" "NewCoins K [swapCoin] = Ok sc"
    using r(5) r2 r3(5) r4 ext1 by (simp_all add: st st2 st3 out(2,5))
  show thesis
    by (rule that [OF cs r(2) tr(1) ft tr(3) out(1) nn r(4) calls(5) fc mint calls(1-4) last])
qed


lemma ComputeSwap_denom:
  assumes "coin_laws K" "ComputeSwap K offerCoin askDenom s = (Ok (rc, spread), s')"
  shows "Denom rc = askDenom" "ValidDenom K (Denom offerCoin)" "0 \<le> Amount offerCoin"
  using assms(2) unfolding ComputeSwap_Ok [OF assms(1)] ComputeInternalSwap_Ok [OF assms(1)] by (auto split: if_splits)


text \<open>Simulation. What the swap query announces is what the swap pays out: whenever a swap of an admissible
  amount succeeds, simulating it in the state before returns the same coin.\<close>

lemma simulateSwap_after:
  assumes "bank_laws K" "handleSwapRequest K trader receiver offerCoin askDenom s = (Ok (swapCoin, feeCoin), s')"
    and "\<not> longer_than_bits 100 (Amount offerCoin)"
  shows "simulateSwap K offerCoin askDenom s = (Ok swapCoin, s)"
proof -
  have C: "coin_laws K" using assms(1) by (rule bank_laws.axioms(1))
  obtain rc spread fee where cs: "ComputeSwap K offerCoin askDenom s = (Ok (rc, spread), s)" "swap_fee K rc spread = Ok fee"
    and eq: "swapCoin = \<lparr>Denom = Denom rc, Amount = (Amount rc - Amount fee) div OneDec\<rparr>" "Amount fee \<le> Amount rc"
    by (rule handleSwapRequest_steps [OF assms(1,2)])
  have ne: "askDenom \<noteq> Denom offerCoin" using cs(1) unfolding ComputeSwap_Ok [OF C] by auto
  note fee = swap_fee_Ok [OF C cs(2)]
  let ?after = "if spread > 0
                      then obind (dec_Mul K spread (Amount rc)) (\<lambda>swapFeeAmt.
                           if swapFeeAmt > 0
                           then obind (NewDecCoinFromDec K (Denom rc) swapFeeAmt) (deccoin_Sub K rc)
                           else Ok rc)
                      else Ok rc"
  have "?after = Ok \<lparr>Denom = Denom rc, Amount = Amount rc - Amount fee\<rparr>"
    using fee eq(2) by (cases "0 < spread") (auto simp: coin_laws.NewDecCoinFromDec_eq [OF C] coin_laws.deccoin_Sub_eq [OF C])
  then show ?thesis
    using cs(1) ne assms(3) eq fee(2,5)
    by (simp add: simulateSwap_def bnd_run_iff_Ok coin_laws.deccoin_Truncate_eq [OF C])
qed

section \<open>Replenishing the pools\<close>

text \<open>The regression of the delta is its share of the recovery period, rounded toward zero.\<close>

lemma ReplenishPools_run:
  assumes "dec_laws K" "0 < mk_PoolRecoveryPeriod (m_params s)" "mk_PoolRecoveryPeriod (m_params s) < 2 ^ 63"
    and "TerraPoolDelta s = Some delta"
  shows "ReplenishPools K s =
    (Ok (), s\<lparr>TerraPoolDelta := Some (delta - sgn delta * (\<bar>delta\<bar> div mk_PoolRecoveryPeriod (m_params s)))\<rparr>)"
proof -
  define n where "n = mk_PoolRecoveryPeriod (m_params s)"
  have n: "0 < n" "i64 n = n" using assms(2,3) by (auto simp: n_def i64_def)
  have "go_quot delta n = sgn delta * (\<bar>delta\<bar> div n)" using n(1) by (auto simp: go_quot_def sgn_if)
  then show ?thesis
    using n assms(4) dec_laws.QuoInt_eq [OF assms(1), of n delta]
    by (simp add: ReplenishPools_def GetTerraPoolDelta_def PoolRecoveryPeriod_def SetTerraPoolDelta_def n_def [symmetric])
qed

text \<open>A period of one block, which validation accepts, does make the delta zero.\<close>

lemma ReplenishPools_one_block:
  assumes "dec_laws K" "mk_PoolRecoveryPeriod (m_params s) = 1" "TerraPoolDelta s = Some delta"
  shows "ReplenishPools K s = (Ok (), s\<lparr>TerraPoolDelta := Some 0\<rparr>)"
  using ReplenishPools_run [OF assms(1) _ _ assms(3)] assms(2) by (simp add: sgn_mult_abs)

text \<open>C37. At the end of each block the pools move toward equilibrium: with a recovery period of at least two blocks the
  delta shrinks by exactly its share of the period, rounded down, and keeps its sign; in particular it does not jump to
  zero.\<close>

theorem ReplenishPools_contracts:
  assumes "dec_laws K" "2 \<le> mk_PoolRecoveryPeriod (m_params s)" "mk_PoolRecoveryPeriod (m_params s) < 2 ^ 63"
    and "TerraPoolDelta s = Some delta"
  shows "\<exists>delta'. ReplenishPools K s = (Ok (), s\<lparr>TerraPoolDelta := Some delta'\<rparr>)
    \<and> \<bar>delta'\<bar> = \<bar>delta\<bar> - \<bar>delta\<bar> div mk_PoolRecoveryPeriod (m_params s) \<and> sgn delta' = sgn delta"
proof -
  define q where "q = \<bar>delta\<bar> div mk_PoolRecoveryPeriod (m_params s)"
  have q: "0 \<le> q" "delta \<noteq> 0 \<Longrightarrow> q < \<bar>delta\<bar>"
    using assms(2) int_div_less_self [of "\<bar>delta\<bar>" "mk_PoolRecoveryPeriod (m_params s)"] by (simp_all add: q_def pos_imp_zdiv_nonneg_iff)
  have "\<bar>delta - sgn delta * q\<bar> = \<bar>delta\<bar> - q" "sgn (delta - sgn delta * q) = sgn delta"
    using q by (cases "delta = 0"; simp add: q_def sgn_if abs_if split: if_splits)+
  then show ?thesis using ReplenishPools_run [OF assms(1) _ assms(3,4)] assms(2) unfolding q_def by auto
qed

end
