(* ===== verification/Market_Sample.thy ===== *)
theory Market_Sample
  imports Market_Swap Oracle_Sample
begin

text \<open>A market with prices for two Terra coins, on which the theorems of the market are instantiated.\<close>

definition sample_market_with :: "'x \<Rightarrow> (ledger, 'x) market_state_scheme" where
  "sample_market_with x = \<lparr>
     BlockHeight = 4, ext = sample_ledger, o_params = oracle_DefaultParams,
     ExchangeRates = [(GetExchangeRateKey ''ukrw'', 1300 * OneDec), (GetExchangeRateKey ''usdr'', 2 * OneDec)],
     FeederDelegations = [], MissCounters = [], AggregatePrevotes = [], AggregateVotes = [],
     TobinTaxes = [(GetTobinTaxKey ''ukrw'', DefaultTobinTax), (GetTobinTaxKey ''usdr'', DefaultTobinTax)],
     m_params = market_DefaultParams, TerraPoolDelta = Some 7, \<dots> = x\<rparr>"

abbreviation sample_market :: "ledger market_state" where
  "sample_market \<equiv> sample_market_with ()"

lemmas sample_market_simps = sample_market_with_def market_DefaultParams_def NewDec_def NewDecWithPrec_def MicroUnit_def
  block_defs

lemmas sdk0_dec_simps = ref_Mul_def ref_Quo_def ref_QuoInt_def chop_round_def chop_nonneg_def in_range315_def go_quot_def Let_def

lemma sample_rates:
  "GetLunaExchangeRate ''usdr'' (sample_market_with x) = (Ok (2 * OneDec), sample_market_with x)"
  "GetLunaExchangeRate ''ukrw'' (sample_market_with x) = (Ok (1300 * OneDec), sample_market_with x)"
  "GetLunaExchangeRate ''uluna'' (sample_market_with x) = (Ok OneDec, sample_market_with x)"
  by (simp_all add: GetLunaExchangeRate_def sample_market_with_def GetExchangeRateKey_def ExchangeRateKey_def denom_defs)

lemma sample_denoms: "ref_ValidDenom ''usdr''" "ref_ValidDenom ''ukrw''" "ref_ValidDenom ''uluna''"
  by (simp_all add: ref_ValidDenom_def is_alpha_def is_digit_def)

theorem ReplenishPools_contracts_witness:
  "\<exists>delta'. ReplenishPools sdk0 sample_market = (Ok (), sample_market\<lparr>TerraPoolDelta := Some delta'\<rparr>) \<and> \<bar>delta'\<bar> = 7"
proof -
  have n: "mk_PoolRecoveryPeriod (m_params sample_market) = 14400" and d: "TerraPoolDelta sample_market = Some 7"
    by (simp_all add: sample_market_simps)
  have p: "(2 :: int) \<le> 14400" "(14400 :: int) < 2 ^ 63" by simp_all
  from ReplenishPools_contracts [OF sdk0_dec _ _ d, unfolded n, OF p] show ?thesis
    by (elim exE conjE) (rule exI, rule conjI, assumption, simp)
qed

lemma sample_arith:
  "ref_Mul (1000 * OneDec) (2 * OneDec) = Ok (2000 * OneDec)" "ref_Quo (2000 * OneDec) OneDec = Ok (2000 * OneDec)"
  by (simp_all add: sdk0_dec_simps)

lemma sample_swap_base:
  "ComputeInternalSwap sdk0 \<lparr>Denom = ''uluna'', Amount = 1000 * OneDec\<rparr> ''usdr'' (sample_market_with x)
     = (Ok \<lparr>Denom = ''usdr'', Amount = 2000 * OneDec\<rparr>, sample_market_with x)"
  unfolding ComputeInternalSwap_Ok [OF sdk0_coin]
  using sample_arith by (simp add: sample_rates sample_denoms)

theorem ComputeInternalSwap_value_witness:
  "\<exists>r. ComputeInternalSwap sdk0 \<lparr>Denom = ''uluna'', Amount = 1000 * OneDec\<rparr> ''usdr'' sample_market = (Ok r, sample_market)
     \<and> Denom r = ''usdr'' \<and> 0 < Amount r"
  using ComputeInternalSwap_value [OF sdk0_coin _ _ _ _ sample_swap_base [of "()"]] sample_swap_base [of "()"] sample_rates [of "()"] by simp

lemma sample_pool_arith:
  "ref_Mul 1000000000000000000000000000000 1000000000000000000000000000000 = Ok 1000000000000000000000000000000000000000000" "ref_Quo 1000000000000000000000000000000000000000000 1000000000000000000000000000007 = Ok 999999999999999999999999999993"
  "ref_Quo 1000000000000000000000000000000000000000000 1000000001999999999999999999993 = Ok 999999998000000003999999992007" "ref_Quo 3999999992000 2000000000000000000000 = Ok 1999999996"
  by (simp_all add: sdk0_dec_simps)

lemma sample_spread:
  "swap_spread sdk0 ''uluna'' ''usdr'' (2000 * OneDec) (sample_market_with x) = (Ok (NewDecWithPrec 2 2), sample_market_with x)"
proof -
  have "pool_spread sdk0 (mk_BasePool (m_params (sample_market_with x))) (case TerraPoolDelta (sample_market_with x) of None \<Rightarrow> 0 | Some d \<Rightarrow> d)
      False (2000 * OneDec) = Ok 1999999996"
    using sample_pool_arith by (simp add: pool_spread_def sample_market_simps Let_def)
  then show ?thesis unfolding swap_spread_Ok by (simp add: denom_defs sample_market_simps)
qed

lemma sample_swap:
  "ComputeSwap sdk0 \<lparr>Denom = ''uluna'', Amount = 1000\<rparr> ''usdr'' (sample_market_with x)
     = (Ok (\<lparr>Denom = ''usdr'', Amount = 2000 * OneDec\<rparr>, NewDecWithPrec 2 2), sample_market_with x)"
  unfolding ComputeSwap_Ok [OF sdk0_coin]
  using sample_swap_base sample_spread
  by (auto simp: denom_defs sample_denoms ComputeInternalSwap_def intro!: exI [of _ "\<lparr>Denom = ''usdr'', Amount = 2000 * OneDec\<rparr>"])

theorem ComputeSwap_spread_witness:
  "\<exists>rc spread. ComputeSwap sdk0 \<lparr>Denom = ''uluna'', Amount = 1000\<rparr> ''usdr'' sample_market = (Ok (rc, spread), sample_market)
     \<and> NewDecWithPrec 2 2 \<le> spread \<and> spread \<le> OneDec"
proof -
  have "0 \<le> mk_BasePool (m_params sample_market)" "mk_MinStabilitySpread (m_params sample_market) = NewDecWithPrec 2 2"
    "NewDecWithPrec 2 2 \<le> OneDec"
    "0 < mk_BasePool (m_params sample_market) + (case TerraPoolDelta sample_market of None \<Rightarrow> 0 | Some d \<Rightarrow> d)"
    by (simp_all add: sample_market_simps)
  then show ?thesis
    using ComputeSwap_spread [OF sdk0_coin sample_swap [of "()"]] sample_swap [of "()"] by (auto simp: denom_defs)
qed


lemma sample_apply:
  "\<exists>s'. ApplySwapToPool sdk0 \<lparr>Denom = ''uluna'', Amount = 1000\<rparr> \<lparr>Denom = ''usdr'', Amount = 1960 * OneDec\<rparr> (sample_market_with x) = (Ok (), s')
     \<and> ext s' = sample_ledger"
  by (simp add: ApplySwapToPool_def GetTerraPoolDelta_def SetTerraPoolDelta_def denom_defs ComputeInternalSwap_def sample_market_with_def)

lemma sample_balance: "ref_bal sample_ledger val_a ''uluna'' = 5000" "ref_bal sample_ledger (module_addr m) ''usdr'' = 0"
  by (simp_all add: ref_bal_def sample_denoms sample_ledger_def val_a_def module_addr_def)

lemma sample_swap_run:
  assumes y: "y \<noteq> module_addr market_ModuleName"
  shows "\<exists>s'. handleSwapRequest sdk0 val_a y \<lparr>Denom = ''uluna'', Amount = 1000\<rparr> ''usdr'' (sample_market_with x)
     = (Ok (\<lparr>Denom = ''usdr'', Amount = 1960\<rparr>, \<lparr>Denom = ''usdr'', Amount = 40\<rparr>), s')"
proof -
  let ?mk = "module_addr market_ModuleName" and ?or = "module_addr oracle_ModuleName"
  have fee: "swap_fee sdk0 \<lparr>Denom = ''usdr'', Amount = 2000 * OneDec\<rparr> (NewDecWithPrec 2 2) = Ok \<lparr>Denom = ''usdr'', Amount = 40 * OneDec\<rparr>"
    by (simp add: swap_fee_def NewDecWithPrec_def sdk0_dec_simps ref_NewCoin_def sample_denoms)
  have mk: "?mk \<noteq> val_a" "?mk \<noteq> y" using y [symmetric] by (simp_all only: not_False_eq_True) (simp add: module_addr_def val_a_def)
  obtain s1 where s1: "ApplySwapToPool sdk0 \<lparr>Denom = ''uluna'', Amount = 1000\<rparr> \<lparr>Denom = ''usdr'', Amount = 1960 * OneDec\<rparr> (sample_market_with x) = (Ok (), s1)"
    "ext s1 = sample_ledger" using sample_apply [of x] by (elim exE conjE)
  obtain b1 where b1: "ref_send val_a ?mk [\<lparr>Denom = ''uluna'', Amount = 1000\<rparr>] sample_ledger = (Ok (), b1)"
    "\<And>z e. ref_bal b1 z e = ref_bal sample_ledger z e - (if z = val_a \<and> e = ''uluna'' then 1000 else 0) + (if z = ?mk \<and> e = ''uluna'' then 1000 else 0)"
    by (rule ref_send_one [of "''uluna''" 1000 sample_ledger val_a ?mk]) (auto simp: sample_denoms sample_balance)
  obtain b2 where b2: "ref_mint (- 1) market_ModuleName [\<lparr>Denom = ''uluna'', Amount = 1000\<rparr>] b1 = (Ok (), b2)"
    "\<And>z e. ref_bal b2 z e = ref_bal b1 z e + (if z = ?mk \<and> e = ''uluna'' then - 1 * 1000 else 0)"
    by (rule ref_mint_one [of "''uluna''" 1000 b1 market_ModuleName "- 1"]) (auto simp: sample_denoms b1(2) ref_bal_nonneg mk)
  obtain b3 where b3: "ref_mint 1 market_ModuleName [\<lparr>Denom = ''usdr'', Amount = 2000\<rparr>] b2 = (Ok (), b3)"
    "\<And>z e. ref_bal b3 z e = ref_bal b2 z e + (if z = ?mk \<and> e = ''usdr'' then 1 * 2000 else 0)"
    by (rule ref_mint_one [of "''usdr''" 2000 b2 market_ModuleName 1]) (auto simp: sample_denoms ref_bal_nonneg)
  have h4: "2000 \<le> ref_bal b3 ?mk ''usdr''" using ref_bal_nonneg [of b2 ?mk "''usdr''"] by (simp add: b3(2))
  then have h3: "(0 :: int) < 1960" "1960 \<le> ref_bal b3 ?mk ''usdr''" by linarith+
  obtain b4 where b4: "ref_send ?mk y [\<lparr>Denom = ''usdr'', Amount = 1960\<rparr>] b3 = (Ok (), b4)"
    "\<And>z e. ref_bal b4 z e = ref_bal b3 z e - (if z = ?mk \<and> e = ''usdr'' then 1960 else 0) + (if z = y \<and> e = ''usdr'' then 1960 else 0)"
    by (rule ref_send_one [OF sample_denoms(1) h3, where y = y]) (rule that)
  have h5: "40 \<le> ref_bal b4 ?mk ''usdr''" using h4 mk by (simp add: b4(2))
  obtain b5 where b5: "ref_send ?mk ?or [\<lparr>Denom = ''usdr'', Amount = 40\<rparr>] b4 = (Ok (), b5)"
    by (rule ref_send_one [OF sample_denoms(1) _ h5]) simp_all
  have new: "ref_NewCoins [\<lparr>Denom = ''uluna'', Amount = 1000\<rparr>] = Ok [\<lparr>Denom = ''uluna'', Amount = 1000\<rparr>]"
    "ref_NewCoins [\<lparr>Denom = ''usdr'', Amount = 2000\<rparr>] = Ok [\<lparr>Denom = ''usdr'', Amount = 2000\<rparr>]"
    "ref_NewCoins [\<lparr>Denom = ''usdr'', Amount = 1960\<rparr>] = Ok [\<lparr>Denom = ''usdr'', Amount = 1960\<rparr>]"
    "ref_NewCoins [\<lparr>Denom = ''usdr'', Amount = 40\<rparr>] = Ok [\<lparr>Denom = ''usdr'', Amount = 40\<rparr>]"
    by (simp_all add: ref_NewCoins_one sample_denoms)
  show ?thesis
    unfolding handleSwapRequest_def Let_def
    using fee s1
    by (simp add: bnd_def seq_def sample_swap new sdk_call_def b1(1) b2(1) b3(1) b4(1) b5(1) ref_coin_Truncate_def sample_denoms
        ref_coin_Add_def)
qed

lemma sample_receiver: "val_b \<noteq> module_addr m" "val_a \<noteq> module_addr m"
  by (simp_all add: module_addr_def val_a_def val_b_def)


end
