(* ===== verification/Treasury.thy ===== *)
theory Treasury
  imports Market Go_Float
begin

text \<open>
  The treasury module (\<open>x/treasury\<close>): the tax rate, the reward weight and the tax caps with the policies
  that bound them, the proceeds and the indicators of an epoch, the settlement of the seigniorage, the
  burn account, the exemption proposals, genesis and queries.  The state extends that of the market,
  whose \<open>ComputeInternalSwap\<close> aligns amounts to one denomination.
\<close>

section \<open>Types\<close>

definition treasury_ModuleName :: string where "treasury_ModuleName = ''treasury''"
definition BurnModuleName :: string where "BurnModuleName = ''burn''"

definition ErrNoSuchBurnTaxExemptionAddress :: error where
  "ErrNoSuchBurnTaxExemptionAddress = RegErr treasury_ModuleName 1"
definition ErrUnknownRequest :: error where "ErrUnknownRequest = SdkErr ''ErrUnknownRequest''"

record policy_constraints =
  pc_RateMin :: dec
  pc_RateMax :: dec
  pc_Cap :: coin
  pc_ChangeRateMax :: dec

definition Clamp :: "policy_constraints \<Rightarrow> dec \<Rightarrow> dec \<Rightarrow> dec" where
  "Clamp pc prevRate newRate =
     (let delta = newRate - prevRate;
          newRate1 =
            (if newRate > prevRate
             then if delta > pc_ChangeRateMax pc then prevRate + pc_ChangeRateMax pc else newRate
             else if \<bar>delta\<bar> > pc_ChangeRateMax pc then prevRate - pc_ChangeRateMax pc else newRate)
      in if newRate1 < pc_RateMin pc then pc_RateMin pc
         else if newRate1 > pc_RateMax pc then pc_RateMax pc
         else newRate1)"

record treasury_params =
  tp_TaxPolicy :: policy_constraints
  tp_RewardPolicy :: policy_constraints
  tp_SeigniorageBurdenTarget :: dec
  tp_MiningIncrement :: dec
  tp_WindowShort :: int
  tp_WindowLong :: int
  tp_WindowProbation :: int
  tp_BurnTaxSplit :: dec
  tp_MinInitialDepositRatio :: dec
  tp_OracleSplit :: dec

definition DefaultTaxPolicy :: policy_constraints where
  "DefaultTaxPolicy = \<lparr>
     pc_RateMin = NewDecWithPrec 5 4, pc_RateMax = NewDecWithPrec 1 2,
     pc_Cap = \<lparr>Denom = MicroSDRDenom, Amount = MicroUnit\<rparr>, pc_ChangeRateMax = NewDecWithPrec 25 5\<rparr>"

definition DefaultRewardPolicy :: policy_constraints where
  "DefaultRewardPolicy = \<lparr>
     pc_RateMin = NewDecWithPrec 5 2, pc_RateMax = NewDecWithPrec 50 2,
     pc_Cap = \<lparr>Denom = ''unused'', Amount = 0\<rparr>, pc_ChangeRateMax = NewDecWithPrec 25 3\<rparr>"

definition DefaultTaxRate :: dec where "DefaultTaxRate = NewDecWithPrec 1 3"
definition DefaultRewardWeight :: dec where "DefaultRewardWeight = NewDecWithPrec 5 2"
definition DefaultBurnTaxSplit :: dec where "DefaultBurnTaxSplit = NewDecWithPrec 1 1"
definition DefaultMinInitialDepositRatio :: dec where "DefaultMinInitialDepositRatio = 0"

definition treasury_DefaultParams :: treasury_params where
  "treasury_DefaultParams = \<lparr>
     tp_TaxPolicy = DefaultTaxPolicy, tp_RewardPolicy = DefaultRewardPolicy,
     tp_SeigniorageBurdenTarget = NewDecWithPrec 67 2, tp_MiningIncrement = NewDecWithPrec 107 2,
     tp_WindowShort = 4, tp_WindowLong = 52, tp_WindowProbation = 12,
     tp_BurnTaxSplit = DefaultBurnTaxSplit, tp_MinInitialDepositRatio = DefaultMinInitialDepositRatio,
     tp_OracleSplit = OneDec\<rparr>"

definition treasury_Params_Validate :: "'z coin_ops_scheme \<Rightarrow> treasury_params \<Rightarrow> unit outcome" where
  "treasury_Params_Validate K p =
     (let t = tp_TaxPolicy p; r = tp_RewardPolicy p in
      if pc_RateMax t < pc_RateMin t then Err (FmtErr ''TaxPolicy.RateMax'')
      else if pc_RateMin t < 0 then Err (FmtErr ''TaxPolicy.RateMin'')
      else if \<not> coin_IsValid K (pc_Cap t) then Err (FmtErr ''TaxPolicy.Cap'')
      else if pc_ChangeRateMax t < 0 then Err (FmtErr ''TaxPolicy.ChangeRateMax'')
      else if pc_RateMax r < pc_RateMin r then Err (FmtErr ''RewardPolicy.RateMax'')
      else if pc_RateMin r < 0 then Err (FmtErr ''RewardPolicy.RateMin'')
      else if pc_ChangeRateMax r < 0 then Err (FmtErr ''RewardPolicy.ChangeRateMax'')
      else if tp_SeigniorageBurdenTarget p < 0 then Err (FmtErr ''SeigniorageBurdenTarget'')
      else if tp_MiningIncrement p < 0 then Err (FmtErr ''MiningIncrement'')
      else if tp_WindowLong p \<le> tp_WindowShort p then Err (FmtErr ''WindowLong'')
      else if tp_OracleSplit p < 0 then Err (FmtErr ''OracleSplit'')
      else if tp_OracleSplit p > OneDec then Err (FmtErr ''OracleSplit'')
      else Ok ())"

definition validateTaxPolicy :: "'z coin_ops_scheme \<Rightarrow> policy_constraints \<Rightarrow> unit outcome" where
  "validateTaxPolicy K v =
     (if pc_RateMin v < 0 then Err (FmtErr ''rate min must be positive'')
      else if pc_RateMax v < pc_RateMin v then Err (FmtErr ''rate max must be bigger than rate min'')
      else if \<not> coin_IsValid K (pc_Cap v) then Err (FmtErr ''cap is invalid'')
      else if pc_ChangeRateMax v < 0 then Err (FmtErr ''max change rate must be positive'')
      else Ok ())"

definition validateRewardPolicy :: "policy_constraints \<Rightarrow> unit outcome" where
  "validateRewardPolicy v =
     (if pc_RateMin v < 0 then Err (FmtErr ''rate min must be positive'')
      else if pc_RateMax v < pc_RateMin v then Err (FmtErr ''rate max must be bigger than rate min'')
      else if pc_ChangeRateMax v < 0 then Err (FmtErr ''max change rate must be positive'')
      else Ok ())"

definition validateSeigniorageBurdenTarget :: "dec \<Rightarrow> unit outcome" where
  "validateSeigniorageBurdenTarget v =
     (if v < 0 then Err (FmtErr ''seigniorage burden target must be positive'') else Ok ())"

definition validateMiningIncrement :: "dec \<Rightarrow> unit outcome" where
  "validateMiningIncrement v = (if v < 0 then Err (FmtErr ''mining increment must be positive'') else Ok ())"

text \<open>The three window validators only check the dynamic type, which the model carries statically.\<close>

definition validateWindow :: "int \<Rightarrow> unit outcome" where
  "validateWindow v = Ok ()"

definition validateBurnTaxSplit :: "dec \<Rightarrow> unit outcome" where
  "validateBurnTaxSplit v = (if v < 0 then Err (FmtErr ''burn tax split must be positive'') else Ok ())"

definition validateMinInitialDepositRatio :: "dec \<Rightarrow> unit outcome" where
  "validateMinInitialDepositRatio v =
     (if v < 0 then Err (FmtErr ''min initial deposit ratio must be positive'')
      else if v > OneDec then Err (FmtErr ''min initial deposit ratio must less than or equal 1.0'')
      else Ok ())"

definition validateOraceSplit :: "dec \<Rightarrow> unit outcome" where
  "validateOraceSplit v =
     (if v < 0 then Err (FmtErr ''oracle split must be positive'')
      else if v > OneDec then Err (FmtErr ''oracle split must be less than or equal to 1.0'')
      else Ok ())"

definition treasury_ParamSetPairs :: "'z coin_ops_scheme \<Rightarrow> treasury_params \<Rightarrow> (unit outcome \<times> (treasury_params \<Rightarrow> treasury_params)) list" where
  "treasury_ParamSetPairs K p =
     [(validateTaxPolicy K (tp_TaxPolicy p), tp_TaxPolicy_update (\<lambda>_. tp_TaxPolicy p)),
      (validateRewardPolicy (tp_RewardPolicy p), tp_RewardPolicy_update (\<lambda>_. tp_RewardPolicy p)),
      (validateSeigniorageBurdenTarget (tp_SeigniorageBurdenTarget p), tp_SeigniorageBurdenTarget_update (\<lambda>_. tp_SeigniorageBurdenTarget p)),
      (validateMiningIncrement (tp_MiningIncrement p), tp_MiningIncrement_update (\<lambda>_. tp_MiningIncrement p)),
      (validateWindow (tp_WindowShort p), tp_WindowShort_update (\<lambda>_. tp_WindowShort p)),
      (validateWindow (tp_WindowLong p), tp_WindowLong_update (\<lambda>_. tp_WindowLong p)),
      (validateWindow (tp_WindowProbation p), tp_WindowProbation_update (\<lambda>_. tp_WindowProbation p)),
      (validateBurnTaxSplit (tp_BurnTaxSplit p), tp_BurnTaxSplit_update (\<lambda>_. tp_BurnTaxSplit p)),
      (validateMinInitialDepositRatio (tp_MinInitialDepositRatio p), tp_MinInitialDepositRatio_update (\<lambda>_. tp_MinInitialDepositRatio p)),
      (validateOraceSplit (tp_OracleSplit p), tp_OracleSplit_update (\<lambda>_. tp_OracleSplit p))]"

section \<open>Keys\<close>

definition TaxCapKey :: string where "TaxCapKey = [char_of (3::nat)]"
definition TRKey :: string where "TRKey = [char_of (6::nat)]"
definition SRKey :: string where "SRKey = [char_of (7::nat)]"
definition TSLKey :: string where "TSLKey = [char_of (8::nat)]"

definition GetTaxCapKey :: "string \<Rightarrow> string" where
  "GetTaxCapKey denom = TaxCapKey @ denom"

text \<open>\<open>binary.LittleEndian.PutUint64\<close>.\<close>

primrec le_bytes :: "nat \<Rightarrow> int \<Rightarrow> string" where
  "le_bytes 0 n = []"
| "le_bytes (Suc k) n = char_of (n mod 256) # le_bytes k (n div 256)"

definition GetSubkeyByEpoch :: "string \<Rightarrow> int \<Rightarrow> string" where
  "GetSubkeyByEpoch pre epoch = pre @ le_bytes 8 (u64 epoch)"

definition GetTRKey :: "int \<Rightarrow> string" where "GetTRKey epoch = GetSubkeyByEpoch TRKey epoch"
definition GetSRKey :: "int \<Rightarrow> string" where "GetSRKey epoch = GetSubkeyByEpoch SRKey epoch"
definition GetTSLKey :: "int \<Rightarrow> string" where "GetTSLKey epoch = GetSubkeyByEpoch TSLKey epoch"

section \<open>Keeper\<close>

record 'b treasury_state = "'b market_state" +
  t_params :: treasury_params
  TaxRate :: "dec option"
  RewardWeight :: "dec option"
  TaxCaps :: "int kv"
  TaxProceeds :: "coins option"
  EpochInitialIssuance :: "coins option"
  TRs :: "dec kv"
  SRs :: "dec kv"
  TSLs :: "int kv"
  BurnTaxExemptions :: "unit kv"

definition TaxPolicy :: "(('b, 'x) treasury_state_scheme, policy_constraints) go" where
  "TaxPolicy = gets (\<lambda>s. tp_TaxPolicy (t_params s))"

definition RewardPolicy :: "(('b, 'x) treasury_state_scheme, policy_constraints) go" where
  "RewardPolicy = gets (\<lambda>s. tp_RewardPolicy (t_params s))"

definition SeigniorageBurdenTarget :: "(('b, 'x) treasury_state_scheme, dec) go" where
  "SeigniorageBurdenTarget = gets (\<lambda>s. tp_SeigniorageBurdenTarget (t_params s))"

definition MiningIncrement :: "(('b, 'x) treasury_state_scheme, dec) go" where
  "MiningIncrement = gets (\<lambda>s. tp_MiningIncrement (t_params s))"

definition WindowShort :: "(('b, 'x) treasury_state_scheme, int) go" where
  "WindowShort = gets (\<lambda>s. tp_WindowShort (t_params s))"

definition WindowLong :: "(('b, 'x) treasury_state_scheme, int) go" where
  "WindowLong = gets (\<lambda>s. tp_WindowLong (t_params s))"

definition WindowProbation :: "(('b, 'x) treasury_state_scheme, int) go" where
  "WindowProbation = gets (\<lambda>s. tp_WindowProbation (t_params s))"

definition GetBurnSplitRate :: "(('b, 'x) treasury_state_scheme, dec) go" where
  "GetBurnSplitRate = gets (\<lambda>s. tp_BurnTaxSplit (t_params s))"

text \<open>\<open>paramSpace.Set\<close> writes the value and does not run the validator of the key.\<close>

definition SetBurnSplitRate :: "dec \<Rightarrow> (('b, 'x) treasury_state_scheme, unit) go" where
  "SetBurnSplitRate v =
     modify (\<lambda>s. s\<lparr>t_params := (t_params s)\<lparr>tp_BurnTaxSplit := v\<rparr>\<rparr>)"

definition GetMinInitialDepositRatio :: "(('b, 'x) treasury_state_scheme, dec) go" where
  "GetMinInitialDepositRatio = gets (\<lambda>s. tp_MinInitialDepositRatio (t_params s))"

definition SetMinInitialDepositRatio :: "dec \<Rightarrow> (('b, 'x) treasury_state_scheme, unit) go" where
  "SetMinInitialDepositRatio v =
     modify (\<lambda>s. s\<lparr>t_params := (t_params s)\<lparr>tp_MinInitialDepositRatio := v\<rparr>\<rparr>)"

definition GetOracleSplitRate :: "(('b, 'x) treasury_state_scheme, dec) go" where
  "GetOracleSplitRate = gets (\<lambda>s. tp_OracleSplit (t_params s))"

definition SetOracleSplitRate :: "dec \<Rightarrow> (('b, 'x) treasury_state_scheme, unit) go" where
  "SetOracleSplitRate v =
     modify (\<lambda>s. s\<lparr>t_params := (t_params s)\<lparr>tp_OracleSplit := v\<rparr>\<rparr>)"

definition treasury_GetParams :: "(('b, 'x) treasury_state_scheme, treasury_params) go" where
  "treasury_GetParams = gets t_params"

definition treasury_SetParams ::
  "'z coin_ops_scheme \<Rightarrow> treasury_params \<Rightarrow> (('b, 'x) treasury_state_scheme, unit) go" where
  "treasury_SetParams K p =
     SetParamSet t_params_update (treasury_ParamSetPairs K p)"

definition GetTaxRate :: "(('b, 'x) treasury_state_scheme, dec) go" where
  "GetTaxRate = gets (\<lambda>s. case TaxRate s of None \<Rightarrow> DefaultTaxRate | Some r \<Rightarrow> r)"

definition SetTaxRate :: "dec \<Rightarrow> (('b, 'x) treasury_state_scheme, unit) go" where
  "SetTaxRate taxRate = modify (\<lambda>s. s\<lparr>TaxRate := Some taxRate\<rparr>)"

definition GetRewardWeight :: "(('b, 'x) treasury_state_scheme, dec) go" where
  "GetRewardWeight = gets (\<lambda>s. case RewardWeight s of None \<Rightarrow> DefaultRewardWeight | Some r \<Rightarrow> r)"

definition SetRewardWeight :: "dec \<Rightarrow> (('b, 'x) treasury_state_scheme, unit) go" where
  "SetRewardWeight rewardWeight = modify (\<lambda>s. s\<lparr>RewardWeight := Some rewardWeight\<rparr>)"

definition SetTaxCap :: "string \<Rightarrow> int \<Rightarrow> (('b, 'x) treasury_state_scheme, unit) go" where
  "SetTaxCap denom cap = modify (\<lambda>s. s\<lparr>TaxCaps := kv_set (GetTaxCapKey denom) cap (TaxCaps s)\<rparr>)"

definition GetTaxCap :: "string \<Rightarrow> (('b, 'x) treasury_state_scheme, int) go" where
  "GetTaxCap denom =
     bnd (gets (\<lambda>s. kv_get (GetTaxCapKey denom) (TaxCaps s))) (\<lambda>bz.
       case bz of None \<Rightarrow> bnd TaxPolicy (\<lambda>p. ret (Amount (pc_Cap p))) | Some c \<Rightarrow> ret c)"

definition IterateTaxCap ::
  "(string \<times> int \<Rightarrow> 'c \<Rightarrow> (('b, 'x) treasury_state_scheme, 'c \<times> bool) go) \<Rightarrow> 'c
   \<Rightarrow> (('b, 'x) treasury_state_scheme, 'c) go" where
  "IterateTaxCap handler c =
     bnd (gets TaxCaps) (\<lambda>m. iter_loop (map (\<lambda>(k, v). (drop (length TaxCapKey) k, v)) m) handler c)"

definition SetEpochTaxProceeds :: "coins \<Rightarrow> (('b, 'x) treasury_state_scheme, unit) go" where
  "SetEpochTaxProceeds taxProceeds = modify (\<lambda>s. s\<lparr>TaxProceeds := Some taxProceeds\<rparr>)"

definition PeekEpochTaxProceeds :: "(('b, 'x) treasury_state_scheme, coins) go" where
  "PeekEpochTaxProceeds = gets (\<lambda>s. case TaxProceeds s of None \<Rightarrow> [] | Some c \<Rightarrow> c)"

definition RecordEpochTaxProceeds ::
  "'z coin_ops_scheme \<Rightarrow> coins \<Rightarrow> (('b, 'x) treasury_state_scheme, unit) go" where
  "RecordEpochTaxProceeds K delta =
     (if coins_IsZero K delta then ret ()
      else bnd PeekEpochTaxProceeds (\<lambda>proceeds.
           bnd (lift (coins_Add K proceeds delta)) SetEpochTaxProceeds))"

definition SetEpochInitialIssuance :: "coins \<Rightarrow> (('b, 'x) treasury_state_scheme, unit) go" where
  "SetEpochInitialIssuance issuance = modify (\<lambda>s. s\<lparr>EpochInitialIssuance := Some issuance\<rparr>)"

definition GetEpochInitialIssuance :: "(('b, 'x) treasury_state_scheme, coins) go" where
  "GetEpochInitialIssuance = gets (\<lambda>s. case EpochInitialIssuance s of None \<Rightarrow> [] | Some c \<Rightarrow> c)"

definition RecordEpochInitialIssuance ::
  "('b, 'z) bank_ops_scheme \<Rightarrow> (('b, 'x) treasury_state_scheme, unit) go" where
  "RecordEpochInitialIssuance K =
     bnd (gets (\<lambda>s. op_Whitelist (o_params s))) (\<lambda>whitelist.
     bnd (gets ext) (\<lambda>b.
       let totalSupply = GetSupply K b MicroLunaDenom # map (\<lambda>denom. GetSupply K b (dt_Name denom)) whitelist in
       SetEpochInitialIssuance (coins_Sort K totalSupply)))"

definition PeekEpochSeigniorage :: "('b, 'z) bank_ops_scheme \<Rightarrow> (('b, 'x) treasury_state_scheme, int) go" where
  "PeekEpochSeigniorage K =
     bnd (gets (\<lambda>s. Amount (GetSupply K (ext s) MicroLunaDenom))) (\<lambda>epochIssuance.
     bnd GetEpochInitialIssuance (\<lambda>issuance.
     bnd (lift (coins_AmountOf K issuance MicroLunaDenom)) (\<lambda>preEpochIssuance.
       let epochSeigniorage = preEpochIssuance - epochIssuance in
       ret (if epochSeigniorage < 0 then 0 else epochSeigniorage))))"

definition GetTR :: "int \<Rightarrow> (('b, 'x) treasury_state_scheme, dec) go" where
  "GetTR epoch = gets (\<lambda>s. case kv_get (GetTRKey epoch) (TRs s) of None \<Rightarrow> 0 | Some d \<Rightarrow> d)"

definition SetTR :: "int \<Rightarrow> dec \<Rightarrow> (('b, 'x) treasury_state_scheme, unit) go" where
  "SetTR epoch tr = modify (\<lambda>s. s\<lparr>TRs := kv_set (GetTRKey epoch) tr (TRs s)\<rparr>)"

definition ClearTRs :: "(('b, 'x) treasury_state_scheme, unit) go" where
  "ClearTRs = bnd (gets TRs) (\<lambda>m. for_each m (\<lambda>e. modify (\<lambda>s. s\<lparr>TRs := kv_delete (fst e) (TRs s)\<rparr>)))"

definition GetSR :: "int \<Rightarrow> (('b, 'x) treasury_state_scheme, dec) go" where
  "GetSR epoch = gets (\<lambda>s. case kv_get (GetSRKey epoch) (SRs s) of None \<Rightarrow> 0 | Some d \<Rightarrow> d)"

definition SetSR :: "int \<Rightarrow> dec \<Rightarrow> (('b, 'x) treasury_state_scheme, unit) go" where
  "SetSR epoch sr = modify (\<lambda>s. s\<lparr>SRs := kv_set (GetSRKey epoch) sr (SRs s)\<rparr>)"

definition ClearSRs :: "(('b, 'x) treasury_state_scheme, unit) go" where
  "ClearSRs = bnd (gets SRs) (\<lambda>m. for_each m (\<lambda>e. modify (\<lambda>s. s\<lparr>SRs := kv_delete (fst e) (SRs s)\<rparr>)))"

definition GetTSL :: "int \<Rightarrow> (('b, 'x) treasury_state_scheme, int) go" where
  "GetTSL epoch = gets (\<lambda>s. case kv_get (GetTSLKey epoch) (TSLs s) of None \<Rightarrow> 0 | Some n \<Rightarrow> n)"

definition SetTSL :: "int \<Rightarrow> int \<Rightarrow> (('b, 'x) treasury_state_scheme, unit) go" where
  "SetTSL epoch tsl = modify (\<lambda>s. s\<lparr>TSLs := kv_set (GetTSLKey epoch) tsl (TSLs s)\<rparr>)"

definition ClearTSLs :: "(('b, 'x) treasury_state_scheme, unit) go" where
  "ClearTSLs = bnd (gets TSLs) (\<lambda>m. for_each m (\<lambda>e. modify (\<lambda>s. s\<lparr>TSLs := kv_delete (fst e) (TSLs s)\<rparr>)))"

definition AddBurnTaxExemptionAddress ::
  "('b, 'z) addr_ops_scheme \<Rightarrow> string \<Rightarrow> (('b, 'x) treasury_state_scheme, unit) go" where
  "AddBurnTaxExemptionAddress K addr =
     bnd (must (lift (AccAddressFromBech32 K addr))) (\<lambda>_.
     modify (\<lambda>s. s\<lparr>BurnTaxExemptions := kv_set addr () (BurnTaxExemptions s)\<rparr>))"

definition RemoveBurnTaxExemptionAddress ::
  "('b, 'z) addr_ops_scheme \<Rightarrow> string \<Rightarrow> (('b, 'x) treasury_state_scheme, unit) go" where
  "RemoveBurnTaxExemptionAddress K addr =
     bnd (must (lift (AccAddressFromBech32 K addr))) (\<lambda>_.
     bnd (gets (\<lambda>s. kv_has addr (BurnTaxExemptions s))) (\<lambda>found.
     if \<not> found then raise ErrNoSuchBurnTaxExemptionAddress
     else modify (\<lambda>s. s\<lparr>BurnTaxExemptions := kv_delete addr (BurnTaxExemptions s)\<rparr>)))"

definition BurnCoinsFromBurnAccount :: "('b, 'z) bank_ops_scheme \<Rightarrow> (('b, 'x) treasury_state_scheme, unit) go" where
  "BurnCoinsFromBurnAccount K =
     bnd (gets (\<lambda>s. GetAllBalances K (ext s) (GetModuleAddress K BurnModuleName))) (\<lambda>coins.
     if coins_IsZero K coins then ret ()
     else must (sdk_call (BurnCoins K BurnModuleName coins)))"

section \<open>Indicators\<close>

definition GetEpoch :: "int \<Rightarrow> int" where
  "GetEpoch height = go_quot height BlocksPerWeek"

definition alignCoins ::
  "'z coin_ops_scheme \<Rightarrow> dec_coins \<Rightarrow> string \<Rightarrow> (('b, 'x) treasury_state_scheme, dec) go" where
  "alignCoins K coins denom =
     fold_each coins (\<lambda>coinReward alignedAmt.
       if Denom coinReward \<noteq> denom
       then bnd (attempt (ComputeInternalSwap K coinReward denom)) (\<lambda>r.
              case r of Inl _ \<Rightarrow> ret alignedAmt | Inr swappedReward \<Rightarrow> ret (alignedAmt + Amount swappedReward))
       else ret (alignedAmt + Amount coinReward)) 0"

definition UpdateIndicators :: "('b, 'z) staking_ops_scheme \<Rightarrow> (('b, 'x) treasury_state_scheme, unit) go" where
  "UpdateIndicators K =
     bnd (gets (\<lambda>s. GetEpoch (BlockHeight s))) (\<lambda>epoch.
     bnd (gets (\<lambda>s. TotalBondedTokens K (ext s))) (\<lambda>totalStakedLuna.
     seq (SetTSL epoch totalStakedLuna)
     (bnd PeekEpochTaxProceeds (\<lambda>proceeds.
     bnd (lift (NewDecCoinsFromCoins K proceeds)) (\<lambda>taxRewards.
     bnd (alignCoins K taxRewards MicroSDRDenom) (\<lambda>tr.
     seq (SetTR epoch tr)
     (seq (SetEpochTaxProceeds [])
     (bnd (PeekEpochSeigniorage K) (\<lambda>seigniorage.
     bnd GetRewardWeight (\<lambda>weight.
     bnd (lift (NewDecCoinFromDec K MicroLunaDenom (weight * seigniorage))) (\<lambda>seigniorageReward.
     bnd (alignCoins K [seigniorageReward] MicroSDRDenom) (\<lambda>sr.
     SetSR epoch sr))))))))))))"

definition TRL :: "'z dec_ops_scheme \<Rightarrow> int \<Rightarrow> (('b, 'x) treasury_state_scheme, dec) go" where
  "TRL K epoch =
     bnd (GetTR epoch) (\<lambda>tr.
     bnd (GetTSL epoch) (\<lambda>tsl.
     if tr = 0 \<or> tsl = 0 then ret 0 else lift (dec_QuoInt K tr tsl)))"

definition SR :: "int \<Rightarrow> (('b, 'x) treasury_state_scheme, dec) go" where
  "SR epoch = GetSR epoch"

definition MR :: "int \<Rightarrow> (('b, 'x) treasury_state_scheme, dec) go" where
  "MR epoch = bnd (GetTR epoch) (\<lambda>tr. bnd (GetSR epoch) (\<lambda>sr. ret (tr + sr)))"

text \<open>The loop of \<open>sumIndicator\<close> and \<open>rollingAverageIndicator\<close>: the sum, and the value the counter stops at.\<close>

function indicator_loop ::
  "(int \<Rightarrow> ('s, dec) go) \<Rightarrow> int \<Rightarrow> int \<Rightarrow> dec \<Rightarrow> ('s, dec \<times> int) go" where
  "indicator_loop indicator lo i acc =
     (if i \<ge> 0 \<and> i > lo
      then bnd (indicator i) (\<lambda>val. indicator_loop indicator lo (i - 1) (acc + val))
      else ret (acc, i))"
  by auto
termination by (relation "measure (\<lambda>(_, _, i, _). nat (i + 1))") auto

declare indicator_loop.simps [simp del]

definition sumIndicator :: "int \<Rightarrow> int \<Rightarrow> (int \<Rightarrow> ('s, dec) go) \<Rightarrow> ('s, dec) go" where
  "sumIndicator height epochs indicator =
     (let curEpoch = GetEpoch height in
      bnd (indicator_loop indicator (i64 (curEpoch - epochs)) curEpoch 0) (\<lambda>r. ret (fst r)))"

definition rollingAverageIndicator ::
  "'z dec_ops_scheme \<Rightarrow> int \<Rightarrow> int \<Rightarrow> (int \<Rightarrow> ('s, dec) go) \<Rightarrow> ('s, dec) go" where
  "rollingAverageIndicator K height epochs indicator =
     (let curEpoch = GetEpoch height in
      bnd (indicator_loop indicator (i64 (curEpoch - epochs)) curEpoch 0) (\<lambda>(acc, i).
        let computedEpochs = curEpoch - i in
        if computedEpochs = 0 then ret acc else lift (dec_QuoInt K acc computedEpochs)))"

section \<open>Policies\<close>

definition UpdateTaxCap :: "'z coin_ops_scheme \<Rightarrow> (('b, 'x) treasury_state_scheme, coins) go" where
  "UpdateTaxCap K =
     bnd TaxPolicy (\<lambda>policy.
     bnd (lift (NewDecCoinFromCoin K (pc_Cap policy))) (\<lambda>taxPolicyCap.
     bnd (gets (\<lambda>s. op_Whitelist (o_params s))) (\<lambda>whitelist.
     fold_each whitelist (\<lambda>denom newCaps.
       if dt_Name denom = Denom taxPolicyCap then ret newCaps
       else bnd (attempt (ComputeInternalSwap K taxPolicyCap (dt_Name denom))) (\<lambda>r.
              case r of
                Inl _ \<Rightarrow> ret newCaps
              | Inr newDecCap \<Rightarrow>
                  bnd (lift (deccoin_TruncateDecimal K newDecCap)) (\<lambda>(newCap, _).
                  seq (SetTaxCap (Denom newCap) (Amount newCap)) (ret (newCaps @ [newCap]))))) [])))"

definition UpdateTaxPolicy :: "'z dec_ops_scheme \<Rightarrow> (('b, 'x) treasury_state_scheme, dec) go" where
  "UpdateTaxPolicy K =
     bnd treasury_GetParams (\<lambda>params.
     bnd GetTaxRate (\<lambda>oldTaxRate.
     bnd (gets BlockHeight) (\<lambda>height.
     bnd (rollingAverageIndicator K height (i64 (tp_WindowLong params)) (TRL K)) (\<lambda>tlYear.
     bnd (rollingAverageIndicator K height (i64 (tp_WindowShort params)) (TRL K)) (\<lambda>tlMonth.
     bnd (if tlMonth = 0 then ret (pc_RateMax (tp_TaxPolicy params))
          else lift (obind (dec_Mul K tlYear (tp_MiningIncrement params)) (\<lambda>x.
                     obind (dec_Mul K oldTaxRate x) (\<lambda>y. dec_Quo K y tlMonth)))) (\<lambda>newTaxRate0.
     let newTaxRate = Clamp (tp_TaxPolicy params) oldTaxRate newTaxRate0 in
     seq (SetTaxRate newTaxRate) (ret newTaxRate)))))))"

definition UpdateRewardPolicy :: "'z dec_ops_scheme \<Rightarrow> (('b, 'x) treasury_state_scheme, dec) go" where
  "UpdateRewardPolicy K =
     bnd treasury_GetParams (\<lambda>params.
     bnd GetRewardWeight (\<lambda>oldWeight.
     bnd (gets BlockHeight) (\<lambda>height.
     bnd (sumIndicator height (i64 (tp_WindowShort params)) SR) (\<lambda>seigniorageSum.
     bnd (sumIndicator height (i64 (tp_WindowShort params)) MR) (\<lambda>totalSum.
     bnd (if totalSum = 0 \<or> seigniorageSum = 0 then ret (pc_RateMax (tp_RewardPolicy params))
          else lift (obind (dec_Quo K seigniorageSum totalSum) (\<lambda>sb.
                     obind (dec_Quo K (tp_SeigniorageBurdenTarget params) sb) (\<lambda>q.
                     dec_Mul K oldWeight q)))) (\<lambda>newRewardWeight0.
     let newRewardWeight = Clamp (tp_RewardPolicy params) oldWeight newRewardWeight0 in
     seq (SetRewardWeight newRewardWeight) (ret newRewardWeight)))))))"

section \<open>Seigniorage\<close>

definition distribution_ModuleName :: string where "distribution_ModuleName = ''distribution''"

text \<open>Sending coins to the distribution module and booking them in its community pool.\<close>

definition fund_community_pool ::
  "('b, 'z) staking_ops_scheme \<Rightarrow> coins \<Rightarrow> (('b, 'x) chain_scheme, unit) go" where
  "fund_community_pool K cs =
     bnd (gets (\<lambda>s. CommunityPool K (ext s))) (\<lambda>pool.
     bnd (lift (obind (NewDecCoinsFromCoins K cs) (deccoins_Add K pool))) (\<lambda>pool'.
     sdk_call (SetCommunityPool K pool')))"

definition SettleSeigniorage :: "('b, 'z) staking_ops_scheme \<Rightarrow> (('b, 'x) treasury_state_scheme, unit) go" where
  "SettleSeigniorage K =
     bnd (PeekEpochSeigniorage K) (\<lambda>seigniorageLunaAmt.
     if seigniorageLunaAmt \<le> 0 then ret ()
     else
       bnd GetRewardWeight (\<lambda>rewardWeight.
       bnd (lift (obind (NewDecCoin K MicroLunaDenom seigniorageLunaAmt) (deccoin_TruncateDecimal K))) (\<lambda>(seigniorageCoin, _).
       bnd (lift (NewCoins K [seigniorageCoin])) (\<lambda>seigniorageCoins.
       seq (on_true (coins_IsValid K seigniorageCoins)
              (must (sdk_call (MintCoins K treasury_ModuleName seigniorageCoins))))
       (let seigniorageAmt = Amount seigniorageCoin;
            burnAmt = dec_TruncateInt K (rewardWeight * seigniorageAmt) in
       bnd (lift (obind (NewCoin K MicroLunaDenom burnAmt) (\<lambda>c. NewCoins K [c]))) (\<lambda>burnCoins.
       seq (on_true (coins_IsValid K burnCoins)
              (must (sdk_call (BurnCoins K treasury_ModuleName burnCoins))))
       (let leftAmt = seigniorageAmt - burnAmt in
       bnd (lift (obind (NewCoin K MicroLunaDenom leftAmt) (\<lambda>c. NewCoins K [c]))) (\<lambda>leftCoins.
       on_true (coins_IsValid K leftCoins)
         (seq (must (sdk_call (SendCoinsFromModuleToModule K treasury_ModuleName distribution_ModuleName leftCoins)))
              (fund_community_pool K leftCoins))))))))))"

section \<open>End of the block\<close>

text \<open>The settlement of the seigniorage is commented out in the code.\<close>

definition treasury_EndBlocker :: "('b, 'z) staking_ops_scheme \<Rightarrow> (('b, 'x) treasury_state_scheme, unit) go" where
  "treasury_EndBlocker K =
     seq (BurnCoinsFromBurnAccount K)
     (bnd (gets BlockHeight) (\<lambda>height.
     bnd (lift (IsPeriodLastBlock height BlocksPerWeek)) (\<lambda>isLast.
     if \<not> isLast then ret ()
     else deferred (RecordEpochInitialIssuance K)
       (seq (UpdateIndicators K)
       (bnd WindowProbation (\<lambda>probation.
       if height < i64 (u64 (BlocksPerWeek * probation)) then ret ()
       else bnd (UpdateTaxPolicy K) (\<lambda>_. bnd (UpdateRewardPolicy K) (\<lambda>_. bnd (UpdateTaxCap K) (\<lambda>_. ret ())))))))))"

section \<open>Proposals and migrations\<close>

datatype treasury_content =
    AddBurnTaxExemptionAddressProposal string string "string list"
  | RemoveBurnTaxExemptionAddressProposal string string "string list"
  | OtherContent

definition HandleAddBurnTaxExemptionAddressProposal ::
  "('b, 'z) addr_ops_scheme \<Rightarrow> string list \<Rightarrow> (('b, 'x) treasury_state_scheme, unit) go" where
  "HandleAddBurnTaxExemptionAddressProposal K addresses = for_each addresses (AddBurnTaxExemptionAddress K)"

definition HandleRemoveBurnTaxExemptionAddressProposal ::
  "('b, 'z) addr_ops_scheme \<Rightarrow> string list \<Rightarrow> (('b, 'x) treasury_state_scheme, unit) go" where
  "HandleRemoveBurnTaxExemptionAddressProposal K addresses = for_each addresses (RemoveBurnTaxExemptionAddress K)"

definition treasury_ProposalHandler ::
  "('b, 'z) addr_ops_scheme \<Rightarrow> treasury_content \<Rightarrow> (('b, 'x) treasury_state_scheme, unit) go" where
  "treasury_ProposalHandler K content =
     (case content of
        AddBurnTaxExemptionAddressProposal _ _ addresses \<Rightarrow> HandleAddBurnTaxExemptionAddressProposal K addresses
      | RemoveBurnTaxExemptionAddressProposal _ _ addresses \<Rightarrow> HandleRemoveBurnTaxExemptionAddressProposal K addresses
      | OtherContent \<Rightarrow> raise ErrUnknownRequest)"

definition exemption_proposal_check ::
  "('b, 'z) staking_ops_scheme \<Rightarrow> string \<Rightarrow> string \<Rightarrow> string list \<Rightarrow> unit outcome" where
  "exemption_proposal_check K title description addresses =
     obind (ValidateAbstract K title description) (\<lambda>_.
     ofold (\<lambda>a _. obind (wrap_err ErrInvalidAddress (AccAddressFromBech32 K a)) (\<lambda>_. Ok ())) addresses ())"

definition AddBurnTaxExemption_ValidateBasic ::
  "('b, 'z) staking_ops_scheme \<Rightarrow> string \<Rightarrow> string \<Rightarrow> string list \<Rightarrow> unit outcome" where
  "AddBurnTaxExemption_ValidateBasic K = exemption_proposal_check K"

definition RemoveBurnTaxExemption_ValidateBasic ::
  "('b, 'z) staking_ops_scheme \<Rightarrow> string \<Rightarrow> string \<Rightarrow> string list \<Rightarrow> unit outcome" where
  "RemoveBurnTaxExemption_ValidateBasic K = exemption_proposal_check K"

definition burnTaxExcemptionAddressList :: "string list" where
  "burnTaxExcemptionAddressList =
     [''terra10atxpzafqfjy58z0dvugmd9zf63fycr6uvwhjm'',
      ''terra1jrq7xa63a4qgpdgtj70k8yz5p32ps9r7mlj3yr'',
      ''terra15s66unmdcpknuxxldd7fsr44skme966tdckq8c'',
      ''terra1u0p7xuwlg0zsqgntagdkyjyumsegd8agzhug99'',
      ''terra1fax8l6srhew5tu2mavmu83js3v7vsqf9yr4fv7'',
      ''terra132wegs0kf9q65t9gsm3g2y06l98l2k4treepkq'',
      ''terra1l89hprfccqxgzzypjzy3fnp7vqpnkqg5vvqgjc'',
      ''terra1ns7lfvrxzter4d2yl9tschdwntcxa25vtsvd8a'',
      ''terra1vuvju6la7pj6t8d8zsx4g8ea85k2cg5u62cdhl'',
      ''terra1lzdux37s4anmakvg7pahzh03zlf43uveq83wh2'',
      ''terra1ky3qcf7v45n6hwfmkm05acwczvlq8ahnq778wf'',
      ''terra17m8tkde0mav43ckeehp537rsz4usqx5jayhf08'',
      ''terra1urj8va62jeygra7y3a03xeex49mjddh3eul0qa'',
      ''terra10wyptw59xc52l86pg86sy0xcm3nm5wg6a3cf7l'',
      ''terra1sujaqwaw7ls9fh6a4x7n06nv7fxx5xexwlnrkf'',
      ''terra1qg59nhvag222kp6fyzxt83l4sw02huymqnklww'',
      ''terra1dxxnwxlpjjkl959v5xrghx0dtvut60eef6vcch'',
      ''terra1y246m036et7vu69nsg4kapelj0tywe8vsmp34d'',
      ''terra1j39c9sjr0zpjnrfjtthuua0euecv7txavxvq36'',
      ''terra1t0jthtq9zhm4ldtvs9epp02zp23f355wu6zrzq'',
      ''terra12dxclvqrgt7w3s7gtwpdkxgymexv8stgqcr0yu'',
      ''terra1az3dsad74pwhylrrexnn5qylzj783uyww2s7xz'',
      ''terra1ttq26dq4egr5exmhd6gezerrxhlutx9u90uncn'',
      ''terra13e9670yuvfs06hctt9pmgjnz0yw28p0wgnhrqn'',
      ''terra1skmktm537pfaycgu9jx4fqryjt6pf77ycpesw0'',
      ''terra14q8cazgt58y2xkd26mlukemwth0cnvfqmgz2qk'',
      ''terra163vzxz9wwy320ccwy73qe6h33yzg2yhyvv5nsf'',
      ''terra1kj43wfnvrgc2ep94dgmwvnzv8vnkkxrxmrnhkp'',
      ''terra1gu6re549pn0mdpshtv75t3xugn347jghlhul73'',
      ''terra1gft3qujlq04yza3s2r238mql2yn3xxqepzt2up'',
      ''terra174pe7qe7g867spzdfs5f4rf9fuwmm42zf4hykf'',
      ''terra1ju68sg6k39t385sa0fazqvjgh6m6gkmsmp4lln'',
      ''terra1dlh7k4hcnsrvlfuzhdzx3ctynj7s8dde9zmdyd'',
      ''terra18wcdhpzpteharlkks5n6k7ent0mjyftvcpm6ee'',
      ''terra1xmkwsauuk3kafua9k23hrkfr76gxmwdfq5c09d'',
      ''terra1t957gces65xd6p8g4cuqnyd0sy5tzku59njydd'',
      ''terra1s4rd0y5e4gasf0krdm2w8sjhsmh030m74f2x9v'',
      ''terra15jya6ugxp65y80y5h82k4gv90pd7acv58xp6jj'',
      ''terra14yqy9warjkxyecda5kf5a68qlknf4ve4sh7sa6'',
      ''terra1yxras4z0fs9ugsg2hew9334k65uzejwcslyx0y'',
      ''terra1p0vl4s4gp46vy6dm352s2fgtw6hccypph7zc3u'',
      ''terra1hhj92twle9x8rjkr3yffujexsy5ldexak5rglz'',
      ''terra18vnrzlzm2c4xfsx382pj2xndqtt00rvhu24sqe'',
      ''terra1ncjg4a59x2pgvqy9qjyqprlj8lrwshm0wleht5'',
      ''terra19l7hzwazq5j0dykfldcwrk2927xwcjd0kt0vt9'',
      ''terra1frh79vmtur5fmrghz6gfjvfhpa3u2c0uemv4af'']"

definition Migrate1to2 :: "('b, 'z) addr_ops_scheme \<Rightarrow> (('b, 'x) treasury_state_scheme, unit) go" where
  "Migrate1to2 K =
     seq (SetBurnSplitRate DefaultBurnTaxSplit)
     (for_each burnTaxExcemptionAddressList (AddBurnTaxExemptionAddress K))"

definition Migrate2to3 :: "(('b, 'x) treasury_state_scheme, unit) go" where
  "Migrate2to3 = SetMinInitialDepositRatio DefaultMinInitialDepositRatio"

section \<open>Genesis\<close>

record epoch_state =
  es_Epoch :: int
  es_TaxReward :: dec
  es_SeigniorageReward :: dec
  es_TotalStakedLuna :: int

record treasury_genesis =
  tg_Params :: treasury_params
  tg_TaxRate :: dec
  tg_RewardWeight :: dec
  tg_TaxCaps :: "(string \<times> int) list"
  tg_TaxProceeds :: coins
  tg_EpochInitialIssuance :: coins
  tg_EpochStates :: "epoch_state list"

definition treasury_DefaultGenesisState :: treasury_genesis where
  "treasury_DefaultGenesisState = \<lparr>
     tg_Params = treasury_DefaultParams, tg_TaxRate = DefaultTaxRate, tg_RewardWeight = DefaultRewardWeight,
     tg_TaxCaps = [], tg_TaxProceeds = [], tg_EpochInitialIssuance = [], tg_EpochStates = []\<rparr>"

definition treasury_ValidateGenesis :: "'z coin_ops_scheme \<Rightarrow> treasury_genesis \<Rightarrow> unit outcome" where
  "treasury_ValidateGenesis K g =
     (let t = tp_TaxPolicy (tg_Params g); r = tp_RewardPolicy (tg_Params g) in
      if tg_TaxRate g < pc_RateMin t \<or> tg_TaxRate g > pc_RateMax t then Err (FmtErr ''tax_rate'')
      else if tg_RewardWeight g < pc_RateMin r \<or> tg_RewardWeight g > pc_RateMax r then Err (FmtErr ''reward_weight'')
      else treasury_Params_Validate K (tg_Params g))"

definition treasury_InitGenesis ::
  "('b, 'z) bank_ops_scheme \<Rightarrow> treasury_genesis \<Rightarrow> (('b, 'x) treasury_state_scheme, unit) go" where
  "treasury_InitGenesis K data =
     seq (treasury_SetParams K (tg_Params data))
     (seq (SetTaxRate (tg_TaxRate data))
     (seq (SetRewardWeight (tg_RewardWeight data))
     (seq (SetEpochTaxProceeds (tg_TaxProceeds data))
     (seq (if coins_IsZero K (tg_EpochInitialIssuance data) then RecordEpochInitialIssuance K
           else SetEpochInitialIssuance (tg_EpochInitialIssuance data))
     (seq (for_each (tg_TaxCaps data) (\<lambda>(denom, cap). SetTaxCap denom cap))
     (seq (for_each (tg_EpochStates data) (\<lambda>e.
            seq (SetTR (i64 (es_Epoch e)) (es_TaxReward e))
            (seq (SetSR (i64 (es_Epoch e)) (es_SeigniorageReward e))
                 (SetTSL (i64 (es_Epoch e)) (es_TotalStakedLuna e)))))
     (seq (bnd (sdk_call (GetModuleAccount K treasury_ModuleName)) (\<lambda>found. if found then ret () else panic))
          (bnd (sdk_call (GetModuleAccount K BurnModuleName)) (\<lambda>found. if found then ret () else panic)))))))))"

function export_epochs ::
  "bool \<Rightarrow> int \<Rightarrow> int \<Rightarrow> epoch_state list \<Rightarrow> (('b, 'x) treasury_state_scheme, epoch_state list) go" where
  "export_epochs isLast curEpoch e acc =
     (if e < curEpoch \<or> (e = curEpoch \<and> isLast)
      then bnd (GetTR e) (\<lambda>tr. bnd (GetSR e) (\<lambda>sr. bnd (GetTSL e) (\<lambda>tsl.
           export_epochs isLast curEpoch (e + 1)
             (acc @ [\<lparr>es_Epoch = u64 e, es_TaxReward = tr, es_SeigniorageReward = sr, es_TotalStakedLuna = tsl\<rparr>]))))
      else ret acc)"
  by auto
termination by (relation "measure (\<lambda>(_, cur, e, _). nat (cur + 1 - e))") auto

declare export_epochs.simps [simp del]

definition treasury_ExportGenesis :: "(('b, 'x) treasury_state_scheme, treasury_genesis) go" where
  "treasury_ExportGenesis =
     bnd treasury_GetParams (\<lambda>params.
     bnd GetTaxRate (\<lambda>taxRate.
     bnd GetRewardWeight (\<lambda>rewardWeight.
     bnd PeekEpochTaxProceeds (\<lambda>taxProceeds.
     bnd GetEpochInitialIssuance (\<lambda>epochInitialIssuance.
     bnd (IterateTaxCap (\<lambda>(denom, taxCap) caps. ret (caps @ [(denom, taxCap)], False)) []) (\<lambda>taxCaps.
     bnd (gets BlockHeight) (\<lambda>height.
     bnd (lift (IsPeriodLastBlock height BlocksPerWeek)) (\<lambda>isLast.
     bnd (export_epochs isLast (GetEpoch height) 0 []) (\<lambda>epochStates.
     ret \<lparr>tg_Params = params, tg_TaxRate = taxRate, tg_RewardWeight = rewardWeight, tg_TaxCaps = taxCaps,
          tg_TaxProceeds = taxProceeds, tg_EpochInitialIssuance = epochInitialIssuance,
          tg_EpochStates = epochStates\<rparr>)))))))))"

section \<open>Queries\<close>

definition q_TaxCap :: "'z coin_ops_scheme \<Rightarrow> string option \<Rightarrow> (('b, 'x) treasury_state_scheme, int) go" where
  "q_TaxCap K req =
     (case req of
        None \<Rightarrow> raise InvalidArgument
      | Some denom \<Rightarrow> if \<not> ValidDenom K denom then raise InvalidArgument else GetTaxCap denom)"

definition q_TaxCaps :: "(('b, 'x) treasury_state_scheme, (string \<times> int) list) go" where
  "q_TaxCaps = IterateTaxCap (\<lambda>(denom, taxCap) caps. ret (caps @ [(denom, taxCap)], False)) []"

text \<open>\<open>int64(math.Min(float64(a), float64(b)))\<close> for nonnegative arguments.\<close>

definition f64_to_int :: "f64 \<Rightarrow> int" where
  "f64_to_int x = (case x of NaN \<Rightarrow> 0 | F64 m e \<Rightarrow> if 0 \<le> e then m * 2 ^ nat e else m div 2 ^ nat (- e))"

definition f64_min_int :: "int \<Rightarrow> int \<Rightarrow> int" where
  "f64_min_int a b = min (f64_to_int (f64_of_ratio a 1)) (f64_to_int (f64_of_ratio b 1))"

definition q_Indicators :: "('b, 'z) staking_ops_scheme \<Rightarrow> (('b, 'x) treasury_state_scheme, dec \<times> dec) go" where
  "q_Indicators K =
     bnd (gets (\<lambda>s. TotalBondedTokens K (ext s))) (\<lambda>tsl.
     bnd PeekEpochTaxProceeds (\<lambda>proceeds.
     bnd (lift (NewDecCoinsFromCoins K proceeds)) (\<lambda>taxRewards.
     bnd (alignCoins K taxRewards MicroSDRDenom) (\<lambda>tr.
     bnd (gets BlockHeight) (\<lambda>height.
     let epoch = GetEpoch height in
     if epoch = 0 then bnd (lift (dec_QuoInt K tr tsl)) (\<lambda>trl. ret (trl, trl))
     else
       bnd treasury_GetParams (\<lambda>params.
       let previous = height - BlocksPerWeek;
           long = u64 (tp_WindowLong params - 1);
           short = u64 (tp_WindowShort params - 1);
           forYear = f64_min_int long epoch;
           forMonth = f64_min_int short epoch in
       bnd (rollingAverageIndicator K previous (i64 long) (TRL K)) (\<lambda>trlYear.
       bnd (rollingAverageIndicator K previous (i64 short) (TRL K)) (\<lambda>trlMonth.
       bnd (lift (dec_QuoInt K tr tsl)) (\<lambda>trl.
       bnd (lift (dec_QuoInt K (trlYear * forYear + trl) (i64 (forYear + 1)))) (\<lambda>year.
       bnd (lift (dec_QuoInt K (trlMonth * forMonth + trl) (i64 (forMonth + 1)))) (\<lambda>month.
       ret (year, month))))))))))))"

definition q_SeigniorageProceeds :: "('b, 'z) bank_ops_scheme \<Rightarrow> (('b, 'x) treasury_state_scheme, int) go" where
  "q_SeigniorageProceeds K = PeekEpochSeigniorage K"

end
