(* ===== verification/Treasury_Policy.thy ===== *)
theory Treasury_Policy
  imports Treasury Market_Swap
begin

text \<open>
  The policies of the treasury: clamping, the averages over past epochs, and what the end of a block does
  to the tax rate and the reward weight.
\<close>

section \<open>Clamping\<close>

lemma Clamp_range:
  assumes "pc_RateMin p \<le> pc_RateMax p"
  shows "pc_RateMin p \<le> Clamp p old new" "Clamp p old new \<le> pc_RateMax p"
  using assms by (auto simp: Clamp_def Let_def)

lemma Clamp_step:
  assumes "0 \<le> pc_ChangeRateMax p" "pc_RateMin p \<le> old" "old \<le> pc_RateMax p"
  shows "\<bar>Clamp p old new - old\<bar> \<le> pc_ChangeRateMax p"
  using assms by (auto simp: Clamp_def Let_def)

section \<open>The loops over past epochs\<close>

lemma indicator_loop_run:
  assumes "\<And>e. indicator e s = (Ok (f e), s)" "- 1 \<le> i"
  shows "indicator_loop indicator lo i acc s = (Ok (acc + sum f {max (lo + 1) 0..i}, min i (max lo (- 1))), s)"
  using assms(2)
proof (induction "nat (i + 1)" arbitrary: i acc)
  case 0
  then show ?case by (subst indicator_loop.simps) simp
next
  case (Suc n)
  have i: "0 \<le> i" using Suc.hyps(2) by simp
  show ?case
  proof (cases "lo < i")
    case True
    have "{max (lo + 1) 0..i} = insert i {max (lo + 1) 0..i - 1}" using True i by auto
    then have "sum f {max (lo + 1) 0..i} = f i + sum f {max (lo + 1) 0..i - 1}" by simp
    moreover have "indicator_loop indicator lo (i - 1) (acc + f i) s =
      (Ok (acc + f i + sum f {max (lo + 1) 0..i - 1}, min (i - 1) (max lo (- 1))), s)"
      by (rule Suc.hyps(1)) (use Suc.hyps(2) i in auto)
    ultimately show ?thesis using True i assms(1) by (subst indicator_loop.simps) (simp add: bnd_Ok)
  next
    case False
    then show ?thesis using i by (subst indicator_loop.simps) simp
  qed
qed

lemma GetEpoch_nonneg: "0 \<le> h \<Longrightarrow> GetEpoch h = h div 100800"
  by (simp add: GetEpoch_def block_defs go_quot_nonneg)

lemma go_quot_mean:
  fixes a :: int
  assumes "0 < n" "lo * n \<le> a" "a \<le> hi * n"
  shows "lo \<le> go_quot a n" "go_quot a n \<le> hi"
proof -
  have q: "\<bar>a\<bar> div n * n \<le> \<bar>a\<bar>" "\<bar>a\<bar> < (\<bar>a\<bar> div n + 1) * n" using div_floor_bounds [OF assms(1)] by auto
  show "lo \<le> go_quot a n"
  proof (rule ccontr)
    assume *: "\<not> lo \<le> go_quot a n"
    show False
    proof (cases "0 \<le> a")
      case True
      then have "(a div n + 1) * n \<le> lo * n" using * assms(1) by (intro mult_right_mono) (auto simp: go_quot_nonneg)
      then show ?thesis using q(2) True assms(2) by simp
    next
      case False
      then have g: "go_quot a n = - (\<bar>a\<bar> div n)" using assms(1) by (simp add: go_quot_def)
      then have "(- (\<bar>a\<bar> div n) + 1) * n \<le> lo * n" using * assms(1) by (intro mult_right_mono) auto
      then show ?thesis using q(1) False assms(1,2) by (simp add: algebra_simps)
    qed
  qed
  show "go_quot a n \<le> hi"
  proof (rule ccontr)
    assume *: "\<not> go_quot a n \<le> hi"
    show False
    proof (cases "0 \<le> a")
      case True
      then have "(hi + 1) * n \<le> a div n * n" using * assms(1) by (intro mult_right_mono) (auto simp: go_quot_nonneg)
      then show ?thesis using q(1) True assms(1,3) by (simp add: algebra_simps)
    next
      case False
      then have g: "go_quot a n = - (\<bar>a\<bar> div n)" using assms(1) by (simp add: go_quot_def)
      then have "(hi + 1) * n \<le> - (\<bar>a\<bar> div n) * n" using * assms(1) by (intro mult_right_mono) auto
      then show ?thesis using q(2) False assms(1,3) by (simp add: algebra_simps)
    qed
  qed
qed

text \<open>The rolling average reads the last \<open>epochs\<close> epochs up to the current one, or all of them when there are
  fewer, divides their sum by their number, and lies between every common bound of the values it
  averages; no division by zero can occur.\<close>

lemma rollingAverageIndicator_mean:
  assumes "dec_laws K" "0 \<le> height" "height < 2 ^ 63" "0 < epochs" "epochs < 2 ^ 63"
    and "\<And>e. indicator e s = (Ok (f e), s)"
  shows "\<exists>n r. n = min epochs (height div BlocksPerWeek + 1)
    \<and> rollingAverageIndicator K height epochs indicator s = (Ok r, s)
    \<and> r = go_quot (\<Sum>e = height div BlocksPerWeek - n + 1..height div BlocksPerWeek. f e) n
    \<and> (\<forall>lo hi. (\<forall>e\<in>{height div BlocksPerWeek - n + 1..height div BlocksPerWeek}. lo \<le> f e \<and> f e \<le> hi) \<longrightarrow> lo \<le> r \<and> r \<le> hi)"
proof -
  define c where "c = height div BlocksPerWeek"
  define n where "n = min epochs (c + 1)"
  have c: "GetEpoch height = c" "0 \<le> c" "c < 2 ^ 63"
    using assms(2,3) zdiv_mono2 [of height 1 100800]
    by (auto simp: GetEpoch_nonneg c_def block_defs pos_imp_zdiv_nonneg_iff)
  have "i64 (c - epochs) = c - epochs" using c assms(4,5) by (intro i64_idem) (simp add: in_i64_def)
  moreover have "max (c - epochs + 1) 0 = c - n + 1" "min c (max (c - epochs) (- 1)) = c - n"
    using c assms(4) by (auto simp: n_def)
  ultimately have l: "indicator_loop indicator (i64 (c - epochs)) c 0 s = (Ok (sum f {c - n + 1..c}, c - n), s)"
    using indicator_loop_run [of indicator s f c "c - epochs" 0] assms(6) c by simp
  have n: "0 < n" using assms(4) c by (simp add: n_def)
  have run: "rollingAverageIndicator K height epochs indicator s = (Ok (go_quot (sum f {c - n + 1..c}) n), s)"
    unfolding rollingAverageIndicator_def Let_def c(1)
    using l n dec_laws.QuoInt_eq [OF assms(1), of n] by (simp add: bnd_def)
  have "lo \<le> go_quot (sum f {c - n + 1..c}) n \<and> go_quot (sum f {c - n + 1..c}) n \<le> hi"
    if b: "\<forall>e\<in>{c - n + 1..c}. lo \<le> f e \<and> f e \<le> hi" for lo hi
  proof -
    have card: "of_nat (card {c - n + 1..c}) = n" using n by simp
    have "lo * n \<le> sum f {c - n + 1..c}" "sum f {c - n + 1..c} \<le> hi * n"
      using sum_bounded_below [of "{c - n + 1..c}" lo f] sum_bounded_above [of "{c - n + 1..c}" f hi] b card
      by (auto simp: ac_simps)
    then show ?thesis using go_quot_mean [OF n] by blast
  qed
  then show ?thesis using run unfolding c_def n_def by blast
qed

section \<open>Readers\<close>

lemma reader_indicator_loop:
  assumes "\<And>e. reader (indicator e)"
  shows "reader (indicator_loop indicator lo i acc)"
proof (induction "nat (i + 1)" arbitrary: i acc)
  case 0
  then show ?case by (subst indicator_loop.simps) (simp add: reader_ret)
next
  case (Suc n)
  then show ?case by (subst indicator_loop.simps) (auto intro!: reader_intros assms)
qed

interpretation trl: reader "TRL K epoch"
  unfolding TRL_def GetTR_def GetTSL_def by (intro reader_intros)

interpretation mr: reader "MR epoch"
  unfolding MR_def GetTR_def GetSR_def by (intro reader_intros)

interpretation sr: reader "SR epoch"
  unfolding SR_def GetSR_def by (intro reader_intros)

interpretation rolling: reader "rollingAverageIndicator K height epochs (TRL K)"
  unfolding rollingAverageIndicator_def Let_def case_prod_unfold
  by (intro reader_intros reader_indicator_loop trl.reader_axioms)

interpretation sum_sr: reader "sumIndicator height epochs SR"
  unfolding sumIndicator_def Let_def by (intro reader_intros reader_indicator_loop sr.reader_axioms)

interpretation sum_mr: reader "sumIndicator height epochs MR"
  unfolding sumIndicator_def Let_def by (intro reader_intros reader_indicator_loop mr.reader_axioms)

interpretation align: reader "alignCoins K cs denom"
  unfolding alignCoins_def by (intro reader_fold_each reader_intros reader_case_sum internal.reader_axioms)

interpretation seig: reader "PeekEpochSeigniorage K"
  unfolding PeekEpochSeigniorage_def GetEpochInitialIssuance_def Let_def by (intro reader_intros)

section \<open>The policies\<close>

definition tax_rate :: "('b, 'x) treasury_state_scheme \<Rightarrow> dec" where
  "tax_rate s = (case TaxRate s of None \<Rightarrow> DefaultTaxRate | Some r \<Rightarrow> r)"

definition reward_weight :: "('b, 'x) treasury_state_scheme \<Rightarrow> dec" where
  "reward_weight s = (case RewardWeight s of None \<Rightarrow> DefaultRewardWeight | Some r \<Rightarrow> r)"

lemma UpdateTaxPolicy_Ok:
  assumes "UpdateTaxPolicy K s = (Ok r, s')"
  shows "\<exists>new. r = Clamp (tp_TaxPolicy (t_params s)) (tax_rate s) new \<and> s' = s\<lparr>TaxRate := Some r\<rparr>"
  using assms unfolding UpdateTaxPolicy_def treasury_GetParams_def GetTaxRate_def tax_rate_def [symmetric] bnd_gets
    rolling.bnd_Ok_iff
  by (auto simp: bnd_run_iff_Ok SetTaxRate_def Let_def split: if_splits)

lemma UpdateRewardPolicy_Ok:
  assumes "UpdateRewardPolicy K s = (Ok r, s')"
  shows "\<exists>new. r = Clamp (tp_RewardPolicy (t_params s)) (reward_weight s) new \<and> s' = s\<lparr>RewardWeight := Some r\<rparr>"
  using assms unfolding UpdateRewardPolicy_def treasury_GetParams_def GetRewardWeight_def reward_weight_def [symmetric] bnd_gets
    sum_sr.bnd_Ok_iff sum_mr.bnd_Ok_iff
  by (auto simp: bnd_run_iff_Ok SetRewardWeight_def Let_def split: if_splits)

text \<open>What the two policies bound is left alone by the rest of the end of the block.\<close>

definition policy_view :: "('b, 'x) treasury_state_scheme \<Rightarrow> treasury_params \<times> dec option \<times> dec option" where
  "policy_view s = (t_params s, TaxRate s, RewardWeight s)"

lemma policy_view_frame:
  "policy_view (s\<lparr>ext := b\<rparr>) = policy_view s" "policy_view (s\<lparr>TSLs := x\<rparr>) = policy_view s"
  "policy_view (s\<lparr>TRs := y\<rparr>) = policy_view s" "policy_view (s\<lparr>SRs := y\<rparr>) = policy_view s"
  "policy_view (s\<lparr>TaxProceeds := p\<rparr>) = policy_view s" "policy_view (s\<lparr>EpochInitialIssuance := q\<rparr>) = policy_view s"
  "policy_view (s\<lparr>TaxCaps := x\<rparr>) = policy_view s"
  by (simp_all add: policy_view_def)

lemma keeps_view_Burn: "keeps (\<lambda>s. policy_view s = v) (BurnCoinsFromBurnAccount K)"
  unfolding BurnCoinsFromBurnAccount_def by (intro keeps_intros keeps_sdk_call) (simp add: policy_view_frame)

lemma keeps_height_Burn: "keeps (\<lambda>s. BlockHeight s = h) (BurnCoinsFromBurnAccount K)"
  unfolding BurnCoinsFromBurnAccount_def by (intro keeps_intros keeps_sdk_call) simp

lemma keeps_view_Indicators: "keeps (\<lambda>s. policy_view s = v) (UpdateIndicators K)"
  unfolding UpdateIndicators_def SetTSL_def SetTR_def SetSR_def SetEpochTaxProceeds_def PeekEpochTaxProceeds_def GetRewardWeight_def
  by (intro keeps_intros keeps_modify align.keeps_reader seig.keeps_reader) (simp_all add: policy_view_frame)

lemma keeps_view_Record: "keeps (\<lambda>s. policy_view s = v) (RecordEpochInitialIssuance K)"
  unfolding RecordEpochInitialIssuance_def SetEpochInitialIssuance_def Let_def
  by (intro keeps_intros keeps_modify) (simp_all add: policy_view_frame)

lemma keeps_view_TaxCap: "keeps (\<lambda>s. policy_view s = v) (UpdateTaxCap K)"
  unfolding UpdateTaxCap_def TaxPolicy_def SetTaxCap_def case_prod_unfold
  by (intro keeps_intros keeps_modify internal.keeps_reader) (simp_all add: policy_view_frame)

lemma policy_updates:
  assumes "UpdateTaxPolicy K s = (Ok r, s1)" "UpdateRewardPolicy K s1 = (Ok w, s2)"
  shows "\<exists>x y. policy_view s2 = (t_params s, Some (Clamp (tp_TaxPolicy (t_params s)) (tax_rate s) x),
    Some (Clamp (tp_RewardPolicy (t_params s)) (reward_weight s) y))"
  using UpdateTaxPolicy_Ok [OF assms(1)] UpdateRewardPolicy_Ok [OF assms(2)]
  by (auto simp: policy_view_def reward_weight_def)

lemma epoch_end_view:
  assumes "(seq (UpdateIndicators K) (bnd WindowProbation (\<lambda>probation.
       if h < i64 (u64 (BlocksPerWeek * probation)) then ret ()
       else bnd (UpdateTaxPolicy K) (\<lambda>_. bnd (UpdateRewardPolicy K) (\<lambda>_. bnd (UpdateTaxCap K) (\<lambda>_. ret ())))))) s = (Ok (), s')"
  shows "if h < i64 (u64 (BlocksPerWeek * tp_WindowProbation (t_params s))) then policy_view s' = policy_view s
    else \<exists>x y. policy_view s' = (t_params s, Some (Clamp (tp_TaxPolicy (t_params s)) (tax_rate s) x),
      Some (Clamp (tp_RewardPolicy (t_params s)) (reward_weight s) y))"
proof -
  obtain s1 where s1: "UpdateIndicators K s = (Ok (), s1)" and r: "(bnd WindowProbation (\<lambda>probation.
       if h < i64 (u64 (BlocksPerWeek * probation)) then ret ()
       else bnd (UpdateTaxPolicy K) (\<lambda>_. bnd (UpdateRewardPolicy K) (\<lambda>_. bnd (UpdateTaxCap K) (\<lambda>_. ret ()))))) s1 = (Ok (), s')"
    using assms unfolding seq_run_iff_Ok by blast
  have v1: "policy_view s1 = policy_view s" by (rule keeps_run [OF keeps_view_Indicators refl s1])
  have p1: "t_params s1 = t_params s" "tax_rate s1 = tax_rate s" "reward_weight s1 = reward_weight s"
    using v1 by (simp_all add: policy_view_def tax_rate_def reward_weight_def)
  show ?thesis
  proof (cases "h < i64 (u64 (BlocksPerWeek * tp_WindowProbation (t_params s)))")
    case True
    then show ?thesis using r v1 p1(1) by (simp add: WindowProbation_def)
  next
    case False
    then have "bnd (UpdateTaxPolicy K) (\<lambda>_. bnd (UpdateRewardPolicy K) (\<lambda>_. bnd (UpdateTaxCap K) (\<lambda>_. ret ()))) s1 = (Ok (), s')"
      using r p1(1) by (simp add: WindowProbation_def)
    then obtain a b c s2 s3 where u: "UpdateTaxPolicy K s1 = (Ok a, s2)" "UpdateRewardPolicy K s2 = (Ok b, s3)"
      "UpdateTaxCap K s3 = (Ok c, s')"
      unfolding bnd_run_iff_Ok by auto
    have "policy_view s' = policy_view s3" by (rule keeps_run [OF keeps_view_TaxCap refl u(3)])
    then show ?thesis using policy_updates [OF u(1,2)] False p1 by simp
  qed
qed

definition rates_in_policy :: "treasury_params \<Rightarrow> ('b, 'x) treasury_state_scheme \<Rightarrow> bool" where
  "rates_in_policy p s \<longleftrightarrow>
     pc_RateMin (tp_TaxPolicy p) \<le> tax_rate s \<and> tax_rate s \<le> pc_RateMax (tp_TaxPolicy p)
     \<and> pc_RateMin (tp_RewardPolicy p) \<le> reward_weight s \<and> reward_weight s \<le> pc_RateMax (tp_RewardPolicy p)"

lemma tax_rate_view: "policy_view s' = (p, Some x, Some y) \<Longrightarrow> tax_rate s' = x \<and> reward_weight s' = y \<and> t_params s' = p"
  by (auto simp: policy_view_def tax_rate_def reward_weight_def)

text \<open>C1. At the end of every block the tax rate and the reward weight stay within the bounds of their policies
  and move by at most the largest change the policy allows; between epochs, and during the probation
  period, they do not move at all.  The parameters do not change.\<close>

theorem treasury_EndBlocker_policy:
  assumes "treasury_EndBlocker K s = (Ok (), s')" "rates_in_policy (t_params s) s"
    and "0 \<le> pc_ChangeRateMax (tp_TaxPolicy (t_params s))" "0 \<le> pc_ChangeRateMax (tp_RewardPolicy (t_params s))"
  shows "t_params s' = t_params s \<and> rates_in_policy (t_params s) s'
    \<and> \<bar>tax_rate s' - tax_rate s\<bar> \<le> pc_ChangeRateMax (tp_TaxPolicy (t_params s))
    \<and> \<bar>reward_weight s' - reward_weight s\<bar> \<le> pc_ChangeRateMax (tp_RewardPolicy (t_params s))
    \<and> (IsPeriodLastBlock (BlockHeight s) BlocksPerWeek = Ok False
        \<or> BlockHeight s < i64 (u64 (BlocksPerWeek * tp_WindowProbation (t_params s))) \<longrightarrow>
       tax_rate s' = tax_rate s \<and> reward_weight s' = reward_weight s)"
proof -
  let ?t = "tp_TaxPolicy (t_params s)" and ?r = "tp_RewardPolicy (t_params s)"
  let ?early = "BlockHeight s < i64 (u64 (BlocksPerWeek * tp_WindowProbation (t_params s)))"
  obtain s1 last where s1: "BurnCoinsFromBurnAccount K s = (Ok (), s1)"
    and last: "IsPeriodLastBlock (BlockHeight s1) BlocksPerWeek = Ok last"
    and rest: "(if \<not> last then ret ()
     else deferred (RecordEpochInitialIssuance K)
       (seq (UpdateIndicators K)
       (bnd WindowProbation (\<lambda>probation.
       if BlockHeight s1 < i64 (u64 (BlocksPerWeek * probation)) then ret ()
       else bnd (UpdateTaxPolicy K) (\<lambda>_. bnd (UpdateRewardPolicy K) (\<lambda>_. bnd (UpdateTaxCap K) (\<lambda>_. ret ()))))))) s1 = (Ok (), s')"
    using assms(1) unfolding treasury_EndBlocker_def seq_run_iff_Ok bnd_gets bnd_lift_Ok by blast
  have h: "BlockHeight s1 = BlockHeight s"
    by (rule keeps_run [OF keeps_height_Burn refl s1])
  have v1: "policy_view s1 = policy_view s" by (rule keeps_run [OF keeps_view_Burn refl s1])
  have p1: "t_params s1 = t_params s" "tax_rate s1 = tax_rate s" "reward_weight s1 = reward_weight s"
    using v1 by (simp_all add: policy_view_def tax_rate_def reward_weight_def)
  consider (same) "policy_view s' = policy_view s"
    | (moved) x y where "last" "\<not> ?early" "policy_view s' = (t_params s, Some (Clamp ?t (tax_rate s) x), Some (Clamp ?r (reward_weight s) y))"
  proof (cases last)
    case True
    then obtain s2 where s2: "(seq (UpdateIndicators K)
       (bnd WindowProbation (\<lambda>probation.
       if BlockHeight s1 < i64 (u64 (BlocksPerWeek * probation)) then ret ()
       else bnd (UpdateTaxPolicy K) (\<lambda>_. bnd (UpdateRewardPolicy K) (\<lambda>_. bnd (UpdateTaxCap K) (\<lambda>_. ret ())))))) s1 = (Ok (), s2)"
      and d: "RecordEpochInitialIssuance K s2 = (Ok (), s')"
      using rest by (auto simp: deferred_Ok)
    have "policy_view s' = policy_view s2" by (rule keeps_run [OF keeps_view_Record refl d])
    then show ?thesis using epoch_end_view [OF s2] True v1 p1 h that by (auto split: if_splits)
  next
    case False
    then show ?thesis using rest v1 that(1) by simp
  qed
  then show ?thesis
  proof cases
    case same
    then show ?thesis using assms(2-) by (simp add: policy_view_def tax_rate_def reward_weight_def rates_in_policy_def)
  next
    case moved
    note e = tax_rate_view [OF moved(3)]
    have m: "pc_RateMin ?t \<le> pc_RateMax ?t" "pc_RateMin ?r \<le> pc_RateMax ?r"
      using assms(2) by (auto simp: rates_in_policy_def)
    have "IsPeriodLastBlock (BlockHeight s) BlocksPerWeek = Ok True" using last h moved(1) by simp
    then show ?thesis using e moved(2) Clamp_range [OF m(1)] Clamp_range [OF m(2)] assms(2-)
        Clamp_step [of ?t "tax_rate s" x] Clamp_step [of ?r "reward_weight s" y]
      by (simp add: rates_in_policy_def)
  qed
qed

end
