(* ===== verification/Treasury_Epoch.thy ===== *)
theory Treasury_Epoch
  imports Treasury_Policy
begin

text \<open>
  What happens to coins and indicators over an epoch: the burn account, the indicators that are recorded when an
  epoch closes, and the settlement of the seigniorage.
\<close>

section \<open>The burn account\<close>

text \<open>C33. At the end of a block the burn account is empty: what it held has left the supply, and nobody else's
  balance has changed.\<close>

theorem BurnCoinsFromBurnAccount_empties:
  assumes "bank_laws K" "BurnCoinsFromBurnAccount K s = (Ok (), s')"
  shows "s' = s\<lparr>ext := ext s'\<rparr> \<and> (\<forall>d. bal K (ext s') (GetModuleAddress K BurnModuleName) d = 0)
    \<and> (\<forall>x d. x \<noteq> GetModuleAddress K BurnModuleName \<longrightarrow> bal K (ext s') x d = bal K (ext s) x d)
    \<and> (\<forall>d. supply_of K (ext s') d = supply_of K (ext s) d - bal K (ext s) (GetModuleAddress K BurnModuleName) d)"
proof -
  let ?x = "GetModuleAddress K BurnModuleName"
  let ?cs = "GetAllBalances K (ext s) ?x"
  note L = bank_laws.AllBalances_valid [OF assms(1)] bank_laws.AllBalances_amt [OF assms(1)]
  note Z = coin_laws.IsZero_iff [OF bank_laws.axioms(1) [OF assms(1)] L(1)]
  show ?thesis
  proof (cases "?cs = []")
    case True
    then have "bal K (ext s) ?x d = 0" for d using L(2) [of "ext s" ?x d] by simp
    moreover have "s' = s" using assms(2) True Z [of "ext s" ?x] by (simp add: BurnCoinsFromBurnAccount_def)
    ultimately show ?thesis by simp
  next
    case False
    then obtain b where b: "BurnCoins K BurnModuleName ?cs (ext s) = (Ok (), b)" "s' = s\<lparr>ext := b\<rparr>"
      using assms(2) Z [of "ext s" ?x] by (auto simp: BurnCoinsFromBurnAccount_def must_sdk_Ok)
    then show ?thesis using bank_laws.Burn_issued [OF assms(1) b(1)] L(2) by (simp add: issued_def)
  qed
qed

section \<open>Indicators\<close>

definition aligned_value ::
  "'z coin_ops_scheme \<Rightarrow> ('b, 'x) treasury_state_scheme \<Rightarrow> string \<Rightarrow> coin \<Rightarrow> dec" where
  "aligned_value K s denom c =
     (if Denom c = denom then Amount c
      else case fst (ComputeInternalSwap K c denom s) of Ok r \<Rightarrow> Amount r | _ \<Rightarrow> 0)"

lemma alignCoins_Ok:
  fixes s :: "('b, 'x) treasury_state_scheme"
  assumes "fst (alignCoins K cs denom s) = Ok r"
  shows "r = (\<Sum>c\<leftarrow>cs. aligned_value K s denom c)"
proof -
  define f where "f = (\<lambda>c acc. if Denom c \<noteq> denom
       then bnd (attempt (ComputeInternalSwap K c denom)) (\<lambda>r.
              case r of Inl _ \<Rightarrow> ret acc | Inr sw \<Rightarrow> ret (acc + Amount sw))
       else (ret (acc + Amount c) :: (('b, 'x) treasury_state_scheme, dec) go))"
  have step: "f c acc s = (Panic, s) \<or> f c acc s = (Ok (acc + aligned_value K s denom c), s)" for c acc
    using internal.unchanged [of K c denom s] unfolding f_def
    by (cases "ComputeInternalSwap K c denom s") (auto simp: bnd_def attempt_def aligned_value_def split: outcome.splits)
  have "fst (fold_each cs f acc s) = Ok r \<Longrightarrow> r = acc + (\<Sum>c\<leftarrow>cs. aligned_value K s denom c)" for acc
  proof (induction cs arbitrary: acc)
    case (Cons c cs)
    then have "f c acc s = (Ok (acc + aligned_value K s denom c), s)"
      using step [of c acc] by (auto simp: bnd_def)
    then show ?case using Cons.IH [of "acc + aligned_value K s denom c"] Cons.prems by (simp add: bnd_Ok)
  qed simp
  from this [of 0] show ?thesis using assms unfolding alignCoins_def f_def by simp
qed

lemma ComputeInternalSwap_cong:
  assumes "ExchangeRates s = ExchangeRates s1"
  shows "fst (ComputeInternalSwap K c d s) = fst (ComputeInternalSwap K c d s1)"
proof -
  obtain r where r: "\<And>x. GetLunaExchangeRate x s = (r x, s)" "\<And>x. GetLunaExchangeRate x s1 = (r x, s1)"
  proof
    show "GetLunaExchangeRate x s = (fst (GetLunaExchangeRate x s), s)"
      "GetLunaExchangeRate x s1 = (fst (GetLunaExchangeRate x s), s1)" for x
      using assms by (auto simp: GetLunaExchangeRate_def split: option.splits)
  qed
  show ?thesis
  proof (cases "r (Denom c)")
    case (Ok x)
    note x = Ok
    show ?thesis
    proof (cases "r d")
      case (Ok y)
      then show ?thesis using x unfolding ComputeInternalSwap_def
        by (cases "obind (dec_Mul K (Amount c) y) (\<lambda>p. dec_Quo K p x)")
          (simp_all add: bnd_def wrap_go_def r del: obind_eq_Ok)
    qed (use x in \<open>simp_all add: ComputeInternalSwap_def bnd_def wrap_go_def r\<close>)
  qed (simp_all add: ComputeInternalSwap_def bnd_def wrap_go_def r)
qed

lemma aligned_value_cong:
  "ExchangeRates s = ExchangeRates s1 \<Longrightarrow> aligned_value K s denom = aligned_value K s1 denom"
  unfolding aligned_value_def fun_eq_iff using ComputeInternalSwap_cong by metis

text \<open>Luna that left the supply since the start of the epoch.\<close>

definition epoch_seigniorage :: "('b, 'z) bank_ops_scheme \<Rightarrow> ('b, 'x) treasury_state_scheme \<Rightarrow> int" where
  "epoch_seigniorage K s =
     max 0 ((case EpochInitialIssuance s of None \<Rightarrow> 0 | Some cs \<Rightarrow> amt cs MicroLunaDenom) - supply_of K (ext s) MicroLunaDenom)"

definition issuance_ok :: "('b, 'x) treasury_state_scheme \<Rightarrow> bool" where
  "issuance_ok s \<longleftrightarrow> (case EpochInitialIssuance s of None \<Rightarrow> True | Some cs \<Rightarrow> sorted_wrt (<) (map Denom cs))"

lemma PeekEpochSeigniorage_run:
  assumes "coin_laws K" "ValidDenom K MicroLunaDenom" "issuance_ok s"
  shows "PeekEpochSeigniorage K s = (Ok (epoch_seigniorage K s), s)"
  using assms coin_laws.AmountOf_sorted [OF assms(1), of _ MicroLunaDenom]
  by (auto simp: PeekEpochSeigniorage_def GetEpochInitialIssuance_def epoch_seigniorage_def issuance_ok_def
      supply_of_def Let_def split: option.splits)

text \<open>C32. Closing an epoch records the bonded Luna, the tax proceeds and the seigniorage reward, each valued in SDR at
  the oracle prices with unpriced coins counting nothing, and starts the next epoch with empty proceeds.\<close>

theorem UpdateIndicators_records:
  assumes "coin_laws K" "ValidDenom K MicroLunaDenom" "issuance_ok s"
    and "TaxProceeds s = Some proceeds" "valid_coins K proceeds"
    and "UpdateIndicators K s = (Ok (), s')"
  shows "s' = s\<lparr>
    TSLs := kv_set (GetTSLKey (GetEpoch (BlockHeight s))) (TotalBondedTokens K (ext s)) (TSLs s),
    TRs := kv_set (GetTRKey (GetEpoch (BlockHeight s)))
      (\<Sum>c\<leftarrow>proceeds. aligned_value K s MicroSDRDenom \<lparr>Denom = Denom c, Amount = Amount c * OneDec\<rparr>) (TRs s),
    TaxProceeds := Some [],
    SRs := kv_set (GetSRKey (GetEpoch (BlockHeight s)))
      (aligned_value K s MicroSDRDenom \<lparr>Denom = MicroLunaDenom, Amount = reward_weight s * epoch_seigniorage K s\<rparr>) (SRs s)\<rparr>"
proof -
  let ?e = "GetEpoch (BlockHeight s)"
  define s1 where "s1 = s\<lparr>TSLs := kv_set (GetTSLKey ?e) (TotalBondedTokens K (ext s)) (TSLs s)\<rparr>"
  define rs where "rs = map (\<lambda>c. \<lparr>Denom = Denom c, Amount = Amount c * OneDec\<rparr>) proceeds"
  have rs: "NewDecCoinsFromCoins K proceeds = Ok rs"
    unfolding rs_def by (rule coin_laws.DecFromCoins_map [OF assms(1,5)])
  obtain tr sw sr s2 where tr: "fst (alignCoins K rs MicroSDRDenom s1) = Ok tr"
    and s2: "s2 = s1\<lparr>TRs := kv_set (GetTRKey ?e) tr (TRs s1), TaxProceeds := Some []\<rparr>"
    and sw: "NewDecCoinFromDec K MicroLunaDenom (reward_weight s2 * epoch_seigniorage K s2) = Ok sw"
    and sr: "fst (alignCoins K [sw] MicroSDRDenom s2) = Ok sr"
    and s': "s' = s2\<lparr>SRs := kv_set (GetSRKey ?e) sr (SRs s2)\<rparr>"
  proof -
    have i2: "issuance_ok (s1\<lparr>TRs := x, TaxProceeds := Some []\<rparr>)" for x
      using assms(3) by (simp add: s1_def issuance_ok_def)
    have "\<exists>tr. fst (alignCoins K rs MicroSDRDenom s1) = Ok tr \<and>
      (bnd (PeekEpochSeigniorage K) (\<lambda>seigniorage.
       bnd GetRewardWeight (\<lambda>weight.
       bnd (lift (NewDecCoinFromDec K MicroLunaDenom (weight * seigniorage))) (\<lambda>seigniorageReward.
       bnd (alignCoins K [seigniorageReward] MicroSDRDenom) (\<lambda>sr. SetSR ?e sr)))))
        (s1\<lparr>TRs := kv_set (GetTRKey ?e) tr (TRs s1), TaxProceeds := Some []\<rparr>) = (Ok (), s')"
      using assms(6) unfolding UpdateIndicators_def SetTSL_def PeekEpochTaxProceeds_def bnd_gets seq_modify
        s1_def [symmetric] SetTR_def SetEpochTaxProceeds_def
      using assms(4) rs by (auto simp: s1_def align.bnd_Ok_iff)
    then obtain tr where t: "fst (alignCoins K rs MicroSDRDenom s1) = Ok tr" "(bnd (PeekEpochSeigniorage K) (\<lambda>seigniorage.
       bnd GetRewardWeight (\<lambda>weight.
       bnd (lift (NewDecCoinFromDec K MicroLunaDenom (weight * seigniorage))) (\<lambda>seigniorageReward.
       bnd (alignCoins K [seigniorageReward] MicroSDRDenom) (\<lambda>sr. SetSR ?e sr)))))
        (s1\<lparr>TRs := kv_set (GetTRKey ?e) tr (TRs s1), TaxProceeds := Some []\<rparr>) = (Ok (), s')" by blast
    let ?s2 = "s1\<lparr>TRs := kv_set (GetTRKey ?e) tr (TRs s1), TaxProceeds := Some []\<rparr>"
    obtain sw sr where w: "NewDecCoinFromDec K MicroLunaDenom (reward_weight ?s2 * epoch_seigniorage K ?s2) = Ok sw"
      "fst (alignCoins K [sw] MicroSDRDenom ?s2) = Ok sr" "s' = ?s2\<lparr>SRs := kv_set (GetSRKey ?e) sr (SRs ?s2)\<rparr>"
      using t(2) PeekEpochSeigniorage_run [OF assms(1,2) i2]
      by (auto simp: seig.bnd_Ok_iff GetRewardWeight_def reward_weight_def [symmetric] bnd_lift_Ok align.bnd_Ok_iff SetSR_def)
    show ?thesis by (rule that [OF t(1) refl w])
  qed
  have ex: "ExchangeRates s1 = ExchangeRates s" "ExchangeRates s2 = ExchangeRates s" by (simp_all add: s1_def s2)
  have eq: "reward_weight s2 = reward_weight s" "epoch_seigniorage K s2 = epoch_seigniorage K s"
    by (simp_all add: s1_def s2 reward_weight_def epoch_seigniorage_def)
  have "sw = \<lparr>Denom = MicroLunaDenom, Amount = reward_weight s * epoch_seigniorage K s\<rparr>"
    using sw unfolding eq coin_laws.NewDecCoinFromDec_eq [OF assms(1)] by (auto split: if_splits)
  then have "sr = aligned_value K s MicroSDRDenom \<lparr>Denom = MicroLunaDenom, Amount = reward_weight s * epoch_seigniorage K s\<rparr>"
    using alignCoins_Ok [OF sr] aligned_value_cong [OF ex(2), of K] by simp
  moreover have "tr = (\<Sum>c\<leftarrow>proceeds. aligned_value K s MicroSDRDenom \<lparr>Denom = Denom c, Amount = Amount c * OneDec\<rparr>)"
    using alignCoins_Ok [OF tr] aligned_value_cong [OF ex(1), of K] by (simp add: rs_def comp_def)
  ultimately show ?thesis by (simp add: s' s2 s1_def)
qed

section \<open>Settling the seigniorage\<close>

lemma fund_community_pool_Ok:
  assumes "distr_laws K" "valid_coins K cs" "valid_coins K (CommunityPool K (ext s))"
    and "fund_community_pool K cs s = (Ok (), s')"
  shows "\<exists>b. s' = s\<lparr>ext := b\<rparr> \<and> bank_same K (ext s) b \<and> valid_coins K (CommunityPool K b)
    \<and> (\<forall>d. amt (CommunityPool K b) d = amt (CommunityPool K (ext s)) d + amt cs d * OneDec)"
proof -
  note C = bank_laws.axioms(1) [OF distr_laws.axioms(1) [OF assms(1)]]
  obtain dc where dc: "NewDecCoinsFromCoins K cs = Ok dc" "valid_coins K dc" "\<And>d. amt dc d = amt cs d * OneDec"
    using coin_laws.DecFromCoins_ok [OF C assms(2)] by auto
  obtain p where p: "deccoins_Add K (CommunityPool K (ext s)) dc = Ok p" "valid_coins K p"
    "\<And>d. amt p d = amt (CommunityPool K (ext s)) d + amt dc d"
    using coin_laws.DecAdd_ok [OF C assms(3) dc(2)] by auto
  obtain b where "SetCommunityPool K p (ext s) = (Ok (), b)" "CommunityPool K b = p" "bank_same K (ext s) b"
    using distr_laws.SetPool [OF assms(1)] by blast
  then show ?thesis using assms(4) dc p by (auto simp: fund_community_pool_def sdk_call_def)
qed

lemma SettleSeigniorage_steps:
  assumes "distr_laws K" "ValidDenom K MicroLunaDenom" "issuance_ok s" "0 < epoch_seigniorage K s"
    and "0 \<le> reward_weight s" "reward_weight s \<le> OneDec" "SettleSeigniorage K s = (Ok (), s')"
    and burn: "burn = reward_weight s * epoch_seigniorage K s div OneDec"
  shows "\<exists>cs bs ls b1 b2 b3.
    valid_coins K ls
    \<and> (\<forall>d. amt cs d = (if MicroLunaDenom = d then epoch_seigniorage K s else 0))
    \<and> (\<forall>d. amt bs d = (if MicroLunaDenom = d then burn else 0))
    \<and> (\<forall>d. amt ls d = (if MicroLunaDenom = d then epoch_seigniorage K s - burn else 0))
    \<and> MintCoins K treasury_ModuleName cs (ext s) = (Ok (), b1)
    \<and> BurnCoins K treasury_ModuleName bs b1 = (Ok (), b2)
    \<and> SendCoinsFromModuleToModule K treasury_ModuleName distribution_ModuleName ls b2 = (Ok (), b3)
    \<and> fund_community_pool K ls (s\<lparr>ext := b3\<rparr>) = (Ok (), s')"
proof -
  note B = distr_laws.axioms(1) [OF assms(1)]
  note C = bank_laws.axioms(1) [OF B]
  note D = coin_laws.axioms(1) [OF C]
  let ?n = "epoch_seigniorage K s"
  have n: "0 \<le> reward_weight s * ?n" "reward_weight s * ?n \<le> OneDec * ?n"
    using assms(4-6) by (auto intro: mult_right_mono)
  have tr: "dec_TruncateInt K (reward_weight s * ?n) = burn"
    unfolding burn by (rule dec_laws.TruncateInt_nonneg [OF D n(1)])
  have bb: "0 \<le> burn" "burn \<le> ?n"
    using n zdiv_mono1 [OF n(2), of OneDec] unfolding burn by (simp_all add: pos_imp_zdiv_nonneg_iff)
  have coin: "obind (NewDecCoin K MicroLunaDenom ?n) (deccoin_TruncateDecimal K) =
    Ok (\<lparr>Denom = MicroLunaDenom, Amount = ?n\<rparr>, \<lparr>Denom = MicroLunaDenom, Amount = 0\<rparr>)"
    using assms(2,4) by (simp add: coin_laws.NewDecCoin_eq [OF C] coin_laws.deccoin_Truncate_eq [OF C])
  have new: "NewCoin K MicroLunaDenom k = Ok \<lparr>Denom = MicroLunaDenom, Amount = k\<rparr>" if "0 \<le> k" for k
    using that assms(2) by (simp add: coin_laws.NewCoin_eq [OF C])
  have sgl: "\<exists>r. NewCoins K [\<lparr>Denom = MicroLunaDenom, Amount = k\<rparr>] = Ok r \<and> valid_coins K r
    \<and> (\<forall>d. amt r d = (if MicroLunaDenom = d then k else 0))" if "0 \<le> k" for k
    by (rule coin_laws.NewCoins_single [OF C assms(2) that])
  obtain cs where cs: "NewCoins K [\<lparr>Denom = MicroLunaDenom, Amount = ?n\<rparr>] = Ok cs" "valid_coins K cs"
    "\<forall>d. amt cs d = (if MicroLunaDenom = d then ?n else 0)" using sgl [of ?n] assms(4) by auto
  obtain bs where bs: "NewCoins K [\<lparr>Denom = MicroLunaDenom, Amount = burn\<rparr>] = Ok bs" "valid_coins K bs"
    "\<forall>d. amt bs d = (if MicroLunaDenom = d then burn else 0)" using sgl [OF bb(1)] by auto
  obtain ls where ls: "NewCoins K [\<lparr>Denom = MicroLunaDenom, Amount = ?n - burn\<rparr>] = Ok ls" "valid_coins K ls"
    "\<forall>d. amt ls d = (if MicroLunaDenom = d then ?n - burn else 0)" using sgl [of "?n - burn"] bb(2) by auto
  have val: "coins_IsValid K cs" "coins_IsValid K bs" "coins_IsValid K ls"
    using cs(2) bs(2) ls(2) coin_laws.IsValid_iff [OF C] by auto
  have "(seq (must (sdk_call (MintCoins K treasury_ModuleName cs)))
     (seq (must (sdk_call (BurnCoins K treasury_ModuleName bs)))
     (seq (must (sdk_call (SendCoinsFromModuleToModule K treasury_ModuleName distribution_ModuleName ls)))
       (fund_community_pool K ls)))) s = (Ok (), s')"
    using assms(7) PeekEpochSeigniorage_run [OF C assms(2,3)] assms(4) bb
    unfolding SettleSeigniorage_def seig.bnd_Ok_iff GetRewardWeight_def reward_weight_def [symmetric] bnd_gets
    by (simp add: coin cs(1) new bs(1) ls(1) val tr Let_def on_true_def)
  then obtain b1 b2 b3 where "MintCoins K treasury_ModuleName cs (ext s) = (Ok (), b1)"
    "BurnCoins K treasury_ModuleName bs b1 = (Ok (), b2)"
    "SendCoinsFromModuleToModule K treasury_ModuleName distribution_ModuleName ls b2 = (Ok (), b3)"
    "fund_community_pool K ls (s\<lparr>ext := b3\<rparr>) = (Ok (), s')"
    unfolding seq_run_iff_Ok must_sdk_Ok by auto
  then show ?thesis using cs(3) bs(3) ls(2,3) by (intro exI [of _ cs] exI [of _ bs] exI [of _ ls] exI conjI)
qed

text \<open>C31. A successful \<open>SettleSeigniorage\<close> mints the Luna that left the supply during the epoch, burns the reward weight's
  share of it again (the oracle, which the comments name as its recipient, gets nothing) and gives the rest to the community
  pool: its balance and its books grow by the same amount, the treasury account is as before, and nobody else is touched.
  The end blocker does not call the function: its call is commented out.\<close>

theorem SettleSeigniorage_ledger:
  assumes "distr_laws K" "ValidDenom K MicroLunaDenom" "issuance_ok s"
    and "0 \<le> reward_weight s" "reward_weight s \<le> OneDec" "valid_coins K (CommunityPool K (ext s))"
    and "SettleSeigniorage K s = (Ok (), s')"
    and "left = epoch_seigniorage K s - reward_weight s * epoch_seigniorage K s div OneDec"
  shows "s' = s\<lparr>ext := ext s'\<rparr> \<and> 0 \<le> left
    \<and> (\<forall>x d. bal K (ext s') x d = bal K (ext s) x d
         + (if x = GetModuleAddress K distribution_ModuleName \<and> d = MicroLunaDenom then left else 0))
    \<and> (\<forall>d. supply_of K (ext s') d = supply_of K (ext s) d + (if d = MicroLunaDenom then left else 0))
    \<and> (\<forall>d. amt (CommunityPool K (ext s')) d = amt (CommunityPool K (ext s)) d
         + (if d = MicroLunaDenom then left * OneDec else 0))"
proof (cases "0 < epoch_seigniorage K s")
  case False
  then have "epoch_seigniorage K s = 0" by (simp add: epoch_seigniorage_def)
  moreover have "s' = s"
    using assms(7) False PeekEpochSeigniorage_run [OF bank_laws.axioms(1) [OF distr_laws.axioms(1) [OF assms(1)]] assms(2,3)]
    by (simp add: SettleSeigniorage_def seig.bnd_Ok_iff)
  ultimately show ?thesis using assms(8) by simp
next
  case True
  note B = distr_laws.axioms(1) [OF assms(1)]
  define burn where "burn = reward_weight s * epoch_seigniorage K s div OneDec"
  obtain cs bs ls b1 b2 b3 where vl: "valid_coins K ls"
    and am: "\<forall>d. amt cs d = (if MicroLunaDenom = d then epoch_seigniorage K s else 0)"
      "\<forall>d. amt bs d = (if MicroLunaDenom = d then burn else 0)"
      "\<forall>d. amt ls d = (if MicroLunaDenom = d then epoch_seigniorage K s - burn else 0)"
    and run: "MintCoins K treasury_ModuleName cs (ext s) = (Ok (), b1)"
      "BurnCoins K treasury_ModuleName bs b1 = (Ok (), b2)"
      "SendCoinsFromModuleToModule K treasury_ModuleName distribution_ModuleName ls b2 = (Ok (), b3)"
      "fund_community_pool K ls (s\<lparr>ext := b3\<rparr>) = (Ok (), s')"
    using SettleSeigniorage_steps [OF assms(1-3) True assms(4,5,7) burn_def] by (elim exE conjE) (rule that)
  have pool: "CommunityPool K b3 = CommunityPool K (ext s)"
    using distr_laws.Mint_pool [OF assms(1), of treasury_ModuleName cs "ext s"]
      distr_laws.Burn_pool [OF assms(1), of treasury_ModuleName bs b1]
      distr_laws.M2M_pool [OF assms(1), of treasury_ModuleName distribution_ModuleName ls b2] run by simp
  obtain b where b: "s' = s\<lparr>ext := b\<rparr>" "bank_same K b3 b"
    "\<And>d. amt (CommunityPool K b) d = amt (CommunityPool K (ext s)) d + amt ls d * OneDec"
    using fund_community_pool_Ok [OF assms(1) vl _ run(4)] assms(6) pool by auto
  note iss = bank_laws.Mint_issued [OF B run(1)] bank_laws.Burn_issued [OF B run(2)] bank_laws.M2M_moved [OF B run(3)]
  have "reward_weight s * epoch_seigniorage K s \<le> OneDec * epoch_seigniorage K s"
    using assms(5) True by (intro mult_right_mono) auto
  from zdiv_mono1 [OF this, of OneDec] have "burn \<le> epoch_seigniorage K s" by (simp add: burn_def)
  then show ?thesis using iss b unfolding assms(8) burn_def [symmetric]
    by (auto simp: issued_def moved_def bank_same_def am)
qed

end
