(* ===== verification/Treasury_Genesis.thy ===== *)
theory Treasury_Genesis
  imports Treasury_Policy
begin

text \<open>
  Export and import of the treasury: the keys of the epochs are distinct, and an import restores what was exported.
\<close>

section \<open>Keys of epochs\<close>

lemma le_bytes_inj: "le_bytes k n = le_bytes k m \<Longrightarrow> n mod 256 ^ k = m mod 256 ^ k"
proof (induction k arbitrary: n m)
  case (Suc k)
  have p: "(char_of (n mod 256) :: char) = char_of (m mod 256)" "le_bytes k (n div 256) = le_bytes k (m div 256)"
    using Suc.prems unfolding le_bytes.simps list.inject by blast+
  have "n mod 256 = m mod 256" using arg_cong [OF p(1), of "of_char :: char \<Rightarrow> int"] by (simp only: of_char_of mod_mod_trivial)
  moreover have "n div 256 mod 256 ^ k = m div 256 mod 256 ^ k" by (rule Suc.IH [OF p(2)])
  moreover have "x mod 256 ^ Suc k = 256 * (x div 256 mod 256 ^ k) + x mod 256" for x :: int
    by (simp add: zmod_zmult2_eq)
  ultimately show ?case by simp
qed simp

lemma GetSubkeyByEpoch_inj:
  assumes "0 \<le> e" "e < 2 ^ 63" "0 \<le> e'" "e' < 2 ^ 63"
  shows "GetSubkeyByEpoch pre e = GetSubkeyByEpoch pre e' \<longleftrightarrow> e = e'"
proof
  assume "GetSubkeyByEpoch pre e = GetSubkeyByEpoch pre e'"
  then have "le_bytes 8 e = le_bytes 8 e'" using assms by (simp add: GetSubkeyByEpoch_def u64_def)
  from le_bytes_inj [OF this] have "e mod 2 ^ 64 = e' mod 2 ^ 64" by simp
  then show "e = e'" using assms by simp
qed simp

lemmas epoch_keys = GetTRKey_def GetSRKey_def GetTSLKey_def


section \<open>Genesis\<close>

definition exported_epoch :: "('b, 'x) treasury_state_scheme \<Rightarrow> int \<Rightarrow> epoch_state" where
  "exported_epoch s e = \<lparr>es_Epoch = u64 e,
     es_TaxReward = (case kv_get (GetTRKey e) (TRs s) of None \<Rightarrow> 0 | Some d \<Rightarrow> d),
     es_SeigniorageReward = (case kv_get (GetSRKey e) (SRs s) of None \<Rightarrow> 0 | Some d \<Rightarrow> d),
     es_TotalStakedLuna = (case kv_get (GetTSLKey e) (TSLs s) of None \<Rightarrow> 0 | Some d \<Rightarrow> d)\<rparr>"

text \<open>The number of epochs an export covers: those that are over.\<close>

definition closed_epochs :: "int \<Rightarrow> int" where
  "closed_epochs height = (height + 1) div BlocksPerWeek"

lemma closed_epochs_eq:
  assumes "0 \<le> height" "height < 2 ^ 63" "IsPeriodLastBlock height BlocksPerWeek = Ok isLast"
  shows "closed_epochs height = (if isLast then GetEpoch height + 1 else GetEpoch height)"
proof -
  define q r where "q = height div 100800" and "r = height mod 100800"
  have h: "height = q * 100800 + r" "0 \<le> r" "r < 100800" by (simp_all add: q_def r_def)
  have l: "isLast \<longleftrightarrow> 100800 dvd height + 1"
    using assms IsPeriodLastBlock_eq [OF assms(1,2), of 100800] by (simp add: block_defs)
  have "100800 dvd q * 100800 + (r + 1) \<longleftrightarrow> 100800 dvd r + 1" by (simp add: dvd_add_right_iff)
  then have "isLast \<longleftrightarrow> r + 1 = 100800" using l h zdvd_imp_le [of 100800 "r + 1"] by (auto simp: add.assoc)
  moreover have "(q * 100800 + (r + 1)) div 100800 = q + (r + 1) div 100800" by simp
  moreover have "(r + 1) div 100800 = (if r + 1 = 100800 then 1 else 0)" using h by (auto simp: div_pos_pos_trivial)
  moreover have "GetEpoch height = q" using assms(1) by (simp add: GetEpoch_nonneg q_def)
  moreover have "closed_epochs height = (q * 100800 + (r + 1)) div 100800"
    using h(1) by (simp add: closed_epochs_def block_defs add.assoc)
  ultimately show ?thesis by simp
qed

lemma export_epochs_run:
  assumes "0 \<le> e" "e \<le> n" "n = (if isLast then cur + 1 else cur)"
  shows "export_epochs isLast cur e acc s = (Ok (acc @ map (exported_epoch s) [e..n - 1]), s)"
  using assms(1,2)
proof (induction "nat (n - e)" arbitrary: e acc)
  case 0
  then have "e = n" by simp
  then show ?case using assms(3) by (subst export_epochs.simps) auto
next
  case (Suc k)
  then have lt: "e < n" by simp
  then have c: "e < cur \<or> e = cur \<and> isLast" using assms(3) by (auto split: if_splits)
  have "export_epochs isLast cur (e + 1) (acc @ [exported_epoch s e]) s =
    (Ok ((acc @ [exported_epoch s e]) @ map (exported_epoch s) [e + 1..n - 1]), s)"
    by (rule Suc.hyps(1)) (use Suc lt in auto)
  moreover have "[e..n - 1] = e # [e + 1..n - 1]" using lt by (simp add: upto_rec1)
  ultimately show ?case
    using c by (subst export_epochs.simps) (simp add: GetTR_def GetSR_def GetTSL_def exported_epoch_def)
qed

lemma treasury_ExportGenesis_run:
  assumes "0 \<le> BlockHeight s" "BlockHeight s < 2 ^ 63"
  shows "treasury_ExportGenesis s = (Ok \<lparr>
    tg_Params = t_params s, tg_TaxRate = tax_rate s, tg_RewardWeight = reward_weight s,
    tg_TaxCaps = map (\<lambda>e. (drop 1 (fst e), snd e)) (TaxCaps s),
    tg_TaxProceeds = (case TaxProceeds s of None \<Rightarrow> [] | Some c \<Rightarrow> c),
    tg_EpochInitialIssuance = (case EpochInitialIssuance s of None \<Rightarrow> [] | Some c \<Rightarrow> c),
    tg_EpochStates = map (exported_epoch s) [0..closed_epochs (BlockHeight s) - 1]\<rparr>, s)"
proof -
  obtain isLast where l: "IsPeriodLastBlock (BlockHeight s) BlocksPerWeek = Ok isLast"
    by (simp add: IsPeriodLastBlock_def block_defs)
  have ge: "0 \<le> GetEpoch (BlockHeight s)" using assms(1) by (simp add: GetEpoch_nonneg pos_imp_zdiv_nonneg_iff)
  have "export_epochs isLast (GetEpoch (BlockHeight s)) 0 [] s =
    (Ok (map (exported_epoch s) [0..closed_epochs (BlockHeight s) - 1]), s)"
    using export_epochs_run [of 0 "closed_epochs (BlockHeight s)" isLast "GetEpoch (BlockHeight s)" "[]" s]
      closed_epochs_eq [OF assms l] ge by simp
  then show ?thesis
    using l by (simp add: treasury_ExportGenesis_def treasury_GetParams_def GetTaxRate_def GetRewardWeight_def
        PeekEpochTaxProceeds_def GetEpochInitialIssuance_def IterateTaxCap_def tax_rate_def reward_weight_def
        case_prod_unfold iter_loop_collect fold_snoc comp_def TaxCapKey_def bnd_def)
qed


lemma import_epochs:
  "for_each xs (\<lambda>e. seq (SetTR (i64 (es_Epoch e)) (es_TaxReward e))
            (seq (SetSR (i64 (es_Epoch e)) (es_SeigniorageReward e))
                 (SetTSL (i64 (es_Epoch e)) (es_TotalStakedLuna e)))) s =
   (Ok (), s\<lparr>TRs := fold (\<lambda>(k, v). kv_set k v) (map (\<lambda>e. (GetTRKey (i64 (es_Epoch e)), es_TaxReward e)) xs) (TRs s),
      SRs := fold (\<lambda>(k, v). kv_set k v) (map (\<lambda>e. (GetSRKey (i64 (es_Epoch e)), es_SeigniorageReward e)) xs) (SRs s),
      TSLs := fold (\<lambda>(k, v). kv_set k v) (map (\<lambda>e. (GetTSLKey (i64 (es_Epoch e)), es_TotalStakedLuna e)) xs) (TSLs s)\<rparr>)"
  by (induction xs arbitrary: s) (simp_all add: SetTR_def SetSR_def SetTSL_def seq_run)

lemma import_caps:
  assumes "keyed GetTaxCapKey (\<lambda>_ _. True) m"
  shows "for_each (map (\<lambda>e. (drop 1 (fst e), snd e)) m) (\<lambda>(denom, cap). SetTaxCap denom cap) s =
    (Ok (), s\<lparr>TaxCaps := fold (\<lambda>(k, v). kv_set k v) m (TaxCaps s)\<rparr>)"
proof -
  have "\<forall>e\<in>set m. \<exists>d. fst e = GetTaxCapKey d" using keyed_entry [OF assms] by blast
  then show ?thesis
    by (induction m arbitrary: s) (auto simp: SetTaxCap_def GetTaxCapKey_def TaxCapKey_def seq_run case_prod_unfold)
qed

text \<open>What an import of exported epochs leaves under the key of an epoch.\<close>

lemma get_epochs:
  assumes "n < 2 ^ 63" "0 \<le> e" "e < n"
  shows "kv_get (GetSubkeyByEpoch pre e) (fold (\<lambda>(k, v). kv_set k v)
    (map (\<lambda>x. (GetSubkeyByEpoch pre (i64 (u64 x)), f x)) [0..n - 1]) []) = Some (f e)"
proof -
  have w: "i64 (u64 x) = x" if "0 \<le> x" "x < 2 ^ 63" for x using that by (simp add: i64_def u64_def)
  let ?kvs = "map (\<lambda>x. (GetSubkeyByEpoch pre (i64 (u64 x)), f x)) [0..n - 1]"
  have "inj_on (\<lambda>x. GetSubkeyByEpoch pre (i64 (u64 x))) (set [0..n - 1])"
    by (rule inj_onI) (use assms(1) w GetSubkeyByEpoch_inj in auto)
  then have d: "distinct (map fst ?kvs)" by (simp add: distinct_map comp_def)
  moreover have "(GetSubkeyByEpoch pre e, f e) \<in> set ?kvs" using assms w [of e] by (auto simp: image_iff intro!: bexI [of _ e])
  ultimately have "map_of ?kvs (GetSubkeyByEpoch pre e) = Some (f e)" by (rule map_of_is_SomeI)
  then show ?thesis using kvs.get_fold_put [OF kv_ok_Nil d, of "GetSubkeyByEpoch pre e"] by simp
qed

definition treasury_params_ok :: "'z coin_ops_scheme \<Rightarrow> treasury_params \<Rightarrow> bool" where
  "treasury_params_ok K p \<longleftrightarrow> pairs_valid (treasury_ParamSetPairs K p)"

lemma treasury_SetParams_run:
  assumes "treasury_params_ok K p"
  shows "treasury_SetParams K p s = (Ok (), s\<lparr>t_params := p\<rparr>)"
  using SetParamSet_run [OF assms [unfolded treasury_params_ok_def], of t_params_update s]
  by (simp add: treasury_SetParams_def treasury_ParamSetPairs_def)

text \<open>C40. Importing an exported genesis into an empty treasury restores the parameters, the tax rate, the reward
  weight, the tax caps, the proceeds, the initial issuance and the indicators of every epoch that was over.  The import
  records the current supply instead of a recorded issuance of zero, so the issuance has to be recorded and not zero; the
  two module accounts are created when they are missing.\<close>

theorem treasury_genesis_roundtrip:
  assumes "0 \<le> BlockHeight s" "BlockHeight s < 2 ^ 63" "treasury_params_ok K (t_params s)"
    and "keyed GetTaxCapKey (\<lambda>_ _. True) (TaxCaps s)"
    and "EpochInitialIssuance s = Some iss" "\<not> coins_IsZero K iss"
    and "TaxCaps s0 = []" "TRs s0 = []" "SRs s0 = []" "TSLs s0 = []"
    and "\<And>m b. m \<in> {treasury_ModuleName, BurnModuleName} \<Longrightarrow> fst (GetModuleAccount K m b) = Ok True"
  shows "\<exists>g s'. treasury_ExportGenesis s = (Ok g, s) \<and> treasury_InitGenesis K g s0 = (Ok (), s')
    \<and> t_params s' = t_params s \<and> tax_rate s' = tax_rate s \<and> reward_weight s' = reward_weight s
    \<and> TaxCaps s' = TaxCaps s \<and> EpochInitialIssuance s' = EpochInitialIssuance s
    \<and> fst (PeekEpochTaxProceeds s') = fst (PeekEpochTaxProceeds s)
    \<and> (\<forall>e. 0 \<le> e \<and> e < closed_epochs (BlockHeight s) \<longrightarrow>
         fst (GetTR e s') = fst (GetTR e s) \<and> fst (GetSR e s') = fst (GetSR e s) \<and> fst (GetTSL e s') = fst (GetTSL e s))"
proof -
  let ?n = "closed_epochs (BlockHeight s)"
  let ?es = "map (exported_epoch s) [0..?n - 1]"
  let ?p = "case TaxProceeds s of None \<Rightarrow> [] | Some c \<Rightarrow> c"
  let ?fold = "\<lambda>key sel. fold (\<lambda>(k, v). kv_set k v) (map (\<lambda>e. (key (i64 (es_Epoch e)), sel e)) ?es) []"
  define b1 where "b1 = snd (GetModuleAccount K treasury_ModuleName (ext s0))"
  define b2 where "b2 = snd (GetModuleAccount K BurnModuleName b1)"
  define s' where "s' = s0\<lparr>ext := b2, t_params := t_params s, TaxRate := Some (tax_rate s), RewardWeight := Some (reward_weight s),
    TaxProceeds := Some ?p, EpochInitialIssuance := Some iss, TaxCaps := TaxCaps s,
    TRs := ?fold GetTRKey es_TaxReward, SRs := ?fold GetSRKey es_SeigniorageReward, TSLs := ?fold GetTSLKey es_TotalStakedLuna\<rparr>"
  have caps: "fold (\<lambda>(k, v). kv_set k v) (TaxCaps s) [] = TaxCaps s"
    by (rule kvs.rebuild) (use assms(4) in simp_all)
  have n: "?n < 2 ^ 63" using assms(1,2) zdiv_mono2 [of "BlockHeight s + 1" 2 100800] by (simp add: closed_epochs_def block_defs)
  have acc: "GetModuleAccount K treasury_ModuleName (ext s0) = (Ok True, b1)" "GetModuleAccount K BurnModuleName b1 = (Ok True, b2)"
    using assms(11) by (simp_all add: prod_eq_iff b1_def b2_def)
  let ?g = "\<lparr>tg_Params = t_params s, tg_TaxRate = tax_rate s, tg_RewardWeight = reward_weight s,
    tg_TaxCaps = map (\<lambda>e. (drop 1 (fst e), snd e)) (TaxCaps s), tg_TaxProceeds = ?p, tg_EpochInitialIssuance = iss,
    tg_EpochStates = ?es\<rparr>"
  have exp: "treasury_ExportGenesis s = (Ok ?g, s)"
    using treasury_ExportGenesis_run [OF assms(1,2)] assms(5) by simp
  have init: "treasury_InitGenesis K ?g s0 = (Ok (), s')"
    unfolding treasury_InitGenesis_def SetTaxRate_def SetRewardWeight_def SetEpochTaxProceeds_def SetEpochInitialIssuance_def
    using assms(6)
    by (simp only: seq_case modify_run treasury_SetParams_run [OF assms(3)] import_caps [OF assms(4)] import_epochs
        treasury_genesis.simps if_False prod.case outcome.case)
      (simp add: assms(7-10) acc sdk_call_def bnd_def caps s'_def del: map_map)
  have get: "kv_get (GetSubkeyByEpoch pre e) (fold (\<lambda>(k, v). kv_set k v)
      (map (\<lambda>x. (GetSubkeyByEpoch pre (i64 (es_Epoch x)), sel x)) ?es) []) = Some (sel (exported_epoch s e))"
    if "0 \<le> e" "e < ?n" for e pre and sel :: "epoch_state \<Rightarrow> int"
    using get_epochs [OF n that, of pre "\<lambda>x. sel (exported_epoch s x)"] by (simp add: exported_epoch_def comp_def)
  have "fst (GetTR e s') = fst (GetTR e s) \<and> fst (GetSR e s') = fst (GetSR e s) \<and> fst (GetTSL e s') = fst (GetTSL e s)"
    if "0 \<le> e" "e < ?n" for e
    using get [OF that, of TRKey es_TaxReward] get [OF that, of SRKey es_SeigniorageReward]
      get [OF that, of TSLKey es_TotalStakedLuna]
    by (simp add: GetTR_def GetSR_def GetTSL_def epoch_keys s'_def exported_epoch_def)
  then show ?thesis
    using exp init by (intro exI [of _ ?g] exI [of _ s']) (simp add: s'_def tax_rate_def reward_weight_def PeekEpochTaxProceeds_def assms(5))
qed

end
