(* ===== verification/Treasury_Sample.thy ===== *)
theory Treasury_Sample
  imports Treasury_Epoch Treasury_Genesis Market_Sample
begin

text \<open>A treasury at the last block of its first epoch, on which the theorems of the treasury are instantiated.\<close>


definition sample_treasury :: "ledger treasury_state" where
  "sample_treasury = \<lparr>
     BlockHeight = 100799, ext = sample_ledger,
     o_params = oracle_DefaultParams\<lparr>op_Whitelist := []\<rparr>,
     ExchangeRates = [(GetExchangeRateKey ''ukrw'', 1300 * OneDec), (GetExchangeRateKey ''usdr'', 2 * OneDec)],
     FeederDelegations = [], MissCounters = [], AggregatePrevotes = [], AggregateVotes = [], TobinTaxes = [],
     m_params = market_DefaultParams, TerraPoolDelta = None,
     t_params = treasury_DefaultParams\<lparr>tp_WindowProbation := 0\<rparr>, TaxRate = None, RewardWeight = None,
     TaxCaps = [(GetTaxCapKey ''ukrw'', 650)],
     TaxProceeds = Some [\<lparr>Denom = ''usdr'', Amount = 30\<rparr>],
     EpochInitialIssuance = Some [\<lparr>Denom = ''uluna'', Amount = 1005100\<rparr>],
     TRs = [], SRs = [], TSLs = [], BurnTaxExemptions = []\<rparr>"

lemmas treasury_sample_simps = sample_treasury_def treasury_DefaultParams_def DefaultTaxPolicy_def DefaultRewardPolicy_def
  DefaultTaxRate_def DefaultRewardWeight_def DefaultBurnTaxSplit_def DefaultMinInitialDepositRatio_def NewDecWithPrec_def MicroUnit_def denom_defs

theorem rollingAverageIndicator_mean_witness:
  "\<exists>r. rollingAverageIndicator sdk0 500000 3 (\<lambda>e. ret (10 * e + 1)) sample_treasury = (Ok r, sample_treasury) \<and> 21 \<le> r \<and> r \<le> 41"
proof -
  have "\<exists>n r. n = min 3 ((500000 :: int) div BlocksPerWeek + 1)
    \<and> rollingAverageIndicator sdk0 500000 3 (\<lambda>e. ret (10 * e + 1)) sample_treasury = (Ok r, sample_treasury)
    \<and> r = go_quot (\<Sum>e = 500000 div BlocksPerWeek - n + 1..500000 div BlocksPerWeek. 10 * e + 1) n
    \<and> (\<forall>lo hi. (\<forall>e\<in>{500000 div BlocksPerWeek - n + 1..500000 div BlocksPerWeek}. lo \<le> 10 * e + 1 \<and> 10 * e + 1 \<le> hi) \<longrightarrow> lo \<le> r \<and> r \<le> hi)"
    by (rule rollingAverageIndicator_mean [OF sdk0_dec]) simp_all
  then obtain r where r: "rollingAverageIndicator sdk0 500000 3 (\<lambda>e. ret (10 * e + 1)) sample_treasury = (Ok r, sample_treasury)"
    "\<forall>lo hi. (\<forall>e\<in>{2..4}. lo \<le> 10 * e + 1 \<and> 10 * e + 1 \<le> hi) \<longrightarrow> lo \<le> r \<and> r \<le> hi"
    by (auto simp: block_defs)
  then show ?thesis using r(2) [rule_format, of 21 41] by auto
qed

text \<open>The same treasury with coins on the burn account.\<close>

definition burn_treasury :: "ledger treasury_state" where
  "burn_treasury = sample_treasury
     \<lparr>ext := sample_ledger\<lparr>lg_entries := (module_addr ''burn'', ''uluna'', 500) # lg_entries sample_ledger\<rparr>\<rparr>"

theorem BurnCoinsFromBurnAccount_empties_witness:
  "\<exists>s'. BurnCoinsFromBurnAccount sdk0 burn_treasury = (Ok (), s') \<and> bal sdk0 (ext s') (module_addr ''burn'') ''uluna'' = 0"
proof -
  have b: "ref_AllBalances (ext burn_treasury) (module_addr ''burn'') = [\<lparr>Denom = ''uluna'', Amount = 500\<rparr>]"
    by (simp add: ref_AllBalances_def tabulate_def burn_treasury_def sample_ledger_def ref_bal_def sample_denoms module_addr_def val_a_def)
  obtain b' where "ref_mint (- 1) ''burn'' [\<lparr>Denom = ''uluna'', Amount = 500\<rparr>] (ext burn_treasury) = (Ok (), b')"
    by (rule ref_mint_one [of "''uluna''" 500 "ext burn_treasury" "''burn''" "- 1"])
      (simp_all add: sample_denoms ref_bal_def burn_treasury_def module_addr_def)
  then have r: "BurnCoinsFromBurnAccount sdk0 burn_treasury = (Ok (), burn_treasury\<lparr>ext := b'\<rparr>)"
    using b by (simp add: BurnCoinsFromBurnAccount_def BurnModuleName_def must_def sdk_call_def)
  then show ?thesis using BurnCoinsFromBurnAccount_empties [OF sdk0_bank r] by (auto simp: BurnModuleName_def)
qed

lemma sample_seigniorage: "epoch_seigniorage sdk0 sample_treasury = 100" "reward_weight sample_treasury = 50000000000000000" "issuance_ok sample_treasury"
  by (simp_all add: epoch_seigniorage_def supply_of_def reward_weight_def issuance_ok_def treasury_sample_simps sample_ledger_def)

lemma sample_valid: "valid_coins sdk0 [\<lparr>Denom = ''usdr'', Amount = 30\<rparr>]"
  by (simp add: valid_coins_sdk0 ref_IsValid_def sample_denoms)

lemma sample_sdr: "ComputeInternalSwap sdk0 \<lparr>Denom = ''uluna'', Amount = 5000000000000000000\<rparr> ''usdr'' s =
    (Ok \<lparr>Denom = ''usdr'', Amount = 10000000000000000000\<rparr>, s)"
  if "ExchangeRates s = ExchangeRates sample_treasury" for s :: "ledger treasury_state"
proof -
  have "ref_Mul 5000000000000000000 (2 * OneDec) = Ok 10000000000000000000" "ref_Quo 10000000000000000000 OneDec = Ok 10000000000000000000"
    by (simp_all add: sdk0_dec_simps)
  then show ?thesis
    using that by (simp add: ComputeInternalSwap_def GetLunaExchangeRate_def sample_treasury_def GetExchangeRateKey_def
        ExchangeRateKey_def denom_defs wrap_go_def bnd_def ref_NewCoin_def sample_denoms)
qed

lemma sample_indicators:
  "UpdateIndicators sdk0 sample_treasury = (Ok (), sample_treasury\<lparr>TSLs := [(GetTSLKey 0, 30000000)],
     TRs := [(GetTRKey 0, 30000000000000000000)], TaxProceeds := Some [], SRs := [(GetSRKey 0, 10000000000000000000)]\<rparr>)"
proof -
  have p: "TaxProceeds sample_treasury = Some [\<lparr>Denom = ''usdr'', Amount = 30\<rparr>]" by (simp add: sample_treasury_def)
  have seig: "PeekEpochSeigniorage sdk0 (sample_treasury\<lparr>TSLs := x, TRs := y, TaxProceeds := Some []\<rparr>) =
    (Ok 100, sample_treasury\<lparr>TSLs := x, TRs := y, TaxProceeds := Some []\<rparr>)" for x y
    by (simp add: PeekEpochSeigniorage_def GetEpochInitialIssuance_def sample_treasury_def denom_defs sample_ledger_def
        ref_AmountOf_def sample_denoms Let_def)
  have w: "GetRewardWeight (sample_treasury\<lparr>TSLs := x, TRs := y, TaxProceeds := Some []\<rparr>) =
    (Ok 50000000000000000, sample_treasury\<lparr>TSLs := x, TRs := y, TaxProceeds := Some []\<rparr>)" for x y
    by (simp add: GetRewardWeight_def treasury_sample_simps)
  have e: "GetEpoch (BlockHeight sample_treasury) = 0" "lg_bonded (ext sample_treasury) = 30000000" "TSLs sample_treasury = []"
    "TRs sample_treasury = []" "SRs sample_treasury = []"
    by (simp_all add: sample_treasury_def sample_ledger_def GetEpoch_def block_defs go_quot_def)
  show ?thesis
    unfolding UpdateIndicators_def SetTSL_def SetTR_def SetEpochTaxProceeds_def PeekEpochTaxProceeds_def SetSR_def
    by (simp add: p e tabulate_def denoms_def alignCoins_def attempt_def denom_defs bnd_def seq_case seig w sample_sdr ref_NewCoin_def sample_denoms)
qed

lemma sample_epoch: "GetEpoch (BlockHeight sample_treasury) = 0" "TotalBondedTokens sdk0 (ext sample_treasury) = 30000000"
  by (simp_all add: sample_treasury_def sample_ledger_def GetEpoch_def block_defs go_quot_def)

theorem UpdateIndicators_records_witness:
  "\<exists>s'. UpdateIndicators sdk0 sample_treasury = (Ok (), s') \<and> TaxProceeds s' = Some []
     \<and> kv_get (GetTSLKey 0) (TSLs s') = Some 30000000"
proof -
  obtain s' where s': "UpdateIndicators sdk0 sample_treasury = (Ok (), s')" using sample_indicators by blast
  have p: "TaxProceeds sample_treasury = Some [\<lparr>Denom = ''usdr'', Amount = 30\<rparr>]" by (simp add: sample_treasury_def)
  have v: "ValidDenom sdk0 MicroLunaDenom" by (simp add: denom_defs sample_denoms)
  show ?thesis
    using UpdateIndicators_records [OF sdk0_coin v sample_seigniorage(3) p sample_valid s'] s' sample_epoch by simp
qed

definition closed_treasury :: "ledger treasury_state" where
  "closed_treasury = sample_treasury\<lparr>TSLs := [(GetTSLKey 0, 30000000)],
     TRs := [(GetTRKey 0, 30000000000000000000)], TaxProceeds := Some [], SRs := [(GetSRKey 0, 10000000000000000000)]\<rparr>"

lemma sample_rolling:
  "0 < n \<Longrightarrow> n < 2 ^ 63 \<Longrightarrow> rollingAverageIndicator sdk0 100799 n (TRL sdk0) closed_treasury = (Ok 1000000000000, closed_treasury)"
proof -
  assume n: "0 < n" "n < 2 ^ 63"
  have e: "GetEpoch 100799 = 0" "i64 (- n) = - n" using n by (simp_all add: GetEpoch_def block_defs go_quot_def i64_def)
  have v: "TRL sdk0 0 closed_treasury = (Ok 1000000000000, closed_treasury)"
    by (simp add: TRL_def GetTR_def GetTSL_def closed_treasury_def sdk0_dec_simps)
  have "indicator_loop (TRL sdk0) (- n) 0 0 closed_treasury = (Ok (1000000000000, - 1), closed_treasury)"
    using n v by (subst indicator_loop.simps, simp add: bnd_def, subst indicator_loop.simps, simp)
  then show ?thesis by (simp add: rollingAverageIndicator_def e bnd_def Let_def ref_QuoInt_def go_quot_def)
qed

lemma sample_sums:
  fixes r defines "s \<equiv> closed_treasury\<lparr>TaxRate := r\<rparr>"
  shows "sumIndicator 100799 4 SR s = (Ok 10000000000000000000, s)"
    "sumIndicator 100799 4 MR s = (Ok 40000000000000000000, s)"
proof -
  have e: "GetEpoch 100799 = 0" "i64 (- 4) = - 4" by (simp_all add: GetEpoch_def block_defs go_quot_def i64_def)
  have v: "SR 0 s = (Ok 10000000000000000000, s)" "MR 0 s = (Ok 40000000000000000000, s)"
    by (simp_all add: SR_def MR_def GetTR_def GetSR_def s_def closed_treasury_def)
  have "indicator_loop SR (- 4) 0 0 s = (Ok (10000000000000000000, - 1), s)"
    "indicator_loop MR (- 4) 0 0 s = (Ok (40000000000000000000, - 1), s)"
    using v by (subst indicator_loop.simps, simp add: bnd_def, subst indicator_loop.simps, simp)+
  then show "sumIndicator 100799 4 SR s = (Ok 10000000000000000000, s)"
    "sumIndicator 100799 4 MR s = (Ok 40000000000000000000, s)"
    by (simp_all add: sumIndicator_def e bnd_def Let_def)
qed

lemma sample_end_block: "\<exists>s'. treasury_EndBlocker sdk0 sample_treasury = (Ok (), s')"
proof -
  have c: "UpdateIndicators sdk0 sample_treasury = (Ok (), closed_treasury)"
    using sample_indicators by (simp add: closed_treasury_def)
  have burn: "BurnCoinsFromBurnAccount sdk0 sample_treasury = (Ok (), sample_treasury)"
    by (simp add: BurnCoinsFromBurnAccount_def ref_AllBalances_def tabulate_def sample_treasury_def sample_ledger_def
        BurnModuleName_def module_addr_def val_a_def)
  have h: "BlockHeight sample_treasury = 100799" "BlockHeight closed_treasury = 100799" "IsPeriodLastBlock 100799 BlocksPerWeek = Ok True"
    by (simp_all add: sample_treasury_def closed_treasury_def IsPeriodLastBlock_def block_defs u64_def)
  have w: "WindowProbation closed_treasury = (Ok 0, closed_treasury)"
    by (simp add: WindowProbation_def closed_treasury_def sample_treasury_def)
  have p: "t_params closed_treasury = treasury_DefaultParams\<lparr>tp_WindowProbation := 0\<rparr>" "TaxRate closed_treasury = None"
    "RewardWeight closed_treasury = None" "op_Whitelist (o_params closed_treasury) = []"
    by (simp_all add: closed_treasury_def sample_treasury_def)
  have win: "i64 52 = 52" "i64 4 = 4" "i64 (u64 (BlocksPerWeek * 0)) = 0" by (simp_all add: i64_def u64_def)
  have x: "ref_Mul 1000000000000 1070000000000000000 = Ok 1070000000000" "ref_Mul 1000000000000000 1070000000000 = Ok 1070000000"
    "ref_Quo 1070000000 1000000000000 = Ok 1070000000000000"
    by (simp_all add: sdk0_dec_simps)
  have y: "ref_Quo 10000000000000000000 40000000000000000000 = Ok 250000000000000000"
    "ref_Quo 670000000000000000 250000000000000000 = Ok 2680000000000000000"
    "ref_Mul 50000000000000000 2680000000000000000 = Ok 134000000000000000"
    by (simp_all add: sdk0_dec_simps)
  have tp: "tp_WindowLong (t_params closed_treasury) = 52" "tp_WindowShort (t_params closed_treasury) = 4"
    "tp_MiningIncrement (t_params closed_treasury) = 1070000000000000000"
    "tp_SeigniorageBurdenTarget (t_params closed_treasury) = 670000000000000000"
    "DefaultTaxRate = 1000000000000000" "DefaultRewardWeight = 50000000000000000"
    by (simp_all add: p treasury_DefaultParams_def DefaultTaxRate_def DefaultRewardWeight_def NewDecWithPrec_def)
  obtain t where t: "UpdateTaxPolicy sdk0 closed_treasury = (Ok t, closed_treasury\<lparr>TaxRate := Some t\<rparr>)"
    by (simp add: UpdateTaxPolicy_def treasury_GetParams_def GetTaxRate_def p(2) tp h SetTaxRate_def
        win bnd_def sample_rolling Let_def seq_case x)
  let ?s = "closed_treasury\<lparr>TaxRate := Some t\<rparr>"
  have sel: "t_params ?s = t_params closed_treasury" "RewardWeight ?s = None" "BlockHeight ?s = 100799" by (simp_all add: p h)
  obtain w where w2: "UpdateRewardPolicy sdk0 ?s = (Ok w, ?s\<lparr>RewardWeight := Some w\<rparr>)"
    by (simp add: UpdateRewardPolicy_def treasury_GetParams_def GetRewardWeight_def sel tp SetRewardWeight_def
        win bnd_def sample_sums Let_def seq_case y)
  have cap: "UpdateTaxCap sdk0 (?s\<lparr>RewardWeight := Some w\<rparr>) = (Ok [], ?s\<lparr>RewardWeight := Some w\<rparr>)"
    by (simp add: UpdateTaxCap_def TaxPolicy_def p treasury_DefaultParams_def DefaultTaxPolicy_def ref_NewDecCoin_def ref_NewCoin_def denom_defs
        sample_denoms MicroUnit_def)
  show ?thesis
    unfolding treasury_EndBlocker_def
    by (simp add: seq_case burn h bnd_def deferred_def c w win t w2 cap RecordEpochInitialIssuance_def SetEpochInitialIssuance_def Let_def)
qed

theorem treasury_EndBlocker_policy_witness:
  "\<exists>s'. treasury_EndBlocker sdk0 sample_treasury = (Ok (), s') \<and> rates_in_policy (t_params sample_treasury) s'"
proof -
  obtain s' where s': "treasury_EndBlocker sdk0 sample_treasury = (Ok (), s')" using sample_end_block by blast
  have r: "rates_in_policy (t_params sample_treasury) sample_treasury" "0 \<le> pc_ChangeRateMax (tp_TaxPolicy (t_params sample_treasury))"
    "0 \<le> pc_ChangeRateMax (tp_RewardPolicy (t_params sample_treasury))"
    by (simp_all add: rates_in_policy_def tax_rate_def reward_weight_def treasury_sample_simps)
  show ?thesis using treasury_EndBlocker_policy [OF s' r] s' by blast
qed

lemma sample_settle: "\<exists>s'. SettleSeigniorage sdk0 sample_treasury = (Ok (), s')"
proof -
  let ?t = "module_addr treasury_ModuleName" and ?d = "module_addr distribution_ModuleName"
  have v: "ref_ValidDenom ''uluna''" by (rule sample_denoms)
  obtain b1 where b1: "ref_mint 1 treasury_ModuleName [\<lparr>Denom = ''uluna'', Amount = 100\<rparr>] sample_ledger = (Ok (), b1)"
    "\<And>z e. ref_bal b1 z e = ref_bal sample_ledger z e + (if z = ?t \<and> e = ''uluna'' then 1 * 100 else 0)"
    by (rule ref_mint_one [OF v, of 100 sample_ledger treasury_ModuleName 1]) (simp_all add: ref_bal_nonneg)
  obtain b2 where b2: "ref_mint (- 1) treasury_ModuleName [\<lparr>Denom = ''uluna'', Amount = 5\<rparr>] b1 = (Ok (), b2)"
    "\<And>z e. ref_bal b2 z e = ref_bal b1 z e + (if z = ?t \<and> e = ''uluna'' then - 1 * 5 else 0)"
    by (rule ref_mint_one [OF v, of 5 b1 treasury_ModuleName "- 1"]) (simp_all add: b1(2) ref_bal_nonneg add_nonneg_pos)
  have bal: "95 \<le> ref_bal b2 ?t ''uluna''" using b1(2) b2(2) ref_bal_nonneg [of sample_ledger ?t "''uluna''"] by simp
  obtain b3 where b3: "ref_send ?t ?d [\<lparr>Denom = ''uluna'', Amount = 95\<rparr>] b2 = (Ok (), b3)"
    by (rule ref_send_one [OF v, of 95 b2 ?t]) (use bal in simp_all)
  have seig: "PeekEpochSeigniorage sdk0 sample_treasury = (Ok 100, sample_treasury)"
    by (simp add: PeekEpochSeigniorage_def GetEpochInitialIssuance_def sample_treasury_def denom_defs sample_ledger_def
        ref_AmountOf_def sample_denoms Let_def)
  have w: "GetRewardWeight sample_treasury = (Ok 50000000000000000, sample_treasury)" "ext sample_treasury = sample_ledger"
    by (simp_all add: GetRewardWeight_def treasury_sample_simps)
  have val: "ref_IsValid [\<lparr>Denom = ''uluna'', Amount = n\<rparr>]" if "0 < n" for n using that v by (simp add: ref_IsValid_def)
  show ?thesis
    unfolding SettleSeigniorage_def
    by (simp add: seig w bnd_def seq_case must_def sdk_call_def ref_NewDecCoin_def ref_coin_Truncate_def v
        ref_NewCoins_one ref_NewCoin_def denom_defs b1(1) b2(1) b3 val go_quot_def fund_community_pool_def ref_Add_def)
qed

theorem SettleSeigniorage_ledger_witness:
  "\<exists>s'. SettleSeigniorage sdk0 sample_treasury = (Ok (), s')
     \<and> supply_of sdk0 (ext s') ''uluna'' = supply_of sdk0 sample_ledger ''uluna'' + 95
     \<and> amt (CommunityPool sdk0 (ext s')) ''uluna'' = 95 * OneDec"
proof -
  obtain s' where s': "SettleSeigniorage sdk0 sample_treasury = (Ok (), s')" using sample_settle by blast
  have v: "ValidDenom sdk0 MicroLunaDenom" by (simp add: denom_defs sample_denoms)
  have p: "CommunityPool sdk0 (ext sample_treasury) = []" by (simp add: sample_treasury_def sample_ledger_def)
  have e: "ext sample_treasury = sample_ledger" by (simp add: sample_treasury_def)
  show ?thesis
    using SettleSeigniorage_ledger [OF sdk0_distr v sample_seigniorage(3) _ _ _ s' refl] s' p e
    by (simp add: sample_seigniorage denom_defs coin_laws.valid_coins_Nil [OF sdk0_coin])
qed

theorem treasury_genesis_roundtrip_witness:
  "\<exists>g s'. treasury_ExportGenesis closed_treasury = (Ok g, closed_treasury)
     \<and> treasury_InitGenesis sdk0 g (sample_treasury\<lparr>TaxCaps := []\<rparr>) = (Ok (), s') \<and> TaxCaps s' = TaxCaps closed_treasury"
proof -
  have "treasury_params_ok sdk0 (t_params closed_treasury)"
    by (simp add: treasury_params_ok_def pairs_valid_def treasury_ParamSetPairs_def validateTaxPolicy_def validateRewardPolicy_def
        validateSeigniorageBurdenTarget_def validateMiningIncrement_def validateWindow_def validateBurnTaxSplit_def
        validateMinInitialDepositRatio_def validateOraceSplit_def closed_treasury_def treasury_sample_simps sample_denoms)
  moreover have "keyed GetTaxCapKey (\<lambda>_ _. True) (TaxCaps closed_treasury)"
    by (simp add: closed_treasury_def sample_treasury_def keyed_Cons)
  moreover have "EpochInitialIssuance closed_treasury = Some [\<lparr>Denom = ''uluna'', Amount = 1005100\<rparr>]"
    by (simp add: closed_treasury_def sample_treasury_def)
  moreover have "0 \<le> BlockHeight closed_treasury" "BlockHeight closed_treasury < 2 ^ 63"
    "TaxCaps (sample_treasury\<lparr>TaxCaps := []\<rparr>) = []" "TRs (sample_treasury\<lparr>TaxCaps := []\<rparr>) = []"
    "SRs (sample_treasury\<lparr>TaxCaps := []\<rparr>) = []" "TSLs (sample_treasury\<lparr>TaxCaps := []\<rparr>) = []"
    "\<not> coins_IsZero sdk0 [\<lparr>Denom = ''uluna'', Amount = 1005100\<rparr>]"
    by (simp_all add: closed_treasury_def sample_treasury_def)
  moreover have "fst (GetModuleAccount sdk0 m b) = Ok True" for m b by simp
  ultimately have "\<exists>g s'. treasury_ExportGenesis closed_treasury = (Ok g, closed_treasury)
     \<and> treasury_InitGenesis sdk0 g (sample_treasury\<lparr>TaxCaps := []\<rparr>) = (Ok (), s')
    \<and> t_params s' = t_params closed_treasury \<and> tax_rate s' = tax_rate closed_treasury \<and> reward_weight s' = reward_weight closed_treasury
    \<and> TaxCaps s' = TaxCaps closed_treasury \<and> EpochInitialIssuance s' = EpochInitialIssuance closed_treasury
    \<and> fst (PeekEpochTaxProceeds s') = fst (PeekEpochTaxProceeds closed_treasury)
    \<and> (\<forall>e. 0 \<le> e \<and> e < closed_epochs (BlockHeight closed_treasury) \<longrightarrow>
         fst (GetTR e s') = fst (GetTR e closed_treasury) \<and> fst (GetSR e s') = fst (GetSR e closed_treasury)
         \<and> fst (GetTSL e s') = fst (GetTSL e closed_treasury))"
    by (intro treasury_genesis_roundtrip)
  then show ?thesis by blast
qed

end
