(* ===== verification/Tax_Exemption.thy ===== *)
theory Tax_Exemption
  imports Treasury
begin

text \<open>
  The tax exemption module (\<open>x/taxexemption\<close>): zones of addresses between which transfers are not taxed.  The
  zones and the association of addresses with zones are two stores; governance, the authority of the keeper, changes
  them with five messages.
\<close>

section \<open>Types\<close>

definition taxexemption_ModuleName :: string where "taxexemption_ModuleName = ''taxexemption''"

definition ErrNoSuchTaxExemptionZone :: error where "ErrNoSuchTaxExemptionZone = RegErr taxexemption_ModuleName 1"
definition ErrZoneNotExist :: error where "ErrZoneNotExist = RegErr taxexemption_ModuleName 3"
definition ErrZoneLengthInvalid :: error where "ErrZoneLengthInvalid = RegErr taxexemption_ModuleName 4"
definition ErrInvalidSigner :: error where "ErrInvalidSigner = SdkErr ''ErrInvalidSigner''"
definition ErrUnknownAddress :: error where "ErrUnknownAddress = SdkErr ''ErrUnknownAddress''"

record zone =
  z_Name :: string
  z_Outgoing :: bool
  z_Incoming :: bool
  z_CrossZone :: bool

text \<open>The five messages, in the order of \<open>types/msgs.go\<close>; the last field is the authority.\<close>

datatype exemption_msg =
    MsgAddTaxExemptionZone string bool bool bool "string list" string
  | MsgRemoveTaxExemptionZone string string
  | MsgModifyTaxExemptionZone string bool bool bool string
  | MsgAddTaxExemptionAddress string "string list" string
  | MsgRemoveTaxExemptionAddress string "string list" string

fun exemption_ValidateBasic :: "('b, 'z) addr_ops_scheme \<Rightarrow> exemption_msg \<Rightarrow> unit outcome" where
  "exemption_ValidateBasic K (MsgAddTaxExemptionZone zone _ _ _ addresses _) =
     (if zone = [] then Err (FmtErr ''zone cannot be empty'')
      else if addresses = [] then Err (FmtErr ''addresses cannot be empty'') else Ok ())"
| "exemption_ValidateBasic K (MsgRemoveTaxExemptionZone zone authority) =
     obind (wrap_err ErrInvalidAddress (AccAddressFromBech32 K authority)) (\<lambda>_.
     if zone = [] then Err (FmtErr ''zone cannot be empty'') else Ok ())"
| "exemption_ValidateBasic K (MsgModifyTaxExemptionZone zone _ _ _ _) =
     (if zone = [] then Err (FmtErr ''zone cannot be empty'') else Ok ())"
| "exemption_ValidateBasic K (MsgAddTaxExemptionAddress zone addresses _) =
     (if zone = [] then Err (FmtErr ''zone cannot be empty'')
      else if addresses = [] then Err (FmtErr ''addresses cannot be empty'') else Ok ())"
| "exemption_ValidateBasic K (MsgRemoveTaxExemptionAddress zone addresses _) =
     (if zone = [] then Err (FmtErr ''zone cannot be empty'')
      else if addresses = [] then Err (FmtErr ''addresses cannot be empty'') else Ok ())"

fun exemption_authority :: "exemption_msg \<Rightarrow> string" where
  "exemption_authority (MsgAddTaxExemptionZone _ _ _ _ _ a) = a"
| "exemption_authority (MsgRemoveTaxExemptionZone _ a) = a"
| "exemption_authority (MsgModifyTaxExemptionZone _ _ _ _ a) = a"
| "exemption_authority (MsgAddTaxExemptionAddress _ _ a) = a"
| "exemption_authority (MsgRemoveTaxExemptionAddress _ _ a) = a"

text \<open>An authority that does not parse has no signer.\<close>

definition exemption_GetSigners :: "('b, 'z) addr_ops_scheme \<Rightarrow> exemption_msg \<Rightarrow> string list outcome" where
  "exemption_GetSigners K msg =
     (case AccAddressFromBech32 K (exemption_authority msg) of Ok a \<Rightarrow> Ok [a] | Err _ \<Rightarrow> Ok [] | Panic \<Rightarrow> Panic)"

text \<open>The checks of the legacy proposals: title and description, the zone name, the addresses.\<close>

definition zone_proposal_check ::
  "('b, 'z) staking_ops_scheme \<Rightarrow> bool \<Rightarrow> string \<Rightarrow> string \<Rightarrow> string \<Rightarrow> string list \<Rightarrow> unit outcome" where
  "zone_proposal_check K namesZone title description zone addresses =
     obind (ValidateAbstract K title description) (\<lambda>_.
     if namesZone \<and> zone = [] then Err ErrUnknownAddress
     else ofold (\<lambda>a _. obind (wrap_err ErrInvalidAddress (AccAddressFromBech32 K a)) (\<lambda>_. Ok ())) addresses ())"

definition AddTaxExemptionZoneProposal_ValidateBasic ::
  "('b, 'z) staking_ops_scheme \<Rightarrow> string \<Rightarrow> string \<Rightarrow> string \<Rightarrow> string list \<Rightarrow> unit outcome" where
  "AddTaxExemptionZoneProposal_ValidateBasic K title description zone addresses =
     zone_proposal_check K True title description zone addresses"

definition RemoveTaxExemptionZoneProposal_ValidateBasic ::
  "('b, 'z) staking_ops_scheme \<Rightarrow> string \<Rightarrow> string \<Rightarrow> string \<Rightarrow> unit outcome" where
  "RemoveTaxExemptionZoneProposal_ValidateBasic K title description zone =
     zone_proposal_check K True title description zone []"

definition ModifyTaxExemptionZoneProposal_ValidateBasic ::
  "('b, 'z) staking_ops_scheme \<Rightarrow> string \<Rightarrow> string \<Rightarrow> string \<Rightarrow> unit outcome" where
  "ModifyTaxExemptionZoneProposal_ValidateBasic K title description zone =
     zone_proposal_check K True title description zone []"

definition AddTaxExemptionAddressProposal_ValidateBasic ::
  "('b, 'z) staking_ops_scheme \<Rightarrow> string \<Rightarrow> string \<Rightarrow> string list \<Rightarrow> unit outcome" where
  "AddTaxExemptionAddressProposal_ValidateBasic K title description addresses =
     zone_proposal_check K False title description [] addresses"

definition RemoveTaxExemptionAddressProposal_ValidateBasic ::
  "('b, 'z) staking_ops_scheme \<Rightarrow> string \<Rightarrow> string \<Rightarrow> string list \<Rightarrow> unit outcome" where
  "RemoveTaxExemptionAddressProposal_ValidateBasic K title description addresses =
     zone_proposal_check K False title description [] addresses"

section \<open>Keeper\<close>

record 'b exemption_state = "'b treasury_state" +
  Zones :: "zone kv"
  ZoneOf :: "string kv"

definition ErrEmptyZone :: error where "ErrEmptyZone = FmtErr ''zone name cannot be empty''"

definition GetTaxExemptionZone :: "string \<Rightarrow> (('b, 'x) exemption_state_scheme, zone) go" where
  "GetTaxExemptionZone zoneName =
     (if zoneName = [] then raise ErrEmptyZone
      else bnd (gets (\<lambda>s. kv_get zoneName (Zones s))) (\<lambda>bz.
           case bz of None \<Rightarrow> raise ErrNoSuchTaxExemptionZone | Some z \<Rightarrow> ret z))"

definition AddTaxExemptionZone :: "zone \<Rightarrow> (('b, 'x) exemption_state_scheme, unit) go" where
  "AddTaxExemptionZone zone =
     (if z_Name zone = [] then raise ErrEmptyZone
      else modify (\<lambda>s. s\<lparr>Zones := kv_set (z_Name zone) zone (Zones s)\<rparr>))"

definition ModifyTaxExemptionZone :: "zone \<Rightarrow> (('b, 'x) exemption_state_scheme, unit) go" where
  "ModifyTaxExemptionZone zone =
     (if z_Name zone = [] then raise ErrEmptyZone
      else bnd (gets (\<lambda>s. kv_has (z_Name zone) (Zones s))) (\<lambda>found.
           if \<not> found then raise ErrNoSuchTaxExemptionZone
           else modify (\<lambda>s. s\<lparr>Zones := kv_set (z_Name zone) zone (Zones s)\<rparr>)))"

definition AddTaxExemptionAddress ::
  "('b, 'z) addr_ops_scheme \<Rightarrow> string \<Rightarrow> string \<Rightarrow> (('b, 'x) exemption_state_scheme, unit) go" where
  "AddTaxExemptionAddress K zone addr =
     bnd (lift (AccAddressFromBech32 K addr)) (\<lambda>_.
     bnd (gets (\<lambda>s. kv_has zone (Zones s))) (\<lambda>found.
     if \<not> found then raise ErrNoSuchTaxExemptionZone
     else bnd (gets (\<lambda>s. kv_get addr (ZoneOf s))) (\<lambda>bz.
       case bz of
         Some existingZone \<Rightarrow>
           if existingZone \<noteq> zone then raise (FmtErr ''already associated with a different zone'') else ret ()
       | None \<Rightarrow> modify (\<lambda>s. s\<lparr>ZoneOf := kv_set addr zone (ZoneOf s)\<rparr>))))"

definition RemoveTaxExemptionAddress ::
  "('b, 'z) addr_ops_scheme \<Rightarrow> string \<Rightarrow> string \<Rightarrow> (('b, 'x) exemption_state_scheme, unit) go" where
  "RemoveTaxExemptionAddress K zone addr =
     bnd (lift (AccAddressFromBech32 K addr)) (\<lambda>_.
     bnd (gets (\<lambda>s. kv_get addr (ZoneOf s))) (\<lambda>bz.
     case bz of
       None \<Rightarrow> raise (FmtErr ''not associated with any zone'')
     | Some z \<Rightarrow>
         if z \<noteq> zone then raise (FmtErr ''associated with a different zone'')
         else modify (\<lambda>s. s\<lparr>ZoneOf := kv_delete addr (ZoneOf s)\<rparr>)))"

text \<open>The errors of the removals are discarded; the iterator walks over the entries that were there at the start.\<close>

definition RemoveTaxExemptionZone ::
  "('b, 'z) addr_ops_scheme \<Rightarrow> string \<Rightarrow> (('b, 'x) exemption_state_scheme, unit) go" where
  "RemoveTaxExemptionZone K zoneName =
     (if zoneName = [] then raise ErrEmptyZone
      else bnd (gets (\<lambda>s. kv_has zoneName (Zones s))) (\<lambda>found.
           if \<not> found then raise ErrNoSuchTaxExemptionZone
           else bnd (gets ZoneOf) (\<lambda>entries.
                seq (for_each entries (\<lambda>e.
                       bnd (attempt (RemoveTaxExemptionAddress K zoneName (fst e))) (\<lambda>_. ret ())))
                (modify (\<lambda>s. s\<lparr>Zones := kv_delete zoneName (Zones s)\<rparr>)))))"

section \<open>The exemption test\<close>

text \<open>The zone of an address, if it has one, and the cache of zones looked up so far.\<close>

definition checkAndCacheZone ::
  "string \<Rightarrow> zone kv \<Rightarrow> (('b, 'x) exemption_state_scheme, zone option \<times> zone kv) go" where
  "checkAndCacheZone addr zoneCache =
     bnd (gets (\<lambda>s. kv_get addr (ZoneOf s))) (\<lambda>bz.
     case bz of
       None \<Rightarrow> ret (None, zoneCache)
     | Some zoneName \<Rightarrow>
         (case kv_get zoneName zoneCache of
            Some zone \<Rightarrow> ret (Some zone, zoneCache)
          | None \<Rightarrow>
              bnd (attempt (GetTaxExemptionZone zoneName)) (\<lambda>r.
              case r of
                Inl _ \<Rightarrow> ret (None, zoneCache)
              | Inr zone \<Rightarrow> ret (Some zone, kv_set zoneName zone zoneCache))))"

text \<open>One round of the loop over the recipients: whether the transfer to this recipient is exempt.\<close>

definition recipient_exempt :: "zone option \<Rightarrow> zone option \<Rightarrow> bool" where
  "recipient_exempt senderZone recipientZone =
     (case (senderZone, recipientZone) of
        (None, None) \<Rightarrow> False
      | (Some sz, Some rz) \<Rightarrow>
          \<not> (z_Name sz \<noteq> z_Name rz
             \<and> (\<not> z_Outgoing sz \<or> \<not> z_CrossZone sz) \<and> (\<not> z_Incoming rz \<or> \<not> z_CrossZone rz))
      | (Some sz, None) \<Rightarrow> z_Outgoing sz
      | (None, Some rz) \<Rightarrow> z_Incoming rz)"

primrec exempt_loop ::
  "zone option \<Rightarrow> string list \<Rightarrow> zone kv \<Rightarrow> (('b, 'x) exemption_state_scheme, bool) go" where
  "exempt_loop senderZone [] zoneCache = ret True"
| "exempt_loop senderZone (addr # addresses) zoneCache =
     bnd (checkAndCacheZone addr zoneCache) (\<lambda>(recipientZone, zoneCache').
     if \<not> recipient_exempt senderZone recipientZone then ret False
     else exempt_loop senderZone addresses zoneCache')"

definition IsExemptedFromTax ::
  "string \<Rightarrow> string list \<Rightarrow> (('b, 'x) exemption_state_scheme, bool) go" where
  "IsExemptedFromTax senderAddress recipientAddresses =
     bnd (checkAndCacheZone senderAddress []) (\<lambda>(senderZone, zoneCache).
     exempt_loop senderZone recipientAddresses zoneCache)"

definition Taxable :: "(string \<times> string) option \<Rightarrow> (('b, 'x) exemption_state_scheme, bool) go" where
  "Taxable req =
     (case req of
        None \<Rightarrow> raise ErrUnknownRequest
      | Some (fromAddress, toAddress) \<Rightarrow> bnd (IsExemptedFromTax fromAddress [toAddress]) (\<lambda>exempted. ret (\<not> exempted)))"

section \<open>Messages\<close>

text \<open>The keeper's authority, the address of the governance module, is the argument \<open>gov\<close>.\<close>

fun exemption_handle ::
  "('b, 'z) addr_ops_scheme \<Rightarrow> string \<Rightarrow> exemption_msg \<Rightarrow> (('b, 'x) exemption_state_scheme, unit) go" where
  "exemption_handle K gov (MsgAddTaxExemptionZone zone outgoing incoming crossZone addresses authority) =
     (if gov \<noteq> authority then raise ErrInvalidSigner
      else seq (AddTaxExemptionZone
             \<lparr>z_Name = zone, z_Outgoing = outgoing, z_Incoming = incoming, z_CrossZone = crossZone\<rparr>)
           (for_each addresses (AddTaxExemptionAddress K zone)))"
| "exemption_handle K gov (MsgRemoveTaxExemptionZone zone authority) =
     (if gov \<noteq> authority then raise ErrInvalidSigner else RemoveTaxExemptionZone K zone)"
| "exemption_handle K gov (MsgModifyTaxExemptionZone zone outgoing incoming crossZone authority) =
     (if gov \<noteq> authority then raise ErrInvalidSigner
      else ModifyTaxExemptionZone
             \<lparr>z_Name = zone, z_Outgoing = outgoing, z_Incoming = incoming, z_CrossZone = crossZone\<rparr>)"
| "exemption_handle K gov (MsgAddTaxExemptionAddress zone addresses authority) =
     (if gov \<noteq> authority then raise ErrInvalidSigner else for_each addresses (AddTaxExemptionAddress K zone))"
| "exemption_handle K gov (MsgRemoveTaxExemptionAddress zone addresses authority) =
     (if gov \<noteq> authority then raise ErrInvalidSigner else for_each addresses (RemoveTaxExemptionAddress K zone))"

section \<open>Genesis\<close>

record exemption_genesis =
  eg_ZoneList :: "zone list"
  eg_AddressesByZone :: "(string \<times> string list) list"

definition exemption_DefaultGenesisState :: exemption_genesis where
  "exemption_DefaultGenesisState = \<lparr>eg_ZoneList = [], eg_AddressesByZone = []\<rparr>"

definition exemption_ValidateGenesis :: "('b, 'z) addr_ops_scheme \<Rightarrow> exemption_genesis \<Rightarrow> unit outcome" where
  "exemption_ValidateGenesis K data =
     (if length (eg_ZoneList data) \<noteq> length (eg_AddressesByZone data) then Err ErrZoneLengthInvalid
      else ofold (\<lambda>(zone, addresses) _.
             if zone \<notin> set (map z_Name (eg_ZoneList data)) then Err ErrZoneNotExist
             else ofold (\<lambda>a _. obind (AccAddressFromBech32 K a) (\<lambda>_. Ok ())) addresses ())
           (eg_AddressesByZone data) ())"

text \<open>The errors of both loops are discarded.\<close>

definition exemption_InitGenesis ::
  "('b, 'z) addr_ops_scheme \<Rightarrow> exemption_genesis \<Rightarrow> (('b, 'x) exemption_state_scheme, unit) go" where
  "exemption_InitGenesis K data =
     seq (for_each (eg_ZoneList data) (\<lambda>zone. bnd (attempt (AddTaxExemptionZone zone)) (\<lambda>_. ret ())))
     (for_each (eg_AddressesByZone data) (\<lambda>(zone, addresses).
        for_each addresses (\<lambda>a. bnd (attempt (AddTaxExemptionAddress K zone a)) (\<lambda>_. ret ()))))"

text \<open>The map from zone names to addresses; its names are sorted before they are listed.\<close>

definition collect_addresses :: "string kv \<Rightarrow> string list kv \<Rightarrow> string list kv" where
  "collect_addresses entries zoneAddresses =
     fold (\<lambda>(addr, zoneName) m.
       case kv_get zoneName m of None \<Rightarrow> m | Some addresses \<Rightarrow> kv_set zoneName (addresses @ [addr]) m)
     entries zoneAddresses"

definition exemption_ExportGenesis ::
  "('b, 'z) addr_ops_scheme \<Rightarrow> (('b, 'x) exemption_state_scheme, exemption_genesis) go" where
  "exemption_ExportGenesis K =
     bnd (gets Zones) (\<lambda>zoneStore.
     let zones = map snd zoneStore;
         zoneAddresses0 = fold (\<lambda>zone m. kv_set (z_Name zone) [] m) zones [] in
     bnd (gets ZoneOf) (\<lambda>entries.
     let zoneAddresses = collect_addresses entries zoneAddresses0;
         zoneNames = sort (map fst zoneAddresses);
         state = \<lparr>eg_ZoneList = zones,
           eg_AddressesByZone = map (\<lambda>n. (n, case kv_get n zoneAddresses of None \<Rightarrow> [] | Some a \<Rightarrow> a)) zoneNames\<rparr> in
     seq (must (lift (exemption_ValidateGenesis K state))) (ret state)))"

end
