(* ===== verification/Exemption_Zones.thy ===== *)
theory Exemption_Zones
  imports Tax_Exemption
begin

text \<open>
  What the tax exemption module promises: its stores stay well formed under every message, a zone is removed with its
  members, the exemption test is the rule of the module's documentation, and genesis export and import are inverse.
\<close>

section \<open>Well-formed zones\<close>

definition exemption_wf :: "('b, 'z) addr_ops_scheme \<Rightarrow> ('b, 'x) exemption_state_scheme \<Rightarrow> bool" where
  "exemption_wf K s \<longleftrightarrow> kv_ok (Zones s) \<and> kv_ok (ZoneOf s)
     \<and> (\<forall>n z. kv_get n (Zones s) = Some z \<longrightarrow> n \<noteq> [] \<and> z_Name z = n)
     \<and> (\<forall>a n. kv_get a (ZoneOf s) = Some n \<longrightarrow> is_Ok (AccAddressFromBech32 K a) \<and> kv_has n (Zones s))"

lemma keeps_AddZone: "keeps (exemption_wf K) (AddTaxExemptionZone z)"
  unfolding AddTaxExemptionZone_def
  by (intro keeps_intros keeps_modify) (auto simp: exemption_wf_def kv_has_def)

lemma keeps_ModifyZone: "keeps (exemption_wf K) (ModifyTaxExemptionZone z)"
  unfolding ModifyTaxExemptionZone_def
  by (intro keeps_intros keeps_modify) (auto simp: exemption_wf_def kv_has_def)

lemma AddTaxExemptionAddress_run:
  "AddTaxExemptionAddress K n a s =
     (case AccAddressFromBech32 K a of
        Ok _ \<Rightarrow>
          if \<not> kv_has n (Zones s) then (Err ErrNoSuchTaxExemptionZone, s)
          else (case kv_get a (ZoneOf s) of
                  Some n' \<Rightarrow> (if n' \<noteq> n then Err (FmtErr ''already associated with a different zone'') else Ok (), s)
                | None \<Rightarrow> (Ok (), s\<lparr>ZoneOf := kv_set a n (ZoneOf s)\<rparr>))
      | Err e \<Rightarrow> (Err e, s) | Panic \<Rightarrow> (Panic, s))"
  by (auto simp: AddTaxExemptionAddress_def bnd_def split: outcome.splits option.splits)

lemma keeps_AddAddress: "keeps (exemption_wf K) (AddTaxExemptionAddress K n a)"
  by (rule keepsI) (auto simp: AddTaxExemptionAddress_run exemption_wf_def is_Ok_iff split: outcome.splits option.splits)

lemma RemoveTaxExemptionAddress_run:
  "RemoveTaxExemptionAddress K n a s =
     (case AccAddressFromBech32 K a of
        Ok _ \<Rightarrow>
          (case kv_get a (ZoneOf s) of
             None \<Rightarrow> (Err (FmtErr ''not associated with any zone''), s)
           | Some n' \<Rightarrow>
               if n' \<noteq> n then (Err (FmtErr ''associated with a different zone''), s)
               else (Ok (), s\<lparr>ZoneOf := kv_delete a (ZoneOf s)\<rparr>))
      | Err e \<Rightarrow> (Err e, s) | Panic \<Rightarrow> (Panic, s))"
  by (auto simp: RemoveTaxExemptionAddress_def bnd_def split: outcome.splits option.splits)

lemma keeps_RemoveAddress: "keeps (exemption_wf K) (RemoveTaxExemptionAddress K n a)"
  by (rule keepsI)
    (auto simp: RemoveTaxExemptionAddress_run exemption_wf_def kv_get_delete split: outcome.splits option.splits if_splits)

text \<open>The loop that frees the addresses of a zone.\<close>

lemma free_zone_loop:
  fixes s :: "('b, 'x) exemption_state_scheme" and es :: "string kv"
  assumes "\<forall>e\<in>set es. is_Ok (AccAddressFromBech32 K (fst e))" "kv_ok (ZoneOf s)"
  shows "\<exists>m. for_each es (\<lambda>e. bnd (attempt (RemoveTaxExemptionAddress K n (fst e))) (\<lambda>_. ret ())) s = (Ok (), s\<lparr>ZoneOf := m\<rparr>)
    \<and> kv_ok m \<and> (\<forall>a. kv_get a m = (if a \<in> fst ` set es \<and> kv_get a (ZoneOf s) = Some n then None else kv_get a (ZoneOf s)))"
proof -
  define h :: "string \<times> string \<Rightarrow> (('b, 'x) exemption_state_scheme, unit) go"
    where "h = (\<lambda>e. bnd (attempt (RemoveTaxExemptionAddress K n (fst e))) (\<lambda>_. ret ()))"
  have "\<exists>m. for_each es h s = (Ok (), s\<lparr>ZoneOf := m\<rparr>) \<and> kv_ok m
    \<and> (\<forall>a. kv_get a m = (if a \<in> fst ` set es \<and> kv_get a (ZoneOf s) = Some n then None else kv_get a (ZoneOf s)))"
    using assms
  proof (induction es arbitrary: s)
    case Nil
    then show ?case by (intro exI [of _ "ZoneOf s"]) simp
  next
    case (Cons e es)
    define m where "m = (if kv_get (fst e) (ZoneOf s) = Some n then kv_delete (fst e) (ZoneOf s) else ZoneOf s)"
    obtain v where "AccAddressFromBech32 K (fst e) = Ok v" using Cons.prems(1) by (auto simp: is_Ok_iff)
    then have h: "h e s = (Ok (), s\<lparr>ZoneOf := m\<rparr>)"
      by (auto simp: h_def RemoveTaxExemptionAddress_run m_def attempt_def bnd_def split: option.splits)
    have "kv_ok m" using Cons.prems(2) by (simp add: m_def)
    then obtain m' where m': "for_each es h (s\<lparr>ZoneOf := m\<rparr>) = (Ok (), s\<lparr>ZoneOf := m'\<rparr>)" "kv_ok m'"
      "\<forall>a. kv_get a m' = (if a \<in> fst ` set es \<and> kv_get a m = Some n then None else kv_get a m)"
      using Cons.IH [of "s\<lparr>ZoneOf := m\<rparr>"] Cons.prems by auto
    have "kv_get a m = (if a = fst e \<and> kv_get a (ZoneOf s) = Some n then None else kv_get a (ZoneOf s))" for a
      using kv_get_delete [OF Cons.prems(2)] by (auto simp: m_def)
    then show ?case using h m' by (intro exI [of _ m']) (auto simp: seq_run)
  qed
  then show ?thesis unfolding h_def .
qed

lemma RemoveZone_run:
  assumes "exemption_wf K s" "kv_has n (Zones s)"
  shows "\<exists>m. RemoveTaxExemptionZone K n s = (Ok (), s\<lparr>Zones := kv_delete n (Zones s), ZoneOf := m\<rparr>)
    \<and> kv_ok m \<and> (\<forall>a. kv_get a m = (if kv_get a (ZoneOf s) = Some n then None else kv_get a (ZoneOf s)))"
proof -
  have wf: "kv_ok (ZoneOf s)" "n \<noteq> []" and ok: "\<forall>e\<in>set (ZoneOf s). is_Ok (AccAddressFromBech32 K (fst e))"
    using assms kvs.in_entries [of "ZoneOf s"] by (auto simp: exemption_wf_def kv_has_def)
  obtain m where m: "for_each (ZoneOf s) (\<lambda>e. bnd (attempt (RemoveTaxExemptionAddress K n (fst e))) (\<lambda>_. ret ())) s = (Ok (), s\<lparr>ZoneOf := m\<rparr>)"
    "kv_ok m" "\<And>a. kv_get a m = (if a \<in> fst ` set (ZoneOf s) \<and> kv_get a (ZoneOf s) = Some n then None else kv_get a (ZoneOf s))"
    using free_zone_loop [OF ok wf(1), of n] by blast
  have "kv_get a m = (if kv_get a (ZoneOf s) = Some n then None else kv_get a (ZoneOf s))" for a
    using m(3) [of a] kv_get_None [of a "ZoneOf s"] by auto
  then show ?thesis
    using m(1,2) assms(2) wf(2) by (intro exI [of _ m]) (simp add: RemoveTaxExemptionZone_def seq_run)
qed

lemma keeps_RemoveZone: "keeps (exemption_wf K) (RemoveTaxExemptionZone K n)"
proof (rule keepsI)
  fix s
  assume wf: "exemption_wf K s"
  show "exemption_wf K (snd (RemoveTaxExemptionZone K n s))"
  proof (cases "kv_has n (Zones s)")
    case True
    obtain m where m: "RemoveTaxExemptionZone K n s = (Ok (), s\<lparr>Zones := kv_delete n (Zones s), ZoneOf := m\<rparr>)" "kv_ok m"
      "\<And>a. kv_get a m = (if kv_get a (ZoneOf s) = Some n then None else kv_get a (ZoneOf s))"
      using RemoveZone_run [OF wf True] by blast
    then show ?thesis using wf by (auto simp: exemption_wf_def kv_has_def kv_get_delete split: if_splits)
  next
    case False
    then show ?thesis using wf by (auto simp: RemoveTaxExemptionZone_def)
  qed
qed

lemma exemption_handle_wf: "keeps (exemption_wf K) (exemption_handle K gov msg)"
  by (cases msg) (auto intro!: keeps_intros keeps_AddZone keeps_ModifyZone keeps_RemoveZone keeps_AddAddress keeps_RemoveAddress)

section \<open>Reachable states\<close>

text \<open>A message is executed, with whatever outcome, or the rest of the state moves on.\<close>

inductive exemption_step ::
  "('b, 'z) addr_ops_scheme \<Rightarrow> string \<Rightarrow> ('b, 'x) exemption_state_scheme \<Rightarrow> ('b, 'x) exemption_state_scheme \<Rightarrow> bool"
  for K gov where
  message: "exemption_handle K gov msg s = (r, s') \<Longrightarrow> exemption_step K gov s s'"
| elsewhere: "Zones s' = Zones s \<Longrightarrow> ZoneOf s' = ZoneOf s \<Longrightarrow> exemption_step K gov s s'"

inductive exemption_reachable :: "('b, 'z) addr_ops_scheme \<Rightarrow> string \<Rightarrow> ('b, 'x) exemption_state_scheme \<Rightarrow> bool"
  for K gov where
  empty: "Zones s = [] \<Longrightarrow> ZoneOf s = [] \<Longrightarrow> exemption_reachable K gov s"
| step: "exemption_reachable K gov s \<Longrightarrow> exemption_step K gov s s' \<Longrightarrow> exemption_reachable K gov s'"

lemma exemption_step_wf: "exemption_step K gov s s' \<Longrightarrow> exemption_wf K s \<Longrightarrow> exemption_wf K s'"
proof (induction rule: exemption_step.induct)
  case (message msg s r s')
  then show ?case using keeps_run [OF exemption_handle_wf] by blast
qed (auto simp: exemption_wf_def)

text \<open>C24. Whatever governance and others send, every zone is stored under its own nonempty name, and every address on
  the list is a valid address that belongs to exactly one zone, which exists.\<close>

theorem exemption_reachable_wf:
  assumes "exemption_reachable K gov s"
  shows "exemption_wf K s"
  using assms
proof (induction rule: exemption_reachable.induct)
  case (empty s)
  then show ?case by (simp add: exemption_wf_def)
qed (rule exemption_step_wf)

text \<open>C34. A zone is removed with all its members: afterwards the zone is gone, no address is associated with it, and the
  other zones and associations are as before.\<close>

theorem RemoveTaxExemptionZone_clears:
  assumes "exemption_wf K s" "kv_has n (Zones s)"
  shows "\<exists>s'. exemption_handle K gov (MsgRemoveTaxExemptionZone n gov) s = (Ok (), s')
    \<and> (\<forall>k. kv_get k (Zones s') = (if k = n then None else kv_get k (Zones s)))
    \<and> (\<forall>a. kv_get a (ZoneOf s') = (if kv_get a (ZoneOf s) = Some n then None else kv_get a (ZoneOf s)))"
proof -
  obtain m where "RemoveTaxExemptionZone K n s = (Ok (), s\<lparr>Zones := kv_delete n (Zones s), ZoneOf := m\<rparr>)"
    "\<forall>a. kv_get a m = (if kv_get a (ZoneOf s) = Some n then None else kv_get a (ZoneOf s))"
    using RemoveZone_run [OF assms] by blast
  moreover have "kv_ok (Zones s)" using assms(1) by (simp add: exemption_wf_def)
  ultimately show ?thesis by (auto simp: kv_get_delete)
qed

section \<open>The exemption test\<close>

definition zone_of :: "('b, 'x) exemption_state_scheme \<Rightarrow> string \<Rightarrow> zone option" where
  "zone_of s a = (case kv_get a (ZoneOf s) of None \<Rightarrow> None | Some n \<Rightarrow> if n = [] then None else kv_get n (Zones s))"

text \<open>The rule the module's documentation gives for one transfer.\<close>

fun exempt_between :: "zone option \<Rightarrow> zone option \<Rightarrow> bool" where
  "exempt_between None None = False"
| "exempt_between (Some a) None = z_Outgoing a"
| "exempt_between None (Some b) = z_Incoming b"
| "exempt_between (Some a) (Some b) =
     (z_Name a = z_Name b \<or> z_Outgoing a \<and> z_CrossZone a \<or> z_Incoming b \<and> z_CrossZone b)"

lemma recipient_exempt_eq: "recipient_exempt a b = exempt_between a b"
  by (cases a; cases b) (auto simp: recipient_exempt_def)

definition cache_ok :: "('b, 'x) exemption_state_scheme \<Rightarrow> zone kv \<Rightarrow> bool" where
  "cache_ok s c \<longleftrightarrow> (\<forall>n z. kv_get n c = Some z \<longrightarrow> n \<noteq> [] \<and> kv_get n (Zones s) = Some z)"

lemma checkAndCacheZone_run:
  assumes "cache_ok s c"
  shows "\<exists>c'. checkAndCacheZone a c s = (Ok (zone_of s a, c'), s) \<and> cache_ok s c'"
proof (cases "kv_get a (ZoneOf s)")
  case None
  then show ?thesis using assms by (simp add: checkAndCacheZone_def zone_of_def)
next
  case (Some n)
  show ?thesis
  proof (cases "kv_get n c")
    case None
    then show ?thesis using Some assms
      by (cases "n = [] \<or> kv_get n (Zones s) = None")
        (auto simp: checkAndCacheZone_def zone_of_def GetTaxExemptionZone_def attempt_def bnd_def cache_ok_def split: option.splits)
  next
    case (Some z)
    then show ?thesis using \<open>kv_get a (ZoneOf s) = Some n\<close> assms
      by (auto simp: checkAndCacheZone_def zone_of_def cache_ok_def)
  qed
qed

lemma exempt_loop_run:
  "cache_ok s c \<Longrightarrow> exempt_loop sz as c s = (Ok (list_all (\<lambda>a. exempt_between sz (zone_of s a)) as), s)"
proof (induction as arbitrary: c)
  case (Cons a as)
  obtain c' where "checkAndCacheZone a c s = (Ok (zone_of s a, c'), s)" "cache_ok s c'"
    using checkAndCacheZone_run [OF Cons.prems] by blast
  then show ?case using Cons.IH [of c'] by (simp add: bnd_Ok recipient_exempt_eq)
qed simp

lemma IsExempted_run:
  "IsExemptedFromTax sender recipients s =
     (Ok (list_all (\<lambda>r. exempt_between (zone_of s sender) (zone_of s r)) recipients), s)"
proof -
  obtain c where "checkAndCacheZone sender [] s = (Ok (zone_of s sender, c), s)" "cache_ok s c"
    using checkAndCacheZone_run [of s "[]" sender] by (auto simp: cache_ok_def)
  then show ?thesis using exempt_loop_run [of s c] by (simp add: IsExemptedFromTax_def bnd_Ok)
qed

text \<open>C19. A transfer is exempt exactly when the documented rule exempts it towards every recipient, judged by the zones
  the addresses have in the store; the cache of the zones looked up is invisible.\<close>

theorem IsExemptedFromTax_rule:
  "IsExemptedFromTax sender recipients s =
     (Ok (list_all (\<lambda>r. exempt_between (zone_of s sender) (zone_of s r)) recipients), s)"
  by (rule IsExempted_run)

section \<open>Genesis\<close>

lemma collect_get:
  "kv_get n (collect_addresses es m) =
     (case kv_get n m of None \<Rightarrow> None | Some as \<Rightarrow> Some (as @ map fst (filter (\<lambda>e. snd e = n) es)))"
  unfolding collect_addresses_def
proof (induction es arbitrary: m)
  case (Cons e es)
  then show ?case by (cases e) (auto split: option.splits)
qed (auto split: option.splits)

lemma kv_ok_collect: "kv_ok m \<Longrightarrow> kv_ok (collect_addresses es m)"
  unfolding collect_addresses_def
  by (induction es arbitrary: m) (auto split: option.splits)

lemma collect_keys: "kv_ok m \<Longrightarrow> map fst (collect_addresses es m) = map fst m"
  by (rule kv_keys_eq) (auto simp: kv_ok_collect kv_has_def collect_get split: option.splits)

lemma zone_fold:
  assumes "kv_ok m"
  shows "kv_ok (fold (\<lambda>z m. kv_set (z_Name z) c m) zs m)"
    "kv_get n (fold (\<lambda>z m. kv_set (z_Name z) c m) zs m) = (if n \<in> set (map z_Name zs) then Some c else kv_get n m)"
  using assms by (induction zs arbitrary: m) auto

definition exported_zones :: "('b, 'x) exemption_state_scheme \<Rightarrow> exemption_genesis" where
  "exported_zones s = \<lparr>eg_ZoneList = map snd (Zones s),
     eg_AddressesByZone = map (\<lambda>n. (n, map fst (filter (\<lambda>e. snd e = n) (ZoneOf s)))) (map fst (Zones s))\<rparr>"

lemma wf_zones:
  assumes "exemption_wf K s"
  shows "map z_Name (map snd (Zones s)) = map fst (Zones s)" "\<forall>z\<in>set (map snd (Zones s)). z_Name z \<noteq> []"
    "\<forall>e\<in>set (ZoneOf s). is_Ok (AccAddressFromBech32 K (fst e)) \<and> snd e \<in> set (map fst (Zones s))"
proof -
  have e: "z_Name (snd e) = fst e \<and> fst e \<noteq> []" if "e \<in> set (Zones s)" for e
    using assms that kvs.in_entries [of "Zones s" "fst e" "snd e"] by (auto simp: exemption_wf_def)
  then show "map z_Name (map snd (Zones s)) = map fst (Zones s)" "\<forall>z\<in>set (map snd (Zones s)). z_Name z \<noteq> []" by auto
  have "is_Ok (AccAddressFromBech32 K (fst e)) \<and> kv_has (snd e) (Zones s)" if "e \<in> set (ZoneOf s)" for e
    using assms that kvs.in_entries [of "ZoneOf s" "fst e" "snd e"] by (simp add: exemption_wf_def)
  then show "\<forall>e\<in>set (ZoneOf s). is_Ok (AccAddressFromBech32 K (fst e)) \<and> snd e \<in> set (map fst (Zones s))"
    by (simp add: kv_has_iff)
qed

lemma exported_zones_valid:
  assumes "exemption_wf K s"
  shows "exemption_ValidateGenesis K (exported_zones s) = Ok ()"
proof -
  note wf = wf_zones [OF assms]
  have "ofold (\<lambda>a _. obind (AccAddressFromBech32 K a) (\<lambda>_. Ok ())) (map fst (filter (\<lambda>e. snd e = n) (ZoneOf s))) () = Ok ()" for n
    by (rule ofold_unit) (use wf(3) in \<open>auto simp: is_Ok_iff\<close>)
  then have "ofold (\<lambda>(zone, addresses) _. if zone \<notin> set (map fst (Zones s)) then Err ErrZoneNotExist
      else ofold (\<lambda>a _. obind (AccAddressFromBech32 K a) (\<lambda>_. Ok ())) addresses ())
      (eg_AddressesByZone (exported_zones s)) () = Ok ()"
    by (intro ofold_unit) (simp add: exported_zones_def)
  then show ?thesis
    unfolding exemption_ValidateGenesis_def exported_zones_def exemption_genesis.simps wf(1) by simp
qed

lemma exemption_ExportGenesis_run:
  assumes "exemption_wf K s"
  shows "exemption_ExportGenesis K s = (Ok (exported_zones s), s)"
proof -
  let ?zs = "fold (\<lambda>z m. kv_set (z_Name z) ([] :: string list) m) (map snd (Zones s)) []"
  let ?m = "collect_addresses (ZoneOf s) ?zs"
  note wf = wf_zones [OF assms]
  have ok: "kv_ok ?zs" by (rule zone_fold) simp
  have g0: "kv_get n ?zs = (if n \<in> set (map fst (Zones s)) then Some [] else None)" for n
    using zone_fold(2) [of "[]" n "[] :: string list" "map snd (Zones s)"] unfolding wf(1) by simp
  have "kv_has n ?zs = kv_has n (Zones s)" for n
    using g0 [of n] by (simp add: kv_has_def [of _ ?zs] kv_has_iff [of _ "Zones s"])
  then have "map fst ?zs = map fst (Zones s)"
    using kv_keys_eq [OF ok, of "Zones s"] assms by (simp add: exemption_wf_def)
  then have "sort (map fst ?m) = map fst (Zones s)"
    using collect_keys [OF ok] assms by (simp add: exemption_wf_def kv_ok_def sorted_sort_id strict_sorted_imp_sorted)
  moreover have "map (\<lambda>n. (n, case kv_get n ?m of None \<Rightarrow> [] | Some a \<Rightarrow> a)) (map fst (Zones s)) = eg_AddressesByZone (exported_zones s)"
    by (rule map_cong [OF refl, THEN trans]) (auto simp: exported_zones_def collect_get g0)
  ultimately have "\<lparr>eg_ZoneList = map snd (Zones s), eg_AddressesByZone =
      map (\<lambda>n. (n, case kv_get n ?m of None \<Rightarrow> [] | Some a \<Rightarrow> a)) (sort (map fst ?m))\<rparr> = exported_zones s"
    by (simp add: exported_zones_def)
  then show ?thesis
    using exported_zones_valid [OF assms] by (simp add: exemption_ExportGenesis_def Let_def bnd_Ok seq_run)
qed

lemma import_zones:
  fixes s :: "('b, 'x) exemption_state_scheme"
  assumes "\<forall>z\<in>set zs. z_Name z \<noteq> []"
  shows "for_each zs (\<lambda>zone. bnd (attempt (AddTaxExemptionZone zone)) (\<lambda>_. ret ())) s =
    (Ok (), s\<lparr>Zones := fold (\<lambda>z. kv_set (z_Name z) z) zs (Zones s)\<rparr>)"
proof -
  define h :: "zone \<Rightarrow> (('b, 'x) exemption_state_scheme, unit) go"
    where "h = (\<lambda>zone. bnd (attempt (AddTaxExemptionZone zone)) (\<lambda>_. ret ()))"
  have "for_each zs h s = (Ok (), s\<lparr>Zones := fold (\<lambda>z. kv_set (z_Name z) z) zs (Zones s)\<rparr>)"
    using assms
  proof (induction zs arbitrary: s)
    case (Cons z zs)
    have "h z s = (Ok (), s\<lparr>Zones := kv_set (z_Name z) z (Zones s)\<rparr>)"
      using Cons.prems by (simp add: h_def AddTaxExemptionZone_def attempt_def bnd_def)
    then show ?case using Cons by (simp add: seq_run)
  qed simp
  then show ?thesis unfolding h_def .
qed

lemma import_addresses:
  fixes s :: "('b, 'x) exemption_state_scheme"
  assumes "distinct (map snd ps)"
    "\<forall>p\<in>set ps. is_Ok (AccAddressFromBech32 K (snd p)) \<and> kv_has (fst p) (Zones s) \<and> kv_get (snd p) (ZoneOf s) = None"
  shows "for_each ps (\<lambda>(n, a). bnd (attempt (AddTaxExemptionAddress K n a)) (\<lambda>_. ret ())) s =
    (Ok (), s\<lparr>ZoneOf := fold (\<lambda>(k, v). kv_set k v) (map prod.swap ps) (ZoneOf s)\<rparr>)"
proof -
  define h :: "string \<times> string \<Rightarrow> (('b, 'x) exemption_state_scheme, unit) go"
    where "h = (\<lambda>(n, a). bnd (attempt (AddTaxExemptionAddress K n a)) (\<lambda>_. ret ()))"
  have "for_each ps h s = (Ok (), s\<lparr>ZoneOf := fold (\<lambda>(k, v). kv_set k v) (map prod.swap ps) (ZoneOf s)\<rparr>)"
    using assms
  proof (induction ps arbitrary: s)
    case (Cons p ps)
    obtain n a where p: "p = (n, a)" by fastforce
    have "h p s = (Ok (), s\<lparr>ZoneOf := kv_set a n (ZoneOf s)\<rparr>)"
      using Cons.prems p by (auto simp: h_def AddTaxExemptionAddress_run attempt_def bnd_def is_Ok_iff)
    moreover have "\<forall>p\<in>set ps. snd p \<noteq> a" using Cons.prems(1) p by (auto simp: image_iff)
    then have "for_each ps h (s\<lparr>ZoneOf := kv_set a n (ZoneOf s)\<rparr>) =
      (Ok (), s\<lparr>ZoneOf := fold (\<lambda>(k, v). kv_set k v) (map prod.swap ps) (kv_set a n (ZoneOf s))\<rparr>)"
      using Cons.IH [of "s\<lparr>ZoneOf := kv_set a n (ZoneOf s)\<rparr>"] Cons.prems by simp
    ultimately show ?case using p by (simp add: seq_run)
  qed simp
  then show ?thesis unfolding h_def .
qed

text \<open>The addresses of the zones, as pairs in the order of the import.\<close>

definition import_pairs :: "('b, 'x) exemption_state_scheme \<Rightarrow> (string \<times> string) list" where
  "import_pairs s = concat (map (\<lambda>n. map (Pair n) (map fst (filter (\<lambda>e. snd e = n) (ZoneOf s)))) (map fst (Zones s)))"

lemma import_pairs_mset:
  assumes "exemption_wf K s"
  shows "mset (map prod.swap (import_pairs s)) = mset (ZoneOf s)"
proof -
  have "map prod.swap (map (Pair n) (map fst (filter (\<lambda>e. snd e = n) es))) = filter (\<lambda>e. snd e = n) es" for n and es :: "string kv"
    by (induction es) auto
  then have "map prod.swap (import_pairs s) = concat (map (\<lambda>n. filter (\<lambda>e. snd e = n) (ZoneOf s)) (map fst (Zones s)))"
    by (simp add: import_pairs_def map_concat o_def)
  moreover have "filter (\<lambda>e. snd e \<in> set (map fst (Zones s))) (ZoneOf s) = ZoneOf s"
    using wf_zones(3) [OF assms] by (simp add: filter_id_conv)
  moreover have "distinct (map fst (Zones s))"
    using assms kvs.entries_distinct by (auto simp: exemption_wf_def)
  ultimately show ?thesis using mset_group [of "map fst (Zones s)" snd "ZoneOf s"] by simp
qed

text \<open>Exporting the zones and importing them into a fresh store gives the same zones with the same members, and
  the exported state passes its own validation.\<close>

lemma exemption_genesis_roundtrip:
  assumes "exemption_wf K s" "Zones s0 = []" "ZoneOf s0 = []"
  shows "\<exists>g. exemption_ExportGenesis K s = (Ok g, s) \<and> exemption_ValidateGenesis K g = Ok ()
    \<and> exemption_InitGenesis K g s0 = (Ok (), s0\<lparr>Zones := Zones s, ZoneOf := ZoneOf s\<rparr>)"
proof (intro exI conjI)
  note wf = wf_zones [OF assms(1)]
  show "exemption_ExportGenesis K s = (Ok (exported_zones s), s)" by (rule exemption_ExportGenesis_run [OF assms(1)])
  show "exemption_ValidateGenesis K (exported_zones s) = Ok ()" by (rule exported_zones_valid [OF assms(1)])
  have "\<forall>e\<in>set m. z_Name (snd e) = fst e \<Longrightarrow>
      fold (\<lambda>z. kv_set (z_Name z) z) (map snd m) acc = fold (\<lambda>(k, v). kv_set k v) m acc" for m acc
    by (induction m arbitrary: acc) auto
  from this [of "Zones s" "[]"] have zs: "fold (\<lambda>z. kv_set (z_Name z) z) (map snd (Zones s)) [] = Zones s"
    using kvs.rebuild [of "Zones s" "Zones s"] assms(1) wf(1) by (simp add: exemption_wf_def)
  let ?t = "s0\<lparr>Zones := Zones s\<rparr>"
  note ps = import_pairs_mset [OF assms(1)]
  have d: "distinct (map snd (import_pairs s))"
    using ps kvs.entries_distinct [of "ZoneOf s"] assms(1) mset_eq_imp_distinct_iff [of "map snd (import_pairs s)" "map fst (ZoneOf s)"]
      mset_map [of fst "map prod.swap (import_pairs s)"] by (simp add: exemption_wf_def o_def prod.swap_def)
  have ok: "\<forall>p\<in>set (import_pairs s). is_Ok (AccAddressFromBech32 K (snd p)) \<and> kv_has (fst p) (Zones ?t) \<and> kv_get (snd p) (ZoneOf ?t) = None"
    using wf(3) assms(3) by (auto simp: import_pairs_def kv_has_iff)
  have "exemption_InitGenesis K (exported_zones s) s0 =
      for_each (import_pairs s) (\<lambda>(n, a). bnd (attempt (AddTaxExemptionAddress K n a)) (\<lambda>_. ret ())) ?t"
    unfolding exemption_InitGenesis_def exported_zones_def exemption_genesis.simps for_each_nested import_pairs_def [symmetric]
    by (rule seq_run) (simp add: import_zones wf(2) [simplified] assms(2) zs)
  also have "\<dots> = (Ok (), s0\<lparr>Zones := Zones s, ZoneOf := ZoneOf s\<rparr>)"
    using import_addresses [OF d ok] kvs.rebuild [OF _ ps] assms by (simp add: exemption_wf_def)
  finally show "exemption_InitGenesis K (exported_zones s) s0 = (Ok (), s0\<lparr>Zones := Zones s, ZoneOf := ZoneOf s\<rparr>)" .
qed

end
