(* ===== verification/Exemption_Sample.thy ===== *)
theory Exemption_Sample
  imports Exemption_Zones Treasury_Sample
begin

text \<open>A chain with two zones, on which the theorems of the tax exemption module are instantiated.\<close>

definition no_zones :: "ledger exemption_state" where
  "no_zones = treasury_state.extend sample_treasury \<lparr>Zones = [], ZoneOf = []\<rparr>"

definition acc_a :: string where "acc_a = AccAddress_String sdk0 val_a"
definition acc_b :: string where "acc_b = AccAddress_String sdk0 val_b"

lemma acc_addresses [simp]: "bech_decode ''terra1'' acc_a = Ok val_a" "bech_decode ''terra1'' acc_b = Ok val_b"
  using addr_laws.AccAddress_roundtrip [OF sdk0_addr, of val_a] addr_laws.AccAddress_roundtrip [OF sdk0_addr, of val_b]
  by (simp_all add: acc_a_def acc_b_def)

lemma acc_order: "acc_a < acc_b"
  by (simp add: acc_a_def acc_b_def val_a_def val_b_def bech_encode_def hex_EncodeToString_def hex_digit_def less_char_def)

lemma acc_distinct [simp]: "acc_a \<noteq> acc_b" "acc_b \<noteq> acc_a"
  using acc_order by auto

definition zone_a :: zone where
  "zone_a = \<lparr>z_Name = ''a'', z_Outgoing = True, z_Incoming = False, z_CrossZone = False\<rparr>"

definition zone_b :: zone where
  "zone_b = \<lparr>z_Name = ''b'', z_Outgoing = False, z_Incoming = True, z_CrossZone = True\<rparr>"

definition two_zones :: "ledger exemption_state" where
  "two_zones = no_zones\<lparr>Zones := [(''a'', zone_a), (''b'', zone_b)],
     ZoneOf := [(acc_a, ''a''), (acc_b, ''b'')]\<rparr>"

lemmas zone_sample_simps = two_zones_def zone_a_def zone_b_def no_zones_def treasury_state.extend_def

lemma two_zones_wf: "exemption_wf sdk0 two_zones"
  by (simp add: exemption_wf_def zone_sample_simps kv_ok_def kv_has_def is_Ok_iff acc_order)

theorem exemption_reachable_wf_witness:
  "\<exists>s :: ledger exemption_state. exemption_reachable sdk0 ''gov'' s \<and> exemption_wf sdk0 s \<and> ZoneOf s = [(acc_a, ''a'')]"
proof -
  let ?s = "no_zones\<lparr>Zones := [(''a'', zone_a)], ZoneOf := [(acc_a, ''a'')]\<rparr>"
  have "exemption_handle sdk0 ''gov'' (MsgAddTaxExemptionZone ''a'' True False False [acc_a] ''gov'') no_zones = (Ok (), ?s)"
    by (simp add: zone_sample_simps AddTaxExemptionZone_def AddTaxExemptionAddress_run seq_case kv_has_def)
  from exemption_step.message [OF this] have "exemption_reachable sdk0 ''gov'' ?s"
    by (rule exemption_reachable.step [OF exemption_reachable.empty, rotated 2]) (simp_all add: zone_sample_simps)
  then show ?thesis using exemption_reachable_wf [of sdk0 "''gov''" ?s] by (intro exI [of _ ?s]) simp
qed

theorem RemoveTaxExemptionZone_clears_witness:
  "\<exists>s'. exemption_handle sdk0 ''gov'' (MsgRemoveTaxExemptionZone ''a'' ''gov'') two_zones = (Ok (), s')
     \<and> kv_get ''a'' (Zones s') = None \<and> kv_get acc_a (ZoneOf s') = None \<and> kv_get acc_b (ZoneOf s') = Some ''b''"
  using RemoveTaxExemptionZone_clears [OF two_zones_wf, of "''a''" "''gov''"]
  by (auto simp: zone_sample_simps kv_has_def)

theorem exemption_genesis_roundtrip_witness:
  "\<exists>g. exemption_ExportGenesis sdk0 two_zones = (Ok g, two_zones) \<and> exemption_InitGenesis sdk0 g no_zones = (Ok (), two_zones)"
  using exemption_genesis_roundtrip [OF two_zones_wf, of no_zones] by (auto simp: zone_sample_simps)

end
