(* ===== verification/Tax.thy ===== *)
theory Tax
  imports Tax_Exemption
begin

text \<open>
  The tax module (\<open>x/tax\<close>): the burn tax rate and the gas prices, the computation of the tax on a transfer, its
  deduction from the amount sent (reverse charge) and the split of the collected tax; the bank and market message
  servers that apply it (\<open>x/tax/handlers\<close>) and the post handler that collects the tax that is due after the
  messages (\<open>x/tax/post\<close>).  Events and log lines are not modelled.
\<close>

section \<open>Parameters\<close>

definition FeeCollectorName :: string where "FeeCollectorName = ''fee_collector''"

text \<open>The burn tax rate of parameters that were never stored is the nil decimal (\<open>None\<close>); using it panics.\<close>

record tax_params =
  xp_GasPrices :: dec_coins
  xp_BurnTaxRate :: "dec option"

definition default_gas_prices :: "(string \<times> dec) list" where
  "default_gas_prices =
     [(''uluna'', NewDecWithPrec 28325 3), (''usdr'', NewDecWithPrec 52469 5), (''uusd'', NewDecWithPrec 75 2),
      (''ukrw'', NewDecWithPrec 850 0), (''umnt'', NewDecWithPrec 2142855 3), (''ueur'', NewDecWithPrec 625 3),
      (''ucny'', NewDecWithPrec 49 1), (''ujpy'', NewDecWithPrec 8185 2), (''ugbp'', NewDecWithPrec 55 2),
      (''uinr'', NewDecWithPrec 544 1), (''ucad'', NewDecWithPrec 95 2), (''uchf'', NewDecWithPrec 7 1),
      (''uaud'', NewDecWithPrec 95 2), (''usgd'', NewDec 1), (''uthb'', NewDecWithPrec 231 1),
      (''usek'', NewDecWithPrec 625 2), (''unok'', NewDecWithPrec 625 2), (''udkk'', NewDecWithPrec 45 1),
      (''uidr'', NewDecWithPrec 10900 0), (''uphp'', NewDecWithPrec 38 0), (''uhkd'', NewDecWithPrec 585 2),
      (''umyr'', NewDecWithPrec 3 0), (''utwd'', NewDecWithPrec 20 0)]"

definition DefaultGasPrices :: "'z coin_ops_scheme \<Rightarrow> dec_coins outcome" where
  "DefaultGasPrices K =
     obind (ofold (\<lambda>(denom, price) coins. obind (NewDecCoinFromDec K denom price) (\<lambda>c. Ok (coins @ [c]))) default_gas_prices [])
       (NewDecCoins K)"

definition tax_DefaultParams :: "'z coin_ops_scheme \<Rightarrow> tax_params outcome" where
  "tax_DefaultParams K =
     obind (DefaultGasPrices K) (\<lambda>prices. Ok \<lparr>xp_GasPrices = prices, xp_BurnTaxRate = Some (NewDecWithPrec 5 3)\<rparr>)"

text \<open>The checks are commented out.\<close>

definition tax_Params_Validate :: "tax_params \<Rightarrow> unit outcome" where
  "tax_Params_Validate p = Ok ()"

section \<open>Keeper\<close>

record 'b tax_state = "'b exemption_state" +
  x_params :: "tax_params option"

text \<open>A nil decimal is stored as zero.\<close>

definition tax_SetParams :: "tax_params \<Rightarrow> (('b, 'x) tax_state_scheme, unit) go" where
  "tax_SetParams params =
     seq (lift (tax_Params_Validate params))
     (modify (\<lambda>s. s\<lparr>x_params := Some (params\<lparr>xp_BurnTaxRate := Some (case xp_BurnTaxRate params of None \<Rightarrow> 0 | Some r \<Rightarrow> r)\<rparr>)\<rparr>))"

definition tax_GetParams :: "(('b, 'x) tax_state_scheme, tax_params) go" where
  "tax_GetParams = gets (\<lambda>s. case x_params s of None \<Rightarrow> \<lparr>xp_GasPrices = [], xp_BurnTaxRate = None\<rparr> | Some p \<Rightarrow> p)"

definition GetGasPrices :: "'z coin_ops_scheme \<Rightarrow> (('b, 'x) tax_state_scheme, dec_coins) go" where
  "GetGasPrices K = bnd tax_GetParams (\<lambda>p. ret (deccoins_Sort K (xp_GasPrices p)))"

definition GetBurnTaxRate :: "(('b, 'x) tax_state_scheme, dec option) go" where
  "GetBurnTaxRate = bnd tax_GetParams (\<lambda>p. ret (xp_BurnTaxRate p))"

text \<open>The value of a decimal; a nil one panics when it is used.\<close>

definition the_dec :: "dec option \<Rightarrow> dec outcome" where
  "the_dec r = (case r of None \<Rightarrow> Panic | Some d \<Rightarrow> Ok d)"

definition ComputeTax :: "'z coin_ops_scheme \<Rightarrow> coins \<Rightarrow> (('b, 'x) tax_state_scheme, coins) go" where
  "ComputeTax K amount =
     bnd GetBurnTaxRate (\<lambda>burnTaxRate.
     lift (ofold (\<lambda>coin taxes.
       obind (the_dec burnTaxRate) (\<lambda>rate.
       obind (dec_Mul K (NewDec (Amount coin)) rate) (\<lambda>product.
       let taxAmount = dec_TruncateInt K product in
       if 0 < taxAmount then obind (NewCoin K (Denom coin) taxAmount) (\<lambda>c. coins_Add K taxes [c]) else Ok taxes)))
     amount []))"

text \<open>
  The context of a transaction: what the ante handlers put into \<open>sdk.Context\<close>.  The three last fields are the values
  under the keys of \<open>x/tax/types/keys.go\<close>.
\<close>

record tx_ctx =
  MinGasPrices :: dec_coins
  IsCheckTx :: bool
  IsReCheckTx :: bool
  Priority :: int
  TaxReverseCharge :: "bool option"
  TaxDue :: "coins option"
  TaxPayer :: "string option"

text \<open>The type assertion panics on a context without the value.\<close>

definition IsReverseCharge :: "tx_ctx \<Rightarrow> bool outcome" where
  "IsReverseCharge ctx = (case TaxReverseCharge ctx of None \<Rightarrow> Panic | Some b \<Rightarrow> Ok b)"

definition GetEffectiveGasPrices :: "'z coin_ops_scheme \<Rightarrow> tx_ctx \<Rightarrow> (('b, 'x) tax_state_scheme, dec_coins) go" where
  "GetEffectiveGasPrices K ctx =
     bnd (GetGasPrices K) (\<lambda>taxGasPrices.
     if deccoins_IsZero K taxGasPrices then ret (MinGasPrices ctx)
     else lift (ofold (\<lambda>gasPrice gasPrices.
            obind (deccoins_AmountOf K (MinGasPrices ctx) (Denom gasPrice)) (\<lambda>m.
            Ok (gasPrices @ [\<lparr>Denom = Denom gasPrice, Amount = max m (Amount gasPrice)\<rparr>])))
          taxGasPrices []))"

definition GetGasPriceForDenom :: "'z coin_ops_scheme \<Rightarrow> string \<Rightarrow> (('b, 'x) tax_state_scheme, dec) go" where
  "GetGasPriceForDenom K denom =
     bnd (GetGasPrices K) (\<lambda>prices.
     ret (case find (\<lambda>p. Denom p = denom) prices of None \<Rightarrow> 0 | Some p \<Rightarrow> Amount p))"

section \<open>Tax splits\<close>

text \<open>One of the loops: the rounded share of every coin.\<close>

definition split_coins :: "'z coin_ops_scheme \<Rightarrow> dec \<Rightarrow> coins \<Rightarrow> coins outcome" where
  "split_coins K rate coins =
     ofold (\<lambda>coin acc. obind (NewCoin K (Denom coin) (dec_RoundInt K (rate * Amount coin))) (\<lambda>c. coins_Add K acc [c])) coins []"

definition apply_community_tax :: "'z coin_ops_scheme \<Rightarrow> dec \<Rightarrow> dec \<Rightarrow> dec outcome" where
  "apply_community_tax K communityTax oracleSplitRate =
     obind (dec_Mul K communityTax oracleSplitRate) (\<lambda>m.
     obind (dec_Quo K oracleSplitRate (m + OneDec - communityTax)) (\<lambda>q.
     dec_Mul K communityTax q))"

definition ProcessTaxSplits :: "('b, 'z) staking_ops_scheme \<Rightarrow> coins \<Rightarrow> (('b, 'x) treasury_state_scheme, unit) go" where
  "ProcessTaxSplits K taxes0 =
     bnd GetBurnSplitRate (\<lambda>burnSplitRate.
     bnd GetOracleSplitRate (\<lambda>oracleSplitRate.
     bnd (gets (\<lambda>s. GetCommunityTax K (ext s))) (\<lambda>communityTax.
     bnd (lift (if 0 < burnSplitRate
                then obind (split_coins K burnSplitRate taxes0) (\<lambda>delta.
                     obind (coins_Sub K taxes0 delta) (\<lambda>taxes. Ok (delta, taxes)))
                else Ok ([], taxes0))) (\<lambda>(delta0, taxes).
     bnd (lift (if 0 < communityTax
                then obind (apply_community_tax K communityTax oracleSplitRate) (\<lambda>applyCommunityTax.
                     obind (split_coins K applyCommunityTax delta0) (\<lambda>communityTaxCoins.
                     obind (coins_Sub K delta0 communityTaxCoins) (\<lambda>delta. Ok (communityTaxCoins, delta))))
                else Ok ([], delta0))) (\<lambda>(communityTaxCoins, delta).
     bnd (lift (if 0 < oracleSplitRate then split_coins K oracleSplitRate delta else Ok [])) (\<lambda>oracleSplitCoins.
     seq (on_true (\<not> coins_IsZero K communityTaxCoins)
            (seq (sdk_call (SendCoinsFromModuleToModule K FeeCollectorName distribution_ModuleName communityTaxCoins))
                 (fund_community_pool K communityTaxCoins)))
     (seq (on_true (\<not> coins_IsZero K oracleSplitCoins)
             (sdk_call (SendCoinsFromModuleToModule K FeeCollectorName oracle_ModuleName oracleSplitCoins)))
     (on_true (\<not> coins_IsZero K taxes)
        (sdk_call (SendCoinsFromModuleToModule K FeeCollectorName BurnModuleName taxes))))))))))"

text \<open>\<open>skipDeduct\<close>: compute the net amount only.\<close>

definition DeductTax ::
  "('b, 'z) staking_ops_scheme \<Rightarrow> tx_ctx \<Rightarrow> string \<Rightarrow> coins \<Rightarrow> bool \<Rightarrow> (('b, 'x) tax_state_scheme, coins) go" where
  "DeductTax K ctx sender amount skipDeduct =
     bnd (lift (IsReverseCharge ctx)) (\<lambda>reverse.
     if \<not> reverse then ret amount
     else
       bnd (ComputeTax K amount) (\<lambda>taxes.
       bnd (lift (coins_Sub K amount taxes)) (\<lambda>netAmount.
       seq (on_true (\<not> coins_IsZero K taxes \<and> \<not> skipDeduct)
              (seq (sdk_call (SendCoinsFromAccountToModule K sender FeeCollectorName taxes))
              (seq (ProcessTaxSplits K taxes)
                   (RecordEpochTaxProceeds K taxes))))
       (ret netAmount))))"

section \<open>Governance and genesis\<close>

text \<open>The keeper's authority is the argument \<open>gov\<close>.\<close>

definition tax_UpdateParams :: "string \<Rightarrow> string \<Rightarrow> tax_params \<Rightarrow> (('b, 'x) tax_state_scheme, unit) go" where
  "tax_UpdateParams gov authority params =
     (if gov \<noteq> authority then raise ErrInvalidSigner else tax_SetParams params)"

definition MsgUpdateParams_ValidateBasic :: "tax_params \<Rightarrow> unit outcome" where
  "MsgUpdateParams_ValidateBasic params = tax_Params_Validate params"

text \<open>An authority that does not parse becomes the empty address.\<close>

definition MsgUpdateParams_GetSigners :: "('b, 'z) addr_ops_scheme \<Rightarrow> string \<Rightarrow> string list outcome" where
  "MsgUpdateParams_GetSigners K authority =
     (case AccAddressFromBech32 K authority of Ok a \<Rightarrow> Ok [a] | Err _ \<Rightarrow> Ok [[]] | Panic \<Rightarrow> Panic)"

definition tax_ValidateGenesis :: "tax_params \<Rightarrow> unit outcome" where
  "tax_ValidateGenesis params = tax_Params_Validate params"

text \<open>The genesis state is the parameters alone; the error of \<open>SetParams\<close> is dropped.\<close>

definition tax_InitGenesis :: "tax_params \<Rightarrow> (('b, 'x) tax_state_scheme, unit) go" where
  "tax_InitGenesis params =
     seq (must (lift (tax_ValidateGenesis params)))
     (bnd (attempt (tax_SetParams params)) (\<lambda>_. ret ()))"

definition tax_ExportGenesis :: "(('b, 'x) tax_state_scheme, tax_params) go" where
  "tax_ExportGenesis = tax_GetParams"

section \<open>Message servers\<close>

record msg_send =
  bs_FromAddress :: string
  bs_ToAddress :: string
  bs_Amount :: coins

text \<open>Inputs and outputs are pairs of an address and coins.\<close>

record msg_multi_send =
  bm_Inputs :: "(string \<times> coins) list"
  bm_Outputs :: "(string \<times> coins) list"

text \<open>
  The services of the sdk that transactions use: the bank's message server behind the chain's own, accounts and fee
  grants.
\<close>

record 'b tx_ops =
  bank_Send :: "msg_send \<Rightarrow> ('b, unit) go"
  bank_MultiSend :: "msg_multi_send \<Rightarrow> ('b, unit) go"
  HasAccount :: "'b \<Rightarrow> string \<Rightarrow> bool"

definition BankMsgServer_Send ::
  "('b, 'y) tx_ops_scheme \<Rightarrow> ('b, 'z) staking_ops_scheme \<Rightarrow> tx_ctx \<Rightarrow> msg_send \<Rightarrow> (('b, 'x) tax_state_scheme, unit) go" where
  "BankMsgServer_Send A K ctx msg =
     bnd (lift (IsReverseCharge ctx)) (\<lambda>reverse.
     if \<not> reverse then sdk_call (bank_Send A msg)
     else
       bnd (must (lift (AccAddressFromBech32 K (bs_FromAddress msg)))) (\<lambda>fromAddr.
       bnd (IsExemptedFromTax (bs_FromAddress msg) [bs_ToAddress msg]) (\<lambda>exempt.
       bnd (if exempt then ret (bs_Amount msg) else DeductTax K ctx fromAddr (bs_Amount msg) False) (\<lambda>amount.
       sdk_call (bank_Send A (msg\<lparr>bs_Amount := amount\<rparr>))))))"

text \<open>Whether some input is not exempt.\<close>

primrec tainted_inputs :: "(string \<times> coins) list \<Rightarrow> string list \<Rightarrow> (('b, 'x) exemption_state_scheme, bool) go" where
  "tainted_inputs [] outputAddresses = ret False"
| "tainted_inputs (input # inputs) outputAddresses =
     bnd (IsExemptedFromTax (fst input) outputAddresses) (\<lambda>exempt.
     if \<not> exempt then ret True else tainted_inputs inputs outputAddresses)"

definition deduct_side ::
  "('b, 'z) staking_ops_scheme \<Rightarrow> tx_ctx \<Rightarrow> bool \<Rightarrow> (string \<times> coins) list \<Rightarrow> (('b, 'x) tax_state_scheme, (string \<times> coins) list) go" where
  "deduct_side K ctx skipDeduct entries =
     fold_each entries (\<lambda>(address, cs) acc.
       bnd (must (lift (AccAddressFromBech32 K address))) (\<lambda>addr.
       bnd (DeductTax K ctx addr cs skipDeduct) (\<lambda>netCoins.
       ret (acc @ [(address, netCoins)])))) []"

definition BankMsgServer_MultiSend ::
  "('b, 'y) tx_ops_scheme \<Rightarrow> ('b, 'z) staking_ops_scheme \<Rightarrow> tx_ctx \<Rightarrow> msg_multi_send \<Rightarrow> (('b, 'x) tax_state_scheme, unit) go" where
  "BankMsgServer_MultiSend A K ctx msg =
     bnd (lift (IsReverseCharge ctx)) (\<lambda>reverse.
     if \<not> reverse then sdk_call (bank_MultiSend A msg)
     else
       bnd (tainted_inputs (bm_Inputs msg) (map fst (bm_Outputs msg))) (\<lambda>tainted.
       bnd (if tainted
            then bnd (deduct_side K ctx False (bm_Inputs msg)) (\<lambda>inputs.
                 bnd (deduct_side K ctx True (bm_Outputs msg)) (\<lambda>outputs.
                 ret \<lparr>bm_Inputs = inputs, bm_Outputs = outputs\<rparr>))
            else ret msg) (\<lambda>msg'.
       sdk_call (bank_MultiSend A msg'))))"

text \<open>Taking the first coin of the net offer panics when nothing is left of it.\<close>

definition MarketMsgServer_SwapSend ::
  "('b, 'z) staking_ops_scheme \<Rightarrow> tx_ctx \<Rightarrow> msg_swap_send \<Rightarrow> (('b, 'x) tax_state_scheme, coin \<times> coin) go" where
  "MarketMsgServer_SwapSend K ctx msg =
     bnd (lift (IsReverseCharge ctx)) (\<lambda>reverse.
     if \<not> reverse then SwapSend K msg
     else
       bnd (must (lift (AccAddressFromBech32 K (mss_FromAddress msg)))) (\<lambda>sender.
       bnd (lift (NewCoins K [mss_OfferCoin msg])) (\<lambda>offer.
       bnd (DeductTax K ctx sender offer False) (\<lambda>netOfferCoin.
       case netOfferCoin of
         [] \<Rightarrow> panic
       | c # _ \<Rightarrow> SwapSend K (msg\<lparr>mss_OfferCoin := c\<rparr>)))))"

section \<open>Post handler\<close>

definition ErrInsufficientFee :: error where "ErrInsufficientFee = SdkErr ''ErrInsufficientFee''"
definition ErrInsufficientFunds :: error where "ErrInsufficientFunds = SdkErr ''ErrInsufficientFunds''"

text \<open>\<open>DeductFees\<close> of the ante handlers.\<close>

definition DeductFees :: "('b, 'z) bank_ops_scheme \<Rightarrow> string \<Rightarrow> coins \<Rightarrow> (('b, 'x) chain_scheme, unit) go" where
  "DeductFees K acc fees =
     (if \<not> coins_IsValid K fees then raise ErrInsufficientFee
      else wrap_go ErrInsufficientFunds (sdk_call (SendCoinsFromAccountToModule K acc FeeCollectorName fees)))"

definition tax_PostHandle ::
  "('b, 'y) tx_ops_scheme \<Rightarrow> ('b, 'z) staking_ops_scheme \<Rightarrow> tx_ctx \<Rightarrow>
   (tx_ctx \<Rightarrow> (('b, 'x) tax_state_scheme, tx_ctx) go) \<Rightarrow> (('b, 'x) tax_state_scheme, tx_ctx) go" where
  "tax_PostHandle A K ctx next =
     (case TaxDue ctx of
        None \<Rightarrow> next ctx
      | Some dueTax \<Rightarrow>
          if coins_IsZero K dueTax then next ctx
          else
            bnd (lift (case TaxPayer ctx of None \<Rightarrow> Panic
                       | Some payer \<Rightarrow> wrap_err ErrInvalidAddress (AccAddressFromBech32 K payer))) (\<lambda>deductFeesFrom.
            bnd (gets (\<lambda>s. HasAccount A (ext s) deductFeesFrom)) (\<lambda>found.
            if \<not> found then raise ErrUnknownAddress
            else
              seq (DeductFees K deductFeesFrom dueTax)
              (seq (ProcessTaxSplits K dueTax)
              (seq (RecordEpochTaxProceeds K dueTax)
              (next ctx))))))"

end
