(* ===== verification/Tax_Split.thy ===== *)
theory Tax_Split
  imports Tax Treasury_Epoch
begin

text \<open>What the tax module promises: the tax is the exact floor of the rate, and the split distributes it completely.\<close>

section \<open>Loops over coins\<close>

text \<open>
  A loop that adds, for every coin of a valid list, a coin of the same denomination: the result holds \<open>F\<close> of every
  amount, for the function \<open>F\<close> the loop applies to one amount.
\<close>

lemma coins_loop:
  assumes "valid_coins K cs" "F 0 = 0" "coin_laws K"
    and step: "\<And>c acc. c \<in> set cs \<Longrightarrow> valid_coins K acc \<Longrightarrow>
      \<exists>r. h c acc = Ok r \<and> valid_coins K r \<and> (\<forall>d. amt r d = amt acc d + (if Denom c = d then F (Amount c) else 0))"
  shows "\<exists>r. ofold h cs [] = Ok r \<and> valid_coins K r \<and> (\<forall>d. amt r d = F (amt cs d))"
proof -
  have loop: "\<exists>r. ofold h xs acc = Ok r \<and> valid_coins K r \<and> (\<forall>d. amt r d = amt acc d + (\<Sum>c\<leftarrow>xs. if Denom c = d then F (Amount c) else 0))"
    if "set xs \<subseteq> set cs" "valid_coins K acc" for xs acc
    using that
  proof (induction xs arbitrary: acc)
    case (Cons c xs)
    obtain r where r: "h c acc = Ok r" "valid_coins K r" "\<forall>d. amt r d = amt acc d + (if Denom c = d then F (Amount c) else 0)"
      using step [of c acc] Cons.prems by auto
    obtain r' where "ofold h xs r = Ok r'" "valid_coins K r'"
      "\<forall>d. amt r' d = amt r d + (\<Sum>c\<leftarrow>xs. if Denom c = d then F (Amount c) else 0)"
      using Cons.IH [OF _ r(2)] Cons.prems(1) by auto
    then show ?case using r by (intro exI [of _ r']) simp
  qed auto
  have total: "(\<Sum>c\<leftarrow>xs. if Denom c = d then F (Amount c) else 0) = F (amt xs d)" if "coins_ok xs" for xs d
    using that
  proof (induction xs)
    case (Cons c xs)
    have "d \<notin> Denom ` set xs" if "Denom c = d" using Cons.prems that by (auto simp: coins_ok_Cons)
    then show ?case using Cons by (auto simp: coins_ok_Cons assms(2))
  qed (simp add: assms(2))
  show ?thesis
    using loop [of cs "[]"] total [of cs] assms(1) coin_laws.valid_coins_Nil [OF assms(3)] by (auto simp: valid_coins_def)
qed

section \<open>The tax on an amount\<close>

lemma ComputeTax_run:
  assumes "coin_laws K" "valid_coins K amount" "x_params s = Some p" "xp_BurnTaxRate p = Some rate" "0 \<le> rate"
    and small: "\<forall>d. amt amount d * rate < 2 ^ 314"
  shows "\<exists>t. ComputeTax K amount s = (Ok t, s) \<and> valid_coins K t \<and> (\<forall>d. amt t d = amt amount d * rate div OneDec)"
proof -
  note D = coin_laws.axioms(1) [OF assms(1)]
  define h :: "coin \<Rightarrow> coins \<Rightarrow> coins outcome" where "h = (\<lambda>coin taxes. obind (the_dec (Some rate)) (\<lambda>rate. obind (dec_Mul K (NewDec (Amount coin)) rate) (\<lambda>product.
       let taxAmount = dec_TruncateInt K product in
       if 0 < taxAmount then obind (NewCoin K (Denom coin) taxAmount) (\<lambda>c. coins_Add K taxes [c]) else Ok taxes)))"
  have "\<exists>r. h c acc = Ok r \<and> valid_coins K r \<and> (\<forall>d. amt r d = amt acc d + (if Denom c = d then Amount c * rate div OneDec else 0))"
    if in_amount: "c \<in> set amount" and acc: "valid_coins K acc" for c acc
  proof -
    have c: "0 < Amount c" "ValidDenom K (Denom c)" "amt amount (Denom c) = Amount c"
      using assms(2) in_amount amt_in [of amount c] by (auto simp: valid_coins_def coins_ok_def)
    have eq: "NewDec (Amount c) * rate = (Amount c * rate) * OneDec" by (simp add: NewDec_def)
    have nn: "0 \<le> Amount c * rate" using c assms(5) by simp
    have "\<bar>NewDec (Amount c) * rate\<bar> < 2 ^ 314 * OneDec"
      unfolding eq using small [rule_format, of "Denom c"] c(1,3) assms(5) by (simp add: abs_mult mult.commute)
    then obtain m where m: "dec_Mul K (NewDec (Amount c)) rate = Ok m"
      using dec_laws.Mul_total [OF D] by (auto simp: is_Ok_iff)
    have "m = Amount c * rate" using dec_laws.Mul_exact [OF D m eq] .
    then have t: "dec_TruncateInt K m = Amount c * rate div OneDec"
      using dec_laws.TruncateInt_nonneg [OF D] nn by simp
    show ?thesis
    proof (cases "0 < Amount c * rate div OneDec")
      case True
      obtain r where "coins_Add K acc [\<lparr>Denom = Denom c, Amount = Amount c * rate div OneDec\<rparr>] = Ok r" "valid_coins K r"
        "\<And>x. amt r x = amt acc x + (if Denom c = x then Amount c * rate div OneDec else 0)"
        using coin_laws.Add_coin [OF assms(1) acc c(2), of "Amount c * rate div OneDec"] True by auto
      then show ?thesis using True c m t by (simp add: h_def the_dec_def coin_laws.NewCoin_eq [OF assms(1)])
    next
      case False
      then have "Amount c * rate div OneDec = 0" using nn by (simp add: order_antisym pos_imp_zdiv_nonneg_iff)
      then show ?thesis using False c m t acc by (simp add: h_def the_dec_def)
    qed
  qed
  then obtain r where "ofold h amount [] = Ok r" "valid_coins K r" "\<forall>d. amt r d = amt amount d * rate div OneDec"
    using coins_loop [OF assms(2) _ assms(1), of "\<lambda>a. a * rate div OneDec" h] by auto
  moreover have "GetBurnTaxRate s = (Ok (Some rate), s)" using assms(3,4) by (simp add: GetBurnTaxRate_def tax_GetParams_def)
  ultimately show ?thesis by (intro exI [of _ r]) (simp add: ComputeTax_def bnd_Ok h_def)
qed

section \<open>The shares\<close>

lemma share_le:
  assumes "dec_laws K" "0 \<le> n" "rate \<le> OneDec"
  shows "dec_RoundInt K (rate * n) \<le> n"
proof -
  have "rate * n \<le> OneDec * n" using assms(2,3) by (intro mult_right_mono)
  then show ?thesis using dec_laws.RoundInt_upper [OF assms(1), of "rate * n"] by linarith
qed

lemma RoundInt_0: "dec_laws K \<Longrightarrow> dec_RoundInt K 0 = 0"
  using dec_laws.RoundInt_NewDec [of K 0] by (simp add: NewDec_def)

lemma split_coins_run:
  assumes "coin_laws K" "valid_coins K cs" "0 \<le> rate"
  shows "\<exists>r. split_coins K rate cs = Ok r \<and> valid_coins K r \<and> (\<forall>d. amt r d = dec_RoundInt K (rate * amt cs d))"
  unfolding split_coins_def
proof (rule coins_loop [OF assms(2) _ assms(1)])
  note D = coin_laws.axioms(1) [OF assms(1)]
  show "dec_RoundInt K (rate * 0) = 0" by (simp add: RoundInt_0 [OF D])
  fix c acc
  assume c: "c \<in> set cs" and acc: "valid_coins K acc"
  have nn: "0 \<le> dec_RoundInt K (rate * Amount c)" and v: "ValidDenom K (Denom c)"
    using assms(2,3) c dec_laws.RoundInt_nonneg [OF D, of "rate * Amount c"] by (auto simp: valid_coins_def coins_ok_def)
  obtain r where "coins_Add K acc [\<lparr>Denom = Denom c, Amount = dec_RoundInt K (rate * Amount c)\<rparr>] = Ok r" "valid_coins K r"
    "\<And>x. amt r x = amt acc x + (if Denom c = x then dec_RoundInt K (rate * Amount c) else 0)"
    by (rule coin_laws.Add_coin [OF assms(1) acc v nn]) (rule that)
  then show "\<exists>r. obind (NewCoin K (Denom c) (dec_RoundInt K (rate * Amount c))) (\<lambda>x. coins_Add K acc [x]) = Ok r
    \<and> valid_coins K r \<and> (\<forall>d. amt r d = amt acc d + (if Denom c = d then dec_RoundInt K (rate * Amount c) else 0))"
    using nn v by (simp add: coin_laws.NewCoin_eq [OF assms(1)])
qed

text \<open>The share taken out of a valid list leaves a valid list.\<close>

lemma split_coins_rest:
  assumes "coin_laws K" "valid_coins K cs" "0 \<le> rate" "rate \<le> OneDec"
  shows "\<exists>r rest. split_coins K rate cs = Ok r \<and> valid_coins K r \<and> (\<forall>d. amt r d = dec_RoundInt K (rate * amt cs d))
    \<and> coins_Sub K cs r = Ok rest \<and> valid_coins K rest \<and> (\<forall>d. amt rest d = amt cs d - amt r d) \<and> (\<forall>d. amt r d \<le> amt cs d)"
proof -
  note D = coin_laws.axioms(1) [OF assms(1)]
  obtain r where r: "split_coins K rate cs = Ok r" "valid_coins K r" "\<forall>d. amt r d = dec_RoundInt K (rate * amt cs d)"
    using split_coins_run [OF assms(1-3)] by auto
  have le: "\<forall>d. amt r d \<le> amt cs d"
    using r(3) share_le [OF D coin_laws.valid_coins_nonneg [OF assms(1,2)] assms(4)] by simp
  then show ?thesis using coin_laws.Sub_ok [OF assms(1,2) r(2) le] r by blast
qed

text \<open>The rate applied for the community tax is a proportion: its rounding errors do not add up to a unit.\<close>

lemma apply_community_tax_range:
  assumes "dec_laws K" "0 < ct" "ct \<le> OneDec" "0 \<le> os" "os \<le> OneDec" "ct < OneDec \<or> 0 < os"
  shows "\<exists>a. apply_community_tax K ct os = Ok a \<and> 0 \<le> a \<and> a \<le> OneDec"
proof -
  have sq: "0 \<le> ct * os" "ct * os \<le> OneDec * OneDec" using assms mult_mono [of ct OneDec os OneDec] by simp_all
  then obtain m where m: "dec_Mul K ct os = Ok m"
    using dec_laws.Mul_total [OF assms(1), of ct os] by (auto simp: is_Ok_iff)
  note mm = dec_laws.Mul_round [OF assms(1) m]
  have m0: "0 \<le> m" "m \<le> OneDec"
    using dec_laws.Mul_nonneg [OF assms(1) m] dec_laws.Mul_le [OF assms(1) m] assms by simp_all
  have exact: "m = os" if "ct = OneDec" using dec_laws.Mul_exact [OF assms(1) m, of os] that by simp
  define den where "den = m + OneDec - ct"
  have den: "0 < den" "den \<le> 2 * OneDec" using m0 assms(2,3,6) exact by (cases "ct = OneDec"; simp add: den_def)+
  have "\<bar>os * OneDec\<bar> < 2 ^ 314 * \<bar>den\<bar>"
  proof -
    have "os * OneDec \<le> OneDec * OneDec" using assms(5) by simp
    also have "\<dots> < 2 ^ 314 * 1" by simp
    also have "\<dots> \<le> 2 ^ 314 * \<bar>den\<bar>" using den(1) by (intro mult_left_mono) auto
    finally show ?thesis using assms(4) by simp
  qed
  then obtain q where q: "dec_Quo K os den = Ok q"
    using dec_laws.Quo_total [OF assms(1), of den os] den(1) by (auto simp: is_Ok_iff)
  have q0: "0 \<le> q" by (rule dec_laws.Quo_nonneg [OF assms(1) q assms(4) den(1)])
  have "q \<le> OneDec * OneDec"
    by (rule dec_laws.Quo_le [OF assms(1) q _ den(1)]) (use assms(5) den(1) mult_mono [of os OneDec 1 den] in simp)
  then have "ct * q \<le> OneDec * (OneDec * OneDec)" using assms(2,3) q0 by (intro mult_mono) auto
  then have "\<bar>ct * q\<bar> < 2 ^ 314 * OneDec" using assms(2) q0 by (simp add: abs_mult)
  then obtain a where a: "dec_Mul K ct q = Ok a" using dec_laws.Mul_total [OF assms(1)] by (auto simp: is_Ok_iff)
  have "a \<le> OneDec"
  proof (cases "ct = OneDec")
    case True
    have "q \<le> OneDec" by (rule dec_laws.Quo_le_one [OF assms(1) q _ den(1)]) (simp add: den_def exact [OF True] True)
    then show ?thesis using dec_laws.Mul_exact [OF assms(1) a, of q] True by simp
  next
    case False
    show ?thesis
    proof (rule ccontr)
      assume "\<not> a \<le> OneDec"
      then have "2 * OneDec * OneDec + OneDec \<le> 2 * (ct * q)" using dec_laws.Mul_upper [OF assms(1) a] by linarith
      then have "(2 * OneDec * OneDec + OneDec) * den \<le> 2 * (ct * q) * den" using den(1) by (intro mult_right_mono) auto
      moreover have "ct * (2 * OneDec * (q * den)) \<le> ct * (2 * OneDec * (os * OneDec) + den * (OneDec + 2))"
        using dec_laws.Quo_upper [OF assms(1) q] den(1) assms(2) by (intro mult_left_mono) auto
      moreover have "ct * den \<le> (OneDec - 1) * den" using den(1) assms(3) False by (intro mult_right_mono) auto
      moreover have "m + 1 \<le> den" using False assms(3) by (simp add: den_def)
      ultimately show False using mm(2) den(2) by (simp add: algebra_simps)
    qed
  qed
  then show ?thesis
    using m q a dec_laws.Mul_nonneg [OF assms(1) a] assms(2) q0 by (simp add: apply_community_tax_def den_def)
qed

text \<open>
  The shares of \<open>n\<close> units of tax: to the community pool, to the oracle and to the burn account.  What is left of the
  part that is not burned stays with the fee collector.
\<close>

definition community_rate :: "'z dec_ops_scheme \<Rightarrow> dec \<Rightarrow> dec \<Rightarrow> dec" where
  "community_rate K ct os =
     (if 0 < ct then (case obind (dec_Mul K ct os) (\<lambda>m. obind (dec_Quo K os (m + OneDec - ct)) (dec_Mul K ct)) of Ok a \<Rightarrow> a | _ \<Rightarrow> 0) else 0)"

definition tax_shares :: "('b, 'z) staking_ops_scheme \<Rightarrow> ('b, 'x) treasury_state_scheme \<Rightarrow> int \<Rightarrow> int \<times> int \<times> int" where
  "tax_shares K s n =
     (let bs = tp_BurnTaxSplit (t_params s); os = tp_OracleSplit (t_params s);
          delta = dec_RoundInt K (bs * n);
          pool = dec_RoundInt K (community_rate K (GetCommunityTax K (ext s)) os * delta)
      in (pool, dec_RoundInt K (os * (delta - pool)), n - delta))"

definition split_rates_ok :: "('b, 'z) staking_ops_scheme \<Rightarrow> ('b, 'x) treasury_state_scheme \<Rightarrow> bool" where
  "split_rates_ok K s \<longleftrightarrow>
     (let bs = tp_BurnTaxSplit (t_params s); os = tp_OracleSplit (t_params s); ct = GetCommunityTax K (ext s)
      in 0 \<le> bs \<and> bs \<le> OneDec \<and> 0 \<le> os \<and> os \<le> OneDec \<and> 0 \<le> ct \<and> ct \<le> OneDec \<and> (ct < OneDec \<or> 0 < os))"

text \<open>The computation of the shares, before any coin moves.\<close>

lemma tax_split_coins:
  assumes "coin_laws K" "valid_coins K taxes" "split_rates_ok K s"
  shows "\<exists>ps os bs. valid_coins K ps \<and> valid_coins K os \<and> valid_coins K bs
    \<and> (\<forall>d. tax_shares K s (amt taxes d) = (amt ps d, amt os d, amt bs d))
    \<and> (\<forall>d. amt ps d + amt os d + amt bs d \<le> amt taxes d)
    \<and> ProcessTaxSplits K taxes s =
       seq (on_true (\<not> coins_IsZero K ps)
            (seq (sdk_call (SendCoinsFromModuleToModule K FeeCollectorName distribution_ModuleName ps)) (fund_community_pool K ps)))
       (seq (on_true (\<not> coins_IsZero K os) (sdk_call (SendCoinsFromModuleToModule K FeeCollectorName oracle_ModuleName os)))
       (on_true (\<not> coins_IsZero K bs) (sdk_call (SendCoinsFromModuleToModule K FeeCollectorName BurnModuleName bs)))) s"
proof -
  note D = coin_laws.axioms(1) [OF assms(1)]
  note R0 = RoundInt_0 [OF D]
  note nil = coin_laws.valid_coins_Nil [OF assms(1)]
  define bsr osr ct where "bsr = tp_BurnTaxSplit (t_params s)" "osr = tp_OracleSplit (t_params s)" "ct = GetCommunityTax K (ext s)"
  note defs = bsr_osr_ct_def
  have ok: "0 \<le> bsr" "bsr \<le> OneDec" "0 \<le> osr" "osr \<le> OneDec" "0 \<le> ct" "ct \<le> OneDec" "ct < OneDec \<or> 0 < osr"
    using assms(3) by (simp_all add: split_rates_ok_def Let_def defs)
  obtain delta rest where delta: "valid_coins K delta" "valid_coins K rest" "\<forall>d. amt delta d = dec_RoundInt K (bsr * amt taxes d)"
    "\<forall>d. amt rest d = amt taxes d - amt delta d"
    "(if 0 < bsr then obind (split_coins K bsr taxes) (\<lambda>delta. obind (coins_Sub K taxes delta) (\<lambda>taxes. Ok (delta, taxes)))
      else Ok ([], taxes)) = Ok (delta, rest)"
  proof (cases "0 < bsr")
    case True
    then show ?thesis using split_coins_rest [OF assms(1,2) ok(1,2)] that by auto
  next
    case False
    then show ?thesis using that [of "[]" taxes] assms(2) ok(1) nil by (simp add: R0)
  qed
  define a where "a = community_rate K ct osr"
  have a: "0 \<le> a" "a \<le> OneDec" "0 < ct \<Longrightarrow> apply_community_tax K ct osr = Ok a"
    using apply_community_tax_range [OF D _ ok(6,3,4,7)] by (auto simp: a_def community_rate_def apply_community_tax_def)
  obtain ps left where ps: "valid_coins K ps" "valid_coins K left" "\<forall>d. amt ps d = dec_RoundInt K (a * amt delta d)"
    "\<forall>d. amt left d = amt delta d - amt ps d"
    "(if 0 < ct then obind (apply_community_tax K ct osr) (\<lambda>r. obind (split_coins K r delta) (\<lambda>communityTaxCoins.
       obind (coins_Sub K delta communityTaxCoins) (\<lambda>delta. Ok (communityTaxCoins, delta)))) else Ok ([], delta)) = Ok (ps, left)"
  proof (cases "0 < ct")
    case True
    then show ?thesis using split_coins_rest [OF assms(1) delta(1) a(1,2)] a(3) that by auto
  next
    case False
    then show ?thesis using that [of "[]" delta] delta(1) nil by (simp add: R0 a_def community_rate_def)
  qed
  obtain os where os: "valid_coins K os" "\<forall>d. amt os d = dec_RoundInt K (osr * amt left d)"
    "(if 0 < osr then split_coins K osr left else Ok []) = Ok os"
    using split_coins_run [OF assms(1) ps(2) ok(3)] nil ok(3) by (cases "0 < osr") (auto simp: R0)
  have le: "amt os d \<le> amt left d" for d
    using os(2) share_le [OF D coin_laws.valid_coins_nonneg [OF assms(1) ps(2)] ok(4)] by simp
  have "amt ps d + amt os d + amt rest d \<le> amt taxes d" for d
    using le [of d] delta(4) [rule_format, of d] ps(4) [rule_format, of d] by linarith
  moreover have "tax_shares K s (amt taxes d) = (amt ps d, amt os d, amt rest d)" for d
    using delta(3,4) ps(3,4) os(2) by (simp add: tax_shares_def Let_def defs [symmetric] a_def)
  moreover have "ProcessTaxSplits K taxes s =
       seq (on_true (\<not> coins_IsZero K ps)
            (seq (sdk_call (SendCoinsFromModuleToModule K FeeCollectorName distribution_ModuleName ps)) (fund_community_pool K ps)))
       (seq (on_true (\<not> coins_IsZero K os) (sdk_call (SendCoinsFromModuleToModule K FeeCollectorName oracle_ModuleName os)))
       (on_true (\<not> coins_IsZero K rest) (sdk_call (SendCoinsFromModuleToModule K FeeCollectorName BurnModuleName rest)))) s"
    unfolding ProcessTaxSplits_def GetBurnSplitRate_def GetOracleSplitRate_def bnd_gets defs [symmetric]
      delta(5) bnd_lift(1) prod.case ps(5) os(3) ..
  ultimately show ?thesis using delta(2) ps(1) os(1) by blast
qed

section \<open>Moving the shares\<close>

lemma fund_community_pool_total:
  assumes "distr_laws K" "valid_coins K cs" "valid_coins K (CommunityPool K (ext s))"
  shows "\<exists>b. fund_community_pool K cs s = (Ok (), s\<lparr>ext := b\<rparr>) \<and> bank_same K (ext s) b
    \<and> (\<forall>d. amt (CommunityPool K b) d = amt (CommunityPool K (ext s)) d + amt cs d * OneDec)"
proof -
  note C = bank_laws.axioms(1) [OF distr_laws.axioms(1) [OF assms(1)]]
  obtain dc where dc: "NewDecCoinsFromCoins K cs = Ok dc" "valid_coins K dc" "\<And>d. amt dc d = amt cs d * OneDec"
    using coin_laws.DecFromCoins_ok [OF C assms(2)] by auto
  obtain p where p: "deccoins_Add K (CommunityPool K (ext s)) dc = Ok p" "valid_coins K p"
    "\<And>d. amt p d = amt (CommunityPool K (ext s)) d + amt dc d"
    using coin_laws.DecAdd_ok [OF C assms(3) dc(2)] by auto
  obtain b where "SetCommunityPool K p (ext s) = (Ok (), b)" "CommunityPool K b = p" "bank_same K (ext s) b"
    using distr_laws.SetPool [OF assms(1)] by blast
  then show ?thesis using dc p by (intro exI [of _ b]) (simp add: fund_community_pool_def sdk_call_def)
qed

lemma send_or_skip:
  assumes "module_laws K R" "R m" "R m'" "valid_coins K cs" "\<forall>d. amt cs d \<le> bal K (ext s) (GetModuleAddress K m) d"
  shows "\<exists>b. on_true (\<not> coins_IsZero K cs) (sdk_call (SendCoinsFromModuleToModule K m m' cs)) s = (Ok (), s\<lparr>ext := b\<rparr>)
    \<and> moved K (GetModuleAddress K m) (GetModuleAddress K m') cs (ext s) b \<and> CommunityPool K b = CommunityPool K (ext s)"
proof (cases "coins_IsZero K cs")
  case True
  then have "cs = []"
    using coin_laws.IsZero_iff [OF bank_laws.axioms(1) [OF distr_laws.axioms(1) [OF module_laws.axioms(1) [OF assms(1)]]]] assms(4) by blast
  then show ?thesis using True by (intro exI [of _ "ext s"]) (simp add: moved_def)
next
  case False
  note D = module_laws.axioms(1) [OF assms(1)]
  obtain b where b: "SendCoinsFromModuleToModule K m m' cs (ext s) = (Ok (), b)"
    using module_laws.M2M_live [OF assms] by (cases "SendCoinsFromModuleToModule K m m' cs (ext s)") auto
  then show ?thesis
    using False bank_laws.M2M_moved [OF distr_laws.axioms(1) [OF D] b] distr_laws.M2M_pool [OF D, of m m' cs "ext s"]
    by (intro exI [of _ b]) (simp add: sdk_call_def)
qed

lemma pay_pool_or_skip:
  assumes "module_laws K R" "R m" "R m'" "valid_coins K cs" "\<forall>d. amt cs d \<le> bal K (ext s) (GetModuleAddress K m) d"
    and pool: "valid_coins K (CommunityPool K (ext s))"
  shows "\<exists>b. on_true (\<not> coins_IsZero K cs) (seq (sdk_call (SendCoinsFromModuleToModule K m m' cs)) (fund_community_pool K cs)) s = (Ok (), s\<lparr>ext := b\<rparr>)
    \<and> moved K (GetModuleAddress K m) (GetModuleAddress K m') cs (ext s) b
    \<and> (\<forall>d. amt (CommunityPool K b) d = amt (CommunityPool K (ext s)) d + amt cs d * OneDec)"
proof (cases "coins_IsZero K cs")
  case True
  moreover from this have "cs = []"
    using coin_laws.IsZero_iff [OF bank_laws.axioms(1) [OF distr_laws.axioms(1) [OF module_laws.axioms(1) [OF assms(1)]]]] assms(4) by blast
  ultimately show ?thesis by (intro exI [of _ "ext s"]) (simp add: moved_def)
next
  case False
  note D = module_laws.axioms(1) [OF assms(1)]
  obtain b where b: "sdk_call (SendCoinsFromModuleToModule K m m' cs) s = (Ok (), s\<lparr>ext := b\<rparr>)"
    "moved K (GetModuleAddress K m) (GetModuleAddress K m') cs (ext s) b" "CommunityPool K b = CommunityPool K (ext s)"
    using send_or_skip [OF assms(1-5)] False by auto
  obtain c where "fund_community_pool K cs (s\<lparr>ext := b\<rparr>) = (Ok (), s\<lparr>ext := c\<rparr>)" "bank_same K b c"
    "\<forall>d. amt (CommunityPool K c) d = amt (CommunityPool K b) d + amt cs d * OneDec"
    using fund_community_pool_total [OF D assms(4), of "s\<lparr>ext := b\<rparr>"] pool b(3) by auto
  then show ?thesis using False b by (intro exI [of _ c]) (auto simp: seq_run moved_def bank_same_def)
qed

lemma moved_enough:
  "moved K x y cs b b' \<Longrightarrow> \<forall>d. amt cs d + f d \<le> bal K b x d \<Longrightarrow> \<forall>d. 0 \<le> amt cs d \<Longrightarrow> \<forall>d. f d \<le> bal K b' x d"
  unfolding moved_def by (smt (verit))

text \<open>The balances of \<open>b'\<close> are those of \<open>b\<close> with the shares of the tax \<open>t\<close> moved out of the fee collector and the community share
  booked in the pool.\<close>

definition shares_moved :: "('b, 'z) staking_ops_scheme \<Rightarrow> ('b, 'x) treasury_state_scheme \<Rightarrow> coins \<Rightarrow> 'b \<Rightarrow> 'b \<Rightarrow> bool" where
  "shares_moved K s t b b' \<longleftrightarrow>
     (\<forall>d pool orc burn. tax_shares K s (amt t d) = (pool, orc, burn) \<longrightarrow>
        (\<forall>z. bal K b' z d = bal K b z d
           - (if z = GetModuleAddress K FeeCollectorName then pool + orc + burn else 0)
           + (if z = GetModuleAddress K distribution_ModuleName then pool else 0)
           + (if z = GetModuleAddress K oracle_ModuleName then orc else 0)
           + (if z = GetModuleAddress K BurnModuleName then burn else 0))
        \<and> amt (CommunityPool K b') d = amt (CommunityPool K b) d + pool * OneDec)
     \<and> (\<forall>d. supply_of K b' d = supply_of K b d)"

lemma shares_movedD:
  assumes "shares_moved K s t b b'" "tax_shares K s (amt t d) = (pool, orc, burn)"
  shows "bal K b' z d = bal K b z d
           - (if z = GetModuleAddress K FeeCollectorName then pool + orc + burn else 0)
           + (if z = GetModuleAddress K distribution_ModuleName then pool else 0)
           + (if z = GetModuleAddress K oracle_ModuleName then orc else 0)
           + (if z = GetModuleAddress K BurnModuleName then burn else 0)"
    "amt (CommunityPool K b') d = amt (CommunityPool K b) d + pool * OneDec" "supply_of K b' e = supply_of K b e"
  using assms unfolding shares_moved_def by blast+

definition shares_fit :: "('b, 'z) staking_ops_scheme \<Rightarrow> ('b, 'x) treasury_state_scheme \<Rightarrow> int \<Rightarrow> bool" where
  "shares_fit K s n \<longleftrightarrow> (case tax_shares K s n of (pool, orc, burn) \<Rightarrow> 0 \<le> pool \<and> 0 \<le> orc \<and> 0 \<le> burn \<and> pool + orc + burn \<le> n)"

lemma ProcessTaxSplits_run:
  assumes "module_laws K R" "list_all R [FeeCollectorName, distribution_ModuleName, oracle_ModuleName, BurnModuleName]"
    and "valid_coins K taxes" "split_rates_ok K s" "valid_coins K (CommunityPool K (ext s))"
    and funds: "\<forall>d. amt taxes d \<le> bal K (ext s) (GetModuleAddress K FeeCollectorName) d"
  shows "\<exists>b. ProcessTaxSplits K taxes s = (Ok (), s\<lparr>ext := b\<rparr>) \<and> shares_moved K s taxes (ext s) b
    \<and> (\<forall>d. shares_fit K s (amt taxes d))"
proof -
  note C = bank_laws.axioms(1) [OF distr_laws.axioms(1) [OF module_laws.axioms(1) [OF assms(1)]]]
  have R: "R FeeCollectorName" "R distribution_ModuleName" "R oracle_ModuleName" "R BurnModuleName" using assms(2) by simp_all
  obtain ps os bs where sh: "valid_coins K ps" "valid_coins K os" "valid_coins K bs"
    "\<forall>d. tax_shares K s (amt taxes d) = (amt ps d, amt os d, amt bs d)" "\<forall>d. amt ps d + amt os d + amt bs d \<le> amt taxes d"
    and run: "ProcessTaxSplits K taxes s =
       seq (on_true (\<not> coins_IsZero K ps)
            (seq (sdk_call (SendCoinsFromModuleToModule K FeeCollectorName distribution_ModuleName ps)) (fund_community_pool K ps)))
       (seq (on_true (\<not> coins_IsZero K os) (sdk_call (SendCoinsFromModuleToModule K FeeCollectorName oracle_ModuleName os)))
       (on_true (\<not> coins_IsZero K bs) (sdk_call (SendCoinsFromModuleToModule K FeeCollectorName BurnModuleName bs)))) s"
    using tax_split_coins [OF C assms(3,4)] by blast
  have nn: "0 \<le> amt ps d" "0 \<le> amt os d" "0 \<le> amt bs d" for d using sh(1-3) coin_laws.valid_coins_nonneg [OF C] by auto
  let ?fc = "GetModuleAddress K FeeCollectorName"
  have enough: "amt ps d + amt os d + amt bs d \<le> bal K (ext s) ?fc d" for d
    using sh(5) funds order_trans by blast
  have f1: "\<forall>d. amt ps d \<le> bal K (ext s) ?fc d" using enough nn by (smt (verit))
  obtain b1 where b1: "on_true (\<not> coins_IsZero K ps) (seq (sdk_call (SendCoinsFromModuleToModule K FeeCollectorName distribution_ModuleName ps))
      (fund_community_pool K ps)) s = (Ok (), s\<lparr>ext := b1\<rparr>)"
    "moved K ?fc (GetModuleAddress K distribution_ModuleName) ps (ext s) b1"
    "\<forall>d. amt (CommunityPool K b1) d = amt (CommunityPool K (ext s)) d + amt ps d * OneDec"
    using pay_pool_or_skip [OF assms(1) R(1,2) sh(1) f1 assms(5)] by auto
  have f2: "\<forall>d. amt os d + amt bs d \<le> bal K b1 ?fc d" using moved_enough [OF b1(2), of "\<lambda>d. amt os d + amt bs d"] enough nn by (simp add: add.assoc)
  then have f3: "\<forall>d. amt os d \<le> bal K b1 ?fc d" using nn(3) by (smt (verit))
  obtain b2 where b2: "on_true (\<not> coins_IsZero K os) (sdk_call (SendCoinsFromModuleToModule K FeeCollectorName oracle_ModuleName os)) (s\<lparr>ext := b1\<rparr>)
      = (Ok (), s\<lparr>ext := b2\<rparr>)"
    "moved K ?fc (GetModuleAddress K oracle_ModuleName) os b1 b2" "CommunityPool K b2 = CommunityPool K b1"
    using send_or_skip [OF assms(1) R(1,3) sh(2), of "s\<lparr>ext := b1\<rparr>"] f3 by auto
  obtain b3 where b3: "on_true (\<not> coins_IsZero K bs) (sdk_call (SendCoinsFromModuleToModule K FeeCollectorName BurnModuleName bs)) (s\<lparr>ext := b2\<rparr>)
      = (Ok (), s\<lparr>ext := b3\<rparr>)"
    "moved K ?fc (GetModuleAddress K BurnModuleName) bs b2 b3" "CommunityPool K b3 = CommunityPool K b2"
    using send_or_skip [OF assms(1) R(1,4) sh(3), of "s\<lparr>ext := b2\<rparr>"] moved_enough [OF b2(2) f2] nn by auto
  have "ProcessTaxSplits K taxes s = (Ok (), s\<lparr>ext := b3\<rparr>)"
    unfolding run using b1(1) b2(1) b3(1) by (simp add: seq_run)
  moreover have "shares_fit K s (amt taxes d)" for d using sh(4,5) nn by (simp add: shares_fit_def)
  moreover have "shares_moved K s taxes (ext s) b3"
    unfolding shares_moved_def using b1(2,3) b2(2,3) b3(2,3) sh(4) by (simp add: moved_def)
  ultimately show ?thesis by blast
qed

text \<open>C9. The split of a collected tax always succeeds and moves exactly the documented shares out of the fee collector:
  the community share to the distribution module, where it is booked in the community pool, the oracle share to the oracle,
  the rest to the burn account; together they never exceed the tax, and no other balance and no supply changes.\<close>

theorem ProcessTaxSplits_distributes:
  assumes "module_laws K R" "list_all R [FeeCollectorName, distribution_ModuleName, oracle_ModuleName, BurnModuleName]"
    and "valid_coins K taxes" "split_rates_ok K s" "valid_coins K (CommunityPool K (ext s))"
    and funds: "\<forall>d. amt taxes d \<le> bal K (ext s) (GetModuleAddress K FeeCollectorName) d"
  shows "\<exists>b. ProcessTaxSplits K taxes s = (Ok (), s\<lparr>ext := b\<rparr>) \<and> shares_moved K s taxes (ext s) b
    \<and> (\<forall>d. shares_fit K s (amt taxes d))"
  by (rule ProcessTaxSplits_run [OF assms])

end
