(* ===== verification/Tax_Collect.thy ===== *)
theory Tax_Collect
  imports Tax_Split Exemption_Zones
begin

text \<open>
  The two ways a tax is collected, from the amount sent (reverse charge, \<open>x/tax/handlers\<close>) and after the messages
  (\<open>x/tax/post\<close>): both do the same to the ledger, which \<open>tax_paid\<close> describes.
\<close>

section \<open>The bank's message server\<close>

definition total_of :: "(string \<times> coins) list \<Rightarrow> string \<Rightarrow> int" where
  "total_of entries d = (\<Sum>e\<leftarrow>entries. amt (snd e) d)"

text \<open>\<open>Send\<close> moves the amount of its message; \<open>MultiSend\<close> accepts only messages whose inputs and outputs have the same total.\<close>

locale tx_laws =
  fixes A :: "('b, 'y) tx_ops_scheme" and K :: "('b, 'z) staking_ops_scheme"
  assumes Send_moved: "bank_Send A m b = (Ok (), b') \<Longrightarrow> AccAddressFromBech32 K (bs_FromAddress m) = Ok x \<Longrightarrow>
      AccAddressFromBech32 K (bs_ToAddress m) = Ok y \<Longrightarrow> moved K x y (bs_Amount m) b b'"
    and Send_address: "bank_Send A m b = (Ok (), b') \<Longrightarrow> is_Ok (AccAddressFromBech32 K (bs_ToAddress m))"
    and MultiSend_balanced: "bank_MultiSend A mm b = (Ok (), b') \<Longrightarrow> total_of (bm_Inputs mm) d = total_of (bm_Outputs mm) d"

section \<open>A collected tax\<close>

definition proceeds :: "('b, 'x) treasury_state_scheme \<Rightarrow> coins" where
  "proceeds s = (case TaxProceeds s of None \<Rightarrow> [] | Some c \<Rightarrow> c)"

definition tax_paid ::
  "('b, 'z) staking_ops_scheme \<Rightarrow> string \<Rightarrow> coins \<Rightarrow> ('b, 'x) treasury_state_scheme \<Rightarrow> ('b, 'x) treasury_state_scheme \<Rightarrow> bool" where
  "tax_paid K x t s s' \<longleftrightarrow>
     (\<forall>d pool orc burn. tax_shares K s (amt t d) = (pool, orc, burn) \<longrightarrow>
        (\<forall>z. bal K (ext s') z d = bal K (ext s) z d
           - (if z = x then amt t d else 0)
           + (if z = GetModuleAddress K FeeCollectorName then amt t d - (pool + orc + burn) else 0)
           + (if z = GetModuleAddress K distribution_ModuleName then pool else 0)
           + (if z = GetModuleAddress K oracle_ModuleName then orc else 0)
           + (if z = GetModuleAddress K BurnModuleName then burn else 0))
        \<and> amt (CommunityPool K (ext s')) d = amt (CommunityPool K (ext s)) d + pool * OneDec)
     \<and> (\<forall>d. supply_of K (ext s') d = supply_of K (ext s) d)
     \<and> (\<forall>d. amt (proceeds s') d = amt (proceeds s) d + amt t d)
     \<and> (\<exists>b p. s' = s\<lparr>ext := b, TaxProceeds := p\<rparr>)"

lemma tax_paidD:
  assumes "tax_paid K x t s s'" "tax_shares K s (amt t d) = (pool, orc, burn)"
  shows "bal K (ext s') z d = bal K (ext s) z d
           - (if z = x then amt t d else 0)
           + (if z = GetModuleAddress K FeeCollectorName then amt t d - (pool + orc + burn) else 0)
           + (if z = GetModuleAddress K distribution_ModuleName then pool else 0)
           + (if z = GetModuleAddress K oracle_ModuleName then orc else 0)
           + (if z = GetModuleAddress K BurnModuleName then burn else 0)"
  using assms unfolding tax_paid_def by blast

text \<open>What a state needs for a tax to be collected.\<close>

definition collectable :: "('b, 'z) staking_ops_scheme \<Rightarrow> (string \<Rightarrow> bool) \<Rightarrow> ('b, 'x) treasury_state_scheme \<Rightarrow> bool" where
  "collectable K R s \<longleftrightarrow> list_all R [FeeCollectorName, distribution_ModuleName, oracle_ModuleName, BurnModuleName]
     \<and> split_rates_ok K s \<and> valid_coins K (CommunityPool K (ext s)) \<and> valid_coins K (proceeds s)"

lemma RecordEpochTaxProceeds_run:
  assumes "coin_laws K" "valid_coins K t" "valid_coins K (proceeds s)"
  shows "\<exists>p. RecordEpochTaxProceeds K t s = (Ok (), s\<lparr>TaxProceeds := p\<rparr>) \<and> (\<forall>d. amt (proceeds (s\<lparr>TaxProceeds := p\<rparr>)) d = amt (proceeds s) d + amt t d)"
proof (cases "coins_IsZero K t")
  case True
  then have "t = []" using coin_laws.IsZero_iff [OF assms(1,2)] by simp
  then show ?thesis using True by (intro exI [of _ "TaxProceeds s"]) (simp add: RecordEpochTaxProceeds_def)
next
  case False
  obtain r where "coins_Add K (proceeds s) t = Ok r" "\<forall>d. amt r d = amt (proceeds s) d + amt t d"
    using coin_laws.Add_ok [OF assms(1,3,2)] by auto
  then show ?thesis using False
    by (intro exI [of _ "Some r"])
      (simp add: RecordEpochTaxProceeds_def PeekEpochTaxProceeds_def SetEpochTaxProceeds_def proceeds_def)
qed

lemma collect_run:
  assumes "module_laws K R" "collectable K R s" "valid_coins K t" "x \<noteq> GetModuleAddress K FeeCollectorName"
    and A2M: "SendCoinsFromAccountToModule K x FeeCollectorName t (ext s) = (Ok (), b0)"
  shows "\<exists>b s'. ProcessTaxSplits K t (s\<lparr>ext := b0\<rparr>) = (Ok (), s\<lparr>ext := b\<rparr>) \<and> RecordEpochTaxProceeds K t (s\<lparr>ext := b\<rparr>) = (Ok (), s')
    \<and> tax_paid K x t s s'"
proof -
  note D = module_laws.axioms(1) [OF assms(1)]
  note B = distr_laws.axioms(1) [OF D]
  note C = bank_laws.axioms(1) [OF B]
  let ?s = "s\<lparr>ext := b0\<rparr>"
  have pool: "CommunityPool K b0 = CommunityPool K (ext s)" "GetCommunityTax K b0 = GetCommunityTax K (ext s)"
    using distr_laws.A2M_pool [OF D, of x FeeCollectorName t "ext s"] distr_laws.A2M_tax [OF D, of x FeeCollectorName t "ext s"]
    unfolding A2M by simp_all
  have m: "moved K x (GetModuleAddress K FeeCollectorName) t (ext s) b0" by (rule bank_laws.A2M_moved [OF B A2M])
  have sh: "tax_shares K ?s = tax_shares K s" by (simp add: tax_shares_def pool fun_eq_iff)
  have "bal K b0 (GetModuleAddress K FeeCollectorName) d = bal K (ext s) (GetModuleAddress K FeeCollectorName) d + amt t d" for d
    using m assms(4) by (simp add: moved_def)
  then have "\<forall>d. amt t d \<le> bal K (ext ?s) (GetModuleAddress K FeeCollectorName) d"
    using bank_laws.bal_nonneg [OF B] by simp
  note funds = this
  have reg: "list_all R [FeeCollectorName, distribution_ModuleName, oracle_ModuleName, BurnModuleName]"
    and ok: "split_rates_ok K ?s" "valid_coins K (CommunityPool K (ext ?s))"
    using assms(2) by (simp_all add: collectable_def split_rates_ok_def pool)
  obtain b where run: "ProcessTaxSplits K t ?s = (Ok (), s\<lparr>ext := b\<rparr>)" and mv: "shares_moved K ?s t b0 b"
    using ProcessTaxSplits_run [OF assms(1) reg assms(3) ok funds] by auto
  obtain p where p: "RecordEpochTaxProceeds K t (s\<lparr>ext := b\<rparr>) = (Ok (), s\<lparr>ext := b, TaxProceeds := p\<rparr>)"
    "\<forall>d. amt (proceeds (s\<lparr>ext := b, TaxProceeds := p\<rparr>)) d = amt (proceeds s) d + amt t d"
    using RecordEpochTaxProceeds_run [OF C assms(3), of "s\<lparr>ext := b\<rparr>"] assms(2) by (auto simp: collectable_def proceeds_def)
  have "tax_paid K x t s (s\<lparr>ext := b, TaxProceeds := p\<rparr>)"
    unfolding tax_paid_def
  proof (intro conjI allI impI)
    fix d c r u
    assume "tax_shares K s (amt t d) = (c, r, u)"
    then have sh': "tax_shares K ?s (amt t d) = (c, r, u)" unfolding sh .
    show "bal K (ext (s\<lparr>ext := b, TaxProceeds := p\<rparr>)) z d = bal K (ext s) z d - (if z = x then amt t d else 0)
        + (if z = GetModuleAddress K FeeCollectorName then amt t d - (c + r + u) else 0)
        + (if z = GetModuleAddress K distribution_ModuleName then c else 0)
        + (if z = GetModuleAddress K oracle_ModuleName then r else 0) + (if z = GetModuleAddress K BurnModuleName then u else 0)" for z
      using shares_movedD(1) [OF mv sh', of z] m by (simp add: moved_def)
    show "amt (CommunityPool K (ext (s\<lparr>ext := b, TaxProceeds := p\<rparr>))) d = amt (CommunityPool K (ext s)) d + c * OneDec"
      using shares_movedD(2) [OF mv sh'] pool by simp
  qed (use mv m p(2) in \<open>simp_all add: moved_def shares_moved_def\<close>, blast)
  then show ?thesis using run p(1) by blast
qed

section \<open>After the messages\<close>

text \<open>C11. Tax due after the messages: if the payer has the coins, the post handler collects exactly the tax that is due,
  distributes it and continues in the resulting state; if not, the transaction fails with insufficient funds.  Without
  tax due it does nothing.\<close>

theorem PostHandle_collects:
  assumes "module_laws K R" "collectable K R s" "TaxPayer ctx = Some payer" "AccAddressFromBech32 K payer = Ok x"
    and "HasAccount A (ext s) x" "x \<noteq> GetModuleAddress K FeeCollectorName" "TaxDue ctx = Some due" "valid_coins K due"
  shows "if due = [] then tax_PostHandle A K ctx next s = next ctx s
    else (case SendCoinsFromAccountToModule K x FeeCollectorName due (ext s) of
        (Ok _, _) \<Rightarrow> \<exists>s'. tax_paid K x due s s' \<and> tax_PostHandle A K ctx next s = next ctx s'
      | (Err _, b) \<Rightarrow> tax_PostHandle A K ctx next s = (Err ErrInsufficientFunds, s\<lparr>ext := b\<rparr>)
      | (Panic, b) \<Rightarrow> tax_PostHandle A K ctx next s = (Panic, s\<lparr>ext := b\<rparr>))"
proof -
  note C = bank_laws.axioms(1) [OF distr_laws.axioms(1) [OF module_laws.axioms(1) [OF assms(1)]]]
  have z: "coins_IsZero K due \<longleftrightarrow> due = []" using coin_laws.IsZero_iff [OF C assms(8)] .
  have v: "coins_IsValid K due" using coin_laws.IsValid_iff [OF C] assms(8) by simp
  have run: "tax_PostHandle A K ctx next s =
      seq (wrap_go ErrInsufficientFunds (sdk_call (SendCoinsFromAccountToModule K x FeeCollectorName due)))
        (seq (ProcessTaxSplits K due) (seq (RecordEpochTaxProceeds K due) (next ctx))) s" if "due \<noteq> []"
    using that assms(3,4,5,7) z v by (simp add: tax_PostHandle_def DeductFees_def wrap_err_def)
  obtain r b0 where send: "SendCoinsFromAccountToModule K x FeeCollectorName due (ext s) = (r, b0)" by fastforce
  show ?thesis
  proof (cases "due = []")
    case True
    then show ?thesis using assms(7) z by (simp add: tax_PostHandle_def)
  next
    case due: False
    show ?thesis
    proof (cases r)
      case (Ok u)
      then have "wrap_go ErrInsufficientFunds (sdk_call (SendCoinsFromAccountToModule K x FeeCollectorName due)) s = (Ok (), s\<lparr>ext := b0\<rparr>)"
        using send by (simp add: wrap_go_def sdk_call_def)
      moreover obtain b s' where "ProcessTaxSplits K due (s\<lparr>ext := b0\<rparr>) = (Ok (), s\<lparr>ext := b\<rparr>)"
        "RecordEpochTaxProceeds K due (s\<lparr>ext := b\<rparr>) = (Ok (), s')" "tax_paid K x due s s'"
        using collect_run [OF assms(1,2,8,6)] send Ok by auto
      ultimately show ?thesis using run [OF due] due send Ok by (auto simp: seq_run)
    qed (use run [OF due] due send in \<open>simp_all add: seq_case wrap_go_def sdk_call_def\<close>)
  qed
qed

section \<open>Reverse charge\<close>

definition tax_of :: "('b, 'x) tax_state_scheme \<Rightarrow> int \<Rightarrow> int" where
  "tax_of s n = (case x_params s of Some p \<Rightarrow> (case xp_BurnTaxRate p of Some r \<Rightarrow> n * r div OneDec | None \<Rightarrow> 0) | None \<Rightarrow> 0)"

text \<open>A rate between zero and one, and amounts that the decimal arithmetic can hold.\<close>

definition rate_ok :: "('b, 'x) tax_state_scheme \<Rightarrow> bool" where
  "rate_ok s \<longleftrightarrow> (\<exists>p r. x_params s = Some p \<and> xp_BurnTaxRate p = Some r \<and> 0 \<le> r \<and> r \<le> OneDec)"

definition taxable_amount :: "('b, 'z) staking_ops_scheme \<Rightarrow> coins \<Rightarrow> bool" where
  "taxable_amount K cs \<longleftrightarrow> valid_coins K cs \<and> (\<forall>d. amt cs d < 2 ^ 254)"

lemma tax_of_le: "rate_ok s \<Longrightarrow> 0 \<le> n \<Longrightarrow> 0 \<le> tax_of s n \<and> tax_of s n \<le> n"
proof -
  assume "rate_ok s" "0 \<le> n"
  then obtain p r where r: "x_params s = Some p" "xp_BurnTaxRate p = Some r" "0 \<le> r" "r \<le> OneDec" by (auto simp: rate_ok_def)
  have "n * r \<le> n * OneDec" using r \<open>0 \<le> n\<close> by (intro mult_left_mono)
  from zdiv_mono1 [OF this, of OneDec] show ?thesis using r \<open>0 \<le> n\<close> by (simp add: tax_of_def pos_imp_zdiv_nonneg_iff)
qed

lemma ComputeTax_tax_of:
  assumes "coin_laws K" "taxable_amount K amount" "rate_ok s"
  shows "\<exists>t net. ComputeTax K amount s = (Ok t, s) \<and> valid_coins K t \<and> (\<forall>d. amt t d = tax_of s (amt amount d))
    \<and> coins_Sub K amount t = Ok net \<and> valid_coins K net \<and> (\<forall>d. amt net d = amt amount d - tax_of s (amt amount d))"
proof -
  obtain p r where r: "x_params s = Some p" "xp_BurnTaxRate p = Some r" "0 \<le> r" "r \<le> OneDec" using assms(3) by (auto simp: rate_ok_def)
  have nn: "0 \<le> amt amount d" for d using coin_laws.valid_coins_nonneg [OF assms(1)] assms(2) by (simp add: taxable_amount_def)
  have "\<forall>d. amt amount d * r < 2 ^ 314"
  proof
    fix d
    have "amt amount d * r \<le> 2 ^ 254 * OneDec" using assms(2) r nn by (intro mult_mono) (simp_all add: taxable_amount_def less_imp_le)
    also have "\<dots> < 2 ^ 314" by simp
    finally show "amt amount d * r < 2 ^ 314" .
  qed
  then obtain t where t: "ComputeTax K amount s = (Ok t, s)" "valid_coins K t" "\<forall>d. amt t d = tax_of s (amt amount d)"
    using ComputeTax_run [OF assms(1) _ r(1-3), of amount] assms(2) r by (auto simp: taxable_amount_def tax_of_def)
  have "\<forall>d. amt t d \<le> amt amount d" using t(3) tax_of_le [OF assms(3) nn] by simp
  then show ?thesis using coin_laws.Sub_ok [OF assms(1) _ t(2), of amount] assms(2) t by (auto simp: taxable_amount_def)
qed

lemma tax_paid_Nil: "dec_laws K \<Longrightarrow> tax_paid K x [] s s"
  unfolding tax_paid_def
  by (intro conjI exI [of _ "ext s"] exI [of _ "TaxProceeds s"]) (auto simp: tax_shares_def RoundInt_0)

text \<open>The outcome of a deduction; with \<open>skip\<close> only the net amount is computed.\<close>

lemma DeductTax_Ok:
  assumes "module_laws K R" "collectable K R s" "taxable_amount K amount" "rate_ok s" "x \<noteq> GetModuleAddress K FeeCollectorName"
    and "TaxReverseCharge ctx = Some True" "DeductTax K ctx x amount False s = (Ok net, s')"
  shows "\<exists>t. valid_coins K t \<and> (\<forall>d. amt t d = tax_of s (amt amount d)) \<and> (\<forall>d. amt net d = amt amount d - tax_of s (amt amount d))
    \<and> tax_paid K x t s s'"
proof -
  note C = bank_laws.axioms(1) [OF distr_laws.axioms(1) [OF module_laws.axioms(1) [OF assms(1)]]]
  obtain t n where t: "ComputeTax K amount s = (Ok t, s)" "valid_coins K t" "\<forall>d. amt t d = tax_of s (amt amount d)"
    and n: "coins_Sub K amount t = Ok n" "\<forall>d. amt n d = amt amount d - tax_of s (amt amount d)"
    using ComputeTax_tax_of [OF C assms(3,4)] by auto
  note run = assms(7) [unfolded DeductTax_def, simplified, unfolded IsReverseCharge_def assms(6), simplified]
  show ?thesis
  proof (cases "t = []")
    case True
    then have "s' = s" "net = n" using run t n coin_laws.IsZero_iff [OF C t(2)] by (simp_all add: bnd_Ok seq_case on_true_def)
    then show ?thesis using True t n tax_paid_Nil [OF coin_laws.axioms(1) [OF C], of x s] by (intro exI [of _ "[]"]) simp
  next
    case False
    then have "seq (seq (sdk_call (SendCoinsFromAccountToModule K x FeeCollectorName t))
        (seq (ProcessTaxSplits K t) (RecordEpochTaxProceeds K t))) (ret n) s = (Ok net, s')"
      using run t(1) n(1) coin_laws.IsZero_iff [OF C t(2)] by (simp add: bnd_Ok on_true_def)
    then obtain s1 where s1: "seq (sdk_call (SendCoinsFromAccountToModule K x FeeCollectorName t))
        (seq (ProcessTaxSplits K t) (RecordEpochTaxProceeds K t)) s = (Ok (), s1)" "net = n" "s' = s1"
      by (auto simp: seq_case split: prod.splits outcome.splits)
    then obtain b0 where b0: "SendCoinsFromAccountToModule K x FeeCollectorName t (ext s) = (Ok (), b0)"
      "seq (ProcessTaxSplits K t) (RecordEpochTaxProceeds K t) (s\<lparr>ext := b0\<rparr>) = (Ok (), s')"
      by (auto simp: seq_case sdk_call_def split: prod.splits outcome.splits)
    obtain b s2 where "ProcessTaxSplits K t (s\<lparr>ext := b0\<rparr>) = (Ok (), s\<lparr>ext := b\<rparr>)"
      "RecordEpochTaxProceeds K t (s\<lparr>ext := b\<rparr>) = (Ok (), s2)" "tax_paid K x t s s2"
      using collect_run [OF assms(1,2) t(2) assms(5) b0(1)] by auto
    then have "tax_paid K x t s s'" using b0(2) by (simp add: seq_run)
    then show ?thesis using t n s1(2) by auto
  qed
qed

lemma reverse_charge_transfer:
  assumes "module_laws K R" "tx_laws A K" "collectable K R s" "taxable_amount K (bs_Amount msg)" "rate_ok s"
    and "AccAddressFromBech32 K (bs_FromAddress msg) = Ok x" "AccAddressFromBech32 K (bs_ToAddress msg) = Ok y"
    and "x \<noteq> GetModuleAddress K FeeCollectorName" "TaxReverseCharge ctx = Some True"
    and "\<not> exempt_between (zone_of s (bs_FromAddress msg)) (zone_of s (bs_ToAddress msg))"
    and run: "BankMsgServer_Send A K ctx msg s = (Ok (), s')"
  shows "\<forall>d n t pool orc burn. n = amt (bs_Amount msg) d \<longrightarrow> t = tax_of s n \<longrightarrow> tax_shares K s t = (pool, orc, burn) \<longrightarrow>
    (\<forall>z. bal K (ext s') z d = bal K (ext s) z d - (if z = x then n else 0) + (if z = y then n - t else 0)
        + (if z = GetModuleAddress K FeeCollectorName then t - (pool + orc + burn) else 0)
        + (if z = GetModuleAddress K distribution_ModuleName then pool else 0)
        + (if z = GetModuleAddress K oracle_ModuleName then orc else 0)
        + (if z = GetModuleAddress K BurnModuleName then burn else 0))
    \<and> supply_of K (ext s') d = supply_of K (ext s) d
    \<and> amt (proceeds s') d = amt (proceeds s) d + t"
proof -
  have e: "IsExemptedFromTax (bs_FromAddress msg) [bs_ToAddress msg] s = (Ok False, s)"
    using assms(10) IsExempted_run [of "bs_FromAddress msg" "[bs_ToAddress msg]" s] by simp
  have "bnd (DeductTax K ctx x (bs_Amount msg) False) (\<lambda>amount. sdk_call (bank_Send A (msg\<lparr>bs_Amount := amount\<rparr>))) s = (Ok (), s')"
    using run assms(6,9) by (simp add: BankMsgServer_Send_def IsReverseCharge_def bnd_Ok [where m = "IsExemptedFromTax (bs_FromAddress msg) [bs_ToAddress msg]", OF e])
  then obtain net s1 b where d: "DeductTax K ctx x (bs_Amount msg) False s = (Ok net, s1)"
    and b: "bank_Send A (msg\<lparr>bs_Amount := net\<rparr>) (ext s1) = (Ok (), b)" "s' = s1\<lparr>ext := b\<rparr>"
    by (auto simp: bnd_run_iff_Ok sdk_call_run)
  obtain t where t: "\<forall>d. amt t d = tax_of s (amt (bs_Amount msg) d)"
    "\<forall>d. amt net d = amt (bs_Amount msg) d - tax_of s (amt (bs_Amount msg) d)" "tax_paid K x t s s1"
    using DeductTax_Ok [OF assms(1,3,4,5,8,9) d] by auto
  have m: "moved K x y net (ext s1) b" using tx_laws.Send_moved [OF assms(2) b(1)] assms(6,7) by simp
  show ?thesis
  proof (intro allI impI)
    fix d n u pool orc burn
    assume h: "n = amt (bs_Amount msg) d" "u = tax_of s n" "tax_shares K s u = (pool, orc, burn)"
    then have u: "amt t d = u" "amt net d = n - u" using t(1,2) by simp_all
    show "(\<forall>z. bal K (ext s') z d = bal K (ext s) z d - (if z = x then n else 0) + (if z = y then n - u else 0)
        + (if z = GetModuleAddress K FeeCollectorName then u - (pool + orc + burn) else 0)
        + (if z = GetModuleAddress K distribution_ModuleName then pool else 0)
        + (if z = GetModuleAddress K oracle_ModuleName then orc else 0)
        + (if z = GetModuleAddress K BurnModuleName then burn else 0))
      \<and> supply_of K (ext s') d = supply_of K (ext s) d \<and> amt (proceeds s') d = amt (proceeds s) d + u"
      using t(3) m h(3) u b(2) unfolding tax_paid_def moved_def by (simp add: proceeds_def)
  qed
qed

text \<open>A transfer between exempt addresses arrives in full.\<close>

lemma exempt_transfer:
  assumes "tx_laws A K" "AccAddressFromBech32 K (bs_FromAddress msg) = Ok x" "AccAddressFromBech32 K (bs_ToAddress msg) = Ok y"
    and "TaxReverseCharge ctx = Some True" "exempt_between (zone_of s (bs_FromAddress msg)) (zone_of s (bs_ToAddress msg))"
    and "BankMsgServer_Send A K ctx msg s = (Ok (), s')"
  shows "moved K x y (bs_Amount msg) (ext s) (ext s')" "s' = s\<lparr>ext := ext s'\<rparr>"
proof -
  have "IsExemptedFromTax (bs_FromAddress msg) [bs_ToAddress msg] s = (Ok True, s)"
    using assms(5) IsExempted_run [of "bs_FromAddress msg" "[bs_ToAddress msg]" s] by simp
  then have "sdk_call (bank_Send A msg) s = (Ok (), s')"
    using assms(2,4,6) by (simp add: BankMsgServer_Send_def IsReverseCharge_def bnd_Ok [where m = "IsExemptedFromTax (bs_FromAddress msg) [bs_ToAddress msg]"])
  then show "moved K x y (bs_Amount msg) (ext s) (ext s')" "s' = s\<lparr>ext := ext s'\<rparr>"
    using tx_laws.Send_moved [OF assms(1) _ assms(2,3)] by (auto simp: sdk_call_run)
qed

text \<open>C10. A reverse-charged transfer: whoever sends \<open>n\<close> of a denomination pays exactly \<open>n\<close>; the tax, the floor of the rate,
  is taken out of it and distributed, and the recipient gets the rest.\<close>

theorem reverse_charge_Send:
  assumes "module_laws K R" "tx_laws A K" "collectable K R s" "taxable_amount K (bs_Amount msg)" "rate_ok s"
    and "AccAddressFromBech32 K (bs_FromAddress msg) = Ok x" "AccAddressFromBech32 K (bs_ToAddress msg) = Ok y"
    and "x \<noteq> GetModuleAddress K FeeCollectorName" "TaxReverseCharge ctx = Some True"
    and "\<not> exempt_between (zone_of s (bs_FromAddress msg)) (zone_of s (bs_ToAddress msg))"
    and run: "BankMsgServer_Send A K ctx msg s = (Ok (), s')"
  shows "\<forall>d n t pool orc burn. n = amt (bs_Amount msg) d \<longrightarrow> t = tax_of s n \<longrightarrow> tax_shares K s t = (pool, orc, burn) \<longrightarrow>
    (\<forall>z. bal K (ext s') z d = bal K (ext s) z d - (if z = x then n else 0) + (if z = y then n - t else 0)
        + (if z = GetModuleAddress K FeeCollectorName then t - (pool + orc + burn) else 0)
        + (if z = GetModuleAddress K distribution_ModuleName then pool else 0)
        + (if z = GetModuleAddress K oracle_ModuleName then orc else 0)
        + (if z = GetModuleAddress K BurnModuleName then burn else 0))
    \<and> supply_of K (ext s') d = supply_of K (ext s) d
    \<and> amt (proceeds s') d = amt (proceeds s) d + t"
  by (rule reverse_charge_transfer [OF assms])

section \<open>Transfers to several recipients\<close>

lemma keeps_params_DeductTax: "keeps (\<lambda>s. x_params s = p) (DeductTax K ctx x cs skip)"
  unfolding DeductTax_def ProcessTaxSplits_def RecordEpochTaxProceeds_def PeekEpochTaxProceeds_def SetEpochTaxProceeds_def
    fund_community_pool_def GetBurnSplitRate_def GetOracleSplitRate_def ComputeTax_def GetBurnTaxRate_def tax_GetParams_def
  by (intro keeps_intros keeps_sdk_call keeps_modify) auto

text \<open>The net amount that is passed on does not depend on whether the tax is deducted here.\<close>

lemma DeductTax_net:
  assumes "coin_laws K" "taxable_amount K cs" "rate_ok s" "TaxReverseCharge ctx = Some True" "DeductTax K ctx x cs skip s = (Ok net, s')"
  shows "amt net d = amt cs d - tax_of s (amt cs d)"
proof -
  obtain t n where t: "ComputeTax K cs s = (Ok t, s)" and n: "coins_Sub K cs t = Ok n" "\<forall>d. amt n d = amt cs d - tax_of s (amt cs d)"
    using ComputeTax_tax_of [OF assms(1-3)] by auto
  have "net = n"
    using assms(5) t n(1) unfolding DeductTax_def IsReverseCharge_def assms(4)
    by (auto simp: bnd_Ok seq_case on_true_def split: if_splits prod.splits outcome.splits)
  then show ?thesis using n(2) by simp
qed

lemma deduct_side_total:
  fixes s :: "('b, 'x) tax_state_scheme"
  assumes "coin_laws K" "\<forall>e\<in>set es. taxable_amount K (snd e)" "rate_ok s" "TaxReverseCharge ctx = Some True"
    and "deduct_side K ctx skip es s = (Ok nets, s')"
  shows "total_of nets d = total_of es d - (\<Sum>e\<leftarrow>es. tax_of s (amt (snd e) d)) \<and> x_params s' = x_params s"
proof -
  define h :: "string \<times> coins \<Rightarrow> (string \<times> coins) list \<Rightarrow> (('b, 'x) tax_state_scheme, (string \<times> coins) list) go"
    where "h = (\<lambda>(address, cs) acc. bnd (must (lift (AccAddressFromBech32 K address))) (\<lambda>addr.
       bnd (DeductTax K ctx addr cs skip) (\<lambda>netCoins. ret (acc @ [(address, netCoins)]))))"
  have "fold_each xs h acc u = (Ok r, u') \<Longrightarrow> set xs \<subseteq> set es \<Longrightarrow> x_params u = x_params s \<Longrightarrow>
      total_of r d = total_of acc d + total_of xs d - (\<Sum>e\<leftarrow>xs. tax_of s (amt (snd e) d)) \<and> x_params u' = x_params s" for xs acc u r u'
  proof (induction xs arbitrary: acc u)
    case Nil
    then show ?case by (simp add: total_of_def)
  next
    case (Cons e xs)
    obtain a cs where e: "e = (a, cs)" by fastforce
    obtain addr net u1 where u1: "DeductTax K ctx addr cs skip u = (Ok net, u1)" "fold_each xs h (acc @ [(a, net)]) u1 = (Ok r, u')"
      using Cons.prems(1) e by (auto simp: h_def bnd_run_iff_Ok must_def split: outcome.splits)
    have "x_params u1 = x_params s" using keeps_run [OF keeps_params_DeductTax [of "x_params s"] Cons.prems(3) u1(1)] .
    moreover have "taxable_amount K cs" using assms(2) Cons.prems(2) e by auto
    then have "amt net d = amt cs d - tax_of s (amt cs d)"
      using DeductTax_net [OF assms(1) _ _ assms(4) u1(1), of d] assms(3) Cons.prems(3) by (simp add: rate_ok_def tax_of_def)
    ultimately show ?case using Cons.IH [OF u1(2)] Cons.prems(2) e by (simp add: total_of_def)
  qed
  from this [of es "[]" s nets s'] show ?thesis using assms(5) unfolding deduct_side_def h_def by (simp add: total_of_def)
qed

text \<open>C35. A reverse-charged transfer to several recipients is refused when the taxes, rounded down once per input and once per
  output, differ in total: what is passed on is then unbalanced, although the message itself was balanced.\<close>

theorem MultiSend_rounding_refused:
  assumes "coin_laws K" "tx_laws A K" "rate_ok s" "TaxReverseCharge ctx = Some True"
    and "\<forall>e\<in>set (bm_Inputs msg) \<union> set (bm_Outputs msg). taxable_amount K (snd e)"
    and "total_of (bm_Inputs msg) d = total_of (bm_Outputs msg) d"
    and "i \<in> set (bm_Inputs msg)" "j \<in> set (bm_Outputs msg)" "\<not> exempt_between (zone_of s (fst i)) (zone_of s (fst j))"
    and differ: "(\<Sum>e\<leftarrow>bm_Inputs msg. tax_of s (amt (snd e) d)) \<noteq> (\<Sum>e\<leftarrow>bm_Outputs msg. tax_of s (amt (snd e) d))"
  shows "\<nexists>s'. BankMsgServer_MultiSend A K ctx msg s = (Ok (), s')"
proof
  assume "\<exists>s'. BankMsgServer_MultiSend A K ctx msg s = (Ok (), s')"
  then obtain s' where run: "BankMsgServer_MultiSend A K ctx msg s = (Ok (), s')" ..
  have "tainted_inputs is (map fst (bm_Outputs msg)) s = (Ok (\<exists>e\<in>set is. \<not> list_all (\<lambda>r. exempt_between (zone_of s (fst e)) (zone_of s r)) (map fst (bm_Outputs msg))), s)" for "is"
    by (induction "is") (auto simp: bnd_Ok IsExempted_run)
  then have "tainted_inputs (bm_Inputs msg) (map fst (bm_Outputs msg)) s = (Ok True, s)"
    using assms(7-9) by (force simp: list_all_iff)
  then obtain ins outs s1 s2 b where
    io: "deduct_side K ctx False (bm_Inputs msg) s = (Ok ins, s1)" "deduct_side K ctx True (bm_Outputs msg) s1 = (Ok outs, s2)"
    and sent: "bank_MultiSend A \<lparr>bm_Inputs = ins, bm_Outputs = outs\<rparr> (ext s2) = (Ok (), b)"
    using run assms(4) by (auto simp: BankMsgServer_MultiSend_def IsReverseCharge_def bnd_Ok bnd_run_iff_Ok sdk_call_run)
  have i: "x_params s1 = x_params s" "total_of ins d = total_of (bm_Inputs msg) d - (\<Sum>e\<leftarrow>bm_Inputs msg. tax_of s (amt (snd e) d))"
    using deduct_side_total [OF assms(1) _ assms(3,4) io(1), of d] assms(5) by simp_all
  then have "rate_ok s1" "tax_of s1 = tax_of s" using assms(3) by (simp_all add: rate_ok_def tax_of_def fun_eq_iff)
  then have "total_of outs d = total_of (bm_Outputs msg) d - (\<Sum>e\<leftarrow>bm_Outputs msg. tax_of s (amt (snd e) d))"
    using deduct_side_total [OF assms(1) _ _ assms(4) io(2), of d] assms(5) by simp
  then show False using tx_laws.MultiSend_balanced [OF assms(2) sent, of d] i(2) assms(6) differ by simp
qed

end
