(* ===== verification/Tax_Sample.thy ===== *)
theory Tax_Sample
  imports Tax_Collect Exemption_Sample
begin

text \<open>The bank's message server on the sample ledger, and a chain on which the theorems of the tax module are instantiated.\<close>

definition ref_bank_Send :: "msg_send \<Rightarrow> (ledger, unit) go" where
  "ref_bank_Send m b =
     (case (bech_decode ''terra1'' (bs_FromAddress m), bech_decode ''terra1'' (bs_ToAddress m)) of
        (Ok x, Ok y) \<Rightarrow> ref_send x y (bs_Amount m) b
      | _ \<Rightarrow> (Err ErrInvalidAddress, b))"

text \<open>One input, as the sdk demands.\<close>

definition ref_bank_MultiSend :: "msg_multi_send \<Rightarrow> (ledger, unit) go" where
  "ref_bank_MultiSend m b =
     (case bm_Inputs m of
        [(from, cs)] \<Rightarrow>
          if list_all (\<lambda>d. total_of (bm_Inputs m) d = total_of (bm_Outputs m) d) (concat (map (denoms \<circ> snd) (bm_Inputs m @ bm_Outputs m)))
          then for_each (bm_Outputs m) (\<lambda>(to, c). ref_bank_Send \<lparr>bs_FromAddress = from, bs_ToAddress = to, bs_Amount = c\<rparr>) b
          else (Err (SdkErr ''ErrInputOutputMismatch''), b)
      | _ \<Rightarrow> (Err (SdkErr ''ErrMultipleSenders''), b))"

definition tx0 :: "ledger tx_ops" where
  "tx0 = \<lparr>bank_Send = ref_bank_Send, bank_MultiSend = ref_bank_MultiSend, HasAccount = (\<lambda>b x. True)\<rparr>"

lemma total_of_notin: "d \<notin> set (concat (map (denoms \<circ> snd) es)) \<Longrightarrow> total_of es d = 0"
  by (induction es) (auto simp: total_of_def amt_notin_denoms)

lemma tx0_laws: "tx_laws tx0 sdk0"
proof
  show "moved sdk0 x y (bs_Amount m) b b'"
    if "bank_Send tx0 m b = (Ok (), b')" "AccAddressFromBech32 sdk0 (bs_FromAddress m) = Ok x" "AccAddressFromBech32 sdk0 (bs_ToAddress m) = Ok y"
    for m b b' x y
    using that bank_laws.SendCoins_moved [OF sdk0_bank, of x y "bs_Amount m" b b'] by (simp add: tx0_def ref_bank_Send_def)
  show "is_Ok (AccAddressFromBech32 sdk0 (bs_ToAddress m))" if "bank_Send tx0 m b = (Ok (), b')" for m b b'
    using that by (auto simp: tx0_def ref_bank_Send_def split: outcome.splits)
  show "total_of (bm_Inputs mm) d = total_of (bm_Outputs mm) d" if "bank_MultiSend tx0 mm b = (Ok (), b')" for mm b b' d
  proof -
    have "list_all (\<lambda>d. total_of (bm_Inputs mm) d = total_of (bm_Outputs mm) d) (concat (map (denoms \<circ> snd) (bm_Inputs mm @ bm_Outputs mm)))"
      using that by (auto simp: tx0_def ref_bank_MultiSend_def split: list.splits prod.splits if_splits)
    then show ?thesis using total_of_notin [of d "bm_Inputs mm"] total_of_notin [of d "bm_Outputs mm"]
      by (cases "d \<in> set (concat (map (denoms \<circ> snd) (bm_Inputs mm @ bm_Outputs mm)))") (force simp: list_all_iff)+
  qed
qed

interpretation ref_tx: tx_laws tx0 sdk0
  by (rule tx0_laws)

section \<open>A chain with tax\<close>

definition tax_ledger :: ledger where
  "tax_ledger = sample_ledger\<lparr>lg_entries := [(module_addr ''fee_collector'', ''uluna'', 1000), (val_a, ''uluna'', 250000)],
     lg_community_tax := 20000000000000000\<rparr>"

definition sample_tax :: "ledger tax_state" where
  "sample_tax = exemption_state.extend (two_zones\<lparr>ext := tax_ledger,
       t_params := treasury_DefaultParams\<lparr>tp_OracleSplit := 500000000000000000\<rparr>, ZoneOf := []\<rparr>)
     \<lparr>x_params = Some \<lparr>xp_GasPrices = [], xp_BurnTaxRate = Some 5000000000000000\<rparr>\<rparr>"

abbreviation luna :: "int \<Rightarrow> coins" where
  "luna n \<equiv> [\<lparr>Denom = ''uluna'', Amount = n\<rparr>]"

lemma sample_tax_sel:
  "ext sample_tax = tax_ledger" "tp_BurnTaxSplit (t_params sample_tax) = 100000000000000000"
  "tp_OracleSplit (t_params sample_tax) = 500000000000000000" "TaxProceeds sample_tax = Some [\<lparr>Denom = ''usdr'', Amount = 30\<rparr>]"
  "x_params sample_tax = Some \<lparr>xp_GasPrices = [], xp_BurnTaxRate = Some 5000000000000000\<rparr>" "zone_of sample_tax a = None"
  by (simp_all add: sample_tax_def exemption_state.extend_def zone_sample_simps treasury_sample_simps zone_of_def)

lemma sample_tax_arith:
  "ref_Mul 20000000000000000 500000000000000000 = Ok 10000000000000000"
  "ref_Quo 500000000000000000 990000000000000000 = Ok 505050505050505051"
  "ref_Mul 20000000000000000 505050505050505051 = Ok 10101010101010101"
  by (simp_all add: sdk0_dec_simps)

lemma sample_shares: "tax_shares sdk0 sample_tax 1000 = (1, 50, 900)"
  by (simp add: tax_shares_def sample_tax_sel community_rate_def tax_ledger_def sample_tax_arith)
    (simp add: sdk0_dec_simps)

lemma sample_rates_ok: "split_rates_ok sdk0 sample_tax"
  by (simp add: split_rates_ok_def sample_tax_sel tax_ledger_def)

lemma luna_valid: "0 < n \<Longrightarrow> valid_coins sdk0 (luna n)"
  by (simp add: valid_coins_sdk0 ref_IsValid_def sample_denoms)

lemma sample_pool: "valid_coins sdk0 (CommunityPool sdk0 (ext sample_tax))"
  by (simp add: sample_tax_sel tax_ledger_def sample_ledger_def valid_coins_def)

lemma sample_collectable: "collectable sdk0 (\<lambda>_. True) sample_tax"
  using sample_rates_ok sample_pool sample_valid by (simp add: collectable_def proceeds_def sample_tax_sel)

lemmas module_names = FeeCollectorName_def distribution_ModuleName_def oracle_ModuleName_def BurnModuleName_def module_addr_def

theorem ProcessTaxSplits_distributes_witness:
  "\<exists>b. ProcessTaxSplits sdk0 (luna 1000) sample_tax = (Ok (), sample_tax\<lparr>ext := b\<rparr>)
     \<and> bal sdk0 b (module_addr ''burn'') ''uluna'' = 900 \<and> bal sdk0 b (module_addr ''fee_collector'') ''uluna'' = 49"
proof -
  have reg: "list_all (\<lambda>_. True) [FeeCollectorName, distribution_ModuleName, oracle_ModuleName, BurnModuleName]" by simp
  have funds: "\<forall>d. amt (luna 1000) d \<le> bal sdk0 (ext sample_tax) (GetModuleAddress sdk0 FeeCollectorName) d"
    by (simp add: bal_def ref_bal_def sample_tax_sel tax_ledger_def FeeCollectorName_def module_addr_def sample_denoms val_a_def)
  obtain b where r: "ProcessTaxSplits sdk0 (luna 1000) sample_tax = (Ok (), sample_tax\<lparr>ext := b\<rparr>)"
    and mv: "shares_moved sdk0 sample_tax (luna 1000) (ext sample_tax) b"
    using ProcessTaxSplits_distributes [OF sdk0_module reg luna_valid [of 1000] sample_rates_ok sample_pool funds] by auto
  have sh: "tax_shares sdk0 sample_tax (amt (luna 1000) ''uluna'') = (1, 50, 900)" using sample_shares by simp
  show ?thesis
    using r shares_movedD(1) [OF mv sh, of "module_addr ''burn''"] shares_movedD(1) [OF mv sh, of "module_addr ''fee_collector''"]
    by (intro exI [of _ b]) (simp add: bal_def ref_bal_def sample_tax_sel tax_ledger_def module_names sample_denoms val_a_def)
qed

section \<open>Collecting\<close>

definition due_ctx :: tx_ctx where
  "due_ctx = \<lparr>MinGasPrices = [], IsCheckTx = False, IsReCheckTx = False, Priority = 0,
     TaxReverseCharge = Some False, TaxDue = Some (luna 1000), TaxPayer = Some acc_a\<rparr>"

lemma val_a_not_module: "val_a \<noteq> GetModuleAddress sdk0 FeeCollectorName"
  by (simp add: module_names val_a_def)

theorem PostHandle_collects_witness:
  "\<exists>s'. tax_PostHandle tx0 sdk0 due_ctx ret sample_tax = (Ok due_ctx, s')
     \<and> bal sdk0 (ext s') val_a ''uluna'' = 249000 \<and> bal sdk0 (ext s') (module_addr ''burn'') ''uluna'' = 900"
proof -
  obtain b where b: "ref_send val_a (module_addr ''fee_collector'') (luna 1000) tax_ledger = (Ok (), b)"
    by (rule ref_send_one [of "''uluna''" 1000 tax_ledger val_a "module_addr ''fee_collector''"])
      (simp_all add: sample_denoms ref_bal_def tax_ledger_def module_names val_a_def)
  have "if luna 1000 = [] then tax_PostHandle tx0 sdk0 due_ctx ret sample_tax = ret due_ctx sample_tax
    else (case SendCoinsFromAccountToModule sdk0 val_a FeeCollectorName (luna 1000) (ext sample_tax) of
        (Ok _, _) \<Rightarrow> \<exists>s'. tax_paid sdk0 val_a (luna 1000) sample_tax s' \<and> tax_PostHandle tx0 sdk0 due_ctx ret sample_tax = ret due_ctx s'
      | (Err _, b) \<Rightarrow> tax_PostHandle tx0 sdk0 due_ctx ret sample_tax = (Err ErrInsufficientFunds, sample_tax\<lparr>ext := b\<rparr>)
      | (Panic, b) \<Rightarrow> tax_PostHandle tx0 sdk0 due_ctx ret sample_tax = (Panic, sample_tax\<lparr>ext := b\<rparr>))"
    by (rule PostHandle_collects [OF sdk0_module sample_collectable _ _ _ val_a_not_module, of _ acc_a])
      (simp_all add: due_ctx_def tx0_def luna_valid)
  then obtain s' where s': "tax_paid sdk0 val_a (luna 1000) sample_tax s'" "tax_PostHandle tx0 sdk0 due_ctx ret sample_tax = (Ok due_ctx, s')"
    using b by (auto simp: sample_tax_sel FeeCollectorName_def)
  have sh: "tax_shares sdk0 sample_tax (amt (luna 1000) ''uluna'') = (1, 50, 900)" using sample_shares by simp
  show ?thesis
    using s'(2) tax_paidD [OF s'(1) sh, of val_a] tax_paidD [OF s'(1) sh, of "module_addr ''burn''"]
    by (intro exI [of _ s']) (simp add: bal_def ref_bal_def sample_tax_sel tax_ledger_def module_names sample_denoms val_a_def)
qed

definition reverse_ctx :: tx_ctx where
  "reverse_ctx = due_ctx\<lparr>TaxReverseCharge := Some True, TaxDue := None\<rparr>"

definition sample_send :: msg_send where
  "sample_send = \<lparr>bs_FromAddress = acc_a, bs_ToAddress = acc_b, bs_Amount = luna 200000\<rparr>"

lemma sample_rate_ok: "rate_ok sample_tax"
  by (simp add: rate_ok_def sample_tax_sel)

lemma luna_taxable: "0 < n \<Longrightarrow> n < 2 ^ 254 \<Longrightarrow> taxable_amount sdk0 (luna n)"
  using luna_valid by (simp add: taxable_amount_def)

lemma sample_compute: "ComputeTax sdk0 (luna 200000) sample_tax = (Ok (luna 1000), sample_tax)"
  "ref_Sub (luna 200000) (luna 1000) = Ok (luna 199000)"
proof -
  have "ref_Mul 200000000000000000000000 5000000000000000 = Ok 1000000000000000000000" by (simp add: sdk0_dec_simps)
  moreover have "go_quot 1000000000000000000000 OneDec = 1000" by (simp add: go_quot_def)
  moreover have "ref_Add [] (luna 1000) = Ok (luna 1000)" by (simp add: ref_Add_def tabulate_def denoms_def)
  moreover have "GetBurnTaxRate sample_tax = (Ok (Some 5000000000000000), sample_tax)"
    by (simp add: GetBurnTaxRate_def tax_GetParams_def sample_tax_sel)
  ultimately show "ComputeTax sdk0 (luna 200000) sample_tax = (Ok (luna 1000), sample_tax)"
    by (simp add: ComputeTax_def bnd_Ok the_dec_def NewDec_def ref_NewCoin_def sample_denoms Let_def)
  show "ref_Sub (luna 200000) (luna 1000) = Ok (luna 199000)" by (simp add: ref_Sub_def tabulate_def denoms_def)
qed

lemma sample_send_run: "\<exists>s'. BankMsgServer_Send tx0 sdk0 reverse_ctx sample_send sample_tax = (Ok (), s')"
proof -
  obtain b where b: "ref_send val_a (module_addr ''fee_collector'') (luna 1000) tax_ledger = (Ok (), b)"
    by (rule ref_send_one [of "''uluna''" 1000 tax_ledger val_a "module_addr ''fee_collector''"])
      (simp_all add: sample_denoms ref_bal_def tax_ledger_def module_names val_a_def)
  then have A: "SendCoinsFromAccountToModule sdk0 val_a FeeCollectorName (luna 1000) (ext sample_tax) = (Ok (), b)"
    by (simp add: sample_tax_sel FeeCollectorName_def)
  obtain b1 s1 where c: "ProcessTaxSplits sdk0 (luna 1000) (sample_tax\<lparr>ext := b\<rparr>) = (Ok (), sample_tax\<lparr>ext := b1\<rparr>)"
    "RecordEpochTaxProceeds sdk0 (luna 1000) (sample_tax\<lparr>ext := b1\<rparr>) = (Ok (), s1)" "tax_paid sdk0 val_a (luna 1000) sample_tax s1"
    using collect_run [OF sdk0_module sample_collectable luna_valid val_a_not_module A] by auto
  have sh: "tax_shares sdk0 sample_tax (amt (luna 1000) ''uluna'') = (1, 50, 900)" using sample_shares by simp
  have bal: "ref_bal (ext s1) val_a ''uluna'' = 249000"
    using tax_paidD [OF c(3) sh, of val_a] by (simp add: bal_def ref_bal_def sample_tax_sel tax_ledger_def module_names sample_denoms val_a_def)
  obtain b2 where b2: "ref_send val_a val_b (luna 199000) (ext s1) = (Ok (), b2)"
    by (rule ref_send_one [of "''uluna''" 199000 "ext s1" val_a val_b]) (simp_all add: bal sample_denoms)
  have "DeductTax sdk0 reverse_ctx val_a (luna 200000) False sample_tax = (Ok (luna 199000), s1)"
    using A c(1,2) sample_compute
    by (simp add: DeductTax_def IsReverseCharge_def reverse_ctx_def bnd_Ok seq_case sdk_call_def)
  then show ?thesis
    using b2 by (simp add: BankMsgServer_Send_def IsReverseCharge_def reverse_ctx_def sample_send_def bnd_def IsExempted_run
        sample_tax_sel sdk_call_def tx0_def ref_bank_Send_def)
qed

theorem reverse_charge_Send_witness:
  "\<exists>s'. BankMsgServer_Send tx0 sdk0 reverse_ctx sample_send sample_tax = (Ok (), s')
     \<and> bal sdk0 (ext s') val_a ''uluna'' = 50000 \<and> bal sdk0 (ext s') val_b ''uluna'' = 199000"
proof -
  obtain s' where run: "BankMsgServer_Send tx0 sdk0 reverse_ctx sample_send sample_tax = (Ok (), s')" using sample_send_run ..
  have pre: "taxable_amount sdk0 (bs_Amount sample_send)" "AccAddressFromBech32 sdk0 (bs_FromAddress sample_send) = Ok val_a"
    "AccAddressFromBech32 sdk0 (bs_ToAddress sample_send) = Ok val_b" "TaxReverseCharge reverse_ctx = Some True"
    "\<not> exempt_between (zone_of sample_tax (bs_FromAddress sample_send)) (zone_of sample_tax (bs_ToAddress sample_send))"
    by (simp_all add: sample_send_def reverse_ctx_def luna_taxable sample_tax_sel)
  have amounts: "(200000 :: int) = amt (bs_Amount sample_send) ''uluna''" "(1000 :: int) = tax_of sample_tax 200000"
    by (simp_all add: sample_send_def tax_of_def sample_tax_sel)
  note r = reverse_charge_Send [OF sdk0_module tx0_laws sample_collectable pre(1) sample_rate_ok pre(2,3) val_a_not_module pre(4,5) run,
      rule_format, OF amounts sample_shares, THEN conjunct1, rule_format]
  show ?thesis
    using run r [of val_a] r [of val_b]
    by (intro exI [of _ s']) (simp add: bal_def ref_bal_def sample_tax_sel tax_ledger_def module_names sample_denoms val_a_def val_b_def)
qed

definition sample_multi :: msg_multi_send where
  "sample_multi = \<lparr>bm_Inputs = [(acc_a, luna 300)], bm_Outputs = [(acc_b, luna 150), (acc_a, luna 150)]\<rparr>"

theorem MultiSend_rounding_refused_witness:
  "(\<forall>d. total_of (bm_Inputs sample_multi) d = total_of (bm_Outputs sample_multi) d)
   \<and> (\<nexists>s'. BankMsgServer_MultiSend tx0 sdk0 reverse_ctx sample_multi sample_tax = (Ok (), s'))"
proof
  show "\<forall>d. total_of (bm_Inputs sample_multi) d = total_of (bm_Outputs sample_multi) d"
    by (simp add: total_of_def sample_multi_def)
  then have b: "total_of (bm_Inputs sample_multi) d = total_of (bm_Outputs sample_multi) d" for d by blast
  show "\<nexists>s'. BankMsgServer_MultiSend tx0 sdk0 reverse_ctx sample_multi sample_tax = (Ok (), s')"
    by (rule MultiSend_rounding_refused [OF sdk0_coin tx0_laws sample_rate_ok _ _ b, of _ "(acc_a, luna 300)" "(acc_b, luna 150)" "''uluna''"])
      (simp_all add: sample_multi_def reverse_ctx_def luna_taxable sample_tax_sel tax_of_def)
qed

end
