(* ===== verification/Tx_Types.thy ===== *)
theory Tx_Types
  imports Tax
begin

text \<open>
  Transactions as the handlers around message execution see them: the messages the code distinguishes by type, the
  parts of a transaction it reads, and the chain of handlers.  A message that embeds others carries them in decoded form.
\<close>

datatype tx_msg =
    MsgSend msg_send
  | MsgMultiSend msg_multi_send
  | MsgSwapSend msg_swap_send
  | MsgInstantiateContract coins                        \<comment> \<open>the funds\<close>
  | MsgInstantiateContract2 coins
  | MsgExecuteContract string string coins              \<comment> \<open>sender, contract, funds\<close>
  | MsgExec "tx_msg list option"                        \<comment> \<open>authz; \<open>None\<close> if \<open>GetMessages\<close> fails\<close>
  | MsgAggregateExchangeRatePrevote msg_prevote
  | MsgAggregateExchangeRateVote msg_vote
  | MsgSubmitProposalV1Beta1 coins                      \<comment> \<open>the initial deposit\<close>
  | MsgSubmitProposalV1 coins
  | MsgTransfer string string                           \<comment> \<open>ibc: receiver, memo\<close>
  | MsgRecvPacket "(bool \<times> tx_msg list option) option"   \<comment> \<open>ibc: \<open>None\<close> if the data is no interchain account packet,
      whether it executes a transaction, and its messages if they decode\<close>
  | MsgCreateValidator string dec                       \<comment> \<open>validator, commission rate\<close>
  | MsgEditValidator string "dec option"
  | OtherMsg

text \<open>\<open>IsOracleTx\<close> of \<open>app/helper\<close>.\<close>

fun is_oracle_msg :: "tx_msg \<Rightarrow> bool" where
  "is_oracle_msg (MsgAggregateExchangeRatePrevote _) = True"
| "is_oracle_msg (MsgAggregateExchangeRateVote _) = True"
| "is_oracle_msg _ = False"

definition IsOracleTx :: "tx_msg list \<Rightarrow> bool" where
  "IsOracleTx msgs \<longleftrightarrow> msgs \<noteq> [] \<and> list_all is_oracle_msg msgs"

text \<open>The parts of a fee transaction; gas is an unsigned 64-bit number.\<close>

record fee_tx =
  tx_Msgs :: "tx_msg list"
  tx_Gas :: int
  tx_Fee :: coins
  tx_FeePayer :: string
  tx_FeeGranter :: "string option"

type_synonym ('s) handler = "tx_ctx \<Rightarrow> ('s, tx_ctx) go"

end
