(* ===== verification/Dyncomm.thy ===== *)
theory Dyncomm
  imports Tx_Types
begin

text \<open>
  The dynamic commission module (\<open>x/dyncomm\<close>): at the end of every week each bonded validator gets a minimum commission
  that grows with its voting power, and its commission is raised to it; the ante handler refuses edits below the
  minimum and the post handler records the commission a validator asks for.
\<close>

section \<open>Parameters\<close>

record dyncomm_params =
  dp_MaxZero :: dec
  dp_SlopeBase :: dec
  dp_SlopeVpImpact :: dec
  dp_Cap :: dec

definition dyncomm_DefaultParams :: dyncomm_params where
  "dyncomm_DefaultParams = \<lparr>dp_MaxZero = NewDecWithPrec 5 1, dp_SlopeBase = NewDecWithPrec 2 0,
     dp_SlopeVpImpact = NewDecWithPrec 10 0, dp_Cap = NewDecWithPrec 2 1\<rparr>"

definition dyncomm_Params_Validate :: "dyncomm_params \<Rightarrow> unit outcome" where
  "dyncomm_Params_Validate p =
     (if dp_SlopeBase p < 0 then Err (FmtErr ''slope base'')
      else if \<not> 0 < dp_SlopeVpImpact p then Err (FmtErr ''slope vp impact'')
      else if dp_Cap p < 0 then Err (FmtErr ''cap'')
      else if dp_Cap p > OneDec then Err (FmtErr ''cap'')
      else if dp_MaxZero p < 0 then Err (FmtErr ''max zero'')
      else if dp_MaxZero p > OneDec then Err (FmtErr ''max zero'')
      else Ok ())"

definition validateMaxZero :: "dec \<Rightarrow> unit outcome" where
  "validateMaxZero v = (if v < 0 then Err (FmtErr ''max zero'') else if v > OneDec then Err (FmtErr ''max zero'') else Ok ())"

definition validateSlopeBase :: "dec \<Rightarrow> unit outcome" where
  "validateSlopeBase v = (if v < 0 then Err (FmtErr ''slope base'') else Ok ())"

definition validateSlopeVpImpact :: "dec \<Rightarrow> unit outcome" where
  "validateSlopeVpImpact v = (if \<not> 0 < v then Err (FmtErr ''slope vp impact'') else Ok ())"

definition validateCap :: "dec \<Rightarrow> unit outcome" where
  "validateCap v = (if v < 0 then Err (FmtErr ''cap'') else if v > OneDec then Err (FmtErr ''cap'') else Ok ())"

definition dyncomm_ParamSetPairs :: "dyncomm_params \<Rightarrow> (unit outcome \<times> (dyncomm_params \<Rightarrow> dyncomm_params)) list" where
  "dyncomm_ParamSetPairs p =
     [(validateMaxZero (dp_MaxZero p), dp_MaxZero_update (\<lambda>_. dp_MaxZero p)),
      (validateSlopeBase (dp_SlopeBase p), dp_SlopeBase_update (\<lambda>_. dp_SlopeBase p)),
      (validateSlopeVpImpact (dp_SlopeVpImpact p), dp_SlopeVpImpact_update (\<lambda>_. dp_SlopeVpImpact p)),
      (validateCap (dp_Cap p), dp_Cap_update (\<lambda>_. dp_Cap p))]"

section \<open>Keeper\<close>

text \<open>What the module uses of the staking keeper; validators are visited in the order of \<open>Validators\<close>.\<close>

record 'b dyn_ops =
  LastTotalPower :: "'b \<Rightarrow> int"
  MinCommissionRate :: "'b \<Rightarrow> dec"
  Validators :: "'b \<Rightarrow> validator list"
  SetValidator :: "validator \<Rightarrow> 'b \<Rightarrow> 'b"

record commission_rate =
  cr_ValidatorAddress :: string
  cr_MinCommissionRate :: dec
  cr_TargetCommissionRate :: dec

record 'b dyncomm_state = "'b tax_state" +
  d_params :: dyncomm_params
  CommissionRates :: "commission_rate kv"

definition GetMinCommissionRatesKey :: "string \<Rightarrow> string" where
  "GetMinCommissionRatesKey addr = CHR 0x01 # addr"

definition GetMaxZero :: "(('b, 'x) dyncomm_state_scheme, dec) go" where
  "GetMaxZero = gets (\<lambda>s. dp_MaxZero (d_params s))"

definition GetSlopeBase :: "(('b, 'x) dyncomm_state_scheme, dec) go" where
  "GetSlopeBase = gets (\<lambda>s. dp_SlopeBase (d_params s))"

definition GetSlopeVpImpact :: "(('b, 'x) dyncomm_state_scheme, dec) go" where
  "GetSlopeVpImpact = gets (\<lambda>s. dp_SlopeVpImpact (d_params s))"

definition GetCap :: "(('b, 'x) dyncomm_state_scheme, dec) go" where
  "GetCap = gets (\<lambda>s. dp_Cap (d_params s))"

definition dyncomm_GetParams :: "(('b, 'x) dyncomm_state_scheme, dyncomm_params) go" where
  "dyncomm_GetParams = gets d_params"

definition dyncomm_SetParams :: "dyncomm_params \<Rightarrow> (('b, 'x) dyncomm_state_scheme, unit) go" where
  "dyncomm_SetParams p =
     SetParamSet d_params_update (dyncomm_ParamSetPairs p)"

text \<open>The voting power of a validator in percent.\<close>

definition CalculateVotingPower ::
  "('b, 'w) dyn_ops_scheme \<Rightarrow> ('b, 'z) staking_ops_scheme \<Rightarrow> validator \<Rightarrow> (('b, 'x) dyncomm_state_scheme, dec) go" where
  "CalculateVotingPower S K val =
     bnd (gets ext) (\<lambda>b.
     bnd (lift (if in_i64 (LastTotalPower S b) then Ok (LastTotalPower S b) else Panic)) (\<lambda>totalPower.
     bnd (lift (TokensToConsensusPower K (v_Tokens val) (PowerReduction K b))) (\<lambda>validatorPower.
     bnd (lift (dec_QuoInt K (NewDec validatorPower) totalPower)) (\<lambda>q. ret (q * 100)))))"

definition CalculateDynCommission ::
  "('b, 'w) dyn_ops_scheme \<Rightarrow> ('b, 'z) staking_ops_scheme \<Rightarrow> validator \<Rightarrow> (('b, 'x) dyncomm_state_scheme, dec) go" where
  "CalculateDynCommission S K val =
     bnd GetMaxZero (\<lambda>a.
     bnd GetSlopeBase (\<lambda>b.
     bnd GetSlopeVpImpact (\<lambda>c.
     bnd GetCap (\<lambda>cap.
     let d = cap * 100 in
     bnd (CalculateVotingPower S K val) (\<lambda>x.
     let factorA = x - a in
     bnd (lift (dec_Quo K x c)) (\<lambda>quotient.
     let factorB = quotient + b in
     bnd (gets (\<lambda>s. MinCommissionRate S (ext s) * 100)) (\<lambda>minComm.
     bnd (lift (dec_Mul K factorA factorB)) (\<lambda>y.
     let y = (if y > d then d else y);
         y = (if minComm > y then minComm else y) in
     lift (dec_QuoInt K y 100)))))))))"

definition SetDynCommissionRate :: "string \<Rightarrow> dec \<Rightarrow> (('b, 'x) dyncomm_state_scheme, unit) go" where
  "SetDynCommissionRate val rate =
     bnd (gets (\<lambda>s. kv_get (GetMinCommissionRatesKey val) (CommissionRates s))) (\<lambda>bz.
     let targetRate = (case bz of None \<Rightarrow> 0 | Some r \<Rightarrow> cr_TargetCommissionRate r) in
     modify (\<lambda>s. s\<lparr>CommissionRates := kv_set (GetMinCommissionRatesKey val)
       \<lparr>cr_ValidatorAddress = val, cr_MinCommissionRate = rate, cr_TargetCommissionRate = targetRate\<rparr> (CommissionRates s)\<rparr>))"

definition SetTargetCommissionRate :: "string \<Rightarrow> dec \<Rightarrow> (('b, 'x) dyncomm_state_scheme, unit) go" where
  "SetTargetCommissionRate val rate =
     bnd (gets (\<lambda>s. kv_get (GetMinCommissionRatesKey val) (CommissionRates s))) (\<lambda>bz.
     let minRate = (case bz of None \<Rightarrow> 0 | Some r \<Rightarrow> cr_MinCommissionRate r) in
     modify (\<lambda>s. s\<lparr>CommissionRates := kv_set (GetMinCommissionRatesKey val)
       \<lparr>cr_ValidatorAddress = val, cr_MinCommissionRate = minRate, cr_TargetCommissionRate = rate\<rparr> (CommissionRates s)\<rparr>))"

definition GetDynCommissionRate :: "string \<Rightarrow> (('b, 'x) dyncomm_state_scheme, dec) go" where
  "GetDynCommissionRate val =
     gets (\<lambda>s. case kv_get (GetMinCommissionRatesKey val) (CommissionRates s) of None \<Rightarrow> 0 | Some r \<Rightarrow> cr_MinCommissionRate r)"

definition GetTargetCommissionRate :: "string \<Rightarrow> (('b, 'x) dyncomm_state_scheme, dec) go" where
  "GetTargetCommissionRate val =
     gets (\<lambda>s. case kv_get (GetMinCommissionRatesKey val) (CommissionRates s) of None \<Rightarrow> 0 | Some r \<Rightarrow> cr_TargetCommissionRate r)"

definition IterateDynCommissionRates ::
  "(commission_rate \<Rightarrow> 'c \<Rightarrow> (('b, 'x) dyncomm_state_scheme, 'c \<times> bool) go) \<Rightarrow> 'c \<Rightarrow> (('b, 'x) dyncomm_state_scheme, 'c) go" where
  "IterateDynCommissionRates cb c = bnd (gets CommissionRates) (\<lambda>entries. iter_loop (map snd entries) cb c)"

definition UpdateValidatorMinRates ::
  "('b, 'w) dyn_ops_scheme \<Rightarrow> ('b, 'z) staking_ops_scheme \<Rightarrow> validator \<Rightarrow> (('b, 'x) dyncomm_state_scheme, unit) go" where
  "UpdateValidatorMinRates S K val =
     bnd (CalculateDynCommission S K val) (\<lambda>minRate.
     bnd (GetTargetCommissionRate (ValAddress_String K (v_Operator val))) (\<lambda>targetRate.
     let newRate = (if targetRate < minRate then minRate else targetRate);
         newMaxRate = (if v_MaxRate val < minRate then minRate else v_MaxRate val) in
     seq (modify (\<lambda>s. s\<lparr>ext := SetValidator S (val\<lparr>v_CommissionRate := newRate, v_MaxRate := newMaxRate\<rparr>) (ext s)\<rparr>))
         (SetDynCommissionRate (ValAddress_String K (v_Operator val)) minRate)))"

definition UpdateAllBondedValidatorRates ::
  "('b, 'w) dyn_ops_scheme \<Rightarrow> ('b, 'z) staking_ops_scheme \<Rightarrow> (('b, 'x) dyncomm_state_scheme, unit) go" where
  "UpdateAllBondedValidatorRates S K =
     bnd (gets (\<lambda>s. Validators S (ext s))) (\<lambda>vals.
     for_each vals (\<lambda>val. if \<not> v_IsBonded val then ret () else UpdateValidatorMinRates S K val))"

definition dyncomm_EndBlocker ::
  "('b, 'w) dyn_ops_scheme \<Rightarrow> ('b, 'z) staking_ops_scheme \<Rightarrow> (('b, 'x) dyncomm_state_scheme, unit) go" where
  "dyncomm_EndBlocker S K =
     bnd (gets BlockHeight) (\<lambda>height.
     bnd (lift (IsPeriodLastBlock height BlocksPerWeek)) (\<lambda>isLast.
     if \<not> isLast then ret () else UpdateAllBondedValidatorRates S K))"

section \<open>Genesis and queries\<close>

record dyncomm_genesis =
  dg_Params :: dyncomm_params
  dg_ValidatorCommissionRates :: "commission_rate list"

definition dyncomm_DefaultGenesisState :: dyncomm_genesis where
  "dyncomm_DefaultGenesisState = \<lparr>dg_Params = dyncomm_DefaultParams, dg_ValidatorCommissionRates = []\<rparr>"

text \<open>The rates of the genesis state are not read.\<close>

definition dyncomm_InitGenesis ::
  "('b, 'w) dyn_ops_scheme \<Rightarrow> ('b, 'z) staking_ops_scheme \<Rightarrow> dyncomm_genesis \<Rightarrow> (('b, 'x) dyncomm_state_scheme, unit) go" where
  "dyncomm_InitGenesis S K data =
     seq (dyncomm_SetParams (dg_Params data))
     (seq (bnd (gets (\<lambda>s. Validators S (ext s))) (\<lambda>vals.
             for_each vals (\<lambda>val. SetTargetCommissionRate (ValAddress_String K (v_Operator val)) (v_CommissionRate val))))
     (must (UpdateAllBondedValidatorRates S K)))"

definition dyncomm_ExportGenesis :: "(('b, 'x) dyncomm_state_scheme, dyncomm_genesis) go" where
  "dyncomm_ExportGenesis =
     bnd dyncomm_GetParams (\<lambda>params.
     bnd (IterateDynCommissionRates (\<lambda>rate rates. ret (rates @ [rate], False)) []) (\<lambda>rates.
     ret \<lparr>dg_Params = params, dg_ValidatorCommissionRates = rates\<rparr>))"

definition q_Rate :: "string \<Rightarrow> (('b, 'x) dyncomm_state_scheme, dec \<times> dec) go" where
  "q_Rate validatorAddr =
     bnd (GetDynCommissionRate validatorAddr) (\<lambda>rate.
     bnd (GetTargetCommissionRate validatorAddr) (\<lambda>target. ret (rate, target)))"

section \<open>Ante handler\<close>

definition ErrUnauthorized :: error where "ErrUnauthorized = SdkErr ''ErrUnauthorized''"

definition ante_ProcessEditValidator :: "string \<Rightarrow> dec option \<Rightarrow> (('b, 'x) dyncomm_state_scheme, unit) go" where
  "ante_ProcessEditValidator operator commissionRate =
     (case commissionRate of
        None \<Rightarrow> ret ()
      | Some newIntendedRate \<Rightarrow>
          bnd (GetDynCommissionRate operator) (\<lambda>dynMinRate.
          if newIntendedRate < dynMinRate then raise (FmtErr ''commission must be at least the minimum'') else ret ()))"

text \<open>
  The loop over the messages carries the named result \<open>err\<close>: a branch that does not assign it sees what an earlier
  message left there.  \<open>dyn_msg\<close> is one round of the switch: whether \<open>err\<close> then holds an error, and whether the
  round goes on to the test of \<open>err\<close> (\<open>False\<close> where the source says \<open>continue\<close>).
\<close>

fun dyn_msg :: "tx_msg \<Rightarrow> bool \<Rightarrow> (('b, 'x) dyncomm_state_scheme, bool \<times> bool) go"
  and dyn_msgs :: "tx_msg list \<Rightarrow> bool \<Rightarrow> (('b, 'x) dyncomm_state_scheme, unit) go" where
  "dyn_msg (MsgEditValidator operator rate) err =
     bnd (attempt (ante_ProcessEditValidator operator rate)) (\<lambda>r. ret (case r of Inl _ \<Rightarrow> True | Inr _ \<Rightarrow> False, True))"
| "dyn_msg (MsgExec (Some messages)) err =
     bnd (attempt (dyn_msgs messages False)) (\<lambda>r. ret (case r of Inl _ \<Rightarrow> True | Inr _ \<Rightarrow> False, True))"
| "dyn_msg (MsgExec None) err = ret (err, True)"
| "dyn_msg (MsgRecvPacket None) err = ret (True, False)"
| "dyn_msg (MsgRecvPacket (Some (False, _))) err = ret (False, False)"
| "dyn_msg (MsgRecvPacket (Some (True, Some messages))) err =
     bnd (attempt (dyn_msgs messages False)) (\<lambda>r. ret (case r of Inl _ \<Rightarrow> True | Inr _ \<Rightarrow> False, True))"
| "dyn_msg (MsgRecvPacket (Some (True, None))) err = ret (False, True)"
| "dyn_msg _ err = ret (err, False)"
| "dyn_msgs [] err = ret ()"
| "dyn_msgs (msg # msgs) err =
     bnd (dyn_msg msg err) (\<lambda>(err', checked).
     if checked \<and> err' then raise ErrUnauthorized else dyn_msgs msgs err')"

definition ante_FilterMsgsAndProcessMsgs :: "tx_msg list \<Rightarrow> (('b, 'x) dyncomm_state_scheme, unit) go" where
  "ante_FilterMsgsAndProcessMsgs msgs = dyn_msgs msgs False"

definition dyncomm_AnteHandle ::
  "tx_msg list \<Rightarrow> bool \<Rightarrow> tx_ctx \<Rightarrow> ('b, 'x) dyncomm_state_scheme handler \<Rightarrow> (('b, 'x) dyncomm_state_scheme, tx_ctx) go" where
  "dyncomm_AnteHandle msgs simulate ctx next =
     (if simulate then next ctx
      else seq (ante_FilterMsgsAndProcessMsgs msgs) (next ctx))"

section \<open>Post handler\<close>

fun post_ProcessMsg :: "tx_msg \<Rightarrow> (('b, 'x) dyncomm_state_scheme, unit) go" where
  "post_ProcessMsg (MsgEditValidator validatorAddress (Some newIntendedRate)) = SetTargetCommissionRate validatorAddress newIntendedRate"
| "post_ProcessMsg (MsgEditValidator validatorAddress None) = ret ()"
| "post_ProcessMsg (MsgCreateValidator validatorAddress newIntendedRate) = SetTargetCommissionRate validatorAddress newIntendedRate"
| "post_ProcessMsg _ = ret ()"

definition dyncomm_PostHandle ::
  "tx_msg list \<Rightarrow> bool \<Rightarrow> tx_ctx \<Rightarrow> ('b, 'x) dyncomm_state_scheme handler \<Rightarrow> (('b, 'x) dyncomm_state_scheme, tx_ctx) go" where
  "dyncomm_PostHandle msgs simulate ctx next =
     (if simulate then next ctx
      else if IsCheckTx ctx then next ctx
      else seq (for_each msgs post_ProcessMsg) (next ctx))"

end
