(* ===== verification/Dyncomm_Rates.thy ===== *)
theory Dyncomm_Rates
  imports Dyncomm
begin

text \<open>
  The minimum commission and its enforcement: the bounds of the formula, the weekly update of all bonded validators,
  and the ante handler's guard on nested messages.
\<close>

section \<open>What the staking keeper promises\<close>

text \<open>
  Writing a validator replaces the one of the same operator and touches neither the last total power nor the
  parameters; the consensus power is the quotient of the tokens, which panics beyond 64 bits.
\<close>

locale dyn_laws =
  fixes S :: "('b, 'w) dyn_ops_scheme" and K :: "('b, 'z) staking_ops_scheme"
  assumes SetValidator_list: "v_Operator v \<in> v_Operator ` set (Validators S b) \<Longrightarrow>
      Validators S (SetValidator S v b) = map (\<lambda>w. if v_Operator w = v_Operator v then v else w) (Validators S b)"
    and SetValidator_power: "LastTotalPower S (SetValidator S v b) = LastTotalPower S b"
    and SetValidator_min: "MinCommissionRate S (SetValidator S v b) = MinCommissionRate S b"
    and SetValidator_reduction: "PowerReduction K (SetValidator S v b) = PowerReduction K b"
    and Power_eq: "0 \<le> n \<Longrightarrow> 0 < r \<Longrightarrow> in_i64 (n div r) \<Longrightarrow> TokensToConsensusPower K n r = Ok (n div r)"

section \<open>The formula\<close>

definition voting_power :: "int \<Rightarrow> int \<Rightarrow> int \<Rightarrow> dec" where
  "voting_power tokens reduction t = NewDec (tokens div reduction) div t * 100"

definition dyn_params_ok :: "dyncomm_params \<Rightarrow> bool" where
  "dyn_params_ok p \<longleftrightarrow> dyncomm_Params_Validate p = Ok () \<and> dp_SlopeBase p \<le> 10 ^ 40"

definition power_ok :: "('b, 'w) dyn_ops_scheme \<Rightarrow> ('b, 'z) staking_ops_scheme \<Rightarrow> 'b \<Rightarrow> validator \<Rightarrow> bool" where
  "power_ok S K b v \<longleftrightarrow> 0 \<le> v_Tokens v \<and> v_Tokens v div PowerReduction K b \<le> LastTotalPower S b"

definition staking_ok :: "('b, 'w) dyn_ops_scheme \<Rightarrow> ('b, 'z) staking_ops_scheme \<Rightarrow> 'b \<Rightarrow> bool" where
  "staking_ok S K b \<longleftrightarrow> 0 < LastTotalPower S b \<and> in_i64 (LastTotalPower S b) \<and> 0 < PowerReduction K b \<and>
     0 \<le> MinCommissionRate S b"

definition validators_ok :: "('b, 'w) dyn_ops_scheme \<Rightarrow> ('b, 'z) staking_ops_scheme \<Rightarrow> 'b \<Rightarrow> bool" where
  "validators_ok S K b \<longleftrightarrow> distinct (map v_Operator (Validators S b)) \<and>
     (\<forall>v\<in>set (Validators S b). address_ok (v_Operator v) \<and> (v_IsBonded v \<longrightarrow> power_ok S K b v))"

lemma voting_power_bounds:
  assumes "0 \<le> n" "0 < r" "0 < t" "n div r \<le> t"
  shows "0 \<le> voting_power n r t" "voting_power n r t \<le> 100 * OneDec"
proof -
  have p: "0 \<le> n div r" using assms by (simp add: pos_imp_zdiv_nonneg_iff)
  show "0 \<le> voting_power n r t"
    using p assms(3) by (simp add: voting_power_def NewDec_def pos_imp_zdiv_nonneg_iff)
  have "NewDec (n div r) \<le> t * OneDec" using assms(4) by (simp add: NewDec_def)
  then have "NewDec (n div r) div t \<le> (t * OneDec) div t" using assms(3) by (rule zdiv_mono1)
  then show "voting_power n r t \<le> 100 * OneDec" using assms(3) by (simp add: voting_power_def)
qed

context dyn_laws
begin

lemma voting_power_run:
  assumes "dec_laws K" "staking_ok S K (ext s)" "power_ok S K (ext s) v"
  shows "CalculateVotingPower S K v s = (Ok (voting_power (v_Tokens v) (PowerReduction K (ext s)) (LastTotalPower S (ext s))), s)"
proof -
  let ?p = "v_Tokens v div PowerReduction K (ext s)" and ?t = "LastTotalPower S (ext s)"
  have p: "0 \<le> ?p" using assms by (simp add: staking_ok_def power_ok_def pos_imp_zdiv_nonneg_iff)
  then have "in_i64 ?p" using assms by (auto simp: staking_ok_def power_ok_def in_i64_def)
  then have "TokensToConsensusPower K (v_Tokens v) (PowerReduction K (ext s)) = Ok ?p"
    using assms Power_eq by (simp add: staking_ok_def power_ok_def)
  moreover have "dec_QuoInt K (NewDec ?p) ?t = Ok (NewDec ?p div ?t)"
    using dec_laws.QuoInt_eq [OF assms(1), of ?t "NewDec ?p"] p assms(2)
    by (simp add: staking_ok_def go_quot_nonneg NewDec_def)
  ultimately show ?thesis using assms(2) by (simp add: CalculateVotingPower_def voting_power_def staking_ok_def)
qed

end

text \<open>The commission the formula asks for before the cap, in percent.\<close>

lemma formula_total:
  assumes "dec_laws K" "dyn_params_ok p" "0 \<le> x" "x \<le> 100 * OneDec"
  obtains q y where "dec_Quo K x (dp_SlopeVpImpact p) = Ok q" "dec_Mul K (x - dp_MaxZero p) (q + dp_SlopeBase p) = Ok y"
    and "x \<le> dp_MaxZero p \<Longrightarrow> y \<le> 0"
proof -
  let ?a = "dp_MaxZero p" and ?b = "dp_SlopeBase p" and ?c = "dp_SlopeVpImpact p"
  have r: "0 \<le> ?a" "?a \<le> OneDec" "0 \<le> ?b" "?b \<le> 10 ^ 40" "1 \<le> ?c"
    using assms(2) by (auto simp: dyn_params_ok_def dyncomm_Params_Validate_def split: if_splits)
  have xb: "x * OneDec \<le> 10 ^ 38" using assms(4) by simp
  have "\<bar>x * OneDec\<bar> < 2 ^ 314 * \<bar>?c\<bar>"
  proof -
    have "(2::int) ^ 314 * 1 \<le> 2 ^ 314 * ?c" using r(5) by (intro mult_left_mono) auto
    then show ?thesis using xb assms(3) r(5) by simp
  qed
  then obtain q where q: "dec_Quo K x ?c = Ok q"
    using dec_laws.Quo_total [OF assms(1), of ?c x] r(5) by (auto simp: is_Ok_iff)
  have q0: "0 \<le> q" using dec_laws.Quo_nonneg [OF assms(1) q] assms(3) r(5) by simp
  have "x * OneDec \<le> 10 ^ 38 * ?c" using xb mult_left_mono [OF r(5), of "10 ^ 38"] by simp
  then have qb: "q \<le> 10 ^ 38" using dec_laws.Quo_le [OF assms(1) q, of "10 ^ 38"] r(5) by simp
  have "\<bar>x - ?a\<bar> \<le> 10 ^ 21" using assms(3,4) r(1,2) by simp
  moreover have "\<bar>q + ?b\<bar> \<le> 10 ^ 41" using q0 qb r(3,4) by simp
  ultimately have "\<bar>x - ?a\<bar> * \<bar>q + ?b\<bar> \<le> 10 ^ 21 * 10 ^ 41" by (intro mult_mono) auto
  then have "\<bar>(x - ?a) * (q + ?b)\<bar> < 2 ^ 314 * OneDec" by (simp add: abs_mult)
  then obtain y where y: "dec_Mul K (x - ?a) (q + ?b) = Ok y"
    using dec_laws.Mul_total [OF assms(1)] by (auto simp: is_Ok_iff)
  have "y \<le> 0" if "x \<le> ?a"
  proof -
    have "(x - ?a) * (q + ?b) \<le> 0" using that q0 r(3) by (intro mult_nonpos_nonneg) auto
    then show ?thesis using dec_laws.Mul_upper [OF assms(1) y] by simp
  qed
  then show ?thesis using that q y by blast
qed

text \<open>The minimum commission lies between the staking minimum and the cap, and equals the former up to \<open>MaxZero\<close>.\<close>

definition min_rate_ok :: "('b, 'w) dyn_ops_scheme \<Rightarrow> ('b, 'z) staking_ops_scheme \<Rightarrow> ('b, 'x) dyncomm_state_scheme \<Rightarrow> validator \<Rightarrow> dec \<Rightarrow> bool" where
  "min_rate_ok S K s v r \<longleftrightarrow> MinCommissionRate S (ext s) \<le> r \<and> r \<le> max (dp_Cap (d_params s)) (MinCommissionRate S (ext s)) \<and>
     (voting_power (v_Tokens v) (PowerReduction K (ext s)) (LastTotalPower S (ext s)) \<le> dp_MaxZero (d_params s) \<longrightarrow>
        r = MinCommissionRate S (ext s))"

lemma capped_bounds:
  fixes y cap m :: int
  assumes "0 \<le> m" "0 \<le> cap"
  defines "z \<equiv> (let y = (if y > cap * 100 then cap * 100 else y) in if m * 100 > y then m * 100 else y)"
  shows "0 \<le> z" "m \<le> z div 100" "z div 100 \<le> max cap m" "y \<le> 0 \<Longrightarrow> z div 100 = m"
  using assms(1,2) unfolding z_def Let_def by (auto simp: max_def)


context dyn_laws
begin

lemma CalculateDynCommission_run:
  assumes "dec_laws K" "dyn_params_ok (d_params s)" "staking_ok S K (ext s)" "power_ok S K (ext s) v"
  obtains r where "CalculateDynCommission S K v s = (Ok r, s)" "min_rate_ok S K s v r"
proof -
  let ?p = "d_params s" and ?m = "MinCommissionRate S (ext s)"
  let ?x = "voting_power (v_Tokens v) (PowerReduction K (ext s)) (LastTotalPower S (ext s))"
  have x: "0 \<le> ?x" "?x \<le> 100 * OneDec"
    using assms(3,4) voting_power_bounds by (auto simp: staking_ok_def power_ok_def)
  obtain q y where q: "dec_Quo K ?x (dp_SlopeVpImpact ?p) = Ok q"
    and y: "dec_Mul K (?x - dp_MaxZero ?p) (q + dp_SlopeBase ?p) = Ok y" and y0: "?x \<le> dp_MaxZero ?p \<Longrightarrow> y \<le> 0"
    using formula_total [OF assms(1,2) x] by blast
  define z where "z = (let y = (if y > dp_Cap ?p * 100 then dp_Cap ?p * 100 else y) in if ?m * 100 > y then ?m * 100 else y)"
  have "0 \<le> ?m" "0 \<le> dp_Cap ?p"
    using assms(2,3) by (auto simp: dyn_params_ok_def dyncomm_Params_Validate_def staking_ok_def split: if_splits)
  note zb = capped_bounds [OF this, of y, folded z_def]
  have "dec_QuoInt K z 100 = Ok (z div 100)"
    using dec_laws.QuoInt_eq [OF assms(1), of 100 z] zb(1) by (simp add: go_quot_nonneg)
  then have "CalculateDynCommission S K v s = (Ok (z div 100), s)"
    unfolding CalculateDynCommission_def GetMaxZero_def GetSlopeBase_def GetSlopeVpImpact_def GetCap_def
    using voting_power_run [OF assms(1,3,4)] q y
    by (simp add: bnd_Ok Let_def z_def)
  moreover have "min_rate_ok S K s v (z div 100)"
    using zb(2,3) zb(4) [OF y0] by (simp add: min_rate_ok_def)
  ultimately show ?thesis by (rule that)
qed

end

section \<open>The weekly update\<close>

abbreviation op_addr :: "('b, 'z) staking_ops_scheme \<Rightarrow> validator \<Rightarrow> string" where
  "op_addr K v \<equiv> ValAddress_String K (v_Operator v)"

definition min_of :: "('b, 'x) dyncomm_state_scheme \<Rightarrow> string \<Rightarrow> dec" where
  "min_of s a = (case kv_get (GetMinCommissionRatesKey a) (CommissionRates s) of None \<Rightarrow> 0 | Some r \<Rightarrow> cr_MinCommissionRate r)"

definition target_of :: "('b, 'x) dyncomm_state_scheme \<Rightarrow> string \<Rightarrow> dec" where
  "target_of s a = (case kv_get (GetMinCommissionRatesKey a) (CommissionRates s) of None \<Rightarrow> 0 | Some r \<Rightarrow> cr_TargetCommissionRate r)"

definition rate_of :: "('b, 'w) dyn_ops_scheme \<Rightarrow> ('b, 'z) staking_ops_scheme \<Rightarrow> ('b, 'x) dyncomm_state_scheme \<Rightarrow> validator \<Rightarrow> dec" where
  "rate_of S K s v = (case fst (CalculateDynCommission S K v s) of Ok r \<Rightarrow> r | _ \<Rightarrow> 0)"

definition raised :: "('b, 'w) dyn_ops_scheme \<Rightarrow> ('b, 'z) staking_ops_scheme \<Rightarrow> ('b, 'x) dyncomm_state_scheme \<Rightarrow> validator \<Rightarrow> validator" where
  "raised S K s v = (if v_IsBonded v
     then v\<lparr>v_CommissionRate := max (target_of s (op_addr K v)) (rate_of S K s v), v_MaxRate := max (v_MaxRate v) (rate_of S K s v)\<rparr>
     else v)"

definition dyn_view :: "('b, 'w) dyn_ops_scheme \<Rightarrow> ('b, 'z) staking_ops_scheme \<Rightarrow> ('b, 'x) dyncomm_state_scheme \<Rightarrow> dyncomm_params \<times> int \<times> dec \<times> int" where
  "dyn_view S K s = (d_params s, LastTotalPower S (ext s), MinCommissionRate S (ext s), PowerReduction K (ext s))"

lemma GetMinCommissionRatesKey_inj [simp]: "GetMinCommissionRatesKey a = GetMinCommissionRatesKey c \<longleftrightarrow> a = c"
  by (simp add: GetMinCommissionRatesKey_def)

lemma raised_sel [simp]: "v_Operator (raised S K s v) = v_Operator v" "v_IsBonded (raised S K s v) = v_IsBonded v"
  by (simp_all add: raised_def)

lemma CalculateDynCommission_view:
  "dyn_view S K s = dyn_view S K s' \<Longrightarrow> fst (CalculateDynCommission S K v s') = fst (CalculateDynCommission S K v s)"
  by (simp add: CalculateDynCommission_def CalculateVotingPower_def dyn_view_def GetMaxZero_def GetSlopeBase_def
      GetSlopeVpImpact_def GetCap_def Let_def bnd_def gets_def lift_def ret_def split: outcome.splits prod.splits)

lemma rate_of_view: "dyn_view S K s = dyn_view S K s' \<Longrightarrow> rate_of S K s' v = rate_of S K s v"
  by (simp add: rate_of_def CalculateDynCommission_view [of S K s s'])

text \<open>What one round does: the entry of the validator and the stored validator change, nothing else.\<close>

definition after_update :: "('b, 'w) dyn_ops_scheme \<Rightarrow> ('b, 'z) staking_ops_scheme \<Rightarrow> validator \<Rightarrow> ('b, 'x) dyncomm_state_scheme \<Rightarrow> ('b, 'x) dyncomm_state_scheme" where
  "after_update S K v s = s\<lparr>ext := SetValidator S (raised S K s v) (ext s),
     CommissionRates := kv_set (GetMinCommissionRatesKey (op_addr K v))
       \<lparr>cr_ValidatorAddress = op_addr K v, cr_MinCommissionRate = rate_of S K s v, cr_TargetCommissionRate = target_of s (op_addr K v)\<rparr>
       (CommissionRates s)\<rparr>"

lemma UpdateValidatorMinRates_run:
  assumes "CalculateDynCommission S K v s = (Ok r, s)" "v_IsBonded v"
  shows "UpdateValidatorMinRates S K v s = (Ok (), after_update S K v s)"
  using assms
  by (simp add: UpdateValidatorMinRates_def GetTargetCommissionRate_def SetDynCommissionRate_def Let_def bnd_Ok
      after_update_def raised_def rate_of_def target_of_def max_def)

lemma after_update_rates:
  "min_of (after_update S K v s) a = (if a = op_addr K v then rate_of S K s v else min_of s a)"
  "target_of (after_update S K v s) a = target_of s a"
  by (simp_all add: after_update_def min_of_def target_of_def)

context dyn_laws
begin

lemma after_update_view: "dyn_view S K (after_update S K v s) = dyn_view S K s"
  by (simp add: after_update_def dyn_view_def SetValidator_power SetValidator_min SetValidator_reduction)

lemma after_update_validators:
  assumes "v \<in> set (Validators S (ext s))"
  shows "Validators S (ext (after_update S K v s)) = map (\<lambda>w. if v_Operator w = v_Operator v then raised S K s v else w) (Validators S (ext s))"
  using SetValidator_list [of "raised S K s v" "ext s"] assms by (simp add: after_update_def)

lemma update_loop:
  fixes s :: "('b, 'x) dyncomm_state_scheme"
  assumes "addr_laws K" "distinct (map v_Operator vals)" "set vals \<subseteq> set (Validators S (ext s))"
    and "distinct (map v_Operator (Validators S (ext s)))" "\<forall>v\<in>set vals. address_ok (v_Operator v)"
    and "\<forall>v\<in>set vals. v_IsBonded v \<longrightarrow> (\<forall>s'. dyn_view S K s' = dyn_view S K s \<longrightarrow> (\<exists>r. CalculateDynCommission S K v (s' :: ('b, 'x) dyncomm_state_scheme) = (Ok r, s')))"
  shows "\<exists>s'. for_each vals (\<lambda>v. if \<not> v_IsBonded v then ret () else UpdateValidatorMinRates S K v) s = (Ok (), s') \<and>
     dyn_view S K s' = dyn_view S K s \<and>
     Validators S (ext s') = map (\<lambda>w. if w \<in> set vals then raised S K s w else w) (Validators S (ext s)) \<and>
     (\<forall>a. target_of s' a = target_of s a) \<and>
     (\<forall>v\<in>set vals. v_IsBonded v \<longrightarrow> min_of s' (op_addr K v) = rate_of S K s v) \<and>
     (\<forall>a. a \<notin> op_addr K ` set (filter v_IsBonded vals) \<longrightarrow> min_of s' a = min_of s a)"
  using assms(2-)
proof (induction vals arbitrary: s)
  case Nil
  then show ?case by simp
next
  case (Cons v vals)
  define f :: "validator \<Rightarrow> (('b, 'x) dyncomm_state_scheme, unit) go" where
    "f = (\<lambda>v. if \<not> v_IsBonded v then ret () else UpdateValidatorMinRates S K v)"
  define s1 where "s1 = (if v_IsBonded v then after_update S K v s else s)"
  have run: "f v s = (Ok (), s1)"
    using Cons.prems(5) UpdateValidatorMinRates_run by (fastforce simp: f_def s1_def)
  have view: "dyn_view S K s1 = dyn_view S K s" by (simp add: s1_def after_update_view)
  have tgt: "target_of s1 a = target_of s a" for a by (simp add: s1_def after_update_rates)
  have same: "raised S K s1 w = raised S K s w" for w
    using rate_of_view [OF view [symmetric]] by (simp add: raised_def tgt)
  have vs: "Validators S (ext s1) = map (\<lambda>w. if w = v then raised S K s v else w) (Validators S (ext s))"
    using Cons.prems(2,3) after_update_validators [of v s]
    by (auto simp: s1_def raised_def distinct_map inj_on_def intro!: map_cong map_idI [symmetric])
  have mem: "set vals \<subseteq> set (Validators S (ext s1))" using Cons.prems(1,2) by (force simp: vs)
  have ops: "map v_Operator (Validators S (ext s1)) = map v_Operator (Validators S (ext s))" by (simp add: vs)
  obtain s' where s': "for_each vals f s1 = (Ok (), s')" "dyn_view S K s' = dyn_view S K s1"
    "Validators S (ext s') = map (\<lambda>w. if w \<in> set vals then raised S K s1 w else w) (Validators S (ext s1))"
    "\<forall>a. target_of s' a = target_of s1 a" "\<forall>v\<in>set vals. v_IsBonded v \<longrightarrow> min_of s' (op_addr K v) = rate_of S K s1 v"
    "\<forall>a. a \<notin> op_addr K ` set (filter v_IsBonded vals) \<longrightarrow> min_of s' a = min_of s1 a"
    using Cons.IH [of s1, folded f_def] Cons.prems mem ops view by auto
  have notin: "raised S K s v \<notin> set vals" using Cons.prems(1) by (metis distinct.simps(2) image_eqI list.simps(9) list.set_map raised_sel(1))
  have "Validators S (ext s') = map (\<lambda>w. if w \<in> set (v # vals) then raised S K s w else w) (Validators S (ext s))"
    using notin Cons.prems(1) by (auto simp: s'(3) vs same)
  moreover have "min_of s' (op_addr K w) = rate_of S K s w" if "w \<in> set (v # vals)" "v_IsBonded w" for w
  proof (cases "w \<in> set vals")
    case True
    then show ?thesis using s'(5) that(2) rate_of_view [OF view [symmetric]] by simp
  next
    case False
    then have w: "w = v" using that(1) by simp
    have "op_addr K v \<notin> op_addr K ` set (filter v_IsBonded vals)"
      using Cons.prems(1,4) addr_laws.ValAddress_String_inj [OF assms(1), of "v_Operator v"] by auto
    then show ?thesis using s'(6) that(2) by (simp add: w s1_def after_update_rates)
  qed
  moreover have "min_of s' a = min_of s a" if "a \<notin> op_addr K ` set (filter v_IsBonded (v # vals))" for a
    using that s'(6) by (auto simp: s1_def after_update_rates split: if_splits)
  ultimately show ?case
    using s'(1,2,4) run tgt view by (auto simp: f_def [symmetric] seq_run)
qed

end

text \<open>After the weekly block every bonded validator charges at least its minimum and may be asked to.\<close>

definition rates_enforced :: "('b, 'w) dyn_ops_scheme \<Rightarrow> ('b, 'z) staking_ops_scheme \<Rightarrow>
    ('b, 'x) dyncomm_state_scheme \<Rightarrow> ('b, 'x) dyncomm_state_scheme \<Rightarrow> bool" where
  "rates_enforced S K s s' \<longleftrightarrow> (\<forall>v\<in>set (Validators S (ext s')). v_IsBonded v \<longrightarrow>
     min_of s' (op_addr K v) \<le> v_CommissionRate v \<and> min_of s' (op_addr K v) \<le> v_MaxRate v \<and>
     v_CommissionRate v = max (target_of s (op_addr K v)) (min_of s' (op_addr K v)) \<and>
     min_rate_ok S K s v (min_of s' (op_addr K v)))"

lemma min_rate_ok_raised: "min_rate_ok S K s (raised S K s v) r \<longleftrightarrow> min_rate_ok S K s v r"
  by (simp add: min_rate_ok_def raised_def)

definition dyncomm_ready :: "('b, 'w) dyn_ops_scheme \<Rightarrow> ('b, 'z) staking_ops_scheme \<Rightarrow> ('b, 'x) dyncomm_state_scheme \<Rightarrow> bool" where
  "dyncomm_ready S K s \<longleftrightarrow> dyn_params_ok (d_params s) \<and> staking_ok S K (ext s) \<and> validators_ok S K (ext s)"

lemma power_ok_view: "dyn_view S K s = dyn_view S K s' \<Longrightarrow> power_ok S K (ext s') v = power_ok S K (ext s) v"
  by (simp add: dyn_view_def power_ok_def)

context dyn_laws
begin

lemma Calculate_ready:
  assumes "dec_laws K" "dyncomm_ready S K s" "v \<in> set (Validators S (ext s))" "v_IsBonded v" "dyn_view S K s' = dyn_view S K s"
  shows "\<exists>r. CalculateDynCommission S K v s' = (Ok r, s')"
proof -
  have "dyn_params_ok (d_params s')" "staking_ok S K (ext s')" "power_ok S K (ext s') v"
    using assms(2-5) power_ok_view [OF assms(5) [symmetric], of v]
    by (auto simp: dyncomm_ready_def validators_ok_def staking_ok_def dyn_view_def)
  from CalculateDynCommission_run [OF assms(1) this] show ?thesis by blast
qed

lemma rate_of_ok:
  assumes "dec_laws K" "dyncomm_ready S K s" "v \<in> set (Validators S (ext s))" "v_IsBonded v"
  shows "min_rate_ok S K s v (rate_of S K s v)"
  using CalculateDynCommission_run [OF assms(1), of s v] assms(2-4)
  by (force simp: dyncomm_ready_def validators_ok_def rate_of_def)

lemma update_all_run:
  fixes s :: "('b, 'x) dyncomm_state_scheme"
  assumes "dec_laws K" "addr_laws K" "dyncomm_ready S K s"
  shows "\<exists>s'. UpdateAllBondedValidatorRates S K s = (Ok (), s') \<and>
     Validators S (ext s') = map (raised S K s) (Validators S (ext s)) \<and> rates_enforced S K s s' \<and>
     (\<forall>a. target_of s' a = target_of s a) \<and>
     (\<forall>a. a \<notin> op_addr K ` set (filter v_IsBonded (Validators S (ext s))) \<longrightarrow> min_of s' a = min_of s a)"
proof -
  let ?vs = "Validators S (ext s)"
  have c: "\<forall>v\<in>set ?vs. v_IsBonded v \<longrightarrow> (\<forall>s'. dyn_view S K s' = dyn_view S K s \<longrightarrow>
      (\<exists>r. CalculateDynCommission S K v (s' :: ('b, 'x) dyncomm_state_scheme) = (Ok r, s')))"
    using Calculate_ready [OF assms(1,3)] by blast
  have d: "distinct (map v_Operator ?vs)" "\<forall>v\<in>set ?vs. address_ok (v_Operator v)"
    using assms(3) by (auto simp: dyncomm_ready_def validators_ok_def)
  obtain s' where s': "UpdateAllBondedValidatorRates S K s = (Ok (), s')"
    "Validators S (ext s') = map (\<lambda>w. if w \<in> set ?vs then raised S K s w else w) ?vs"
    "\<forall>a. target_of s' a = target_of s a" "\<forall>v\<in>set ?vs. v_IsBonded v \<longrightarrow> min_of s' (op_addr K v) = rate_of S K s v"
    "\<forall>a. a \<notin> op_addr K ` set (filter v_IsBonded ?vs) \<longrightarrow> min_of s' a = min_of s a"
    using update_loop [OF assms(2) d(1) order_refl d c] by (auto simp: UpdateAllBondedValidatorRates_def)
  have vs: "Validators S (ext s') = map (raised S K s) ?vs" using s'(2) by simp
  moreover have "rates_enforced S K s s'"
    unfolding rates_enforced_def
    using s'(4) rate_of_ok [OF assms(1,3)] by (simp add: vs min_rate_ok_raised) (simp add: raised_def)
  ultimately show ?thesis using s'(1,3,5) by blast
qed

end

text \<open>C18. With valid parameters, a slope base of at most \<open>10 ^ 22\<close> and no bonded validator above the last total power,
  the end blocker succeeds at the last block of a week and sets, for every bonded validator, a minimum commission that is
  not below the staking minimum and not above the larger of the cap and the staking minimum, and that equals the staking
  minimum up to the free voting power \<open>MaxZero\<close>; the validator then charges its target or the minimum, whichever is higher, and its maximum rate is not
  below the minimum.  The other validators and all targets stay.\<close>

theorem dyncomm_EndBlocker_enforces:
  fixes s :: "('b, 'x) dyncomm_state_scheme"
  assumes "dyn_laws S K" "dec_laws K" "addr_laws K" "dyncomm_ready S K s"
    and "IsPeriodLastBlock (BlockHeight s) BlocksPerWeek = Ok True"
  shows "\<exists>s'. dyncomm_EndBlocker S K s = (Ok (), s') \<and>
     Validators S (ext s') = map (raised S K s) (Validators S (ext s)) \<and> rates_enforced S K s s' \<and>
     (\<forall>a. target_of s' a = target_of s a) \<and>
     (\<forall>a. a \<notin> op_addr K ` set (filter v_IsBonded (Validators S (ext s))) \<longrightarrow> min_of s' a = min_of s a)"
  using dyn_laws.update_all_run [OF assms(1-4)] assms(5) by (simp add: dyncomm_EndBlocker_def)

end
