(* ===== verification/Dyncomm_Ante.thy ===== *)
theory Dyncomm_Ante
  imports Dyncomm_Rates
begin

text \<open>
  The ante handler of the dynamic commission: which commission changes it lets through, also those wrapped in
  authorizations and interchain-account packets.
\<close>

text \<open>The commission changes a list of messages can lead to, through authorizations and interchain accounts.\<close>

fun edits_of :: "tx_msg \<Rightarrow> (string \<times> dec) list" and edits :: "tx_msg list \<Rightarrow> (string \<times> dec) list" where
  "edits_of (MsgEditValidator v (Some r)) = [(v, r)]"
| "edits_of (MsgExec (Some ms)) = edits ms"
| "edits_of (MsgRecvPacket (Some (True, Some ms))) = edits ms"
| "edits_of _ = []"
| "edits [] = []"
| "edits (m # ms) = edits_of m @ edits ms"

fun readable_msg :: "tx_msg \<Rightarrow> bool" and readable :: "tx_msg list \<Rightarrow> bool" where
  "readable_msg (MsgExec None) = False"
| "readable_msg (MsgExec (Some ms)) = readable ms"
| "readable_msg (MsgRecvPacket (Some (True, Some ms))) = readable ms"
| "readable_msg _ = True"
| "readable [] = True"
| "readable (m # ms) = (readable_msg m \<and> readable ms)"

definition edits_ok :: "('b, 'x) dyncomm_state_scheme \<Rightarrow> (string \<times> dec) list \<Rightarrow> bool" where
  "edits_ok s es \<longleftrightarrow> (\<forall>(v, r)\<in>set es. min_of s v \<le> r)"

lemma edits_ok_append [simp]: "edits_ok s (es @ fs) \<longleftrightarrow> edits_ok s es \<and> edits_ok s fs"
  by (auto simp: edits_ok_def)

lemma edits_ok_simps [simp]: "edits_ok s []" "edits_ok s [(v, r)] \<longleftrightarrow> min_of s v \<le> r"
  by (simp_all add: edits_ok_def)

lemma ante_ProcessEditValidator_run:
  "ante_ProcessEditValidator v r s = (case r of Some x \<Rightarrow> if x < min_of s v then Err (FmtErr ''commission must be at least the minimum'') else Ok () | None \<Rightarrow> Ok (), s)"
  by (simp add: ante_ProcessEditValidator_def GetDynCommissionRate_def min_of_def split: option.split)

lemma attempt_run:
  "attempt m s = (case m s of (Ok x, s') \<Rightarrow> (Ok (Inr x), s') | (Err e, s') \<Rightarrow> (Ok (Inl e), s') | (Panic, s') \<Rightarrow> (Panic, s'))"
  by (simp add: attempt_def)

lemma dyn_msgs_sound:
  "\<exists>e c. dyn_msg m err s = (Ok (e, c), s) \<and> (c \<and> e \<or> edits_ok s (edits_of m))"
  "dyn_msgs ms err s = (Err ErrUnauthorized, s) \<or> dyn_msgs ms err s = (Ok (), s) \<and> edits_ok s (edits ms)"
proof (induction m err and ms err rule: dyn_msg_dyn_msgs.induct)
  case (1 v rate err)
  then show ?case by (cases rate) (simp_all add: attempt_run ante_ProcessEditValidator_run bnd_def ex_bool_eq)
next
  case (2 ms err)
  then show ?case by (elim disjE conjE) (simp_all add: attempt_run bnd_def ex_bool_eq)
next
  case (6 ms err)
  then show ?case by (elim disjE conjE) (simp_all add: attempt_run bnd_def ex_bool_eq)
next
  case (10 msg msgs err)
  obtain e c where e: "dyn_msg msg err s = (Ok (e, c), s)" "c \<and> e \<or> edits_ok s (edits_of msg)" using 10(1) by blast
  show ?case
  proof (cases "c \<and> e")
    case False
    then show ?thesis using 10(2) [of c e] e by (auto simp: bnd_def)
  qed (simp add: e(1) bnd_def)
qed (simp_all add: bnd_def ex_bool_eq)

lemma dyn_msgs_complete:
  "readable_msg m \<Longrightarrow> edits_ok s (edits_of m) \<Longrightarrow> \<exists>e c. dyn_msg m err s = (Ok (e, c), s) \<and> \<not> (c \<and> e)"
  "readable ms \<Longrightarrow> edits_ok s (edits ms) \<Longrightarrow> dyn_msgs ms err s = (Ok (), s)"
proof (induction m err and ms err rule: dyn_msg_dyn_msgs.induct)
  case (1 v rate err)
  then show ?case by (cases rate) (simp_all add: attempt_run ante_ProcessEditValidator_run bnd_def ex_bool_eq)
next
  case (2 ms err)
  then show ?case by (simp add: attempt_run bnd_def ex_bool_eq)
next
  case (6 ms err)
  then show ?case by (simp add: attempt_run bnd_def ex_bool_eq)
next
  case (10 msg msgs err)
  obtain e c where "dyn_msg msg err s = (Ok (e, c), s)" "\<not> (c \<and> e)" using 10(1,3,4) by auto
  then show ?case using 10(2) [of c e] 10(3,4) by (simp add: bnd_def)
qed (simp_all add: bnd_def ex_bool_eq)

text \<open>C20. The ante handler lets no commission change below the dynamic minimum through, however deeply it is nested in
  authorizations and interchain-account packets; and it passes every transaction on unchanged whose nested messages
  decode and whose changes respect the minimum.\<close>

theorem dyncomm_ante_guards:
  "(edits_ok s (edits msgs) \<or> dyncomm_AnteHandle msgs False ctx next s = (Err ErrUnauthorized, s)) \<and>
   (readable msgs \<and> edits_ok s (edits msgs) \<longrightarrow> dyncomm_AnteHandle msgs False ctx next s = next ctx s)"
proof (intro conjI impI)
  show "edits_ok s (edits msgs) \<or> dyncomm_AnteHandle msgs False ctx next s = (Err ErrUnauthorized, s)"
    using dyn_msgs_sound(2) [of msgs False s]
    by (elim disjE conjE) (simp_all add: dyncomm_AnteHandle_def ante_FilterMsgsAndProcessMsgs_def seq_case)
  show "dyncomm_AnteHandle msgs False ctx next s = next ctx s" if "readable msgs \<and> edits_ok s (edits msgs)"
    using dyn_msgs_complete(2) [of msgs s False] that
    by (simp add: dyncomm_AnteHandle_def ante_FilterMsgsAndProcessMsgs_def seq_case)
qed

text \<open>The error of a packet that is skipped is still there when a later authorization does not decode.\<close>

lemma stale_error_refused:
  "ante_FilterMsgsAndProcessMsgs [MsgExec None] s = (Ok (), s)"
  "ante_FilterMsgsAndProcessMsgs [MsgRecvPacket None] s = (Ok (), s)"
  "ante_FilterMsgsAndProcessMsgs [MsgRecvPacket None, MsgExec None] s = (Err ErrUnauthorized, s)"
  by (simp_all add: ante_FilterMsgsAndProcessMsgs_def)

end
