(* ===== verification/Dyncomm_Sample.thy ===== *)
theory Dyncomm_Sample
  imports Dyncomm_Ante Tax_Sample
begin

text \<open>The staking keeper on the sample ledger, and a chain of two validators at the end of a week.\<close>

definition dyn0 :: "ledger dyn_ops" where
  "dyn0 = \<lparr>LastTotalPower = (\<lambda>b. 30), MinCommissionRate = (\<lambda>b. 50000000000000000), Validators = lg_validators,
     SetValidator = (\<lambda>v b. b\<lparr>lg_validators := map (\<lambda>w. if v_Operator w = v_Operator v then v else w) (lg_validators b)\<rparr>)\<rparr>"

lemma dyn0_laws: "dyn_laws dyn0 sdk0"
  by unfold_locales (auto simp: dyn0_def go_quot_nonneg)

interpretation ref_dyn: dyn_laws dyn0 sdk0
  by (rule dyn0_laws)

definition sample_dyncomm :: "ledger dyncomm_state" where
  "sample_dyncomm = tax_state.extend (sample_tax\<lparr>BlockHeight := BlocksPerWeek - 1,
       ext := tax_ledger\<lparr>lg_validators := [sample_validator val_a 10000000, (sample_validator val_b 20000000)\<lparr>v_IsBonded := False\<rparr>]\<rparr>\<rparr>)
     \<lparr>d_params = dyncomm_DefaultParams, CommissionRates = [(GetMinCommissionRatesKey (ValAddress_String sdk0 val_a),
       \<lparr>cr_ValidatorAddress = ValAddress_String sdk0 val_a, cr_MinCommissionRate = 60000000000000000,
        cr_TargetCommissionRate = 80000000000000000\<rparr>)]\<rparr>"

lemma sample_dyncomm_sel:
  "BlockHeight sample_dyncomm = BlocksPerWeek - 1" "d_params sample_dyncomm = dyncomm_DefaultParams"
  "CommissionRates sample_dyncomm = [(GetMinCommissionRatesKey (ValAddress_String sdk0 val_a),
     \<lparr>cr_ValidatorAddress = ValAddress_String sdk0 val_a, cr_MinCommissionRate = 60000000000000000,
      cr_TargetCommissionRate = 80000000000000000\<rparr>)]"
  "lg_validators (ext sample_dyncomm) = [sample_validator val_a 10000000, (sample_validator val_b 20000000)\<lparr>v_IsBonded := False\<rparr>]"
  by (simp_all add: sample_dyncomm_def tax_state.defs)

lemma sample_dyncomm_ready: "dyncomm_ready dyn0 sdk0 sample_dyncomm"
  unfolding dyncomm_ready_def validators_ok_def staking_ok_def power_ok_def dyn_params_ok_def
  by (simp add: dyn0_def sample_dyncomm_sel in_i64_def dyncomm_Params_Validate_def dyncomm_DefaultParams_def NewDecWithPrec_def
      sample_validator_def val_a_def val_b_def address_ok_def)

theorem dyncomm_EndBlocker_enforces_witness:
  "\<exists>s' :: ledger dyncomm_state. dyncomm_EndBlocker dyn0 sdk0 sample_dyncomm = (Ok (), s') \<and> rates_enforced dyn0 sdk0 sample_dyncomm s'"
proof -
  have "IsPeriodLastBlock (BlockHeight sample_dyncomm) BlocksPerWeek = Ok True"
    by (simp add: sample_dyncomm_sel IsPeriodLastBlock_def block_defs u64_def)
  then show ?thesis
    using dyncomm_EndBlocker_enforces [OF dyn0_laws sdk0_dec sdk0_addr sample_dyncomm_ready] by blast
qed

definition deliver_ctx :: tx_ctx where
  "deliver_ctx = \<lparr>MinGasPrices = [], IsCheckTx = False, IsReCheckTx = False, Priority = 0, TaxReverseCharge = None,
     TaxDue = None, TaxPayer = None\<rparr>"

theorem dyncomm_ante_guards_witness:
  "dyncomm_AnteHandle [MsgExec (Some [MsgEditValidator (ValAddress_String sdk0 val_a) (Some 70000000000000000)])] False deliver_ctx
     ret sample_dyncomm = (Ok deliver_ctx, sample_dyncomm) \<and>
   dyncomm_AnteHandle [MsgExec (Some [MsgEditValidator (ValAddress_String sdk0 val_a) (Some 50000000000000000)])] False deliver_ctx
     ret sample_dyncomm = (Err ErrUnauthorized, sample_dyncomm)"
  using dyncomm_ante_guards [of sample_dyncomm
      "[MsgExec (Some [MsgEditValidator (ValAddress_String sdk0 val_a) (Some 70000000000000000)])]" deliver_ctx ret]
    dyncomm_ante_guards [of sample_dyncomm
      "[MsgExec (Some [MsgEditValidator (ValAddress_String sdk0 val_a) (Some 50000000000000000)])]" deliver_ctx ret]
  by (simp add: min_of_def sample_dyncomm_sel kv_get_map_of)

end
