(* ===== verification/Mempool.thy ===== *)
theory Mempool
  imports Tx_Types
begin

text \<open>
  The application's mempool (\<open>app/mempool/mempool_fifo.go\<close>): two first-in-first-out lists, one of oracle transactions
  and one of the others, each with a map from the key of a transaction (first signer and sequence) to its list element.
  The linked list is cometbft's and therefore a parameter; the maps are Go's \<open>sync.Map\<close>.
\<close>

section \<open>Transactions and their keys\<close>

text \<open>A signature has the bytes of the address of its public key, if it has one, and a sequence number.\<close>

record pool_tx =
  pt_Msgs :: "tx_msg list"
  pt_Sigs :: "(string option \<times> int) list outcome"

record customTxKey =
  ck_address :: string
  ck_nonce :: int

definition getTxKey :: "('b, 'z) addr_ops_scheme \<Rightarrow> pool_tx \<Rightarrow> customTxKey outcome" where
  "getTxKey K tx =
     obind (pt_Sigs tx) (\<lambda>sigs.
     case sigs of
       [] \<Rightarrow> Err (FmtErr ''tx must have at least one signer'')
     | (pubKey, nonce) # _ \<Rightarrow>
         (case pubKey of None \<Rightarrow> Panic
          | Some addr \<Rightarrow> Ok \<lparr>ck_address = AccAddress_String K addr, ck_nonce = nonce\<rparr>))"

section \<open>The linked list\<close>

text \<open>\<open>cl_elems\<close> is what \<open>Front\<close> and \<open>Next\<close> visit: the elements, by identity, with their values.\<close>

record 'l clist_ops =
  cl_New :: 'l
  cl_PushBack :: "pool_tx \<Rightarrow> 'l \<Rightarrow> nat \<times> 'l"
  cl_Remove :: "nat \<Rightarrow> 'l \<Rightarrow> 'l"
  cl_Len :: "'l \<Rightarrow> int"
  cl_elems :: "'l \<Rightarrow> (nat \<times> pool_tx) list"

section \<open>The mempool\<close>

record 'l FifoMempool =
  txs :: 'l
  txsOracle :: 'l
  txsMap :: "customTxKey \<rightharpoonup> nat"
  txsMapOracle :: "customTxKey \<rightharpoonup> nat"
  maxTx :: int

definition DefaultMaxTx :: int where "DefaultMaxTx = 5000"

definition FifoMaxTxOpt :: "int \<Rightarrow> 'l FifoMempool \<Rightarrow> 'l FifoMempool" where
  "FifoMaxTxOpt m mp = mp\<lparr>maxTx := m\<rparr>"

definition NewFifoMempool :: "'l clist_ops \<Rightarrow> ('l FifoMempool \<Rightarrow> 'l FifoMempool) list \<Rightarrow> 'l FifoMempool" where
  "NewFifoMempool L opts = fold (\<lambda>opt mp. opt mp) opts
     \<lparr>txs = cl_New L, txsOracle = cl_New L, txsMap = Map.empty, txsMapOracle = Map.empty, maxTx = DefaultMaxTx\<rparr>"

definition ErrMempoolTxMaxCapacity :: error where "ErrMempoolTxMaxCapacity = SdkErr ''ErrMempoolTxMaxCapacity''"
definition ErrTxNotFound :: error where "ErrTxNotFound = SdkErr ''ErrTxNotFound''"

definition CountTx :: "'l clist_ops \<Rightarrow> 'l FifoMempool \<Rightarrow> int" where
  "CountTx L mp = cl_Len L (txs mp) + cl_Len L (txsOracle mp)"

definition Insert :: "'l clist_ops \<Rightarrow> ('b, 'z) addr_ops_scheme \<Rightarrow> pool_tx \<Rightarrow> ('l FifoMempool, unit) go" where
  "Insert L K tx =
     bnd (gets (\<lambda>mp. cl_Len L (txs mp) + cl_Len L (txsOracle mp))) (\<lambda>totalTxs.
     bnd (gets maxTx) (\<lambda>maxTx.
     if maxTx \<ge> 0 \<and> totalTxs \<ge> maxTx then raise ErrMempoolTxMaxCapacity
     else if maxTx < 0 then ret ()
     else
       bnd (lift (getTxKey K tx)) (\<lambda>txKey.
       if IsOracleTx (pt_Msgs tx)
       then modify (\<lambda>mp. let (e, l) = cl_PushBack L tx (txsOracle mp) in
              mp\<lparr>txsOracle := l, txsMapOracle := (txsMapOracle mp)(txKey \<mapsto> e)\<rparr>)
       else modify (\<lambda>mp. let (e, l) = cl_PushBack L tx (txs mp) in
              mp\<lparr>txs := l, txsMap := (txsMap mp)(txKey \<mapsto> e)\<rparr>))))"

definition Remove :: "'l clist_ops \<Rightarrow> ('b, 'z) addr_ops_scheme \<Rightarrow> pool_tx \<Rightarrow> ('l FifoMempool, unit) go" where
  "Remove L K tx =
     bnd (lift (getTxKey K tx)) (\<lambda>txKey.
     if IsOracleTx (pt_Msgs tx)
     then bnd (gets (\<lambda>mp. txsMapOracle mp txKey)) (\<lambda>found.
       case found of
         Some elem \<Rightarrow> modify (\<lambda>mp. mp\<lparr>txsMapOracle := (txsMapOracle mp)(txKey := None), txsOracle := cl_Remove L elem (txsOracle mp)\<rparr>)
       | None \<Rightarrow> raise ErrTxNotFound)
     else bnd (gets (\<lambda>mp. txsMap mp txKey)) (\<lambda>found.
       case found of
         Some elem \<Rightarrow> modify (\<lambda>mp. mp\<lparr>txsMap := (txsMap mp)(txKey := None), txs := cl_Remove L elem (txs mp)\<rparr>)
       | None \<Rightarrow> raise ErrTxNotFound))"

section \<open>The iterator\<close>

text \<open>The elements an iterator holds keep their values when the list drops them.\<close>

record fifoIterator =
  currentTx :: "(nat \<times> pool_tx) option"
  listTxKey :: "customTxKey list"
  mapTxs :: "customTxKey \<rightharpoonup> nat \<times> pool_tx"
  mapTxsOracle :: "customTxKey \<rightharpoonup> nat \<times> pool_tx"

fun next_loop :: "customTxKey list \<Rightarrow> fifoIterator \<Rightarrow> fifoIterator option" where
  "next_loop [] it = None"
| "next_loop (txKey # rest) it =
     (case mapTxsOracle it txKey of
        Some elem \<Rightarrow> Some (it\<lparr>listTxKey := rest, mapTxsOracle := (mapTxsOracle it)(txKey := None), currentTx := Some elem\<rparr>)
      | None \<Rightarrow>
          (case mapTxs it txKey of
             Some elem \<Rightarrow> Some (it\<lparr>listTxKey := rest, mapTxs := (mapTxs it)(txKey := None), currentTx := Some elem\<rparr>)
           | None \<Rightarrow> next_loop rest it))"

definition fifoIterator_Next :: "fifoIterator \<Rightarrow> fifoIterator option" where
  "fifoIterator_Next it = next_loop (listTxKey it) it"

definition fifoIterator_Tx :: "fifoIterator \<Rightarrow> pool_tx outcome" where
  "fifoIterator_Tx it = (case currentTx it of Some (_, tx) \<Rightarrow> Ok tx | None \<Rightarrow> Panic)"

text \<open>The error of \<open>getTxKey\<close> is dropped: the key is then the zero value.\<close>

definition select_key :: "('b, 'z) addr_ops_scheme \<Rightarrow> pool_tx \<Rightarrow> customTxKey outcome" where
  "select_key K tx = (case getTxKey K tx of Ok k \<Rightarrow> Ok k | Err e \<Rightarrow> Ok \<lparr>ck_address = '''', ck_nonce = 0\<rparr> | Panic \<Rightarrow> Panic)"

definition select_scan ::
  "('b, 'z) addr_ops_scheme \<Rightarrow> (nat \<times> pool_tx) list \<Rightarrow> customTxKey list \<Rightarrow> (customTxKey list \<times> (customTxKey \<rightharpoonup> nat \<times> pool_tx)) outcome" where
  "select_scan K es keys =
     ofold (\<lambda>e (keys, m). obind (select_key K (snd e)) (\<lambda>k. Ok (keys @ [k], m(k \<mapsto> e)))) es (keys, Map.empty)"

definition Select :: "'l clist_ops \<Rightarrow> ('b, 'z) addr_ops_scheme \<Rightarrow> 'l FifoMempool \<Rightarrow> fifoIterator option outcome" where
  "Select L K mp =
     obind (select_scan K (cl_elems L (txsOracle mp)) []) (\<lambda>(keys, newMapTxsOracle).
     obind (select_scan K (cl_elems L (txs mp)) keys) (\<lambda>(keys, newMapTxs).
     Ok (fifoIterator_Next \<lparr>currentTx = None, listTxKey = keys, mapTxs = newMapTxs, mapTxsOracle = newMapTxsOracle\<rparr>)))"

end
