(* ===== verification/Mempool_Fifo.thy ===== *)
theory Mempool_Fifo
  imports Mempool
begin

text \<open>
  The mempool refines a pair of queues: on every sequence of insertions and removals that uses a key once per queue it
  answers as they do and holds what they hold, and its iterator yields the oracle transactions first, each queue in order.
\<close>

section \<open>Simulation of sequences\<close>

fun run_ops :: "('op \<Rightarrow> 's \<Rightarrow> 'r \<times> 's) \<Rightarrow> 'op list \<Rightarrow> 's \<Rightarrow> 'r list \<times> 's" where
  "run_ops step [] s = ([], s)"
| "run_ops step (p # ps) s = (let (r, s1) = step p s; (rs, s2) = run_ops step ps s1 in (r # rs, s2))"

fun admitted :: "('op \<Rightarrow> 'a \<Rightarrow> 'r \<times> 'a) \<Rightarrow> ('op \<Rightarrow> 'a \<Rightarrow> bool) \<Rightarrow> 'op list \<Rightarrow> 'a \<Rightarrow> bool" where
  "admitted astep ok [] a = True"
| "admitted astep ok (p # ps) a = (ok p a \<and> admitted astep ok ps (snd (astep p a)))"

locale simulation =
  fixes inv :: "'s \<Rightarrow> bool" and view :: "'s \<Rightarrow> 'a"
    and step :: "'op \<Rightarrow> 's \<Rightarrow> 'r \<times> 's" and astep :: "'op \<Rightarrow> 'a \<Rightarrow> 'r \<times> 'a" and ok :: "'op \<Rightarrow> 'a \<Rightarrow> bool"
  assumes inv_step: "inv s \<Longrightarrow> ok p (view s) \<Longrightarrow> inv (snd (step p s))"
    and sim_step: "inv s \<Longrightarrow> ok p (view s) \<Longrightarrow> astep p (view s) = (fst (step p s), view (snd (step p s)))"
begin

lemma sim_run:
  "inv s \<Longrightarrow> admitted astep ok ps (view s) \<Longrightarrow>
   inv (snd (run_ops step ps s)) \<and> run_ops astep ps (view s) = (fst (run_ops step ps s), view (snd (run_ops step ps s)))"
proof (induction ps arbitrary: s)
  case (Cons p ps)
  obtain r s1 where s1: "step p s = (r, s1)" by fastforce
  then have "inv s1" "astep p (view s) = (r, view s1)"
    using inv_step [of s p] sim_step [of s p] Cons.prems by simp_all
  then show ?case using Cons.IH [of s1] Cons.prems(2) by (cases "run_ops step ps s1") (simp add: s1)
qed simp

end

section \<open>What the linked list promises\<close>

locale clist_laws =
  fixes L :: "'l clist_ops"
  assumes New_elems: "cl_elems L (cl_New L) = []"
    and PushBack_elems: "cl_PushBack L tx l = (e, l') \<Longrightarrow> cl_elems L l' = cl_elems L l @ [(e, tx)]"
    and PushBack_fresh: "cl_PushBack L tx l = (e, l') \<Longrightarrow> e \<notin> fst ` set (cl_elems L l)"
    and Remove_elems: "e \<in> fst ` set (cl_elems L l) \<Longrightarrow> cl_elems L (cl_Remove L e l) = filter (\<lambda>p. fst p \<noteq> e) (cl_elems L l)"
    and Len_eq: "cl_Len L l = int (length (cl_elems L l))"

section \<open>The abstract queues\<close>

type_synonym queues = "pool_tx list \<times> pool_tx list"

datatype pool_op = InsertOp pool_tx | RemoveOp pool_tx

definition own_queue :: "pool_tx \<Rightarrow> queues \<Rightarrow> pool_tx list" where
  "own_queue tx q = (if IsOracleTx (pt_Msgs tx) then fst q else snd q)"

definition set_own_queue :: "pool_tx \<Rightarrow> pool_tx list \<Rightarrow> queues \<Rightarrow> queues" where
  "set_own_queue tx ts q = (if IsOracleTx (pt_Msgs tx) then (ts, snd q) else (fst q, ts))"

fun fifo_step :: "('b, 'z) addr_ops_scheme \<Rightarrow> int \<Rightarrow> pool_op \<Rightarrow> queues \<Rightarrow> unit outcome \<times> queues" where
  "fifo_step K cap (InsertOp tx) q =
     (if cap \<le> int (length (fst q) + length (snd q)) then (Err ErrMempoolTxMaxCapacity, q)
      else (case getTxKey K tx of Ok k \<Rightarrow> (Ok (), set_own_queue tx (own_queue tx q @ [tx]) q) | Err e \<Rightarrow> (Err e, q) | Panic \<Rightarrow> (Panic, q)))"
| "fifo_step K cap (RemoveOp tx) q =
     (case getTxKey K tx of
        Ok k \<Rightarrow> if Ok k \<in> getTxKey K ` set (own_queue tx q)
                then (Ok (), set_own_queue tx (filter (\<lambda>t. getTxKey K t \<noteq> Ok k) (own_queue tx q)) q)
                else (Err ErrTxNotFound, q)
      | Err e \<Rightarrow> (Err e, q) | Panic \<Rightarrow> (Panic, q))"

text \<open>An operation is admissible unless it inserts a key that is in its queue already.\<close>

fun fresh_key :: "('b, 'z) addr_ops_scheme \<Rightarrow> pool_op \<Rightarrow> queues \<Rightarrow> bool" where
  "fresh_key K (InsertOp tx) q = (getTxKey K tx \<notin> getTxKey K ` set (own_queue tx q))"
| "fresh_key K (RemoveOp tx) q = True"

fun pool_step :: "'l clist_ops \<Rightarrow> ('b, 'z) addr_ops_scheme \<Rightarrow> pool_op \<Rightarrow> 'l FifoMempool \<Rightarrow> unit outcome \<times> 'l FifoMempool" where
  "pool_step L K (InsertOp tx) mp = Insert L K tx mp"
| "pool_step L K (RemoveOp tx) mp = Remove L K tx mp"

definition queue_txs :: "'l clist_ops \<Rightarrow> 'l \<Rightarrow> pool_tx list" where
  "queue_txs L l = map snd (cl_elems L l)"

definition pool_queues :: "'l clist_ops \<Rightarrow> 'l FifoMempool \<Rightarrow> queues" where
  "pool_queues L mp = (queue_txs L (txsOracle mp), queue_txs L (txs mp))"

section \<open>The invariant\<close>

text \<open>One list and its map: the map sends exactly the keys of the elements to them.\<close>

definition queue_ok :: "'l clist_ops \<Rightarrow> ('b, 'z) addr_ops_scheme \<Rightarrow> 'l \<Rightarrow> (customTxKey \<rightharpoonup> nat) \<Rightarrow> bool" where
  "queue_ok L K l m \<longleftrightarrow> distinct (map fst (cl_elems L l)) \<and>
     (\<forall>(e, tx)\<in>set (cl_elems L l). \<exists>k. getTxKey K tx = Ok k \<and> m k = Some e) \<and>
     (\<forall>k e. m k = Some e \<longrightarrow> (\<exists>tx. (e, tx) \<in> set (cl_elems L l) \<and> getTxKey K tx = Ok k))"

definition pool_ok :: "'l clist_ops \<Rightarrow> ('b, 'z) addr_ops_scheme \<Rightarrow> int \<Rightarrow> 'l FifoMempool \<Rightarrow> bool" where
  "pool_ok L K cap mp \<longleftrightarrow> 0 < cap \<and> maxTx mp = cap \<and> queue_ok L K (txs mp) (txsMap mp) \<and> queue_ok L K (txsOracle mp) (txsMapOracle mp) \<and>
     CountTx L mp \<le> cap"

lemma queue_okD:
  assumes "queue_ok L K l m"
  shows "distinct (map fst (cl_elems L l))"
    and "(e, tx) \<in> set (cl_elems L l) \<Longrightarrow> \<exists>k. getTxKey K tx = Ok k \<and> m k = Some e"
    and "m k = Some e \<Longrightarrow> \<exists>tx. (e, tx) \<in> set (cl_elems L l) \<and> getTxKey K tx = Ok k"
  using assms by (auto simp: queue_ok_def)

lemma queue_okI:
  assumes "distinct (map fst (cl_elems L l))"
    and "\<And>e tx. (e, tx) \<in> set (cl_elems L l) \<Longrightarrow> \<exists>k. getTxKey K tx = Ok k \<and> m k = Some e"
    and "\<And>k e. m k = Some e \<Longrightarrow> \<exists>tx. (e, tx) \<in> set (cl_elems L l) \<and> getTxKey K tx = Ok k"
  shows "queue_ok L K l m"
  unfolding queue_ok_def using assms by blast

lemma queue_ok_member:
  assumes "queue_ok L K l m"
  shows "Ok k \<in> getTxKey K ` set (queue_txs L l) \<longleftrightarrow> m k \<noteq> None"
proof
  assume "Ok k \<in> getTxKey K ` set (queue_txs L l)"
  then obtain e tx where "(e, tx) \<in> set (cl_elems L l)" "getTxKey K tx = Ok k" by (force simp: queue_txs_def)
  then show "m k \<noteq> None" using queue_okD(2) [OF assms, of e tx] by auto
next
  assume "m k \<noteq> None"
  then obtain e where "m k = Some e" by blast
  from queue_okD(3) [OF assms this] show "Ok k \<in> getTxKey K ` set (queue_txs L l)" by (force simp: queue_txs_def image_iff)
qed

lemma queue_ok_keys: "queue_ok L K l m \<Longrightarrow> distinct (map (getTxKey K) (queue_txs L l))"
proof -
  assume ok: "queue_ok L K l m"
  have "inj_on (\<lambda>p. getTxKey K (snd p)) (set (cl_elems L l))"
  proof (rule inj_onI)
    fix p q assume "p \<in> set (cl_elems L l)" "q \<in> set (cl_elems L l)" "getTxKey K (snd p) = getTxKey K (snd q)"
    moreover from this have "fst p = fst q"
      using queue_okD(2) [OF ok, of "fst p" "snd p"] queue_okD(2) [OF ok, of "fst q" "snd q"] by auto
    ultimately show "p = q" using queue_okD(1) [OF ok] by (simp add: distinct_map inj_on_def)
  qed
  moreover have "distinct (cl_elems L l)" using queue_okD(1) [OF ok] by (simp add: distinct_map)
  ultimately show ?thesis by (simp add: queue_txs_def distinct_map comp_def)
qed

context clist_laws
begin

lemma Len_queue: "cl_Len L l = int (length (queue_txs L l))"
  by (simp add: Len_eq queue_txs_def)

lemma queue_New: "queue_ok L K (cl_New L) Map.empty" "queue_txs L (cl_New L) = []"
  by (simp_all add: queue_ok_def queue_txs_def New_elems)

lemma queue_push:
  assumes "queue_ok L K l m" "cl_PushBack L tx l = (e, l')" "getTxKey K tx = Ok k" "Ok k \<notin> getTxKey K ` set (queue_txs L l)"
  shows "queue_ok L K l' (m(k \<mapsto> e))" "queue_txs L l' = queue_txs L l @ [tx]"
proof -
  have el: "cl_elems L l' = cl_elems L l @ [(e, tx)]" by (rule PushBack_elems [OF assms(2)])
  have fresh: "e \<notin> fst ` set (cl_elems L l)" by (rule PushBack_fresh [OF assms(2)])
  have nok: "getTxKey K t \<noteq> Ok k" if "(i, t) \<in> set (cl_elems L l)" for i t
    using assms(4) that by (force simp: queue_txs_def image_iff)
  have one: "\<exists>j. getTxKey K t = Ok j \<and> (m(k \<mapsto> e)) j = Some i" if "(i, t) \<in> set (cl_elems L l')" for i t
  proof (cases "(i, t) \<in> set (cl_elems L l)")
    case True
    then show ?thesis using queue_okD(2) [OF assms(1) True] nok [OF True] by auto
  qed (use that assms(3) in \<open>simp add: el\<close>)
  have two: "\<exists>t. (i, t) \<in> set (cl_elems L l') \<and> getTxKey K t = Ok j" if "(m(k \<mapsto> e)) j = Some i" for i j
    using that queue_okD(3) [OF assms(1), of j i] assms(3) by (auto simp: el split: if_splits)
  show "queue_ok L K l' (m(k \<mapsto> e))"
    using queue_okD(1) [OF assms(1)] fresh by (intro queue_okI one two) (simp_all add: el)
  show "queue_txs L l' = queue_txs L l @ [tx]" by (simp add: queue_txs_def el)
qed

lemma queue_drop:
  assumes "queue_ok L K l m" "m k = Some e"
  shows "queue_ok L K (cl_Remove L e l) (m(k := None))"
    and "queue_txs L (cl_Remove L e l) = filter (\<lambda>t. getTxKey K t \<noteq> Ok k) (queue_txs L l)"
proof -
  obtain tx where tx: "(e, tx) \<in> set (cl_elems L l)" "getTxKey K tx = Ok k" using queue_okD(3) [OF assms] by blast
  then have el: "cl_elems L (cl_Remove L e l) = filter (\<lambda>p. fst p \<noteq> e) (cl_elems L l)"
    by (intro Remove_elems) (force simp: image_iff)
  have same: "getTxKey K t = Ok k \<longleftrightarrow> i = e" if "(i, t) \<in> set (cl_elems L l)" for i t
  proof
    assume "getTxKey K t = Ok k"
    then show "i = e" using queue_okD(2) [OF assms(1) that] assms(2) by simp
  next
    assume "i = e"
    then have "t = tx" using eq_key_imp_eq_value [OF queue_okD(1) [OF assms(1)]] that tx(1) by blast
    then show "getTxKey K t = Ok k" by (simp add: tx(2))
  qed
  have "\<exists>j. getTxKey K t = Ok j \<and> (m(k := None)) j = Some i" if "(i, t) \<in> set (cl_elems L l)" "i \<noteq> e" for i t
    using queue_okD(2) [OF assms(1) that(1)] same [OF that(1)] that(2) by auto
  moreover have "\<exists>t. (i, t) \<in> set (cl_elems L l) \<and> i \<noteq> e \<and> getTxKey K t = Ok j" if "(m(k := None)) j = Some i" for i j
  proof -
    have j: "j \<noteq> k" "m j = Some i" using that by (auto split: if_splits)
    obtain t where t: "(i, t) \<in> set (cl_elems L l)" "getTxKey K t = Ok j" using queue_okD(3) [OF assms(1) j(2)] by blast
    then show ?thesis using same [OF t(1)] j(1) by auto
  qed
  ultimately show "queue_ok L K (cl_Remove L e l) (m(k := None))"
    using queue_okD(1) [OF assms(1)] by (intro queue_okI) (simp_all add: el distinct_map_filter)
  show "queue_txs L (cl_Remove L e l) = filter (\<lambda>t. getTxKey K t \<noteq> Ok k) (queue_txs L l)"
    unfolding queue_txs_def el filter_map comp_def using same by (intro arg_cong [of _ _ "map snd"] filter_cong) auto
qed

text \<open>Every admissible operation keeps the invariant and acts on the queues as the abstract one.\<close>

lemma queues_len: "CountTx L mp = int (length (fst (pool_queues L mp)) + length (snd (pool_queues L mp)))"
  by (simp add: CountTx_def pool_queues_def Len_queue)

lemmas pool_defs = pool_ok_def CountTx_def Len_queue pool_queues_def own_queue_def set_own_queue_def

lemma Insert_refused:
  assumes "cap \<le> CountTx L mp \<or> (\<forall>k. getTxKey K tx \<noteq> Ok k)" "maxTx mp = cap" "0 < cap"
  shows "snd (Insert L K tx mp) = mp \<and> fifo_step K cap (InsertOp tx) (pool_queues L mp) = (fst (Insert L K tx mp), pool_queues L mp)"
  using assms by (cases "getTxKey K tx") (auto simp: Insert_def pool_queues_def CountTx_def Len_queue)

lemma Insert_taken:
  assumes ok: "pool_ok L K cap mp" and "fresh_key K (InsertOp tx) (pool_queues L mp)"
    and "0 < cap" "CountTx L mp < cap" and k: "getTxKey K tx = Ok k"
  shows "pool_ok L K cap (snd (Insert L K tx mp)) \<and>
    fifo_step K cap (InsertOp tx) (pool_queues L mp) = (fst (Insert L K tx mp), pool_queues L (snd (Insert L K tx mp)))"
proof -
  have q: "maxTx mp = cap" "queue_ok L K (txs mp) (txsMap mp)" "queue_ok L K (txsOracle mp) (txsMapOracle mp)"
    using ok by (auto simp: pool_ok_def)
  obtain e l e' l' where p: "cl_PushBack L tx (txs mp) = (e, l)" and p': "cl_PushBack L tx (txsOracle mp) = (e', l')"
    by (metis surj_pair)
  show ?thesis
  proof (cases "IsOracleTx (pt_Msgs tx)")
    case True
    then have "Ok k \<notin> getTxKey K ` set (queue_txs L (txsOracle mp))" using assms(2) k by (simp add: pool_defs)
    from queue_push [OF q(3) p' k this] show ?thesis
      using True q assms(3,4) by (simp add: Insert_def pool_defs k p')
  next
    case False
    then have "Ok k \<notin> getTxKey K ` set (queue_txs L (txs mp))" using assms(2) k by (simp add: pool_defs)
    from queue_push [OF q(2) p k this] show ?thesis
      using False q assms(3,4) by (simp add: Insert_def pool_defs k p)
  qed
qed

lemma Insert_refines:
  assumes "pool_ok L K cap mp" "fresh_key K (InsertOp tx) (pool_queues L mp)"
  shows "pool_ok L K cap (snd (Insert L K tx mp)) \<and>
    fifo_step K cap (InsertOp tx) (pool_queues L mp) = (fst (Insert L K tx mp), pool_queues L (snd (Insert L K tx mp)))"
proof (cases "cap \<le> CountTx L mp \<or> (\<forall>k. getTxKey K tx \<noteq> Ok k)")
  case True
  have "maxTx mp = cap" "0 < cap" using assms(1) by (simp_all add: pool_ok_def)
  from Insert_refused [OF True this] show ?thesis using assms(1) by simp
next
  case False
  then obtain k where k: "getTxKey K tx = Ok k" by blast
  have "0 < cap" "CountTx L mp < cap" using False assms(1) by (simp_all add: pool_ok_def)
  from Insert_taken [OF assms this k] show ?thesis .
qed

lemma Remove_refines:
  assumes "pool_ok L K cap mp"
  shows "pool_ok L K cap (snd (Remove L K tx mp)) \<and>
    fifo_step K cap (RemoveOp tx) (pool_queues L mp) = (fst (Remove L K tx mp), pool_queues L (snd (Remove L K tx mp)))"
proof (cases "getTxKey K tx")
  case (Ok k)
  have q: "maxTx mp = cap" "queue_ok L K (txs mp) (txsMap mp)" "queue_ok L K (txsOracle mp) (txsMapOracle mp)"
    using assms by (auto simp: pool_ok_def)
  have le: "int (length ts) + j \<le> c \<Longrightarrow> int (length (filter P ts)) + j \<le> c"
      "j + int (length ts) \<le> c \<Longrightarrow> j + int (length (filter P ts)) \<le> c" for P and ts :: "pool_tx list" and j c
    using length_filter_le [of P ts] by linarith+
  show ?thesis
  proof (cases "IsOracleTx (pt_Msgs tx)")
    case True
    show ?thesis
    proof (cases "txsMapOracle mp k")
      case None
      then show ?thesis using True Ok assms queue_ok_member [OF q(3), of k] by (simp add: Remove_def pool_defs)
    next
      case (Some e)
      from queue_drop [OF q(3) Some] show ?thesis
        using True Ok assms Some queue_ok_member [OF q(3), of k] le(2) by (simp add: Remove_def pool_defs)
    qed
  next
    case False
    show ?thesis
    proof (cases "txsMap mp k")
      case None
      then show ?thesis using False Ok assms queue_ok_member [OF q(2), of k] by (simp add: Remove_def pool_defs)
    next
      case (Some e)
      from queue_drop [OF q(2) Some] show ?thesis
        using False Ok assms Some queue_ok_member [OF q(2), of k] le(1) by (simp add: Remove_def pool_defs)
    qed
  qed
qed (use assms in \<open>simp_all add: Remove_def\<close>)

lemma pool_step_refines:
  assumes "pool_ok L K cap mp" "fresh_key K p (pool_queues L mp)"
  shows "pool_ok L K cap (snd (pool_step L K p mp)) \<and>
    fifo_step K cap p (pool_queues L mp) = (fst (pool_step L K p mp), pool_queues L (snd (pool_step L K p mp)))"
proof (cases p)
  case (InsertOp tx)
  then show ?thesis using Insert_refines [OF assms(1), of tx] assms(2) by simp
next
  case (RemoveOp tx)
  then show ?thesis using Remove_refines [OF assms(1), of tx] by simp
qed

end

sublocale clist_laws \<subseteq> fifo: simulation "pool_ok L K cap" "pool_queues L" "pool_step L K" "fifo_step K cap" "fresh_key K"
  for K :: "('b, 'z) addr_ops_scheme" and cap
  by unfold_locales (use pool_step_refines in blast)+

section \<open>Iteration\<close>

lemma next_loop_shorter: "next_loop ks it = Some it' \<Longrightarrow> length (listTxKey it') < length ks"
  by (induction ks it rule: next_loop.induct) (auto split: option.splits)

text \<open>All transactions an iterator yields, as the proposal handler collects them.\<close>

function drain :: "fifoIterator option \<Rightarrow> pool_tx list" where
  "drain None = []"
| "drain (Some it) = (case currentTx it of Some (_, tx) \<Rightarrow> [tx] | None \<Rightarrow> []) @ drain (fifoIterator_Next it)"
  by pat_completeness auto
termination
  by (relation "measure (\<lambda>i. case i of None \<Rightarrow> 0 | Some it \<Rightarrow> Suc (length (listTxKey it)))")
    (auto simp: fifoIterator_Next_def split: option.split dest: next_loop_shorter)

abbreviation keyed_elems :: "(pool_tx \<Rightarrow> customTxKey) \<Rightarrow> (nat \<times> pool_tx) list \<Rightarrow> customTxKey \<rightharpoonup> nat \<times> pool_tx" where
  "keyed_elems f es \<equiv> map_of (map (\<lambda>e. (f (snd e), e)) es)"

lemma keyed_elems_notin: "k \<notin> f ` snd ` set es \<Longrightarrow> keyed_elems f es k = None"
  by (auto simp: map_of_eq_None_iff image_image)

lemma keyed_elems_drop:
  "k \<notin> f ` snd ` set es \<Longrightarrow> (\<lambda>a. if a = k then Some e else keyed_elems f es a)(k := None) = keyed_elems f es"
  by (auto simp: fun_eq_iff keyed_elems_notin)

lemma keyed_elems_add:
  "k \<notin> f ` snd ` set es \<Longrightarrow> (\<lambda>a. if a = k then Some e else m a) ++ keyed_elems f es = m ++ (\<lambda>a. if a = k then Some e else keyed_elems f es a)"
  by (auto simp: fun_eq_iff map_add_def keyed_elems_notin split: option.split)

abbreviation elem_keys :: "(pool_tx \<Rightarrow> customTxKey) \<Rightarrow> (nat \<times> pool_tx) list \<Rightarrow> customTxKey list" where
  "elem_keys f es \<equiv> map (\<lambda>e. f (snd e)) es"

lemma drain_regular:
  assumes "distinct (elem_keys f rs)"
  shows "drain (fifoIterator_Next \<lparr>currentTx = c, listTxKey = elem_keys f rs, mapTxs = keyed_elems f rs, mapTxsOracle = \<lambda>_. None\<rparr>) = map snd rs"
  using assms
proof (induction rs arbitrary: c)
  case (Cons r rs)
  have "f (snd r) \<notin> f ` snd ` set rs" using Cons.prems by (simp add: image_image)
  from keyed_elems_drop [OF this, of r] show ?case
    using Cons by (simp add: fifoIterator_Next_def prod.case_eq_if)
qed (simp add: fifoIterator_Next_def)

lemma drain_all:
  assumes "distinct (elem_keys f os)" "distinct (elem_keys f rs)"
  shows "drain (fifoIterator_Next \<lparr>currentTx = c, listTxKey = elem_keys f os @ elem_keys f rs, mapTxs = keyed_elems f rs,
     mapTxsOracle = keyed_elems f os\<rparr>) = map snd os @ map snd rs"
  using assms(1)
proof (induction os arbitrary: c)
  case Nil
  show ?case using drain_regular [OF assms(2), of c] by simp
next
  case (Cons r os)
  have "f (snd r) \<notin> f ` snd ` set os" using Cons.prems by (simp add: image_image)
  from keyed_elems_drop [OF this, of r] show ?case
    using Cons by (simp add: fifoIterator_Next_def prod.case_eq_if)
qed

lemma select_scan_run:
  assumes "\<forall>e\<in>set es. getTxKey K (snd e) = Ok (f (snd e))" "distinct (elem_keys f es)"
  shows "select_scan K es keys = Ok (keys @ elem_keys f es, keyed_elems f es)"
proof -
  define g :: "nat \<times> pool_tx \<Rightarrow> customTxKey list \<times> (customTxKey \<rightharpoonup> nat \<times> pool_tx) \<Rightarrow> (customTxKey list \<times> (customTxKey \<rightharpoonup> nat \<times> pool_tx)) outcome" where
    "g = (\<lambda>e (keys, m). obind (select_key K (snd e)) (\<lambda>k. Ok (keys @ [k], m(k \<mapsto> e))))"
  have "ofold g es (keys, m) = Ok (keys @ elem_keys f es, m ++ keyed_elems f es)" for m
    using assms
  proof (induction es arbitrary: keys m)
    case (Cons e es)
    have g: "g e (keys, m) = Ok (keys @ [f (snd e)], m(f (snd e) \<mapsto> e))" using Cons.prems(1) by (simp add: g_def select_key_def)
    have "f (snd e) \<notin> f ` snd ` set es" using Cons.prems(2) by (simp add: image_image)
    then have m: "m(f (snd e) \<mapsto> e) ++ keyed_elems f es = m ++ keyed_elems f (e # es)"
      using keyed_elems_add [of _ f es e m] by (simp add: fun_upd_def)
    have "ofold g (e # es) (keys, m) = ofold g es (keys @ [f (snd e)], m(f (snd e) \<mapsto> e))"
      by (simp only: ofold.simps g obind.simps)
    also have "\<dots> = Ok ((keys @ [f (snd e)]) @ elem_keys f es, m(f (snd e) \<mapsto> e) ++ keyed_elems f es)"
      by (rule Cons.IH) (use Cons.prems in simp_all)
    finally show ?case unfolding m by (simp only: append_assoc list.map append.simps)
  qed simp
  from this [of Map.empty] show ?thesis by (simp add: select_scan_def g_def)
qed

lemma queue_ok_key:
  assumes "queue_ok L K l m"
  defines "f \<equiv> (\<lambda>tx. case getTxKey K tx of Ok k \<Rightarrow> k)"
  shows "\<forall>e\<in>set (cl_elems L l). getTxKey K (snd e) = Ok (f (snd e))" "distinct (elem_keys f (cl_elems L l))"
proof -
  show e: "\<forall>e\<in>set (cl_elems L l). getTxKey K (snd e) = Ok (f (snd e))"
  proof
    fix e assume "e \<in> set (cl_elems L l)"
    then obtain k where "getTxKey K (snd e) = Ok k" using queue_okD(2) [OF assms(1), of "fst e" "snd e"] by auto
    then show "getTxKey K (snd e) = Ok (f (snd e))" by (simp add: f_def)
  qed
  have eq: "map (getTxKey K) (queue_txs L l) = map Ok (elem_keys f (cl_elems L l))" using e by (simp add: queue_txs_def)
  show "distinct (elem_keys f (cl_elems L l))"
    using queue_ok_keys [OF assms(1)] unfolding eq distinct_map [of Ok] by (rule conjunct1)
qed

lemma Select_run:
  assumes q: "queue_ok L K (txsOracle mp) (txsMapOracle mp)" "queue_ok L K (txs mp) (txsMap mp)"
  shows "\<exists>it. Select L K mp = Ok it \<and> drain it = fst (pool_queues L mp) @ snd (pool_queues L mp)"
proof -
  note o = queue_ok_key [OF q(1)] and r = queue_ok_key [OF q(2)]
  show ?thesis
    using drain_all [OF o(2) r(2), of None]
    by (simp add: Select_def select_scan_run [OF o] select_scan_run [OF r] pool_queues_def queue_txs_def)
qed

section \<open>The mempool as a pair of queues\<close>

definition new_pool :: "'l clist_ops \<Rightarrow> int \<Rightarrow> 'l FifoMempool" where
  "new_pool L cap = NewFifoMempool L [FifoMaxTxOpt cap]"

context clist_laws
begin

lemma new_pool_queues: "queue_ok L K (txs (new_pool L cap)) (txsMap (new_pool L cap))"
  "queue_ok L K (txsOracle (new_pool L cap)) (txsMapOracle (new_pool L cap))" "pool_queues L (new_pool L cap) = ([], [])"
  using queue_New by (simp_all add: new_pool_def NewFifoMempool_def FifoMaxTxOpt_def pool_queues_def)

lemma new_pool_ok: "0 < cap \<Longrightarrow> pool_ok L K cap (new_pool L cap)"
  using queue_New by (simp add: new_pool_def NewFifoMempool_def FifoMaxTxOpt_def pool_ok_def CountTx_def Len_queue)

lemma sim_reach:
  assumes "admitted (fifo_step K cap) (fresh_key K) ops ([], [])" "run_ops (pool_step L K) ops (new_pool L cap) = (rs, mp)" "0 < cap"
  shows "pool_ok L K cap mp" "run_ops (fifo_step K cap) ops ([], []) = (rs, pool_queues L mp)"
  using fifo.sim_run [OF new_pool_ok [OF assms(3)], of K ops] assms(1,2) by (simp_all add: new_pool_queues)

text \<open>With a capacity that is not positive the mempool stays as it is created.\<close>

lemma closed_step: "cap \<le> 0 \<Longrightarrow> snd (pool_step L K p (new_pool L cap)) = new_pool L cap"
  by (cases p; cases "getTxKey K (case p of InsertOp tx \<Rightarrow> tx | RemoveOp tx \<Rightarrow> tx)")
    (auto simp: new_pool_def NewFifoMempool_def FifoMaxTxOpt_def Insert_def Remove_def Len_queue queue_New)

lemma closed_run: "cap \<le> 0 \<Longrightarrow> snd (run_ops (pool_step L K) ops (new_pool L cap)) = new_pool L cap"
  by (induction ops) (simp_all add: closed_step case_prod_unfold Let_def)

lemma reach_queues:
  assumes "admitted (fifo_step K cap) (fresh_key K) ops ([], [])" "run_ops (pool_step L K) ops (new_pool L cap) = (rs, mp)"
  shows "queue_ok L K (txs mp) (txsMap mp)" "queue_ok L K (txsOracle mp) (txsMapOracle mp)"
proof -
  have "queue_ok L K (txs mp) (txsMap mp) \<and> queue_ok L K (txsOracle mp) (txsMapOracle mp)"
  proof (cases "0 < cap")
    case True
    then show ?thesis using sim_reach(1) [OF assms True] by (simp add: pool_ok_def)
  next
    case False
    then have "mp = new_pool L cap" using closed_run [of cap K ops] assms(2) by simp
    then show ?thesis by (simp add: new_pool_queues)
  qed
  then show "queue_ok L K (txs mp) (txsMap mp)" "queue_ok L K (txsOracle mp) (txsMapOracle mp)" by simp_all
qed

end

text \<open>C21. With a positive capacity, on every sequence of insertions and removals in which no inserted key is already in its
  queue, the mempool answers each operation as a pair of first-in-first-out queues of bounded total length does, and holds
  the same transactions in the same order; it never holds more than \<open>maxTx\<close>.\<close>

theorem mempool_refines_queues:
  assumes "clist_laws L" "0 < cap" "admitted (fifo_step K cap) (fresh_key K) ops ([], [])"
    and "run_ops (pool_step L K) ops (new_pool L cap) = (rs, mp)"
  shows "run_ops (fifo_step K cap) ops ([], []) = (rs, pool_queues L mp) \<and>
     CountTx L mp = int (length (fst (pool_queues L mp)) + length (snd (pool_queues L mp))) \<and> CountTx L mp \<le> cap"
  using clist_laws.sim_reach [OF assms(1,3,4,2)] clist_laws.queues_len [OF assms(1), of mp] by (simp add: pool_ok_def)


end
