(* ===== verification/Mempool_Duplicates.thy ===== *)
theory Mempool_Duplicates
  imports Mempool_Fifo
begin

text \<open>
  Keys that are inserted twice.  The second insertion takes over the entry of the key, so that no entry leads to the first
  element any more: whatever is inserted and removed afterwards, the first transaction stays in the mempool.
\<close>

section \<open>Lists and maps that stay linked\<close>

text \<open>Every entry of the map leads to an element with its key; an element may have no entry.\<close>

definition linked :: "'l clist_ops \<Rightarrow> ('b, 'z) addr_ops_scheme \<Rightarrow> 'l \<Rightarrow> (customTxKey \<rightharpoonup> nat) \<Rightarrow> bool" where
  "linked L K l m \<longleftrightarrow> distinct (map fst (cl_elems L l)) \<and>
     (\<forall>k e. m k = Some e \<longrightarrow> (\<exists>tx. (e, tx) \<in> set (cl_elems L l) \<and> getTxKey K tx = Ok k))"

definition orphan :: "'l clist_ops \<Rightarrow> 'l \<Rightarrow> (customTxKey \<rightharpoonup> nat) \<Rightarrow> nat \<times> pool_tx \<Rightarrow> bool" where
  "orphan L l m p \<longleftrightarrow> p \<in> set (cl_elems L l) \<and> (\<forall>k. m k \<noteq> Some (fst p))"

definition kind_list :: "bool \<Rightarrow> 'l FifoMempool \<Rightarrow> 'l" where
  "kind_list forOracle mp = (if forOracle then txsOracle mp else txs mp)"

definition kind_map :: "bool \<Rightarrow> 'l FifoMempool \<Rightarrow> customTxKey \<rightharpoonup> nat" where
  "kind_map forOracle mp = (if forOracle then txsMapOracle mp else txsMap mp)"

text \<open>What an operation does to the list and the map of one kind: nothing, an insertion, or a removal.\<close>

inductive link_step :: "'l clist_ops \<Rightarrow> ('b, 'z) addr_ops_scheme \<Rightarrow> 'l \<Rightarrow> (customTxKey \<rightharpoonup> nat) \<Rightarrow> 'l \<Rightarrow> (customTxKey \<rightharpoonup> nat) \<Rightarrow> bool"
  for L K where
  same: "link_step L K l m l m"
| push: "getTxKey K tx = Ok k \<Longrightarrow> cl_PushBack L tx l = (e, l') \<Longrightarrow> link_step L K l m l' (m(k \<mapsto> e))"
| drop: "m k = Some e \<Longrightarrow> link_step L K l m (cl_Remove L e l) (m(k := None))"

lemma pool_step_link:
  "link_step L K (kind_list forOracle mp) (kind_map forOracle mp)
     (kind_list forOracle (snd (pool_step L K p mp))) (kind_map forOracle (snd (pool_step L K p mp)))"
  "maxTx (snd (pool_step L K p mp)) = maxTx mp"
proof -
  have "link_step L K (kind_list forOracle mp) (kind_map forOracle mp)
      (kind_list forOracle (snd (pool_step L K p mp))) (kind_map forOracle (snd (pool_step L K p mp))) \<and>
    maxTx (snd (pool_step L K p mp)) = maxTx mp"
  proof (cases p)
    case (InsertOp tx)
    show ?thesis
      by (cases "getTxKey K tx"; cases "cl_PushBack L tx (txs mp)"; cases "cl_PushBack L tx (txsOracle mp)")
        (auto simp: InsertOp Insert_def kind_list_def kind_map_def intro: link_step.intros)
  next
    case (RemoveOp tx)
    show ?thesis
      by (cases "getTxKey K tx") (auto simp: RemoveOp Remove_def kind_list_def kind_map_def intro: link_step.intros split: option.split)
  qed
  then show "link_step L K (kind_list forOracle mp) (kind_map forOracle mp)
      (kind_list forOracle (snd (pool_step L K p mp))) (kind_map forOracle (snd (pool_step L K p mp)))"
    "maxTx (snd (pool_step L K p mp)) = maxTx mp" by blast+
qed

context clist_laws
begin

lemma linked_push:
  assumes "linked L K l m" "getTxKey K tx = Ok k" "cl_PushBack L tx l = (e, l')"
  shows "linked L K l' (m(k \<mapsto> e))"
  using assms(1,2) PushBack_elems [OF assms(3)] PushBack_fresh [OF assms(3)] by (fastforce simp: linked_def)

lemma linked_remove:
  assumes "linked L K l m" "m k = Some e"
  shows "cl_elems L (cl_Remove L e l) = filter (\<lambda>p. fst p \<noteq> e) (cl_elems L l)" "m j = Some e \<Longrightarrow> j = k"
proof -
  obtain tx where tx: "(e, tx) \<in> set (cl_elems L l)" "getTxKey K tx = Ok k" using assms by (auto simp: linked_def)
  then show "cl_elems L (cl_Remove L e l) = filter (\<lambda>p. fst p \<noteq> e) (cl_elems L l)"
    by (intro Remove_elems) (force simp: image_iff)
  show "j = k" if j: "m j = Some e"
  proof -
    obtain tx' where "(e, tx') \<in> set (cl_elems L l)" "getTxKey K tx' = Ok j" using assms(1) j by (auto simp: linked_def)
    moreover have "distinct (map fst (cl_elems L l))" using assms(1) by (simp add: linked_def)
    ultimately have "tx' = tx" using tx(1) by (intro eq_key_imp_eq_value)
    then show ?thesis using tx(2) \<open>getTxKey K tx' = Ok j\<close> by simp
  qed
qed

lemma linked_drop:
  assumes "linked L K l m" "m k = Some e"
  shows "linked L K (cl_Remove L e l) (m(k := None))"
proof -
  have "\<exists>tx. (i, tx) \<in> set (cl_elems L l) \<and> i \<noteq> e \<and> getTxKey K tx = Ok j" if "(m(k := None)) j = Some i" for i j
    using that assms linked_remove(2) [OF assms, of j] by (auto simp: linked_def split: if_splits)
  then show ?thesis
    using assms(1) unfolding linked_def linked_remove(1) [OF assms] by (simp add: distinct_map_filter)
qed

lemma orphan_push: "orphan L l m p \<Longrightarrow> cl_PushBack L tx l = (e, l') \<Longrightarrow> orphan L l' (m(k \<mapsto> e)) p"
  using PushBack_elems [of tx l e l'] PushBack_fresh [of tx l e l'] by (auto simp: orphan_def)

lemma orphan_drop: "linked L K l m \<Longrightarrow> orphan L l m p \<Longrightarrow> m k = Some e \<Longrightarrow> orphan L (cl_Remove L e l) (m(k := None)) p"
  using linked_remove(1) [of K l m k e] by (auto simp: orphan_def)

lemma link_step_keeps:
  assumes "link_step L K l m l' m'" "linked L K l m"
  shows "linked L K l' m'" "orphan L l m p \<Longrightarrow> orphan L l' m' p"
  using assms by (induction rule: link_step.induct)
    (simp_all add: linked_push linked_drop orphan_push orphan_drop)

lemma linked_run:
  assumes "linked L K (kind_list forOracle mp) (kind_map forOracle mp)" "mp' = snd (run_ops (pool_step L K) ops mp)"
  shows "linked L K (kind_list forOracle mp') (kind_map forOracle mp') \<and> maxTx mp' = maxTx mp \<and>
    (orphan L (kind_list forOracle mp) (kind_map forOracle mp) p \<longrightarrow> orphan L (kind_list forOracle mp') (kind_map forOracle mp') p)"
  using assms(1) unfolding assms(2)
proof (induction ops arbitrary: mp)
  case (Cons q ops)
  define mp1 where "mp1 = snd (pool_step L K q mp)"
  note st = link_step_keeps [OF pool_step_link(1) [of L K forOracle mp q] Cons.prems, folded mp1_def]
  have "snd (run_ops (pool_step L K) (q # ops) mp) = snd (run_ops (pool_step L K) ops mp1)"
    by (simp add: mp1_def case_prod_unfold Let_def)
  moreover have "maxTx mp1 = maxTx mp" by (simp add: mp1_def pool_step_link(2))
  ultimately show ?case using Cons.IH [OF st(1)] st(2) by simp
qed simp

lemma linked_new: "linked L K (kind_list forOracle (new_pool L cap)) (kind_map forOracle (new_pool L cap))" "maxTx (new_pool L cap) = cap"
  by (simp_all add: linked_def kind_list_def kind_map_def new_pool_def NewFifoMempool_def FifoMaxTxOpt_def New_elems)

text \<open>An insertion that is answered with success pushes the transaction and takes the entry of its key.\<close>

lemma Insert_pushes:
  assumes "pool_step L K (InsertOp tx) mp = (Ok (), mp')" "0 < maxTx mp" "getTxKey K tx = Ok k" "IsOracleTx (pt_Msgs tx) = forOracle"
  obtains e where "cl_PushBack L tx (kind_list forOracle mp) = (e, kind_list forOracle mp')" "kind_map forOracle mp' = (kind_map forOracle mp)(k \<mapsto> e)"
proof -
  obtain e l where p: "cl_PushBack L tx (kind_list forOracle mp) = (e, l)" by fastforce
  show thesis
    using assms p that by (cases forOracle) (auto simp: Insert_def kind_list_def kind_map_def split: if_splits)
qed

text \<open>After both insertions the first element is an orphan.\<close>

lemma twice_orphan:
  assumes "linked L K l m" "cl_PushBack L t1 l = (e1, l1)" "cl_PushBack L t2 l1 = (e2, l2)"
  shows "orphan L l2 (m(k \<mapsto> e1, k \<mapsto> e2)) (e1, t1)"
proof -
  have "m j \<noteq> Some e1" for j using assms(1) PushBack_fresh [OF assms(2)] by (force simp: linked_def)
  then show ?thesis
    using PushBack_elems [OF assms(2)] PushBack_elems [OF assms(3)] PushBack_fresh [OF assms(3)] by (auto simp: orphan_def)
qed

lemma orphan_queued:
  assumes "orphan L (kind_list forOracle mp) (kind_map forOracle mp) (e, tx)" "IsOracleTx (pt_Msgs tx) = forOracle"
  shows "tx \<in> set (own_queue tx (pool_queues L mp))" "0 < CountTx L mp"
proof -
  have "(e, tx) \<in> set (cl_elems L (kind_list forOracle mp))" using assms(1) by (simp add: orphan_def)
  then show q: "tx \<in> set (own_queue tx (pool_queues L mp))"
    using assms(2) by (force simp: own_queue_def pool_queues_def queue_txs_def kind_list_def image_iff)
  then show "0 < CountTx L mp" unfolding queues_len by (auto simp: own_queue_def neq_Nil_conv dest!: split_list split: if_splits)
qed

lemma remove_twice:
  assumes "getTxKey K tx = Ok k" "IsOracleTx (pt_Msgs tx) = forOracle" "kind_map forOracle mp k = Some e"
  shows "fst (run_ops (pool_step L K) [RemoveOp tx, RemoveOp tx] mp) = [Ok (), Err ErrTxNotFound]"
  using assms by (cases forOracle) (simp_all add: Remove_def kind_map_def)

end

text \<open>C36. In every mempool that operations can lead to: when two transactions of one kind with one key are taken one after
  the other, the first of them never leaves the mempool again, whatever is inserted and removed afterwards, and counts
  against its capacity; the removal of the first is answered with success once and then with an error, without ever
  taking it out.\<close>

theorem mempool_duplicate_stays:
  assumes "clist_laws L" "0 < cap" "run_ops (pool_step L K) ops (new_pool L cap) = (rs, mp)"
    and "getTxKey K t1 = Ok k" "getTxKey K t2 = Ok k" "IsOracleTx (pt_Msgs t1) = IsOracleTx (pt_Msgs t2)"
    and "run_ops (pool_step L K) [InsertOp t1, InsertOp t2] mp = ([Ok (), Ok ()], mp2)"
  shows "fst (run_ops (pool_step L K) [RemoveOp t1, RemoveOp t1] mp2) = [Ok (), Err ErrTxNotFound] \<and>
    (\<forall>later. t1 \<in> set (own_queue t1 (pool_queues L (snd (run_ops (pool_step L K) later mp2)))) \<and>
       0 < CountTx L (snd (run_ops (pool_step L K) later mp2)))"
proof -
  define forOracle where "forOracle = IsOracleTx (pt_Msgs t2)"
  note C = assms(1) and kind = assms(6) [folded forOracle_def]
  have lk: "linked L K (kind_list forOracle mp) (kind_map forOracle mp)" "maxTx mp = cap"
    using clist_laws.linked_run [OF C clist_laws.linked_new(1) [OF C, of K forOracle cap] refl, of ops] assms(3)
    by (simp_all add: clist_laws.linked_new(2) [OF C])
  obtain mp1 where i: "pool_step L K (InsertOp t1) mp = (Ok (), mp1)" "pool_step L K (InsertOp t2) mp1 = (Ok (), mp2)"
    using assms(7) by (auto simp: Let_def split: prod.splits)
  have mx: "0 < maxTx mp" "0 < maxTx mp1" using lk(2) assms(2) pool_step_link(2) [of L K "InsertOp t1" mp] i(1) by simp_all
  obtain e1 where e1: "cl_PushBack L t1 (kind_list forOracle mp) = (e1, kind_list forOracle mp1)" "kind_map forOracle mp1 = (kind_map forOracle mp)(k \<mapsto> e1)"
    by (rule clist_laws.Insert_pushes [OF C i(1) mx(1) assms(4) kind])
  obtain e2 where e2: "cl_PushBack L t2 (kind_list forOracle mp1) = (e2, kind_list forOracle mp2)" "kind_map forOracle mp2 = (kind_map forOracle mp1)(k \<mapsto> e2)"
    by (rule clist_laws.Insert_pushes [OF C i(2) mx(2) assms(5) forOracle_def [symmetric]])
  have orp: "orphan L (kind_list forOracle mp2) (kind_map forOracle mp2) (e1, t1)"
    using clist_laws.twice_orphan [OF C lk(1) e1(1) e2(1), of k] by (simp add: e1(2) e2(2))
  have lk2: "linked L K (kind_list forOracle mp2) (kind_map forOracle mp2)"
    using clist_laws.linked_run [OF C lk(1) refl, of "[InsertOp t1, InsertOp t2]"] assms(7) by simp
  have "orphan L (kind_list forOracle (snd (run_ops (pool_step L K) later mp2))) (kind_map forOracle (snd (run_ops (pool_step L K) later mp2))) (e1, t1)"
    for later using clist_laws.linked_run [OF C lk2 refl] orp by blast
  from clist_laws.orphan_queued [OF C this kind]
  show ?thesis using clist_laws.remove_twice [OF C assms(4) kind, of mp2 e2] e2(2) by (intro conjI allI) simp_all
qed

end
