(* ===== verification/Mempool_Sample.thy ===== *)
theory Mempool_Sample
  imports Mempool_Duplicates Oracle_Sample
begin

text \<open>A concrete linked list on which the theorems of the mempool are instantiated.\<close>

section \<open>A linked list\<close>

definition clist0 :: "(nat \<times> pool_tx) list clist_ops" where
  "clist0 = \<lparr>cl_New = [], cl_PushBack = (\<lambda>tx l. let e = Suc (sum_list (map fst l)) in (e, l @ [(e, tx)])),
     cl_Remove = (\<lambda>e. filter (\<lambda>p. fst p \<noteq> e)), cl_Len = (\<lambda>l. int (length l)), cl_elems = (\<lambda>l. l)\<rparr>"

lemma clist0_laws: "clist_laws clist0"
proof
  show "e \<notin> fst ` set (cl_elems clist0 l)" if "cl_PushBack clist0 tx l = (e, l')" for tx l e l'
  proof
    assume "e \<in> fst ` set (cl_elems clist0 l)"
    then have "e \<le> sum_list (map fst l)" by (intro member_le_sum_list) (simp_all add: clist0_def)
    then show False using that by (auto simp: clist0_def Let_def)
  qed
qed (auto simp: clist0_def Let_def)

interpretation ref_clist: clist_laws clist0
  by (rule clist0_laws)

definition plain_tx :: "string \<Rightarrow> int \<Rightarrow> pool_tx" where
  "plain_tx a n = \<lparr>pt_Msgs = [OtherMsg], pt_Sigs = Ok [(Some a, n)]\<rparr>"

definition vote_tx :: "string \<Rightarrow> int \<Rightarrow> pool_tx" where
  "vote_tx a n = \<lparr>pt_Msgs = [MsgAggregateExchangeRateVote sample_vote], pt_Sigs = Ok [(Some a, n)]\<rparr>"

lemma sample_keys:
  "getTxKey sdk0 (plain_tx a n) = Ok \<lparr>ck_address = AccAddress_String sdk0 a, ck_nonce = n\<rparr>"
  "getTxKey sdk0 (vote_tx a n) = Ok \<lparr>ck_address = AccAddress_String sdk0 a, ck_nonce = n\<rparr>"
  "\<not> IsOracleTx (pt_Msgs (plain_tx a n))" "IsOracleTx (pt_Msgs (vote_tx a n))"
  by (simp_all add: plain_tx_def vote_tx_def getTxKey_def IsOracleTx_def)

definition sample_ops :: "pool_op list" where
  "sample_ops = [InsertOp (plain_tx val_a 1), InsertOp (vote_tx val_b 7), InsertOp (plain_tx val_a 2), InsertOp (vote_tx val_b 8),
     RemoveOp (plain_tx val_a 1)]"

lemmas sample_pool_simps = sample_ops_def own_queue_def set_own_queue_def sample_keys

lemma sample_admitted: "admitted (fifo_step sdk0 3) (fresh_key sdk0) sample_ops ([], [])"
  by (simp add: sample_pool_simps)

theorem mempool_refines_queues_witness:
  "\<exists>mp. run_ops (pool_step clist0 sdk0) sample_ops (new_pool clist0 3) = ([Ok (), Ok (), Ok (), Err ErrMempoolTxMaxCapacity, Ok ()], mp) \<and>
     pool_queues clist0 mp = ([vote_tx val_b 7], [plain_tx val_a 2])"
proof -
  obtain rs mp where r: "run_ops (pool_step clist0 sdk0) sample_ops (new_pool clist0 3) = (rs, mp)" by fastforce
  have "run_ops (fifo_step sdk0 3) sample_ops ([], []) =
      ([Ok (), Ok (), Ok (), Err ErrMempoolTxMaxCapacity, Ok ()], ([vote_tx val_b 7], [plain_tx val_a 2]))"
    by (simp add: sample_pool_simps)
  then show ?thesis using mempool_refines_queues [OF clist0_laws _ sample_admitted r] r by simp
qed


text \<open>A replacement: another transaction of the signer with the same sequence number.\<close>

definition twin_tx :: "string \<Rightarrow> int \<Rightarrow> pool_tx" where
  "twin_tx a n = \<lparr>pt_Msgs = [OtherMsg, OtherMsg], pt_Sigs = Ok [(Some a, n)]\<rparr>"

lemma twin_keys:
  "getTxKey sdk0 (twin_tx a n) = Ok \<lparr>ck_address = AccAddress_String sdk0 a, ck_nonce = n\<rparr>" "\<not> IsOracleTx (pt_Msgs (twin_tx a n))"
  by (simp_all add: twin_tx_def getTxKey_def IsOracleTx_def)

definition twin_pool :: "(nat \<times> pool_tx) list FifoMempool" where
  "twin_pool = snd (run_ops (pool_step clist0 sdk0) [InsertOp (plain_tx val_a 1), InsertOp (twin_tx val_a 1)] (new_pool clist0 2))"

lemma twin_run:
  "run_ops (pool_step clist0 sdk0) [InsertOp (plain_tx val_a 1), InsertOp (twin_tx val_a 1)] (new_pool clist0 2) = ([Ok (), Ok ()], twin_pool)"
  unfolding twin_pool_def
  by (simp add: new_pool_def NewFifoMempool_def FifoMaxTxOpt_def Insert_def sample_keys twin_keys clist0_def)

theorem mempool_duplicate_stays_witness:
  "plain_tx val_a 1 \<noteq> twin_tx val_a 1 \<and>
   fst (run_ops (pool_step clist0 sdk0) [RemoveOp (plain_tx val_a 1), RemoveOp (plain_tx val_a 1)] twin_pool) = [Ok (), Err ErrTxNotFound] \<and>
   0 < CountTx clist0 (snd (run_ops (pool_step clist0 sdk0) [RemoveOp (twin_tx val_a 1), RemoveOp (plain_tx val_a 1)] twin_pool))"
proof -
  have "(0::int) < 2" "IsOracleTx (pt_Msgs (plain_tx val_a 1)) = IsOracleTx (pt_Msgs (twin_tx val_a 1))"
    by (simp_all add: sample_keys twin_keys)
  from mempool_duplicate_stays [OF clist0_laws this(1) run_ops.simps(1) sample_keys(1) twin_keys(1) this(2) twin_run]
  show ?thesis by (intro conjI) (simp add: plain_tx_def twin_tx_def, blast+)
qed

end
