(* ===== verification/Ante.thy ===== *)
theory Ante
  imports Dyncomm
begin

text \<open>
  The ante handlers of the chain (\<open>custom/auth/ante\<close>): the tax on the messages of a transaction, the fee decorator, the
  limits on oracle votes, transfers over ibc and governance deposits, and the chains of handlers before and after the
  messages.
\<close>

section \<open>Services and state\<close>

text \<open>
  What the handlers use of the sdk's keepers beyond \<^typ>\<open>'b tx_ops\<close>: the fee grants, if they are enabled, the minimal
  deposit of the governance module, the module address of the fee collector and the default bond denomination.
\<close>

record 'b ante_ops = "'b tx_ops" +
  UseGrantedFees :: "(string \<Rightarrow> string \<Rightarrow> coins \<Rightarrow> tx_msg list \<Rightarrow> ('b, unit) go) option"
  gov_MinDeposit :: "'b \<Rightarrow> coins"
  HasFeeCollector :: bool
  DefaultBondDenom :: string

text \<open>The spamming prevention remembers in memory the height of the last prevote and vote of a validator.\<close>

record 'b ante_state = "'b dyncomm_state" +
  oraclePrevoteMap :: "string \<rightharpoonup> int"
  oracleVoteMap :: "string \<rightharpoonup> int"

definition ErrInvalidGasLimit :: error where "ErrInvalidGasLimit = SdkErr ''ErrInvalidGasLimit''"
definition ErrLogic :: error where "ErrLogic = SdkErr ''ErrLogic''"
definition ErrReceiverTooLong :: error where "ErrReceiverTooLong = SdkErr ''ibcspamprevention 11''"
definition ErrMemoTooLong :: error where "ErrMemoTooLong = SdkErr ''ibcspamprevention 12''"

section \<open>The tax on messages\<close>

text \<open>\<open>strings.ToLower\<close> on ASCII, which denominations are.\<close>

definition to_lower :: "char \<Rightarrow> char" where
  "to_lower c = (if 65 \<le> (of_char c :: nat) \<and> (of_char c :: nat) \<le> 90 then char_of ((of_char c :: nat) + 32) else c)"

definition is_hex :: "char \<Rightarrow> bool" where
  "is_hex c \<longleftrightarrow> c \<in> set ''0123456789abcdefABCDEF''"

definition isIBCDenom :: "string \<Rightarrow> bool" where
  "isIBCDenom denom \<longleftrightarrow> (let d = map to_lower denom in take 4 d = ''ibc/'' \<and> length d = 68 \<and> list_all is_hex (drop 4 d))"

definition computeTax ::
  "('b, 'w) ante_ops_scheme \<Rightarrow> 'z coin_ops_scheme \<Rightarrow> coins \<Rightarrow> bool \<Rightarrow> (('b, 'x) tax_state_scheme, coins) go" where
  "computeTax A K principal_coins simulate =
     bnd (bnd GetBurnTaxRate (\<lambda>r. lift (the_dec r))) (\<lambda>taxRate.
     if taxRate = 0 then ret []
     else fold_each principal_coins (\<lambda>coin taxes.
       if Denom coin = DefaultBondDenom A then ret taxes
       else if isIBCDenom (Denom coin) then ret taxes
       else
         bnd (lift (dec_Mul K (NewDec (Amount coin)) taxRate)) (\<lambda>product.
         let taxDue = dec_TruncateInt K product;
             taxDue = (if simulate \<and> taxDue < 100 then 100 else taxDue) in
         bnd (GetTaxCap (Denom coin)) (\<lambda>taxCap.
         let taxDue = (if taxDue > taxCap then taxCap else taxDue) in
         if taxDue = 0 then ret taxes
         else bnd (lift (NewCoin K (Denom coin) taxDue)) (\<lambda>c. lift (coins_Add K taxes [c]))))) [])"

definition add_tax ::
  "('b, 'w) ante_ops_scheme \<Rightarrow> 'z coin_ops_scheme \<Rightarrow> coins \<Rightarrow> bool \<Rightarrow> coins \<Rightarrow> (('b, 'x) tax_state_scheme, coins) go" where
  "add_tax A K amount simulate taxes = bnd (computeTax A K amount simulate) (\<lambda>t. lift (coins_Add K taxes t))"

definition multi_send_tax ::
  "('b, 'w) ante_ops_scheme \<Rightarrow> 'z coin_ops_scheme \<Rightarrow> msg_multi_send \<Rightarrow> bool \<Rightarrow> coins \<Rightarrow> (('b, 'x) tax_state_scheme, coins) go" where
  "multi_send_tax A K msg simulate taxes =
     bnd (fold_each (bm_Inputs msg) (\<lambda>input tainted.
            bnd (IsExemptedFromTax (fst input) (map fst (bm_Outputs msg))) (\<lambda>exempt.
            ret (if exempt then tainted + 1 else tainted))) (0 :: int)) (\<lambda>tainted.
     if tainted \<noteq> int (length (bm_Inputs msg))
     then fold_each (bm_Inputs msg) (\<lambda>input. add_tax A K (snd input) simulate) taxes
     else ret taxes)"

text \<open>One message, and all of them, from the taxes and the non-taxable taxes so far.\<close>

fun filter_msg ::
  "('b, 'w) ante_ops_scheme \<Rightarrow> 'z coin_ops_scheme \<Rightarrow> bool \<Rightarrow> tx_msg \<Rightarrow> coins \<times> coins \<Rightarrow> (('b, 'x) tax_state_scheme, coins \<times> coins) go"
  and filter_msgs ::
  "('b, 'w) ante_ops_scheme \<Rightarrow> 'z coin_ops_scheme \<Rightarrow> bool \<Rightarrow> tx_msg list \<Rightarrow> coins \<times> coins \<Rightarrow> (('b, 'x) tax_state_scheme, coins \<times> coins) go" where
  "filter_msg A K simulate (MsgSend msg) (taxes, non) =
     bnd (IsExemptedFromTax (bs_FromAddress msg) [bs_ToAddress msg]) (\<lambda>exempt.
     if \<not> exempt then bnd (add_tax A K (bs_Amount msg) simulate taxes) (\<lambda>t. ret (t, non)) else ret (taxes, non))"
| "filter_msg A K simulate (MsgMultiSend msg) (taxes, non) =
     bnd (multi_send_tax A K msg simulate taxes) (\<lambda>t. ret (t, non))"
| "filter_msg A K simulate (MsgSwapSend msg) (taxes, non) =
     bnd (lift (NewCoins K [mss_OfferCoin msg])) (\<lambda>offer.
     bnd (add_tax A K offer simulate taxes) (\<lambda>t. ret (t, non)))"
| "filter_msg A K simulate (MsgInstantiateContract funds) (taxes, non) =
     bnd (add_tax A K funds simulate non) (\<lambda>n. ret (taxes, n))"
| "filter_msg A K simulate (MsgInstantiateContract2 funds) (taxes, non) =
     bnd (add_tax A K funds simulate non) (\<lambda>n. ret (taxes, n))"
| "filter_msg A K simulate (MsgExecuteContract sender contract funds) (taxes, non) =
     bnd (IsExemptedFromTax sender [contract]) (\<lambda>exempt.
     if \<not> exempt then bnd (add_tax A K funds simulate non) (\<lambda>n. ret (taxes, n)) else ret (taxes, non))"
| "filter_msg A K simulate (MsgExec (Some messages)) (taxes, non) =
     bnd (filter_msgs A K simulate messages ([], [])) (\<lambda>(execTaxes, execNonTaxable).
     bnd (lift (coins_Add K taxes execTaxes)) (\<lambda>t.
     bnd (lift (coins_Add K non execNonTaxable)) (\<lambda>n. ret (t, n))))"
| "filter_msg A K simulate _ c = ret c"
| "filter_msgs A K simulate [] c = ret c"
| "filter_msgs A K simulate (msg # msgs) c = bnd (filter_msg A K simulate msg c) (filter_msgs A K simulate msgs)"

definition FilterMsgAndComputeTax ::
  "('b, 'w) ante_ops_scheme \<Rightarrow> 'z coin_ops_scheme \<Rightarrow> bool \<Rightarrow> tx_msg list \<Rightarrow> (('b, 'x) tax_state_scheme, coins \<times> coins) go" where
  "FilterMsgAndComputeTax A K simulate msgs = filter_msgs A K simulate msgs ([], [])"

section \<open>The fee decorator\<close>

definition getTxPriority :: "coins \<Rightarrow> int \<Rightarrow> int outcome" where
  "getTxPriority fee gas =
     ofold (\<lambda>c priority.
       if gas = 0 then Panic
       else
         let gasPrice = go_quot (Amount c) gas;
             p = (if in_i64 gasPrice then gasPrice else 2 ^ 63 - 1) in
         Ok (if priority = 0 \<or> p < priority then p else priority)) fee 0"

definition min_gas_fees ::
  "'z coin_ops_scheme \<Rightarrow> dec_coins \<Rightarrow> int \<Rightarrow> coins outcome" where
  "min_gas_fees K minGasPrices gas =
     (if deccoins_IsZero K minGasPrices then Ok []
      else ofold (\<lambda>gasPrice fees.
             obind (dec_Mul K (Amount gasPrice) (NewDec (i64 gas))) (\<lambda>fee.
             obind (NewCoin K (Denom gasPrice) (dec_RoundInt K (dec_Ceil K fee))) (\<lambda>c. Ok (fees @ [c])))) minGasPrices [])"

text \<open>Whether coins cover the gas fees; no gas fees are always covered.\<close>

definition gas_covered :: "'z coin_ops_scheme \<Rightarrow> coins \<Rightarrow> coins \<Rightarrow> bool" where
  "gas_covered K required fees \<longleftrightarrow> \<not> (\<not> coins_IsZero K required \<and> \<not> coins_IsAnyGTE K fees required)"

text \<open>The fees that remain after the taxes, and whether the taxes are left to the message servers.\<close>

definition charge_taxes :: "'z coin_ops_scheme \<Rightarrow> coins \<Rightarrow> coins \<Rightarrow> coins \<Rightarrow> (coins \<times> bool) outcome" where
  "charge_taxes K required feeCoins taxes =
     (if coins_IsZero K taxes then Ok (feeCoins, False)
      else if \<not> coins_IsAllGTE K feeCoins taxes then Ok (feeCoins, True)
      else obind (coins_Sub K feeCoins taxes) (\<lambda>remainingFees.
        if \<not> gas_covered K required remainingFees then Ok (feeCoins, True) else Ok (remainingFees, False)))"

definition refund_taxes :: "'z coin_ops_scheme \<Rightarrow> coins \<Rightarrow> coins \<Rightarrow> coins \<Rightarrow> (coins \<times> bool) outcome" where
  "refund_taxes K required remainingFees nonTaxableTaxes =
     (if \<not> coins_IsZero K nonTaxableTaxes \<and> coins_IsAllGTE K remainingFees nonTaxableTaxes
      then obind (coins_Sub K remainingFees nonTaxableTaxes) (\<lambda>feeCoinsAfterTax.
        if \<not> gas_covered K required feeCoinsAfterTax then Ok (remainingFees, False) else Ok (feeCoinsAfterTax, True))
      else Ok (remainingFees, False))"

definition checkTxFee ::
  "'z coin_ops_scheme \<Rightarrow> tx_ctx \<Rightarrow> fee_tx \<Rightarrow> coins \<Rightarrow> coins \<Rightarrow> (('b, 'x) tax_state_scheme, int \<times> bool \<times> bool) go" where
  "checkTxFee K ctx tx taxes nonTaxableTaxes =
     (if IsOracleTx (tx_Msgs tx) then ret (2 ^ 63 - 1, False, False)
      else
        bnd (GetEffectiveGasPrices K ctx) (\<lambda>minGasPrices.
        bnd (lift (min_gas_fees K minGasPrices (tx_Gas tx))) (\<lambda>minRequiredGasFees.
        bnd (lift (charge_taxes K minRequiredGasFees (tx_Fee tx) taxes)) (\<lambda>(remainingFees, reverseCharge).
        bnd (lift (refund_taxes K minRequiredGasFees remainingFees nonTaxableTaxes)) (\<lambda>(remainingFees, refund).
        if \<not> gas_covered K minRequiredGasFees remainingFees then raise ErrInsufficientFee
        else bnd (lift (getTxPriority (tx_Fee tx) (i64 (tx_Gas tx)))) (\<lambda>priority. ret (priority, reverseCharge, refund)))))))"

text \<open>In a simulation the fee is raised to the taxes, and the account gets what the fee was raised by;
  \<open>Sort\<close> sorts the raised fee in place.\<close>

definition simulated_fee :: "'z coin_ops_scheme \<Rightarrow> coins \<Rightarrow> coins \<Rightarrow> coins outcome" where
  "simulated_fee K fee taxes =
     ofold (\<lambda>tax feesOrTax.
       obind (coins_AmountOf K feesOrTax (Denom tax)) (\<lambda>feeAmount.
       if feeAmount = 0 then coins_Add K feesOrTax [tax]
       else if feeAmount < Amount tax
       then obind (NewCoin K (Denom tax) (Amount tax - feeAmount)) (\<lambda>c. coins_Add K feesOrTax [c])
       else Ok feesOrTax)) taxes (if coins_IsZero K fee then taxes else fee)"

definition mint_missing ::
  "('b, 'z) bank_ops_scheme \<Rightarrow> string \<Rightarrow> coins \<Rightarrow> coins \<Rightarrow> (('b, 'x) chain_scheme, unit) go" where
  "mint_missing K acc feesOrTax fee =
     (if coins_IsZero K feesOrTax then ret ()
      else
        bnd (lift (coins_Sub K (coins_Sort K feesOrTax) (coins_Sort K fee))) (\<lambda>needMint.
        if coins_IsZero K needMint then ret ()
        else seq (sdk_call (MintCoins K ''mint'' needMint)) (sdk_call (SendCoinsFromModuleToAccount K ''mint'' acc needMint))))"

definition payer_account ::
  "('b, 'w) ante_ops_scheme \<Rightarrow> fee_tx \<Rightarrow> (('b, 'x) chain_scheme, string) go" where
  "payer_account A tx =
     bnd (case tx_FeeGranter tx of
            None \<Rightarrow> ret (tx_FeePayer tx)
          | Some feeGranter \<Rightarrow>
              (case UseGrantedFees A of
                 None \<Rightarrow> raise ErrInvalidRequest
               | Some use \<Rightarrow>
                   seq (on_true (feeGranter \<noteq> tx_FeePayer tx) (sdk_call (use feeGranter (tx_FeePayer tx) (tx_Fee tx) (tx_Msgs tx))))
                       (ret feeGranter))) (\<lambda>deductFeesFrom.
     bnd (gets (\<lambda>s. HasAccount A (ext s) deductFeesFrom)) (\<lambda>found.
     if \<not> found then raise ErrUnknownAddress else ret deductFeesFrom))"

definition drop_refunds :: "'z coin_ops_scheme \<Rightarrow> coins \<Rightarrow> coins \<Rightarrow> coins outcome" where
  "drop_refunds K nonTaxableTaxes deductFees =
     (if coins_IsZero K nonTaxableTaxes then Ok deductFees
      else ofold (\<lambda>coin deductFees.
        obind (coins_AmountOf K deductFees (Denom coin)) (\<lambda>held.
        if held \<ge> Amount coin then coins_Sub K deductFees [coin] else Ok deductFees)) nonTaxableTaxes deductFees)"

definition checkDeductFee ::
  "('b, 'w) ante_ops_scheme \<Rightarrow> ('b, 'z) staking_ops_scheme \<Rightarrow> tx_ctx \<Rightarrow> fee_tx \<Rightarrow> coins \<Rightarrow> coins \<Rightarrow> bool \<Rightarrow>
   (('b, 'x) chain_scheme, tx_ctx) go" where
  "checkDeductFee A K ctx tx taxes nonTaxableTaxes simulate =
     (if \<not> HasFeeCollector A then raise (FmtErr ''fee collector module account has not been set'')
      else
        bnd (payer_account A tx) (\<lambda>deductFeesFrom.
        bnd (if simulate
             then bnd (lift (simulated_fee K (tx_Fee tx) taxes)) (\<lambda>feesOrTax.
                  seq (mint_missing K deductFeesFrom feesOrTax (tx_Fee tx))
                      (ret (if coins_IsZero K feesOrTax then feesOrTax else coins_Sort K feesOrTax)))
             else ret (tx_Fee tx)) (\<lambda>feesOrTax.
        if coins_IsZero K feesOrTax then ret ctx
        else
          bnd (lift (coins_Sub K feesOrTax taxes)) (\<lambda>deductFees.
          bnd (lift (drop_refunds K nonTaxableTaxes deductFees)) (\<lambda>deductFees.
          let ctx = ctx\<lparr>TaxDue := Some taxes, TaxPayer := Some (AccAddress_String K deductFeesFrom)\<rparr> in
          seq (on_true (\<not> coins_IsZero K deductFees) (DeductFees K deductFeesFrom deductFees))
              (ret ctx))))))"

definition FeeDecorator_AnteHandle ::
  "('b, 'w) ante_ops_scheme \<Rightarrow> ('b, 'z) staking_ops_scheme \<Rightarrow> fee_tx \<Rightarrow> bool \<Rightarrow> tx_ctx \<Rightarrow>
   ('b, 'x) tax_state_scheme handler \<Rightarrow> (('b, 'x) tax_state_scheme, tx_ctx) go" where
  "FeeDecorator_AnteHandle A K tx simulate ctx next =
     bnd (gets BlockHeight) (\<lambda>height.
     if \<not> simulate \<and> height > 0 \<and> tx_Gas tx = 0 then raise ErrInvalidGasLimit
     else
       bnd (FilterMsgAndComputeTax A K simulate (tx_Msgs tx)) (\<lambda>(taxes, nonTaxableTaxes).
       bnd (if simulate then ret (0, False, nonTaxableTaxes)
            else bnd (checkTxFee K ctx tx taxes nonTaxableTaxes) (\<lambda>(priority, reverseCharge, refund).
                 ret (priority, reverseCharge, if refund then nonTaxableTaxes else []))) (\<lambda>(priority, reverseCharge, nonTaxableTaxes).
       let taxes = (if reverseCharge then [] else taxes) in
       bnd (checkDeductFee A K ctx tx taxes nonTaxableTaxes simulate) (\<lambda>newCtx.
       next (newCtx\<lparr>Priority := priority, TaxReverseCharge := Some reverseCharge\<rparr>)))))"

section \<open>Limits\<close>

text \<open>One message of the spamming check: whether the loop goes on (\<open>True\<close>) or returns without an error.\<close>

fun spam_msg :: "('b, 'z) staking_ops_scheme \<Rightarrow> int \<Rightarrow> tx_msg \<Rightarrow> (('b, 'x) ante_state_scheme, bool) go" where
  "spam_msg K curHeight (MsgAggregateExchangeRatePrevote msg) =
     bnd (lift (AccAddressFromBech32 K (mp_Feeder msg))) (\<lambda>feederAddr.
     bnd (lift (ValAddressFromBech32 K (mp_Validator msg))) (\<lambda>valAddr.
     seq (ValidateFeeder K feederAddr valAddr)
     (bnd (gets (\<lambda>s. oraclePrevoteMap s (mp_Validator msg))) (\<lambda>lastSubmittedHeight.
     if lastSubmittedHeight = Some curHeight then raise ErrInvalidRequest
     else seq (modify (\<lambda>s. s\<lparr>oraclePrevoteMap := (oraclePrevoteMap s)(mp_Validator msg \<mapsto> curHeight)\<rparr>)) (ret True)))))"
| "spam_msg K curHeight (MsgAggregateExchangeRateVote msg) =
     bnd (lift (AccAddressFromBech32 K (mv_Feeder msg))) (\<lambda>feederAddr.
     bnd (lift (ValAddressFromBech32 K (mv_Validator msg))) (\<lambda>valAddr.
     seq (ValidateFeeder K feederAddr valAddr)
     (bnd (gets (\<lambda>s. oracleVoteMap s (mv_Validator msg))) (\<lambda>lastSubmittedHeight.
     if lastSubmittedHeight = Some curHeight then raise ErrInvalidRequest
     else seq (modify (\<lambda>s. s\<lparr>oracleVoteMap := (oracleVoteMap s)(mv_Validator msg \<mapsto> curHeight)\<rparr>)) (ret True)))))"
| "spam_msg K curHeight _ = ret False"

primrec spam_loop :: "('b, 'z) staking_ops_scheme \<Rightarrow> int \<Rightarrow> tx_msg list \<Rightarrow> (('b, 'x) ante_state_scheme, unit) go" where
  "spam_loop K curHeight [] = ret ()"
| "spam_loop K curHeight (msg # msgs) = bnd (spam_msg K curHeight msg) (\<lambda>cont. if cont then spam_loop K curHeight msgs else ret ())"

definition CheckOracleSpamming :: "('b, 'z) staking_ops_scheme \<Rightarrow> tx_msg list \<Rightarrow> (('b, 'x) ante_state_scheme, unit) go" where
  "CheckOracleSpamming K msgs = bnd (gets BlockHeight) (\<lambda>curHeight. spam_loop K curHeight msgs)"

definition SpammingPrevention_AnteHandle ::
  "('b, 'z) staking_ops_scheme \<Rightarrow> tx_msg list \<Rightarrow> bool \<Rightarrow> tx_ctx \<Rightarrow> ('b, 'x) ante_state_scheme handler \<Rightarrow> (('b, 'x) ante_state_scheme, tx_ctx) go" where
  "SpammingPrevention_AnteHandle K msgs simulate ctx next =
     (if IsReCheckTx ctx then next ctx
      else seq (on_true (\<not> simulate \<and> IsCheckTx ctx) (CheckOracleSpamming K msgs)) (next ctx))"

definition DefaultMaxMemoLength :: nat where "DefaultMaxMemoLength = 1024"
definition DefaultMaxReceiverLength :: nat where "DefaultMaxReceiverLength = 128"

fun check_transfer :: "tx_msg \<Rightarrow> unit outcome" where
  "check_transfer (MsgTransfer receiver memo) =
     (if length memo > DefaultMaxMemoLength then Err ErrMemoTooLong
      else if length receiver > DefaultMaxReceiverLength then Err ErrReceiverTooLong else Ok ())"
| "check_transfer _ = Ok ()"

definition IBCTransferSpamPrevention_AnteHandle :: "tx_msg list \<Rightarrow> tx_ctx \<Rightarrow> 's handler \<Rightarrow> ('s, tx_ctx) go" where
  "IBCTransferSpamPrevention_AnteHandle msgs ctx next =
     (if IsReCheckTx ctx then next ctx
      else seq (for_each msgs (\<lambda>msg. lift (check_transfer msg))) (next ctx))"

fun IsMsgSubmitProposal :: "tx_msg \<Rightarrow> bool" where
  "IsMsgSubmitProposal (MsgSubmitProposalV1Beta1 _) = True"
| "IsMsgSubmitProposal (MsgSubmitProposalV1 _) = True"
| "IsMsgSubmitProposal _ = False"

fun initial_deposit :: "tx_msg \<Rightarrow> coins outcome" where
  "initial_deposit (MsgSubmitProposalV1Beta1 deposit) = Ok deposit"
| "initial_deposit (MsgSubmitProposalV1 deposit) = Ok deposit"
| "initial_deposit _ = Err (FmtErr ''could not dereference msg as MsgSubmitProposal'')"

definition HandleCheckMinInitialDeposit ::
  "('b, 'w) ante_ops_scheme \<Rightarrow> 'z coin_ops_scheme \<Rightarrow> tx_msg \<Rightarrow> (('b, 'x) treasury_state_scheme, unit) go" where
  "HandleCheckMinInitialDeposit A K msg =
     bnd (lift (initial_deposit msg)) (\<lambda>initialDepositCoins.
     bnd (gets (\<lambda>s. gov_MinDeposit A (ext s))) (\<lambda>minDeposit.
     bnd (lift (case minDeposit of [] \<Rightarrow> Panic | c # _ \<Rightarrow> Ok (Amount c))) (\<lambda>amount.
     bnd GetMinInitialDepositRatio (\<lambda>ratio.
     bnd (lift (dec_Mul K (NewDec amount) ratio)) (\<lambda>product.
     bnd (lift (NewCoin K MicroLunaDenom (dec_TruncateInt K product))) (\<lambda>c.
     bnd (lift (NewCoins K [c])) (\<lambda>requiredDepositCoins.
     if \<not> coins_IsAllGTE K initialDepositCoins requiredDepositCoins
     then raise (FmtErr ''not enough initial deposit provided'')
     else ret ())))))))"

definition MinInitialDeposit_AnteHandle ::
  "('b, 'w) ante_ops_scheme \<Rightarrow> 'z coin_ops_scheme \<Rightarrow> tx_msg list \<Rightarrow> bool \<Rightarrow> tx_ctx \<Rightarrow>
   ('b, 'x) treasury_state_scheme handler \<Rightarrow> (('b, 'x) treasury_state_scheme, tx_ctx) go" where
  "MinInitialDeposit_AnteHandle A K msgs simulate ctx next =
     (if simulate then next ctx
      else seq (for_each msgs (\<lambda>msg. if \<not> IsMsgSubmitProposal msg then ret ()
                 else wrap_go ErrUnauthorized (HandleCheckMinInitialDeposit A K msg)))
               (next ctx))"

section \<open>The chains\<close>

text \<open>
  The decorators of other packages are parameters: those before the spamming prevention, the one that consumes gas for
  the size, and those from the public keys on.
\<close>

record ante_options =
  opt_AccountKeeper :: bool
  opt_BankKeeper :: bool
  opt_OracleKeeper :: bool
  opt_TreasuryKeeper :: bool
  opt_SignModeHandler :: bool
  opt_WasmConfig :: bool
  opt_TXCounterStoreKey :: bool
  opt_TaxKeeper :: bool

definition ante_chain ::
  "('b, 'w) ante_ops_scheme \<Rightarrow> ('b, 'z) staking_ops_scheme \<Rightarrow> fee_tx \<Rightarrow> bool \<Rightarrow>
   (('b, 'x) ante_state_scheme handler \<Rightarrow> ('b, 'x) ante_state_scheme handler) \<Rightarrow>
   (('b, 'x) ante_state_scheme handler \<Rightarrow> ('b, 'x) ante_state_scheme handler) \<Rightarrow>
   ('b, 'x) ante_state_scheme handler \<Rightarrow> ('b, 'x) ante_state_scheme handler" where
  "ante_chain A K tx simulate setup size_gas signatures =
     setup (\<lambda>ctx. SpammingPrevention_AnteHandle K (tx_Msgs tx) simulate ctx
       (\<lambda>ctx. IBCTransferSpamPrevention_AnteHandle (tx_Msgs tx) ctx
       (\<lambda>ctx. MinInitialDeposit_AnteHandle A K (tx_Msgs tx) simulate ctx
       (size_gas (\<lambda>ctx. FeeDecorator_AnteHandle A K tx simulate ctx
       (\<lambda>ctx. dyncomm_AnteHandle (tx_Msgs tx) simulate ctx signatures))))))"

definition NewAnteHandler :: "ante_options \<Rightarrow> 'h \<Rightarrow> 'h outcome" where
  "NewAnteHandler opts chain =
     (if \<not> opt_AccountKeeper opts then Err ErrLogic
      else if \<not> opt_BankKeeper opts then Err ErrLogic
      else if \<not> opt_OracleKeeper opts then Err ErrLogic
      else if \<not> opt_TreasuryKeeper opts then Err ErrLogic
      else if \<not> opt_SignModeHandler opts then Err ErrLogic
      else if \<not> opt_WasmConfig opts then Err ErrLogic
      else if \<not> opt_TXCounterStoreKey opts then Err ErrLogic
      else if \<not> opt_TaxKeeper opts then Err ErrLogic
      else Ok chain)"

definition NewPostHandler ::
  "('b, 'w) ante_ops_scheme \<Rightarrow> ('b, 'z) staking_ops_scheme \<Rightarrow> tx_msg list \<Rightarrow> bool \<Rightarrow> ('b, 'x) dyncomm_state_scheme handler" where
  "NewPostHandler A K msgs simulate ctx =
     dyncomm_PostHandle msgs simulate ctx (\<lambda>ctx. tax_PostHandle A K ctx ret)"

end
