(* ===== verification/Ante_Tax.thy ===== *)
theory Ante_Tax
  imports Ante Exemption_Zones
begin

text \<open>
  The tax of a transaction.  The computation only ever adds to the taxes so far, so that a message that carries others
  counts as much as they do: nesting messages in authorizations changes neither the taxes nor the refundable ones.
\<close>

section \<open>Computations that add to their argument\<close>

locale sums =
  fixes V :: "'c \<Rightarrow> bool" and add2 :: "'c \<Rightarrow> 'c \<Rightarrow> 'c" and nil :: 'c
  assumes V_nil: "V nil" and V_add: "V a \<Longrightarrow> V b \<Longrightarrow> V (add2 a b)"
    and add_assoc2: "V a \<Longrightarrow> V b \<Longrightarrow> V c \<Longrightarrow> add2 (add2 a b) c = add2 a (add2 b c)"
    and add_nil: "V a \<Longrightarrow> add2 a nil = a" and nil_add: "V a \<Longrightarrow> add2 nil a = a"

definition additive :: "('c \<Rightarrow> bool) \<Rightarrow> ('c \<Rightarrow> 'c \<Rightarrow> 'c) \<Rightarrow> 'c \<Rightarrow> ('c \<Rightarrow> ('s, 'c) go) \<Rightarrow> bool" where
  "additive V add2 nil F \<longleftrightarrow> (\<forall>c s. V c \<longrightarrow> F c s = bnd (F nil) (\<lambda>t. ret (add2 c t)) s) \<and>
     (\<forall>s t s'. F nil s = (Ok t, s') \<longrightarrow> V t)"

lemma additiveD:
  assumes "additive V add2 nil F"
  shows "V c \<Longrightarrow> F c s = bnd (F nil) (\<lambda>t. ret (add2 c t)) s" "F nil s = (Ok t, s') \<Longrightarrow> V t"
  using assms unfolding additive_def by blast+

lemma bnd_cong_Ok: "(\<And>x s'. m s = (Ok x, s') \<Longrightarrow> f x s' = g x s') \<Longrightarrow> bnd m f s = bnd m g s"
  by (auto simp: bnd_def split: prod.splits outcome.splits)

context sums
begin

lemma additive_ret: "additive V add2 nil ret"
  by (auto simp: additive_def V_nil add_nil)

lemma additive_bnd:
  assumes F: "additive V add2 nil F" and G: "additive V add2 nil G"
  shows "additive V add2 nil (\<lambda>c. bnd (F c) G)"
  unfolding additive_def
proof (intro conjI allI impI)
  fix c s assume c: "V c"
  have "bnd (F c) G s = bnd (bnd (F nil) (\<lambda>t. ret (add2 c t))) G s" by (simp add: bnd_def additiveD(1) [OF F c])
  also have "\<dots> = bnd (F nil) (\<lambda>t. G (add2 c t)) s" by (simp only: bnd_assoc bnd_ret)
  also have "\<dots> = bnd (F nil) (\<lambda>t. bnd (G t) (\<lambda>u. ret (add2 c u))) s"
  proof (rule bnd_cong_Ok)
    fix t s1 assume "F nil s = (Ok t, s1)"
    then have t: "V t" by (rule additiveD(2) [OF F])
    have "G (add2 c t) s1 = bnd (G nil) (\<lambda>u. ret (add2 (add2 c t) u)) s1" by (rule additiveD(1) [OF G V_add [OF c t]])
    also have "\<dots> = bnd (G nil) (\<lambda>u. ret (add2 c (add2 t u))) s1"
      by (rule bnd_cong_Ok) (simp add: add_assoc2 [OF c t additiveD(2) [OF G]])
    also have "\<dots> = bnd (bnd (G nil) (\<lambda>u. ret (add2 t u))) (\<lambda>u. ret (add2 c u)) s1" by (simp only: bnd_assoc bnd_ret)
    also have "\<dots> = bnd (G t) (\<lambda>u. ret (add2 c u)) s1" by (simp add: bnd_def additiveD(1) [OF G t])
    finally show "G (add2 c t) s1 = bnd (G t) (\<lambda>u. ret (add2 c u)) s1" .
  qed
  finally show "bnd (F c) G s = bnd (bnd (F nil) G) (\<lambda>t. ret (add2 c t)) s" by (simp only: bnd_assoc bnd_ret)
next
  fix s t s' assume "bnd (F nil) G s = (Ok t, s')"
  then obtain x s1 where x: "F nil s = (Ok x, s1)" "G x s1 = (Ok t, s')" by (auto simp: bnd_run_iff_Ok)
  have V: "V x" by (rule additiveD(2) [OF F x(1)])
  then obtain u where "G nil s1 = (Ok u, s')" "t = add2 x u"
    using x(2) additiveD(1) [OF G V] by (auto simp: bnd_run_iff_Ok)
  then show "V t" using V V_add additiveD(2) [OF G] by blast
qed

lemma additive_read:
  assumes "\<And>x. additive V add2 nil (F x)"
  shows "additive V add2 nil (\<lambda>c. bnd m (\<lambda>x. F x c))"
  unfolding additive_def
proof (intro conjI allI impI)
  fix c s assume c: "V c"
  show "bnd m (\<lambda>x. F x c) s = bnd (bnd m (\<lambda>x. F x nil)) (\<lambda>t. ret (add2 c t)) s"
    unfolding bnd_assoc by (rule bnd_cong_Ok) (rule additiveD(1) [OF assms c])
next
  fix s t s' assume "bnd m (\<lambda>x. F x nil) s = (Ok t, s')"
  then show "V t" using additiveD(2) [OF assms] by (auto simp: bnd_run_iff_Ok)
qed

lemma additive_if: "additive V add2 nil F \<Longrightarrow> additive V add2 nil G \<Longrightarrow> additive V add2 nil (\<lambda>c. if b then F c else G c)"
  by (cases b) simp_all

lemma additive_fold: "(\<And>x. additive V add2 nil (F x)) \<Longrightarrow> additive V add2 nil (fold_each xs F)"
proof (induction xs)
  case Nil
  have e: "fold_each [] F = ret" by (simp add: fun_eq_iff)
  show ?case unfolding e by (rule additive_ret)
next
  case (Cons x xs)
  have e: "fold_each (x # xs) F = (\<lambda>c. bnd (F x c) (fold_each xs F))" by (simp add: fun_eq_iff)
  show ?case unfolding e by (rule additive_bnd [OF Cons.prems Cons.IH [OF Cons.prems]])
qed

end

text \<open>Componentwise on pairs.\<close>

abbreviation (input) both :: "('c \<Rightarrow> bool) \<Rightarrow> 'c \<times> 'c \<Rightarrow> bool" where
  "both V \<equiv> (\<lambda>p. V (fst p) \<and> V (snd p))"

abbreviation (input) add_pair :: "('c \<Rightarrow> 'c \<Rightarrow> 'c) \<Rightarrow> 'c \<times> 'c \<Rightarrow> 'c \<times> 'c \<Rightarrow> 'c \<times> 'c" where
  "add_pair add2 \<equiv> (\<lambda>p q. (add2 (fst p) (fst q), add2 (snd p) (snd q)))"

context sums
begin

lemma pair_sums: "sums (both V) (add_pair add2) (nil, nil)"
  by unfold_locales (auto simp: V_nil V_add add_assoc2 add_nil nil_add)

lemma additive_fst:
  assumes "additive V add2 nil F"
  shows "additive (both V) (add_pair add2) (nil, nil) (\<lambda>p. bnd (F (fst p)) (\<lambda>t. ret (t, snd p)))"
  unfolding additive_def
proof (intro conjI allI impI)
  fix c :: "'c \<times> 'c" and s assume c: "V (fst c) \<and> V (snd c)"
  have "bnd (F (fst c)) (\<lambda>t. ret (t, snd c)) s = bnd (bnd (F nil) (\<lambda>t. ret (add2 (fst c) t))) (\<lambda>t. ret (t, snd c)) s"
    using additiveD(1) [OF assms, of "fst c" s] c by (simp add: bnd_def)
  also have "\<dots> = bnd (bnd (F (fst (nil, nil))) (\<lambda>t. ret (t, snd (nil, nil)))) (\<lambda>t. ret (add2 (fst c) (fst t), add2 (snd c) (snd t))) s"
    using c by (simp only: bnd_assoc bnd_ret fst_conv snd_conv add_nil)
  finally show "bnd (F (fst c)) (\<lambda>t. ret (t, snd c)) s = \<dots>" .
next
  fix s t s' assume "bnd (F (fst (nil, nil))) (\<lambda>t. ret (t, snd (nil, nil))) s = (Ok t, s')"
  then show "V (fst t)" "V (snd t)" using additiveD(2) [OF assms] V_nil by (auto simp: bnd_run_iff_Ok)
qed

lemma additive_snd:
  assumes "additive V add2 nil F"
  shows "additive (both V) (add_pair add2) (nil, nil) (\<lambda>p. bnd (F (snd p)) (\<lambda>t. ret (fst p, t)))"
  unfolding additive_def
proof (intro conjI allI impI)
  fix c :: "'c \<times> 'c" and s assume c: "V (fst c) \<and> V (snd c)"
  have "bnd (F (snd c)) (\<lambda>t. ret (fst c, t)) s = bnd (bnd (F nil) (\<lambda>t. ret (add2 (snd c) t))) (\<lambda>t. ret (fst c, t)) s"
    using additiveD(1) [OF assms, of "snd c" s] c by (simp add: bnd_def)
  also have "\<dots> = bnd (bnd (F (snd (nil, nil))) (\<lambda>t. ret (fst (nil, nil), t))) (\<lambda>t. ret (add2 (fst c) (fst t), add2 (snd c) (snd t))) s"
    using c by (simp only: bnd_assoc bnd_ret fst_conv snd_conv add_nil)
  finally show "bnd (F (snd c)) (\<lambda>t. ret (fst c, t)) s = \<dots>" .
next
  fix s t s' assume "bnd (F (snd (nil, nil))) (\<lambda>t. ret (fst (nil, nil), t)) s = (Ok t, s')"
  then show "V (fst t)" "V (snd t)" using additiveD(2) [OF assms] V_nil by (auto simp: bnd_run_iff_Ok)
qed

end

section \<open>Sums of coins\<close>

definition csum :: "'z coin_ops_scheme \<Rightarrow> coins \<Rightarrow> coins \<Rightarrow> coins" where
  "csum K a b = (case coins_Add K a b of Ok r \<Rightarrow> r | _ \<Rightarrow> [])"

lemma valid_Nil: "valid_coins K []"
  by (simp add: valid_coins_def coins_ok_def)

context coin_laws
begin

lemma csum_valid:
  assumes "valid_coins K a" "valid_coins K b"
  shows "coins_Add K a b = Ok (csum K a b)" "valid_coins K (csum K a b)" "amt (csum K a b) d = amt a d + amt b d"
  using Add_ok [OF assms] by (auto simp: csum_def)

lemma valid_eqI: "valid_coins K a \<Longrightarrow> valid_coins K b \<Longrightarrow> (\<And>d. amt a d = amt b d) \<Longrightarrow> a = b"
  using coins_ok_ext by blast

lemma coin_sums: "sums (valid_coins K) (csum K) []"
proof
  fix a b c assume v: "valid_coins K a" "valid_coins K b" "valid_coins K c"
  show "csum K (csum K a b) c = csum K a (csum K b c)"
    using v by (intro valid_eqI) (simp_all add: csum_valid)
next
  fix a assume "valid_coins K a"
  then show "csum K a [] = a" "csum K [] a = a" by (auto intro!: valid_eqI simp: csum_valid valid_Nil)
qed (simp_all add: valid_Nil csum_valid)

end

abbreviation coins_additive :: "'z coin_ops_scheme \<Rightarrow> (coins \<Rightarrow> ('s, coins) go) \<Rightarrow> bool" where
  "coins_additive K \<equiv> additive (valid_coins K) (csum K) []"

abbreviation taxes_additive :: "'z coin_ops_scheme \<Rightarrow> (coins \<times> coins \<Rightarrow> ('s, coins \<times> coins) go) \<Rightarrow> bool" where
  "taxes_additive K \<equiv> additive (both (valid_coins K)) (add_pair (csum K)) ([], [])"

lemma add_new_coin_valid:
  assumes "coin_laws K" "NewCoin K d n = Ok x" "valid_coins K c" "coins_Add K c [x] = Ok r"
  shows "valid_coins K r"
proof -
  have x: "ValidDenom K d" "0 \<le> n" "x = \<lparr>Denom = d, Amount = n\<rparr>"
    using assms(2) coin_laws.NewCoin_eq [OF assms(1), of d n] by (auto split: if_splits)
  obtain r' where "coins_Add K c [\<lparr>Denom = d, Amount = n\<rparr>] = Ok r'" "valid_coins K r'"
    by (rule coin_laws.Add_coin [OF assms(1,3) x(1,2)])
  then show ?thesis using assms(4) x(3) by simp
qed

lemma computeTax_valid:
  fixes s :: "('b, 'x) tax_state_scheme"
  assumes "coin_laws K" "computeTax A K cs simulate s = (Ok t, s')"
  shows "valid_coins K t"
proof -
  define g where "g = bnd GetBurnTaxRate (\<lambda>r. lift (the_dec r) :: (('b, 'x) tax_state_scheme, dec) go)"
  obtain rate s1 where r: "g s = (Ok rate, s1)"
    using assms(2) unfolding computeTax_def g_def [symmetric] by (auto simp: bnd_run_iff_Ok)
  show ?thesis
  proof (cases "rate = 0")
    case True
    then show ?thesis using assms(2) unfolding computeTax_def g_def [symmetric] bnd_Ok [where m = g, OF r] by (simp add: valid_Nil)
  next
    case False
    note run = assms(2) [unfolded computeTax_def g_def [symmetric] bnd_Ok [where m = g, OF r] if_not_P [OF False]]
    show ?thesis
    proof (rule fold_each_Ok_invariant [OF run, where I = "\<lambda>c s. valid_coins K c"])
      show "valid_coins K []" by (rule valid_Nil)
    next
      fix x c and s2 :: "('b, 'x) tax_state_scheme" and c' s3
      assume "valid_coins K c"
        and "(if Denom x = DefaultBondDenom A then ret c
          else if isIBCDenom (Denom x) then ret c
          else bnd (lift (dec_Mul K (NewDec (Amount x)) rate)) (\<lambda>product.
            let taxDue = dec_TruncateInt K product; taxDue = if simulate \<and> taxDue < 100 then 100 else taxDue
            in bnd (GetTaxCap (Denom x)) (\<lambda>taxCap. let taxDue = if taxCap < taxDue then taxCap else taxDue
               in if taxDue = 0 then ret c else bnd (lift (NewCoin K (Denom x) taxDue)) (\<lambda>y. lift (coins_Add K c [y]))))) s2 = (Ok c', s3)"
      then have v: "valid_coins K c" and "c' = c \<or> (\<exists>n y. NewCoin K (Denom x) n = Ok y \<and> coins_Add K c [y] = Ok c')"
        by (simp_all add: bnd_run_iff_Ok bnd_lift_Ok Let_def split: if_splits) blast+
      then show "valid_coins K c'"
      proof (elim disjE exE conjE)
        fix n y assume "NewCoin K (Denom x) n = Ok y" "coins_Add K c [y] = Ok c'"
        then show ?thesis using add_new_coin_valid [OF assms(1) _ v] by blast
      qed simp
    qed
  qed
qed

text \<open>Adding the tax of some coins, and of the inputs of a multi-send.\<close>

lemma additive_tax:
  assumes "coin_laws K"
  shows "coins_additive K (add_tax A K cs simulate)"
  unfolding additive_def
proof (intro conjI allI impI)
  fix c s assume c: "valid_coins K c"
  note v = computeTax_valid [OF assms, of A cs simulate]
  have "add_tax A K cs simulate [] s = bnd (computeTax A K cs simulate) ret s"
    unfolding add_tax_def
  proof (rule bnd_cong_Ok)
    fix x s1 assume "computeTax A K cs simulate s = (Ok x, s1)"
    then have "valid_coins K x" by (rule v)
    then show "lift (coins_Add K [] x) s1 = ret x s1"
      using sums.nil_add [OF coin_laws.coin_sums [OF assms]] coin_laws.csum_valid(1) [OF assms valid_Nil] by simp
  qed
  then have "bnd (add_tax A K cs simulate []) (\<lambda>t. ret (csum K c t)) s = bnd (bnd (computeTax A K cs simulate) ret) (\<lambda>t. ret (csum K c t)) s"
    by (simp add: bnd_def)
  also have "\<dots> = add_tax A K cs simulate c s"
    unfolding add_tax_def bnd_assoc bnd_ret
  proof (rule bnd_cong_Ok)
    fix x s1 assume "computeTax A K cs simulate s = (Ok x, s1)"
    then have "valid_coins K x" by (rule v)
    then show "ret (csum K c x) s1 = lift (coins_Add K c x) s1" using coin_laws.csum_valid(1) [OF assms c] by simp
  qed
  finally show "add_tax A K cs simulate c s = bnd (add_tax A K cs simulate []) (\<lambda>t. ret (csum K c t)) s" by simp
next
  fix s t s' assume "add_tax A K cs simulate [] s = (Ok t, s')"
  then obtain x where x: "computeTax A K cs simulate s = (Ok x, s')" "coins_Add K [] x = Ok t"
    by (auto simp: add_tax_def bnd_run_iff_Ok)
  have v: "valid_coins K x" by (rule computeTax_valid [OF assms x(1)])
  show "valid_coins K t" using coin_laws.csum_valid(1,2) [OF assms valid_Nil v] x(2) by auto
qed

lemma additive_multi_send:
  assumes "coin_laws K"
  shows "coins_additive K (multi_send_tax A K msg simulate)"
proof -
  note S = coin_laws.coin_sums [OF assms]
  have f: "coins_additive K (fold_each (bm_Inputs msg) (\<lambda>input. add_tax A K (snd input) simulate))"
    by (rule sums.additive_fold [OF S]) (rule additive_tax [OF assms])
  show ?thesis
    unfolding multi_send_tax_def
    by (rule sums.additive_read [OF S]) (rule sums.additive_if [OF S f sums.additive_ret [OF S]])
qed

section \<open>Nested messages\<close>

fun flat_msg :: "tx_msg \<Rightarrow> tx_msg list" and flat_msgs :: "tx_msg list \<Rightarrow> tx_msg list" where
  "flat_msg (MsgExec (Some ms)) = flat_msgs ms"
| "flat_msg (MsgExec None) = []"
| "flat_msg m = [m]"
| "flat_msgs [] = []"
| "flat_msgs (m # ms) = flat_msg m @ flat_msgs ms"

lemma filter_msgs_append:
  "filter_msgs A K simulate (xs @ ys) c s = bnd (filter_msgs A K simulate xs c) (filter_msgs A K simulate ys) s"
proof (induction xs arbitrary: c s)
  case (Cons x xs)
  show ?case unfolding append.simps filter_msgs.simps bnd_assoc by (rule bnd_cong_Ok) (rule Cons.IH)
qed (simp only: append.simps filter_msgs.simps bnd_ret)

lemma filter_msg_eqs:
  "filter_msg A K simulate (MsgSend msg) = (\<lambda>p. bnd (IsExemptedFromTax (bs_FromAddress msg) [bs_ToAddress msg]) (\<lambda>exempt.
     if \<not> exempt then bnd (add_tax A K (bs_Amount msg) simulate (fst p)) (\<lambda>t. ret (t, snd p)) else ret p))"
  "filter_msg A K simulate (MsgMultiSend mm) = (\<lambda>p. bnd (multi_send_tax A K mm simulate (fst p)) (\<lambda>t. ret (t, snd p)))"
  "filter_msg A K simulate (MsgSwapSend sw) = (\<lambda>p. bnd (lift (NewCoins K [mss_OfferCoin sw])) (\<lambda>offer.
     bnd (add_tax A K offer simulate (fst p)) (\<lambda>t. ret (t, snd p))))"
  "filter_msg A K simulate (MsgInstantiateContract f) = (\<lambda>p. bnd (add_tax A K f simulate (snd p)) (\<lambda>t. ret (fst p, t)))"
  "filter_msg A K simulate (MsgInstantiateContract2 f) = (\<lambda>p. bnd (add_tax A K f simulate (snd p)) (\<lambda>t. ret (fst p, t)))"
  "filter_msg A K simulate (MsgExecuteContract x y f) = (\<lambda>p. bnd (IsExemptedFromTax x [y]) (\<lambda>exempt.
     if \<not> exempt then bnd (add_tax A K f simulate (snd p)) (\<lambda>t. ret (fst p, t)) else ret p))"
  by (simp_all only: fun_eq_iff split_paired_All filter_msg.simps fst_conv snd_conv simp_thms)

lemma filter_msg_ret:
  "filter_msg A K simulate (MsgExec None) = ret" "filter_msg A K simulate (MsgAggregateExchangeRatePrevote p) = ret"
  "filter_msg A K simulate (MsgAggregateExchangeRateVote v) = ret" "filter_msg A K simulate (MsgSubmitProposalV1Beta1 cs) = ret"
  "filter_msg A K simulate (MsgSubmitProposalV1 cs) = ret" "filter_msg A K simulate (MsgTransfer x y) = ret"
  "filter_msg A K simulate (MsgRecvPacket q) = ret" "filter_msg A K simulate (MsgCreateValidator x r) = ret"
  "filter_msg A K simulate (MsgEditValidator x ro) = ret" "filter_msg A K simulate OtherMsg = ret"
  by (simp_all only: fun_eq_iff filter_msg.simps simp_thms)

text \<open>The sum of a pair of taxes and the taxes of embedded messages.\<close>

lemma exec_msgs:
  fixes s :: "('b, 'x) tax_state_scheme"
  assumes "coin_laws K"
    and "taxes_additive K (filter_msgs A K simulate ms :: coins \<times> coins \<Rightarrow> (('b, 'x) tax_state_scheme, coins \<times> coins) go)"
    and "valid_coins K (fst c)" "valid_coins K (snd c)"
  shows "filter_msg A K simulate (MsgExec (Some ms)) c s = filter_msgs A K simulate ms c s"
proof -
  obtain t n where c: "c = (t, n)" by fastforce
  have "filter_msg A K simulate (MsgExec (Some ms)) c s =
      bnd (filter_msgs A K simulate ms ([], [])) (\<lambda>r. ret (csum K (fst c) (fst r), csum K (snd c) (snd r))) s"
    unfolding c filter_msg.simps
  proof (rule bnd_cong_Ok)
    fix r s1 assume "filter_msgs A K simulate ms ([], []) s = (Ok r, s1)"
    from additiveD(2) [OF assms(2) this] have "valid_coins K (fst r)" "valid_coins K (snd r)" by simp_all
    then show "(case r of (x, y) \<Rightarrow> bnd (lift (coins_Add K t x)) (\<lambda>t. bnd (lift (coins_Add K n y)) (\<lambda>n. ret (t, n)))) s1 =
        ret (csum K (fst (t, n)) (fst r), csum K (snd (t, n)) (snd r)) s1"
      using assms(3,4) coin_laws.csum_valid(1) [OF assms(1)] by (simp add: c case_prod_beta)
  qed
  also have "\<dots> = filter_msgs A K simulate ms c s"
    using additiveD(1) [OF assms(2), of c s] assms(3,4) by simp
  finally show ?thesis .
qed

lemma additive_cong:
  assumes F: "additive V f z F" and "V z" and eq: "\<And>c s. V c \<Longrightarrow> G c s = F c s"
  shows "additive V f z G"
  unfolding additive_def
proof (intro conjI allI impI)
  fix c s assume c: "V c"
  have "bnd (G z) (\<lambda>t. ret (f c t)) s = bnd (F z) (\<lambda>t. ret (f c t)) s" using eq [OF assms(2)] by (simp add: bnd_def)
  then show "G c s = bnd (G z) (\<lambda>t. ret (f c t)) s" using additiveD(1) [OF F c] eq [OF c] by simp
next
  fix s t s' assume "G z s = (Ok t, s')"
  then show "V t" using eq [OF assms(2)] additiveD(2) [OF F] by simp
qed

lemma leaf_additive:
  assumes "coin_laws K" "\<And>ms. m \<noteq> MsgExec (Some ms)"
  shows "taxes_additive K (filter_msg A K simulate m :: coins \<times> coins \<Rightarrow> (('b, 'x) tax_state_scheme, coins \<times> coins) go)"
proof -
  note S = coin_laws.coin_sums [OF assms(1)]
  note P = sums.pair_sums [OF S]
  note r = sums.additive_ret [OF P] and tax = additive_tax [OF assms(1)]
  note rules = sums.additive_read [OF P] sums.additive_if [OF P] sums.additive_fst [OF S tax] sums.additive_snd [OF S tax]
    sums.additive_fst [OF S additive_multi_send [OF assms(1)]] r
  show ?thesis
  proof (cases m)
    case (MsgExec opt)
    then show ?thesis using assms(2) r by (cases opt) (simp_all only: filter_msg_ret)
  qed (simp_all only: filter_msg_eqs filter_msg_ret r, (rule rules)+)
qed

lemma filter_additive:
  assumes "coin_laws K"
  shows "taxes_additive K (filter_msg A K simulate m :: coins \<times> coins \<Rightarrow> (('b, 'x) tax_state_scheme, coins \<times> coins) go)"
    and "taxes_additive K (filter_msgs A K simulate ms :: coins \<times> coins \<Rightarrow> (('b, 'x) tax_state_scheme, coins \<times> coins) go)"
proof (induction m and ms rule: flat_msg_flat_msgs.induct)
  case (1 ms)
  show ?case
    by (rule additive_cong [OF 1]) (simp_all add: valid_Nil exec_msgs [OF assms 1])
next
  case 4
  have e: "filter_msgs A K simulate [] = ret" by (simp only: fun_eq_iff filter_msgs.simps simp_thms)
  show ?case unfolding e by (rule sums.additive_ret [OF sums.pair_sums [OF coin_laws.coin_sums [OF assms]]])
next
  case (5 m ms)
  have e: "filter_msgs A K simulate (m # ms) = (\<lambda>c. bnd (filter_msg A K simulate m c) (filter_msgs A K simulate ms))"
    by (simp only: fun_eq_iff filter_msgs.simps simp_thms)
  show ?case unfolding e by (rule sums.additive_bnd [OF sums.pair_sums [OF coin_laws.coin_sums [OF assms]] 5])
qed (rule leaf_additive [OF assms], simp)+

lemma filter_msgs_single: "filter_msgs A K simulate [m] c s = filter_msg A K simulate m c s"
  by (simp add: bnd_def split: prod.split outcome.split)

lemma flat_filter:
  fixes s :: "('b, 'x) tax_state_scheme"
  assumes "coin_laws K"
  shows "both (valid_coins K) c \<Longrightarrow> filter_msgs A K simulate (flat_msg m) c s = filter_msg A K simulate m c s"
    and "both (valid_coins K) c \<Longrightarrow> filter_msgs A K simulate (flat_msgs ms) c s = filter_msgs A K simulate ms c s"
proof (induction m and ms arbitrary: c s and c s rule: flat_msg_flat_msgs.induct)
  case (1 ms)
  have v: "valid_coins K (fst c)" "valid_coins K (snd c)" using 1(2) by simp_all
  show ?case using 1(1) [OF 1(2)] exec_msgs [OF assms filter_additive(2) [OF assms] v, of A simulate ms s] by simp
next
  case (5 m ms)
  have "filter_msgs A K simulate (flat_msgs (m # ms)) c s = bnd (filter_msgs A K simulate (flat_msg m) c) (filter_msgs A K simulate (flat_msgs ms)) s"
    by (simp add: filter_msgs_append)
  also have "\<dots> = bnd (filter_msg A K simulate m c) (filter_msgs A K simulate (flat_msgs ms)) s"
    using 5(1) [OF 5(3)] by (simp add: bnd_def)
  also have "\<dots> = bnd (filter_msg A K simulate m c) (filter_msgs A K simulate ms) s"
  proof (rule bnd_cong_Ok)
    fix r s1 assume "filter_msg A K simulate m c s = (Ok r, s1)"
    then obtain r0 where r0: "filter_msg A K simulate m ([], []) s = (Ok r0, s1)" "r = add_pair (csum K) c r0"
      using additiveD(1) [OF filter_additive(1) [OF assms], of c A simulate m s] 5(3) by (auto simp: bnd_run_iff_Ok)
    have "both (valid_coins K) r0" by (rule additiveD(2) [OF filter_additive(1) [OF assms] r0(1)])
    then have "both (valid_coins K) r" using 5(3) r0(2) coin_laws.csum_valid(2) [OF assms] by simp
    then show "filter_msgs A K simulate (flat_msgs ms) r s1 = filter_msgs A K simulate ms r s1" by (rule 5(2))
  qed
  finally show ?case by simp
qed (simp_all only: flat_msg.simps flat_msgs.simps filter_msgs_single filter_msg_ret filter_msgs.simps(1))

text \<open>C13. Messages nested in authorizations, to any depth, are taxed exactly as if they stood in the transaction
  themselves: the taxes and the refundable taxes of a transaction, and whether computing them fails, are those of the
  list of its innermost messages.\<close>

theorem nested_messages_taxed:
  assumes "coin_laws K"
  shows "FilterMsgAndComputeTax A K simulate (flat_msgs msgs) s = FilterMsgAndComputeTax A K simulate msgs s"
  unfolding FilterMsgAndComputeTax_def by (rule flat_filter(2) [OF assms]) (simp add: valid_Nil)

end
