(* ===== verification/Ante_Fee.thy ===== *)
theory Ante_Fee
  imports Ante_Tax
begin

text \<open>
  The fee decorator: what it takes from the payer, what it leaves to the post handler as tax, and what it gives back,
  add up to the fee of the transaction; and what it takes pays for the gas.
\<close>

section \<open>Readers\<close>

lemma reader_IsExempted: "reader (IsExemptedFromTax x ys)"
  by (simp add: reader_def IsExempted_run)

lemma reader_computeTax: "reader (computeTax A K cs simulate)"
  unfolding computeTax_def GetBurnTaxRate_def tax_GetParams_def GetTaxCap_def TaxPolicy_def Let_def
  by (intro reader_intros reader_fold_each) (auto intro!: reader_intros split: option.split)

lemma reader_add_tax: "reader (add_tax A K cs simulate taxes)"
  unfolding add_tax_def by (intro reader_intros reader_computeTax)

lemma reader_multi_send: "reader (multi_send_tax A K msg simulate taxes)"
  unfolding multi_send_tax_def by (intro reader_intros reader_fold_each reader_IsExempted reader_add_tax)

lemma reader_filter:
  "reader (filter_msg A K simulate m c :: (('b, 'x) tax_state_scheme, coins \<times> coins) go)"
  "reader (filter_msgs A K simulate ms c :: (('b, 'x) tax_state_scheme, coins \<times> coins) go)"
proof (induction m and ms arbitrary: c and c rule: flat_msg_flat_msgs.induct)
  case (1 ms)
  obtain t n where c: "c = (t, n)" by fastforce
  show ?case unfolding c filter_msg.simps case_prod_beta by (intro reader_intros 1)
next
  case (5 m ms)
  show ?case unfolding filter_msgs.simps by (intro reader_bnd 5)
qed (simp_all only: filter_msg_eqs filter_msg_ret filter_msgs.simps, (intro reader_intros reader_IsExempted reader_add_tax reader_multi_send)+)

lemma filter_Ok:
  fixes s :: "('b, 'x) tax_state_scheme"
  assumes "coin_laws K" "FilterMsgAndComputeTax A K simulate ms s = (Ok (taxes, non), s')"
  shows "s' = s" "valid_coins K taxes" "valid_coins K non"
proof -
  note run = assms(2) [unfolded FilterMsgAndComputeTax_def]
  show "s' = s" using reader.unchanged [OF reader_filter(2), of A K simulate ms "([], [])" s] run by simp
  from additiveD(2) [OF filter_additive(2) [OF assms(1)] run] show "valid_coins K taxes" "valid_coins K non" by simp_all
qed

lemma filter_oracle: "list_all is_oracle_msg ms \<Longrightarrow> filter_msgs A K simulate ms c s = (Ok c, s)"
proof (induction ms)
  case (Cons m ms)
  then have "filter_msg A K simulate m c s = (Ok c, s)"
    by (cases m) (simp_all only: filter_msg_ret list.pred_inject(2) is_oracle_msg.simps simp_thms ret_run)
  then show ?case using Cons by (simp add: bnd_Ok)
qed simp

section \<open>The decision\<close>

text \<open>What a transaction pays now, what is due as tax after its messages, and what it gets back, out of its fee.\<close>

definition fee_parts :: "coins \<Rightarrow> coins \<Rightarrow> coins \<Rightarrow> coins \<Rightarrow> bool" where
  "fee_parts fee paid due refunded \<longleftrightarrow> (\<forall>d. amt paid d + amt due d + amt refunded d = amt fee d)"

context coin_laws
begin

lemma Sub_parts:
  assumes "valid_coins K a" "valid_coins K b" "coins_IsAllGTE K a b"
  obtains r where "coins_Sub K a b = Ok r" "valid_coins K r" "\<And>d. amt r d = amt a d - amt b d"
  using Sub_ok [OF assms(1,2)] IsAllGTE_iff [OF assms(1,2)] assms(3) by auto

lemma charge_taxes_Ok:
  assumes "valid_coins K fee" "valid_coins K taxes" "charge_taxes K req fee taxes = Ok (rest, reverse)"
  shows "valid_coins K rest \<and> (\<forall>d. amt rest d = amt fee d - amt (if reverse then [] else taxes) d)"
proof (cases "coins_IsZero K taxes \<or> \<not> coins_IsAllGTE K fee taxes")
  case True
  then show ?thesis
    using assms IsZero_iff [OF assms(2)] by (auto simp: charge_taxes_def split: if_splits)
next
  case False
  then obtain r where "coins_Sub K fee taxes = Ok r" "valid_coins K r" "\<And>d. amt r d = amt fee d - amt taxes d"
    using Sub_parts [OF assms(1,2)] by blast
  then show ?thesis using False assms(1,3) by (auto simp: charge_taxes_def split: if_splits)
qed

lemma refund_taxes_Ok:
  assumes "valid_coins K fee" "valid_coins K non" "refund_taxes K req fee non = Ok (rest, refund)"
  shows "valid_coins K rest \<and> (\<forall>d. amt rest d = amt fee d - amt (if refund then non else []) d)"
proof (cases "coins_IsZero K non \<or> \<not> coins_IsAllGTE K fee non")
  case True
  then show ?thesis using assms by (auto simp: refund_taxes_def split: if_splits)
next
  case False
  then obtain r where "coins_Sub K fee non = Ok r" "valid_coins K r" "\<And>d. amt r d = amt fee d - amt non d"
    using Sub_parts [OF assms(1,2)] by blast
  then show ?thesis using False assms(1,3) by (auto simp: refund_taxes_def split: if_splits)
qed

text \<open>Taking the refunds out of what is to be deducted takes all of them out when they fit.\<close>

lemma drop_refunds_Ok:
  assumes "valid_coins K refunded" "valid_coins K x" "\<forall>d. amt refunded d \<le> amt x d"
  obtains r where "drop_refunds K refunded x = Ok r" "valid_coins K r" "\<And>d. amt r d = amt x d - amt refunded d"
proof -
  define h where "h = (\<lambda>coin deductFees. obind (coins_AmountOf K deductFees (Denom coin))
      (\<lambda>a. if a \<ge> Amount coin then coins_Sub K deductFees [coin] else Ok deductFees))"
  have "\<exists>r. ofold h refunded x = Ok r \<and> valid_coins K r \<and> (\<forall>d. amt r d = amt x d - amt refunded d)"
    using assms
  proof (induction refunded arbitrary: x)
    case (Cons c refunded)
    have v: "valid_coins K [c]" "valid_coins K refunded" using Cons.prems(1) by (auto simp: valid_coins_def coins_ok_def)
    have nonneg: "0 \<le> amt refunded d" for d using v(2) amt_nonneg by blast
    have le: "amt [c] d \<le> amt x d" for d
      using Cons.prems(3) [rule_format, of d] nonneg [of d] by simp
    obtain y where y: "coins_Sub K x [c] = Ok y" "valid_coins K y" "\<And>d. amt y d = amt x d - amt [c] d"
      using Sub_ok [OF Cons.prems(2) v(1)] le by blast
    have "h c x = Ok y"
      using le [of "Denom c"] y(1) AmountOf_eq [OF Cons.prems(2), of "Denom c"] v(1) by (simp add: h_def valid_coins_def)
    moreover have "\<forall>d. amt refunded d \<le> amt y d"
    proof
      fix d show "amt refunded d \<le> amt y d" using Cons.prems(3) [rule_format, of d] y(3) [of d] by simp
    qed
    ultimately show ?case using Cons.IH [OF v(2) y(2)] y(3) by auto
  qed simp
  moreover have "drop_refunds K refunded x = ofold h refunded x"
    using IsZero_iff [OF assms(1)] by (simp add: drop_refunds_def h_def)
  ultimately show ?thesis using that by auto
qed

end

text \<open>The minimal gas fees, as the node and the tax module ask for them, are covered by some coins.\<close>

definition gas_paid :: "'z coin_ops_scheme \<Rightarrow> tx_ctx \<Rightarrow> fee_tx \<Rightarrow> ('b, 'x) tax_state_scheme \<Rightarrow> coins \<Rightarrow> bool" where
  "gas_paid K ctx tx s paid \<longleftrightarrow> (\<exists>prices req. GetEffectiveGasPrices K ctx s = (Ok prices, s) \<and>
     min_gas_fees K prices (tx_Gas tx) = Ok req \<and> gas_covered K req paid)"

lemma reader_prices: "reader (GetEffectiveGasPrices K ctx)"
  unfolding GetEffectiveGasPrices_def GetGasPrices_def tax_GetParams_def by (intro reader_intros)

text \<open>A successful check leaves the state alone, and its decision splits the fee.\<close>

lemma checkTxFee_Ok:
  assumes "coin_laws K" "valid_coins K (tx_Fee tx)" "valid_coins K taxes" "valid_coins K non"
    and "IsOracleTx (tx_Msgs tx) \<Longrightarrow> taxes = []"
    and "checkTxFee K ctx tx taxes non s = (Ok (pr, reverse, refund), s')"
  shows "s' = s \<and> (\<exists>paid. valid_coins K paid \<and>
     fee_parts (tx_Fee tx) paid (if reverse then [] else taxes) (if refund then non else []) \<and>
     (\<not> IsOracleTx (tx_Msgs tx) \<longrightarrow> gas_paid K ctx tx s paid))"
proof (cases "IsOracleTx (tx_Msgs tx)")
  case True
  then show ?thesis using assms(2,5,6) by (auto simp: checkTxFee_def fee_parts_def)
next
  case False
  obtain prices req rest rest' where p: "GetEffectiveGasPrices K ctx s = (Ok prices, s)"
    and m: "min_gas_fees K prices (tx_Gas tx) = Ok req"
    and c: "charge_taxes K req (tx_Fee tx) taxes = Ok (rest, reverse)" and r: "refund_taxes K req rest non = Ok (rest', refund)"
    and g: "gas_covered K req rest'" and s: "s' = s"
    using assms(6) False
    by (auto simp: checkTxFee_def bnd_lift_Ok reader.bnd_Ok_iff [OF reader_prices] reader.run [OF reader_prices] split: if_splits)
  note c' = coin_laws.charge_taxes_Ok [OF assms(1,2,3) c]
  note r' = coin_laws.refund_taxes_Ok [OF assms(1) conjunct1 [OF c'] assms(4) r]
  have "fee_parts (tx_Fee tx) rest' (if reverse then [] else taxes) (if refund then non else [])"
    using c' r' by (simp add: fee_parts_def)
  then show ?thesis using r' p m g s by (auto simp: gas_paid_def)
qed

section \<open>The deduction\<close>

text \<open>The use of a fee grant moves no coins.\<close>

locale grant_laws =
  fixes A :: "('b, 'w) ante_ops_scheme" and K :: "('b, 'z) bank_ops_scheme"
  assumes Grant_balances: "UseGrantedFees A = Some use \<Longrightarrow> use x y fee ms b = (Ok (), b') \<Longrightarrow>
    bal K b' z d = bal K b z d \<and> supply_of K b' d = supply_of K b d"

definition fee_payer :: "fee_tx \<Rightarrow> string" where
  "fee_payer tx = (case tx_FeeGranter tx of None \<Rightarrow> tx_FeePayer tx | Some g \<Rightarrow> g)"

lemma moved_Nil: "moved K x y [] b b"
  by (simp add: moved_def)

context grant_laws
begin

lemma payer_account_Ok:
  assumes "payer_account A tx s = (Ok acc, s')"
  shows "acc = fee_payer tx" "\<exists>b. s' = s\<lparr>ext := b\<rparr>"
    and "bal K (ext s') z d = bal K (ext s) z d" "supply_of K (ext s') d = supply_of K (ext s) d"
proof -
  have *: "acc = fee_payer tx \<and> (\<exists>b. s' = s\<lparr>ext := b\<rparr>) \<and> (\<forall>z d. bal K (ext s') z d = bal K (ext s) z d \<and> supply_of K (ext s') d = supply_of K (ext s) d)"
  proof (cases "tx_FeeGranter tx")
    case None
    then show ?thesis using assms by (auto simp: payer_account_def fee_payer_def intro: exI [of _ "ext s"] split: if_splits)
  next
    case (Some g)
    then obtain use s1 where u: "UseGrantedFees A = Some use" "acc = g"
      and s1: "on_true (g \<noteq> tx_FeePayer tx) (sdk_call (use g (tx_FeePayer tx) (tx_Fee tx) (tx_Msgs tx))) s = (Ok (), s1)" "s' = s1"
      using assms by (auto simp: payer_account_def bnd_run_iff_Ok seq_run_iff_Ok simp del: on_true_run split: option.splits if_splits)
    then show ?thesis
    proof (cases "g = tx_FeePayer tx")
      case True
      then show ?thesis using s1 u Some by (auto simp: fee_payer_def intro: exI [of _ "ext s"])
    next
      case False
      then obtain b where b: "use g (tx_FeePayer tx) (tx_Fee tx) (tx_Msgs tx) (ext s) = (Ok (), b)" "s' = s\<lparr>ext := b\<rparr>"
        using s1 by (auto simp: sdk_call_run)
      then show ?thesis using Grant_balances [OF u(1) b(1)] u Some by (auto simp: fee_payer_def)
    qed
  qed
  then show "acc = fee_payer tx" "\<exists>b. s' = s\<lparr>ext := b\<rparr>" "bal K (ext s') z d = bal K (ext s) z d"
    "supply_of K (ext s') d = supply_of K (ext s) d" by auto
qed

end

text \<open>The whole deduction, outside of a simulation.\<close>

lemma moved_from:
  assumes "moved K x y cs b1 b2" "\<And>z d. bal K b1 z d = bal K b z d" "\<And>d. supply_of K b1 d = supply_of K b d"
  shows "moved K x y cs b b2"
  using assms by (simp add: moved_def)

lemma DeductFees_Ok:
  assumes "bank_laws K" "on_true (\<not> coins_IsZero K cs) (DeductFees K acc cs) s = (Ok (), s')" "valid_coins K cs"
  shows "moved K acc (GetModuleAddress K FeeCollectorName) cs (ext s) (ext s') \<and> (\<exists>b. s' = s\<lparr>ext := b\<rparr>)"
proof (cases "cs = []")
  case True
  then show ?thesis
    using assms(2) coin_laws.IsZero_iff [OF bank_laws.axioms(1) [OF assms(1)], of cs] assms(3)
    by (auto simp: moved_Nil intro: exI [of _ "ext s"])
next
  case False
  then obtain b where "SendCoinsFromAccountToModule K acc FeeCollectorName cs (ext s) = (Ok (), b)" "s' = s\<lparr>ext := b\<rparr>"
    using assms(2,3) coin_laws.IsZero_iff [OF bank_laws.axioms(1) [OF assms(1)], of cs]
    by (auto simp: DeductFees_def sdk_call_run split: if_splits)
  then show ?thesis using bank_laws.A2M_moved [OF assms(1)] by auto
qed

lemma fee_parts_take:
  assumes "coin_laws K" "valid_coins K fee" "valid_coins K due" "valid_coins K refunded" "valid_coins K paid" "fee_parts fee paid due refunded"
  obtains x where "coins_Sub K fee due = Ok x" "drop_refunds K refunded x = Ok paid"
proof -
  have nn: "0 \<le> amt paid d" "0 \<le> amt refunded d" for d using assms(4,5) amt_nonneg by (auto simp: valid_coins_def)
  have p: "amt paid d + amt due d + amt refunded d = amt fee d" for d using assms(6) by (simp add: fee_parts_def)
  have le: "amt due d \<le> amt fee d" for d using nn [of d] p [of d] by linarith
  obtain x where x: "coins_Sub K fee due = Ok x" "valid_coins K x" "\<And>d. amt x d = amt fee d - amt due d"
    using coin_laws.Sub_ok [OF assms(1-3)] le by blast
  have le2: "amt refunded d \<le> amt x d" for d using nn [of d] p [of d] x(3) [of d] by linarith
  obtain r where r: "drop_refunds K refunded x = Ok r" "valid_coins K r" "\<And>d. amt r d = amt x d - amt refunded d"
    using coin_laws.drop_refunds_Ok [OF assms(1,4) x(2)] le2 by blast
  have "r = paid"
  proof (rule coin_laws.valid_eqI [OF assms(1) r(2) assms(5)])
    fix d show "amt r d = amt paid d" using p [of d] x(3) [of d] r(3) [of d] by linarith
  qed
  then show ?thesis using that x(1) r(1) by simp
qed

lemma fee_parts_zero:
  assumes "coin_laws K" "valid_coins K due" "valid_coins K refunded" "valid_coins K paid" "fee_parts [] paid due refunded"
  shows "paid = []"
proof -
  have "amt paid d = 0" for d
  proof -
    have "0 \<le> amt paid d" "0 \<le> amt refunded d" "0 \<le> amt due d" using assms(2-4) amt_nonneg by (auto simp: valid_coins_def)
    moreover have "amt paid d + amt due d + amt refunded d = 0" using assms(5) by (simp add: fee_parts_def)
    ultimately show ?thesis by linarith
  qed
  then show ?thesis using coins_ok_empty_iff [of paid] assms(4) by (simp add: valid_coins_def)
qed

lemma checkDeductFee_Ok:
  fixes s :: "('b, 'x) chain_scheme"
  assumes laws: "bank_laws K" "grant_laws A K"
    and v: "valid_coins K (tx_Fee tx)" "valid_coins K due" "valid_coins K refunded" "valid_coins K paid"
    and parts: "fee_parts (tx_Fee tx) paid due refunded"
    and run: "checkDeductFee A K ctx tx due refunded False s = (Ok ctx', s')"
  shows "moved K (fee_payer tx) (GetModuleAddress K FeeCollectorName) paid (ext s) (ext s') \<and>
     (tx_Fee tx \<noteq> [] \<longrightarrow> TaxDue ctx' = Some due \<and> TaxPayer ctx' = Some (AccAddress_String K (fee_payer tx))) \<and>
     TaxReverseCharge ctx' = TaxReverseCharge ctx \<and> (\<exists>b. s' = s\<lparr>ext := b\<rparr>)"
proof -
  note C = bank_laws.axioms(1) [OF laws(1)]
  have hf: "HasFeeCollector A" using run by (auto simp: checkDeductFee_def split: if_splits)
  obtain acc s1 where p: "payer_account A tx s = (Ok acc, s1)" using run hf by (auto simp: checkDeductFee_def bnd_run_iff_Ok)
  note pay = grant_laws.payer_account_Ok [OF laws(2) p]
  show ?thesis
  proof (cases "tx_Fee tx = []")
    case True
    have "paid = []" using fee_parts_zero [OF C v(2-4)] parts True by simp
    moreover have "s' = s1" "ctx' = ctx" using run hf True coin_laws.IsZero_iff [OF C valid_Nil] by (simp_all add: checkDeductFee_def bnd_Ok [where m = "payer_account A tx", OF p])
    ultimately show ?thesis using True pay moved_from [OF moved_Nil [of K _ _ "ext s1"] pay(3,4)] by simp
  next
    case False
    obtain x where x: "coins_Sub K (tx_Fee tx) due = Ok x" "drop_refunds K refunded x = Ok paid"
      by (rule fee_parts_take [OF C v parts])
    have d: "on_true (\<not> coins_IsZero K paid) (DeductFees K acc paid) s1 = (Ok (), s')"
      and c: "ctx' = ctx\<lparr>TaxDue := Some due, TaxPayer := Some (AccAddress_String K acc)\<rparr>"
      using run hf False coin_laws.IsZero_iff [OF C v(1)]
      by (auto simp: checkDeductFee_def bnd_Ok [where m = "payer_account A tx", OF p] x seq_run_iff_Ok simp del: on_true_run)
    from DeductFees_Ok [OF laws(1) d v(4)] moved_from [OF _ pay(3,4)] c pay(1,2) show ?thesis by auto
  qed
qed

section \<open>The decorator\<close>

lemma fee_decorator_run:
  fixes s :: "('b, 'x) tax_state_scheme"
  assumes laws: "bank_laws K" "grant_laws A K" and fee: "valid_coins K (tx_Fee tx)"
    and run: "FeeDecorator_AnteHandle A K tx False ctx ret s = (Ok ctx', s')"
  shows "\<exists>taxes non reverse refund paid. FilterMsgAndComputeTax A K False (tx_Msgs tx) s = (Ok (taxes, non), s) \<and>
     TaxReverseCharge ctx' = Some reverse \<and>
     fee_parts (tx_Fee tx) paid (if reverse then [] else taxes) (if refund then non else []) \<and>
     moved K (fee_payer tx) (GetModuleAddress K FeeCollectorName) paid (ext s) (ext s') \<and>
     (tx_Fee tx \<noteq> [] \<longrightarrow> TaxDue ctx' = Some (if reverse then [] else taxes) \<and>
        TaxPayer ctx' = Some (AccAddress_String K (fee_payer tx))) \<and>
     (\<not> IsOracleTx (tx_Msgs tx) \<longrightarrow> gas_paid K ctx tx s paid) \<and> (\<exists>b. s' = s\<lparr>ext := b\<rparr>)"
proof -
  note C = bank_laws.axioms(1) [OF laws(1)]
  obtain taxes non s1 where f1: "FilterMsgAndComputeTax A K False (tx_Msgs tx) s = (Ok (taxes, non), s1)"
    using run by (auto simp: FeeDecorator_AnteHandle_def bnd_run_iff_Ok split: if_splits)
  note fo = filter_Ok [OF C f1]
  have f: "FilterMsgAndComputeTax A K False (tx_Msgs tx) s = (Ok (taxes, non), s)" using f1 fo(1) by simp
  obtain pr reverse refund s2 where c: "checkTxFee K ctx tx taxes non s = (Ok (pr, reverse, refund), s2)"
    using run f by (auto simp: FeeDecorator_AnteHandle_def bnd_run_iff_Ok split: if_splits)
  have orc: "taxes = []" if "IsOracleTx (tx_Msgs tx)"
    using f filter_oracle [of "tx_Msgs tx" A K False "([], [])" s] that by (simp add: FilterMsgAndComputeTax_def IsOracleTx_def)
  obtain paid where s2: "s2 = s" and paid: "valid_coins K paid"
    "fee_parts (tx_Fee tx) paid (if reverse then [] else taxes) (if refund then non else [])"
    "\<not> IsOracleTx (tx_Msgs tx) \<longrightarrow> gas_paid K ctx tx s paid"
    using checkTxFee_Ok [OF C fee fo(2,3) orc c] by auto
  obtain ctx1 where d: "checkDeductFee A K ctx tx (if reverse then [] else taxes) (if refund then non else []) False s = (Ok ctx1, s')"
    and ctx': "ctx' = ctx1\<lparr>Priority := pr, TaxReverseCharge := Some reverse\<rparr>"
    using run f c s2 by (auto simp: FeeDecorator_AnteHandle_def bnd_run_iff_Ok Let_def split: if_splits)
  have v: "valid_coins K (if reverse then [] else taxes)" "valid_coins K (if refund then non else [])"
    using fo(2,3) valid_Nil by auto
  from checkDeductFee_Ok [OF laws fee v paid(1,2) d] f paid(2,3) show ?thesis
    unfolding ctx' by (intro exI [of _ taxes] exI [of _ non] exI [of _ reverse] exI [of _ refund] exI [of _ paid]) simp
qed

text \<open>C12. When the fee decorator accepts a transaction, the fee splits exactly into what the payer pays now, which goes to
  the fee collector and covers the minimal gas fees unless the transaction consists of oracle votes, the tax that is due
  after the messages, which is none when it is charged to the recipients instead, and the tax on contract calls that is
  given back; nothing else moves.\<close>

theorem fee_decorator_splits_fee:
  fixes s :: "('b, 'x) tax_state_scheme"
  assumes "bank_laws K" "grant_laws A K" "valid_coins K (tx_Fee tx)"
    and "FeeDecorator_AnteHandle A K tx False ctx ret s = (Ok ctx', s')"
  shows "\<exists>taxes non reverse refund paid. FilterMsgAndComputeTax A K False (tx_Msgs tx) s = (Ok (taxes, non), s) \<and>
     TaxReverseCharge ctx' = Some reverse \<and>
     fee_parts (tx_Fee tx) paid (if reverse then [] else taxes) (if refund then non else []) \<and>
     moved K (fee_payer tx) (GetModuleAddress K FeeCollectorName) paid (ext s) (ext s') \<and>
     (tx_Fee tx \<noteq> [] \<longrightarrow> TaxDue ctx' = Some (if reverse then [] else taxes) \<and>
        TaxPayer ctx' = Some (AccAddress_String K (fee_payer tx))) \<and>
     (\<not> IsOracleTx (tx_Msgs tx) \<longrightarrow> gas_paid K ctx tx s paid) \<and> (\<exists>b. s' = s\<lparr>ext := b\<rparr>)"
  by (rule fee_decorator_run [OF assms])

end
