(* ===== verification/Ante_Limits.thy ===== *)
theory Ante_Limits
  imports Ante
begin

text \<open>
  The limits of the ante handlers: at one height the spamming prevention lets one prevote and one vote of a validator
  through in transactions of oracle messages, transfers over ibc are refused exactly when they are too long, and proposals without the initial deposit.
\<close>

section \<open>Votes\<close>

text \<open>The votes a transaction opens with, as pairs of the kind and the validator.\<close>

fun vote_tag :: "tx_msg \<Rightarrow> bool \<times> string" where
  "vote_tag (MsgAggregateExchangeRatePrevote msg) = (False, mp_Validator msg)"
| "vote_tag (MsgAggregateExchangeRateVote msg) = (True, mv_Validator msg)"
| "vote_tag _ = (False, [])"

definition vote_tags :: "tx_msg list \<Rightarrow> (bool \<times> string) list" where
  "vote_tags msgs = map vote_tag (takeWhile is_oracle_msg msgs)"

definition marked :: "int \<Rightarrow> ('b, 'x) ante_state_scheme \<Rightarrow> (bool \<times> string) set" where
  "marked h s = {(k, v). (if k then oracleVoteMap s v else oraclePrevoteMap s v) = Some h}"

text \<open>The transactions that pass, of a sequence that is checked at one height.\<close>

primrec passed :: "('b, 'z) staking_ops_scheme \<Rightarrow> tx_msg list list \<Rightarrow> ('b, 'x) ante_state_scheme \<Rightarrow> tx_msg list list" where
  "passed K [] s = []"
| "passed K (tx # txs) s = (case CheckOracleSpamming K tx s of
     (Ok _, s') \<Rightarrow> tx # passed K txs s' | (_, s') \<Rightarrow> passed K txs s')"

lemma reader_feeder: "reader (ValidateFeeder K x y :: (('b, 'x) oracle_state_scheme, unit) go)"
  unfolding reader_def ValidateFeeder_def GetFeederDelegation_def
  by (auto simp: seq_case bnd_def split: option.splits prod.splits outcome.splits)

definition submit :: "('b, 'z) staking_ops_scheme \<Rightarrow> string \<Rightarrow> string \<Rightarrow> (('b, 'x) ante_state_scheme \<Rightarrow> int option) \<Rightarrow>
    (('b, 'x) ante_state_scheme \<Rightarrow> ('b, 'x) ante_state_scheme) \<Rightarrow> int \<Rightarrow> (('b, 'x) ante_state_scheme, bool) go" where
  "submit K feeder validator prev mark h =
     bnd (lift (AccAddressFromBech32 K feeder)) (\<lambda>feederAddr.
     bnd (lift (ValAddressFromBech32 K validator)) (\<lambda>valAddr.
     seq (ValidateFeeder K feederAddr valAddr)
     (bnd (gets prev) (\<lambda>lastSubmittedHeight.
     if lastSubmittedHeight = Some h then raise ErrInvalidRequest else seq (modify mark) (ret True)))))"

lemma submit_run:
  assumes "submit K feeder validator prev mark h s = (r, s')"
  shows "(s' = s \<and> (\<forall>c. r \<noteq> Ok c)) \<or> (s' = mark s \<and> r = Ok True \<and> prev s \<noteq> Some h)"
proof (cases "\<exists>x y. AccAddressFromBech32 K feeder = Ok x \<and> ValAddressFromBech32 K validator = Ok y")
  case True
  then obtain x y where xy: "AccAddressFromBech32 K feeder = Ok x" "ValAddressFromBech32 K validator = Ok y" by blast
  obtain q where q: "ValidateFeeder K x y s = (q, s)" using reader.unchanged [OF reader_feeder, of K x y s] by (cases "ValidateFeeder K x y s") simp
  show ?thesis using assms xy by (cases q) (auto simp: submit_def seq_case q split: if_splits)
next
  case False
  then show ?thesis using assms
    by (cases "AccAddressFromBech32 K feeder"; cases "ValAddressFromBech32 K validator") (auto simp: submit_def)
qed

lemma spam_msg_submit:
  "spam_msg K h (MsgAggregateExchangeRatePrevote p) = submit K (mp_Feeder p) (mp_Validator p) (\<lambda>s. oraclePrevoteMap s (mp_Validator p))
     (\<lambda>s. s\<lparr>oraclePrevoteMap := (oraclePrevoteMap s)(mp_Validator p \<mapsto> h)\<rparr>) h"
  "spam_msg K h (MsgAggregateExchangeRateVote v) = submit K (mv_Feeder v) (mv_Validator v) (\<lambda>s. oracleVoteMap s (mv_Validator v))
     (\<lambda>s. s\<lparr>oracleVoteMap := (oracleVoteMap s)(mv_Validator v \<mapsto> h)\<rparr>) h"
  by (simp_all only: spam_msg.simps submit_def)

lemma spam_msg_step:
  assumes "is_oracle_msg m" "spam_msg K h m s = (r, s')"
  shows "BlockHeight s' = BlockHeight s \<and> marked h s \<subseteq> marked h s' \<and>
    (\<forall>c. r = Ok c \<longrightarrow> c \<and> vote_tag m \<notin> marked h s \<and> vote_tag m \<in> marked h s')"
proof (cases m)
  case (MsgAggregateExchangeRatePrevote p)
  from submit_run [OF assms(2) [unfolded this spam_msg_submit]] show ?thesis
    by (auto simp: MsgAggregateExchangeRatePrevote marked_def)
next
  case (MsgAggregateExchangeRateVote v)
  from submit_run [OF assms(2) [unfolded this spam_msg_submit]] show ?thesis
    by (auto simp: MsgAggregateExchangeRateVote marked_def)
qed (use assms(1) in simp_all)

lemma spam_msg_stop: "\<not> is_oracle_msg m \<Longrightarrow> spam_msg K h m s = (Ok False, s)"
  by (cases m) simp_all

lemma spam_loop_run:
  assumes "spam_loop K h ms s = (r, s')"
  shows "BlockHeight s' = BlockHeight s \<and> marked h s \<subseteq> marked h s' \<and>
    (r = Ok () \<longrightarrow> distinct (vote_tags ms) \<and> set (vote_tags ms) \<inter> marked h s = {} \<and> set (vote_tags ms) \<subseteq> marked h s')"
  using assms
proof (induction ms arbitrary: s)
  case (Cons m ms)
  show ?case
  proof (cases "is_oracle_msg m")
    case True
    obtain q s1 where q: "spam_msg K h m s = (q, s1)" by fastforce
    note st = spam_msg_step [OF True q]
    show ?thesis
    proof (cases "\<exists>c. q = Ok c")
      case ok: True
      then have q1: "spam_msg K h m s = (Ok True, s1)" using q st by auto
      then have "spam_loop K h ms s1 = (r, s')" using Cons.prems by (simp add: bnd_Ok [where m = "spam_msg K h m", OF q1])
      note ih = Cons.IH [OF this]
      have tags: "vote_tags (m # ms) = vote_tag m # vote_tags ms" by (simp add: vote_tags_def True)
      have "vote_tag m \<notin> marked h s" "vote_tag m \<in> marked h s1" "marked h s \<subseteq> marked h s1" "BlockHeight s1 = BlockHeight s"
        using st ok by auto
      with ih show ?thesis unfolding tags list.set distinct.simps by (intro conjI impI) (simp, blast+)
    next
      case False
      then have "r \<noteq> Ok () \<and> s' = s1" using Cons.prems by (cases q) (auto simp: bnd_def q)
      then show ?thesis using st by simp
    qed
  next
    case False
    then show ?thesis using Cons.prems spam_msg_stop [OF False, of K h s] by (simp add: bnd_Ok [where m = "spam_msg K h m"] vote_tags_def)
  qed
qed (simp add: vote_tags_def)

lemma passed_tags:
  "distinct (concat (map vote_tags (passed K txs s))) \<and> set (concat (map vote_tags (passed K txs s))) \<inter> marked (BlockHeight s) s = {}"
proof (induction txs arbitrary: s)
  case (Cons tx txs)
  obtain r s' where r: "CheckOracleSpamming K tx s = (r, s')" by fastforce
  have run: "spam_loop K (BlockHeight s) tx s = (r, s')" using r by (simp add: CheckOracleSpamming_def)
  define C where "C = concat (map vote_tags (passed K txs s'))"
  have h: "BlockHeight s' = BlockHeight s" "marked (BlockHeight s) s \<subseteq> marked (BlockHeight s) s'" using spam_loop_run [OF run] by blast+
  have ih: "distinct C" "set C \<inter> marked (BlockHeight s) s' = {}" using Cons.IH [of s'] by (simp_all add: C_def h(1))
  show ?case
  proof (cases "r = Ok ()")
    case True
    then have e: "concat (map vote_tags (passed K (tx # txs) s)) = vote_tags tx @ C" by (simp add: r C_def)
    have t: "distinct (vote_tags tx)" "set (vote_tags tx) \<inter> marked (BlockHeight s) s = {}" "set (vote_tags tx) \<subseteq> marked (BlockHeight s) s'"
      using spam_loop_run [OF run] True by blast+
    show ?thesis unfolding e distinct_append set_append using ih t h(2) by blast
  next
    case False
    then have e: "concat (map vote_tags (passed K (tx # txs) s)) = C" by (cases r) (simp_all add: r C_def)
    show ?thesis unfolding e using ih h(2) by blast
  qed
qed simp

lemma distinct_concat_filter: "distinct (concat (map f xs)) \<Longrightarrow> distinct (concat (map f (filter P xs)))"
  by (induction xs) auto

text \<open>All votes of a transaction, wherever they stand in it.\<close>

definition all_votes :: "tx_msg list \<Rightarrow> (bool \<times> string) list" where
  "all_votes msgs = map vote_tag (filter is_oracle_msg msgs)"

text \<open>C25. Of all transactions that are checked at one height, in whatever order, however many are refused and whatever
  other transactions there are among them, those that consist of oracle messages, as the ones free of gas do, and pass
  contain at most one prevote and at most one vote for each validator address, taken together.\<close>

theorem one_vote_per_height: "distinct (concat (map all_votes (filter IsOracleTx (passed K txs s))))"
proof -
  have "all_votes tx = vote_tags tx" if "IsOracleTx tx" for tx
  proof -
    have "takeWhile is_oracle_msg tx = tx" "filter is_oracle_msg tx = tx"
      using that by (simp_all add: IsOracleTx_def list_all_iff filter_id_conv)
    then show ?thesis by (simp only: all_votes_def vote_tags_def)
  qed
  then have "map all_votes (filter IsOracleTx (passed K txs s)) = map vote_tags (filter IsOracleTx (passed K txs s))" by simp
  then show ?thesis using passed_tags [of K txs s] distinct_concat_filter by metis
qed

section \<open>Transfers and proposals\<close>

text \<open>The other two limits, as decisions on the messages.\<close>

definition transfer_ok :: "tx_msg \<Rightarrow> bool" where
  "transfer_ok m \<longleftrightarrow> (\<forall>receiver memo. m = MsgTransfer receiver memo \<longrightarrow> length memo \<le> 1024 \<and> length receiver \<le> 128)"

lemma check_transfer_iff: "check_transfer m = Ok () \<longleftrightarrow> transfer_ok m"
  by (cases m) (auto simp: transfer_ok_def DefaultMaxMemoLength_def DefaultMaxReceiverLength_def)

lemma transfers_limited:
  assumes "\<not> IsReCheckTx ctx"
  shows "IBCTransferSpamPrevention_AnteHandle msgs ctx next s = (Ok c, s') \<longleftrightarrow> list_all transfer_ok msgs \<and> next ctx s = (Ok c, s')"
proof -
  have "for_each msgs (\<lambda>m. lift (check_transfer m)) s = (Ok (), s1) \<longleftrightarrow> list_all transfer_ok msgs \<and> s1 = s" for s1 :: 'a
    by (induction msgs) (auto simp: seq_run_iff_Ok check_transfer_iff)
  then show ?thesis using assms by (auto simp: IBCTransferSpamPrevention_AnteHandle_def seq_run_iff_Ok)
qed

lemma deposit_decision:
  assumes "coin_laws K" "initial_deposit m = Ok deposit" "valid_coins K deposit" "ValidDenom K MicroLunaDenom"
    and "gov_MinDeposit A (ext s) = c # cs" "0 \<le> Amount c" "0 \<le> tp_MinInitialDepositRatio (t_params s)"
    and "dec_Mul K (NewDec (Amount c)) (tp_MinInitialDepositRatio (t_params s)) = Ok p"
  shows "HandleCheckMinInitialDeposit A K m s =
    (if p div OneDec \<le> amt deposit MicroLunaDenom then Ok () else Err (FmtErr ''not enough initial deposit provided''), s)"
proof -
  have "0 \<le> p"
    using dec_laws.Mul_nonneg [OF coin_laws.axioms(1) [OF assms(1)] assms(8)] assms(6,7) by (simp add: NewDec_def)
  then have t: "dec_TruncateInt K p = p div OneDec" "0 \<le> p div OneDec"
    using dec_laws.TruncateInt_eq [OF coin_laws.axioms(1) [OF assms(1)]] by (simp_all add: go_quot_nonneg)
  then have n: "NewCoin K MicroLunaDenom (dec_TruncateInt K p) = Ok \<lparr>Denom = MicroLunaDenom, Amount = p div OneDec\<rparr>"
    using coin_laws.NewCoin_eq [OF assms(1)] assms(4) by simp
  obtain r where r: "NewCoins K [\<lparr>Denom = MicroLunaDenom, Amount = p div OneDec\<rparr>] = Ok r" "valid_coins K r"
    "\<And>d. amt r d = (if MicroLunaDenom = d then p div OneDec else 0)"
    using coin_laws.NewCoins_ok [OF assms(1), of "[\<lparr>Denom = MicroLunaDenom, Amount = p div OneDec\<rparr>]"] assms(4) t(2) by auto
  have "coins_IsAllGTE K deposit r \<longleftrightarrow> p div OneDec \<le> amt deposit MicroLunaDenom"
  proof -
    have "0 \<le> amt deposit d" for d using assms(3) amt_nonneg by (simp add: valid_coins_def)
    then show ?thesis using coin_laws.IsAllGTE_iff [OF assms(1,3) r(2)] r(3) by auto
  qed
  then show ?thesis using assms(2,5,8) n r(1) by (simp add: HandleCheckMinInitialDeposit_def GetMinInitialDepositRatio_def)
qed

end
