(* ===== verification/Ante_Sample.thy ===== *)
theory Ante_Sample
  imports Ante_Fee Ante_Limits Dyncomm_Sample
begin

text \<open>The services of the ante handlers on the sample ledger, and a transaction on which their theorems are instantiated.\<close>

definition ante0 :: "ledger ante_ops" where
  "ante0 = tx_ops.extend tx0 \<lparr>UseGrantedFees = Some (\<lambda>x y fee ms b. (Ok (), b)), gov_MinDeposit = (\<lambda>b. luna 1000000),
     HasFeeCollector = True, DefaultBondDenom = ''stake''\<rparr>"

lemma ante0_sel: "UseGrantedFees ante0 = Some (\<lambda>x y fee ms b. (Ok (), b))" "HasFeeCollector ante0" "DefaultBondDenom ante0 = ''stake''"
  "HasAccount ante0 = (\<lambda>b x. True)"
  by (simp_all add: ante0_def tx_ops.extend_def tx0_def)

interpretation ref_grant: grant_laws ante0 sdk0
  by unfold_locales (auto simp: ante0_sel)

interpretation ref_sums: sums "valid_coins sdk0" "csum sdk0" "[]"
  by (rule coin_laws.coin_sums [OF sdk0_coin])

definition sample_fee_tx :: fee_tx where
  "sample_fee_tx = \<lparr>tx_Msgs = [MsgExec (Some [MsgSend sample_send])], tx_Gas = 1, tx_Fee = luna 1500, tx_FeePayer = val_a, tx_FeeGranter = None\<rparr>"

theorem nested_messages_taxed_witness:
  "FilterMsgAndComputeTax ante0 sdk0 False [MsgSend sample_send] sample_tax =
   FilterMsgAndComputeTax ante0 sdk0 False [MsgExec (Some [OtherMsg, MsgExec (Some [MsgSend sample_send])])] sample_tax"
  using nested_messages_taxed [OF sdk0_coin, of ante0 False "[MsgExec (Some [OtherMsg, MsgExec (Some [MsgSend sample_send])])]" sample_tax]
  by (simp add: FilterMsgAndComputeTax_def)

lemma sample_tax_cap: "GetTaxCap ''uluna'' sample_tax = (Ok 1000000, sample_tax)"
proof -
  have "TaxCaps sample_tax = [(GetTaxCapKey ''ukrw'', 650)]" "Amount (pc_Cap (tp_TaxPolicy (t_params sample_tax))) = 1000000"
    by (simp_all add: sample_tax_def exemption_state.extend_def zone_sample_simps treasury_sample_simps treasury_DefaultParams_def
        DefaultTaxPolicy_def MicroUnit_def)
  then show ?thesis by (simp add: GetTaxCap_def TaxPolicy_def kv_get_map_of GetTaxCapKey_def)
qed

lemma sample_computeTax: "computeTax ante0 sdk0 (luna 200000) False sample_tax = (Ok (luna 1000), sample_tax)"
proof -
  have "ref_Mul 200000000000000000000000 5000000000000000 = Ok 1000000000000000000000" by (simp add: sdk0_dec_simps)
  moreover have "go_quot 1000000000000000000000 OneDec = 1000" by (simp add: go_quot_def)
  moreover have "ref_Add [] (luna 1000) = Ok (luna 1000)" by (simp add: ref_Add_def tabulate_def denoms_def)
  moreover have "GetBurnTaxRate sample_tax = (Ok (Some 5000000000000000), sample_tax)"
    by (simp add: GetBurnTaxRate_def tax_GetParams_def sample_tax_sel)
  ultimately show ?thesis using sample_tax_cap
    by (simp add: computeTax_def bnd_Ok the_dec_def NewDec_def ref_NewCoin_def sample_denoms Let_def ante0_sel isIBCDenom_def)
qed

lemma sample_filter: "FilterMsgAndComputeTax ante0 sdk0 False (tx_Msgs sample_fee_tx) sample_tax = (Ok (luna 1000, []), sample_tax)"
proof -
  have "ref_Add [] (luna 1000) = Ok (luna 1000)" "ref_Add [] [] = Ok []" by (simp_all add: ref_Add_def tabulate_def denoms_def)
  then show ?thesis
    by (simp add: FilterMsgAndComputeTax_def sample_fee_tx_def sample_send_def add_tax_def IsExempted_run sample_tax_sel bnd_def sample_computeTax)
qed

lemma sample_fee_run: "\<exists>ctx' s'. FeeDecorator_AnteHandle ante0 sdk0 sample_fee_tx False deliver_ctx ret sample_tax = (Ok ctx', s')"
proof -
  have "IsOracleTx (tx_Msgs sample_fee_tx) = False" by (simp add: sample_fee_tx_def IsOracleTx_def)
  moreover have sub: "ref_Sub (luna 1500) (luna 1000) = Ok (luna 500)" by (simp add: ref_Sub_def tabulate_def denoms_def)
  moreover have "GetEffectiveGasPrices sdk0 deliver_ctx sample_tax = (Ok [], sample_tax)"
    by (simp add: GetEffectiveGasPrices_def GetGasPrices_def tax_GetParams_def sample_tax_sel deliver_ctx_def bnd_def)
  moreover have "ref_IsAllGTE (luna 1500) (luna 1000)" by (simp add: ref_IsAllGTE_def denoms_def)
  ultimately have c: "checkTxFee sdk0 deliver_ctx sample_fee_tx (luna 1000) [] sample_tax = (Ok (1500, False, False), sample_tax)"
    by (simp add: checkTxFee_def bnd_Ok min_gas_fees_def charge_taxes_def refund_taxes_def gas_covered_def getTxPriority_def
        sample_fee_tx_def i64_def go_quot_def in_i64_def)
  obtain b where b: "ref_send val_a (module_addr ''fee_collector'') (luna 500) tax_ledger = (Ok (), b)"
    by (rule ref_send_one [of "''uluna''" 500 tax_ledger val_a "module_addr ''fee_collector''"])
      (simp_all add: sample_denoms ref_bal_def tax_ledger_def module_names val_a_def)
  have "DeductFees sdk0 val_a (luna 500) sample_tax = (Ok (), sample_tax\<lparr>ext := b\<rparr>)"
    using b by (simp add: DeductFees_def ref_IsValid_def sample_denoms wrap_go_def sdk_call_def sample_tax_sel FeeCollectorName_def)
  then have "\<exists>ctx'. checkDeductFee ante0 sdk0 deliver_ctx sample_fee_tx (luna 1000) [] False sample_tax = (Ok ctx', sample_tax\<lparr>ext := b\<rparr>)"
    using sub by (simp add: checkDeductFee_def payer_account_def ante0_sel sample_fee_tx_def drop_refunds_def seq_case)
  then show ?thesis
    using sample_filter c by (auto simp: FeeDecorator_AnteHandle_def bnd_Ok Let_def sample_fee_tx_def)
qed

theorem fee_decorator_splits_fee_witness:
  "\<exists>ctx' s'. FeeDecorator_AnteHandle ante0 sdk0 sample_fee_tx False deliver_ctx ret sample_tax = (Ok ctx', s') \<and>
     (\<exists>reverse. TaxReverseCharge ctx' = Some reverse \<and> TaxDue ctx' = Some (if reverse then [] else luna 1000))"
proof -
  obtain ctx' s' where run: "FeeDecorator_AnteHandle ante0 sdk0 sample_fee_tx False deliver_ctx ret sample_tax = (Ok ctx', s')"
    using sample_fee_run by (elim exE) (rule that)
  have fee: "valid_coins sdk0 (tx_Fee sample_fee_tx)" "tx_Fee sample_fee_tx \<noteq> []" by (simp_all add: sample_fee_tx_def luna_valid)
  obtain taxes non reverse where "FilterMsgAndComputeTax ante0 sdk0 False (tx_Msgs sample_fee_tx) sample_tax = (Ok (taxes, non), sample_tax)"
    "TaxReverseCharge ctx' = Some reverse" "TaxDue ctx' = Some (if reverse then [] else taxes)"
    using fee_decorator_splits_fee [OF sdk0_bank ref_grant.grant_laws_axioms fee(1) run] fee(2) by (elim exE conjE) (rule that, simp_all)
  then show ?thesis using run sample_filter by (intro exI [of _ ctx'] exI [of _ s'] exI [of _ reverse] conjI) simp_all
qed

end
