(* ===== verification/Vesting.thy ===== *)
theory Vesting
  imports Core_Types
begin

text \<open>
  The lazy graded vesting accounts (\<open>x/vesting/types\<close>): a denomination of the original vesting is released along
  its schedules, each of which releases a ratio of it linearly between two times.  The base vesting account of the sdk,
  which tracks delegations, is a parameter.
\<close>

section \<open>Schedules\<close>

record schedule =
  StartTime :: int
  EndTime :: int
  Ratio :: dec

record vesting_schedule =
  vs_Denom :: string
  Schedules :: "schedule list"

definition Schedule_Validate :: "schedule \<Rightarrow> unit outcome" where
  "Schedule_Validate s =
     (if StartTime s < 0 then Err (FmtErr ''vesting start-time cannot be negative'')
      else if EndTime s < StartTime s then Err (FmtErr ''vesting start-time cannot be before end-time'')
      else if Ratio s \<le> 0 then Err (FmtErr ''vesting ratio cannot be smaller than or equal with zero'')
      else Ok ())"

definition GetVestedRatio :: "'z dec_ops_scheme \<Rightarrow> vesting_schedule \<Rightarrow> int \<Rightarrow> dec outcome" where
  "GetVestedRatio K vs blockTime =
     ofold (\<lambda>lazySchedule sumRatio.
       let startTime = StartTime lazySchedule; endTime = EndTime lazySchedule; ratio = Ratio lazySchedule in
       if blockTime < startTime then Ok sumRatio
       else
         obind (if blockTime < endTime then dec_QuoInt K (ratio * i64 (blockTime - startTime)) (i64 (endTime - startTime))
                else Ok ratio) (\<lambda>ratio.
         Ok (sumRatio + ratio))) (Schedules vs) 0"

definition dec_RoundInt64 :: "'z dec_ops_scheme \<Rightarrow> dec \<Rightarrow> int outcome" where
  "dec_RoundInt64 K a = (let i = dec_RoundInt K a in if in_i64 i then Ok i else Panic)"

definition VestingSchedule_Validate :: "'z dec_ops_scheme \<Rightarrow> vesting_schedule \<Rightarrow> unit outcome" where
  "VestingSchedule_Validate K vs =
     obind (ofold (\<lambda>lazySchedule sumRatio.
              obind (Schedule_Validate lazySchedule) (\<lambda>_. Ok (sumRatio + Ratio lazySchedule))) (Schedules vs) 0) (\<lambda>sumRatio.
     obind (dec_RoundInt64 K (sumRatio * 1000000000)) (\<lambda>rounded.
     obind (dec_QuoInt K (NewDec rounded) 1000000000) (\<lambda>q.
     ocheck (q = OneDec) (FmtErr ''vesting total ratio must be one''))))"

section \<open>Accounts\<close>

text \<open>The fields of the sdk's base vesting account; the base account \<open>'a\<close> inside it is opaque.\<close>

record 'a base_vesting_account =
  BaseAccount :: 'a
  OriginalVesting :: coins
  DelegatedFree :: coins
  DelegatedVesting :: coins
  base_EndTime :: int

record 'a lazy_graded_vesting_account =
  BaseVestingAccount :: "'a base_vesting_account"
  VestingSchedules :: "vesting_schedule list"

record 'a vest_ops =
  LockedCoinsFromVesting :: "'a base_vesting_account \<Rightarrow> coins \<Rightarrow> coins outcome"
  base_TrackDelegation :: "'a base_vesting_account \<Rightarrow> coins \<Rightarrow> coins \<Rightarrow> coins \<Rightarrow> 'a base_vesting_account outcome"
  base_Validate :: "'a base_vesting_account \<Rightarrow> unit outcome"

definition NewLazyGradedVestingAccount :: "'a \<Rightarrow> coins \<Rightarrow> vesting_schedule list \<Rightarrow> 'a lazy_graded_vesting_account" where
  "NewLazyGradedVestingAccount baseAcc originalVesting lazyVestingSchedules =
     \<lparr>BaseVestingAccount = \<lparr>BaseAccount = baseAcc, OriginalVesting = originalVesting, DelegatedFree = [], DelegatedVesting = [],
        base_EndTime = 0\<rparr>,
      VestingSchedules = lazyVestingSchedules\<rparr>"

definition GetVestingSchedule :: "'a lazy_graded_vesting_account \<Rightarrow> string \<Rightarrow> vesting_schedule option" where
  "GetVestingSchedule acc denom = find (\<lambda>vs. vs_Denom vs = denom) (VestingSchedules acc)"

definition GetVestedCoins :: "'z coin_ops_scheme \<Rightarrow> 'a lazy_graded_vesting_account \<Rightarrow> int \<Rightarrow> coins outcome" where
  "GetVestedCoins K acc blockTime =
     ofold (\<lambda>ovc vestedCoins.
       case GetVestingSchedule acc (Denom ovc) of
         Some vestingSchedule \<Rightarrow>
           obind (GetVestedRatio K vestingSchedule blockTime) (\<lambda>vestedRatio.
           obind (dec_Mul K (NewDec (Amount ovc)) vestedRatio) (\<lambda>product.
           let vestedAmt = dec_RoundInt K product in
           if vestedAmt = 0 then Ok vestedCoins
           else obind (NewCoin K (Denom ovc) vestedAmt) (\<lambda>c. Ok (vestedCoins @ [c]))))
       | None \<Rightarrow> obind (NewCoin K (Denom ovc) (Amount ovc)) (\<lambda>c. Ok (vestedCoins @ [c])))
       (OriginalVesting (BaseVestingAccount acc)) []"

definition GetVestingCoins :: "'z coin_ops_scheme \<Rightarrow> 'a lazy_graded_vesting_account \<Rightarrow> int \<Rightarrow> coins outcome" where
  "GetVestingCoins K acc blockTime =
     obind (GetVestedCoins K acc blockTime) (\<lambda>vested. coins_Sub K (OriginalVesting (BaseVestingAccount acc)) vested)"

definition LockedCoins ::
  "'a vest_ops \<Rightarrow> 'z coin_ops_scheme \<Rightarrow> 'a lazy_graded_vesting_account \<Rightarrow> int \<Rightarrow> coins outcome" where
  "LockedCoins V K acc blockTime =
     obind (GetVestingCoins K acc blockTime) (LockedCoinsFromVesting V (BaseVestingAccount acc))"

definition TrackDelegation ::
  "'a vest_ops \<Rightarrow> 'z coin_ops_scheme \<Rightarrow> 'a lazy_graded_vesting_account \<Rightarrow> int \<Rightarrow> coins \<Rightarrow> coins \<Rightarrow>
   'a lazy_graded_vesting_account outcome" where
  "TrackDelegation V K acc blockTime balance amount =
     obind (GetVestingCoins K acc blockTime) (\<lambda>vesting.
     obind (base_TrackDelegation V (BaseVestingAccount acc) balance vesting amount) (\<lambda>b.
     Ok (acc\<lparr>BaseVestingAccount := b\<rparr>)))"

definition LazyGradedVestingAccount_Validate ::
  "'a vest_ops \<Rightarrow> 'z dec_ops_scheme \<Rightarrow> 'a lazy_graded_vesting_account \<Rightarrow> unit outcome" where
  "LazyGradedVestingAccount_Validate V K acc =
     obind (ofold (\<lambda>vestingSchedule denomMap.
              if vs_Denom vestingSchedule \<in> denomMap then Err (FmtErr ''cannot have multiple vesting schedules'')
              else obind (VestingSchedule_Validate K vestingSchedule) (\<lambda>_. Ok (insert (vs_Denom vestingSchedule) denomMap)))
            (VestingSchedules acc) {}) (\<lambda>_.
     base_Validate V (BaseVestingAccount acc))"

section \<open>The released share\<close>

text \<open>The share of its ratio that a schedule has released, and the ratio of all schedules.\<close>

definition released_share :: "int \<Rightarrow> schedule \<Rightarrow> dec" where
  "released_share t s =
     (if t < StartTime s then 0 else if t < EndTime s then Ratio s * (t - StartTime s) div (EndTime s - StartTime s) else Ratio s)"

definition released_ratio :: "int \<Rightarrow> vesting_schedule \<Rightarrow> dec" where
  "released_ratio t vs = sum_list (map (released_share t) (Schedules vs))"

definition ratio_sum :: "vesting_schedule \<Rightarrow> dec" where
  "ratio_sum vs = sum_list (map Ratio (Schedules vs))"

definition schedule_ok :: "schedule \<Rightarrow> bool" where
  "schedule_ok s \<longleftrightarrow> 0 \<le> StartTime s \<and> StartTime s \<le> EndTime s \<and> EndTime s < 2 ^ 63 \<and> 0 < Ratio s"

lemma released_share_bounds:
  assumes "schedule_ok s"
  shows "0 \<le> released_share t s" "released_share t s \<le> Ratio s"
proof -
  have "Ratio s * (t - StartTime s) div (EndTime s - StartTime s) \<le> Ratio s" if "StartTime s \<le> t" "t < EndTime s"
  proof -
    have "Ratio s * (t - StartTime s) div (EndTime s - StartTime s) \<le> Ratio s * (EndTime s - StartTime s) div (EndTime s - StartTime s)"
      using assms that by (intro zdiv_mono1 mult_left_mono) (auto simp: schedule_ok_def)
    then show ?thesis using that by simp
  qed
  then show "released_share t s \<le> Ratio s" using assms by (auto simp: released_share_def schedule_ok_def not_less)
  show "0 \<le> released_share t s"
    using assms by (auto simp: released_share_def schedule_ok_def not_less pos_imp_zdiv_nonneg_iff)
qed

lemma released_share_mono:
  assumes "schedule_ok s" "t \<le> t'"
  shows "released_share t s \<le> released_share t' s"
proof (cases "t' < EndTime s \<and> StartTime s \<le> t")
  case True
  then show ?thesis using assms
    by (auto simp: released_share_def schedule_ok_def intro!: zdiv_mono1 mult_left_mono)
next
  case False
  then consider "EndTime s \<le> t'" | "t < StartTime s" by linarith
  then show ?thesis
  proof cases
    case 1
    then have "released_share t' s = Ratio s" using assms(1) by (simp add: released_share_def schedule_ok_def)
    then show ?thesis using released_share_bounds(2) [OF assms(1)] by simp
  next
    case 2
    then show ?thesis using released_share_bounds(1) [OF assms(1), of t'] by (simp add: released_share_def)
  qed
qed

lemma released_ratio_bounds:
  assumes "\<forall>s\<in>set (Schedules vs). schedule_ok s"
  shows "0 \<le> released_ratio t vs" "released_ratio t vs \<le> ratio_sum vs"
  using assms unfolding released_ratio_def ratio_sum_def
  by (auto intro!: sum_list_nonneg sum_list_mono released_share_bounds)

lemma released_ratio_mono:
  assumes "\<forall>s\<in>set (Schedules vs). schedule_ok s" "t \<le> t'"
  shows "released_ratio t vs \<le> released_ratio t' vs"
  using assms unfolding released_ratio_def by (auto intro!: sum_list_mono released_share_mono)

lemma released_ratio_end:
  assumes "\<forall>s\<in>set (Schedules vs). schedule_ok s \<and> EndTime s \<le> t"
  shows "released_ratio t vs = ratio_sum vs"
  unfolding released_ratio_def ratio_sum_def
  using assms by (intro arg_cong [where f = sum_list] map_cong refl) (auto simp: released_share_def schedule_ok_def)

lemma released_ratio_start:
  assumes "\<forall>s\<in>set (Schedules vs). t < StartTime s"
  shows "released_ratio t vs = 0"
proof -
  have "sum_list (map f xs) = 0" if "\<forall>x\<in>set xs. f x = (0 :: int)" for f and xs :: "schedule list"
    using that by (induction xs) simp_all
  then show ?thesis using assms by (simp add: released_ratio_def released_share_def)
qed

end
