(* ===== verification/Vesting_Release.thy ===== *)
theory Vesting_Release
  imports Vesting
begin

text \<open>
  What a vesting account releases: a growing part of every scheduled denomination, none of it before the schedules start
  and, when the ratios add up to one, all of it after they end.  Validation rounds the sum of the ratios, so it also
  accepts sums slightly above one, with which a large account panics.
\<close>

section \<open>Validation\<close>

lemma Schedule_Validate_iff [simp]:
  "Schedule_Validate s = Ok () \<longleftrightarrow> 0 \<le> StartTime s \<and> StartTime s \<le> EndTime s \<and> 0 < Ratio s"
  by (auto simp: Schedule_Validate_def)

lemma schedules_fold:
  "ofold (\<lambda>s r. obind (Schedule_Validate s) (\<lambda>_. Ok (r + Ratio s))) ss c = Ok r \<longleftrightarrow>
     (\<forall>s\<in>set ss. Schedule_Validate s = Ok ()) \<and> r = c + sum_list (map Ratio ss)"
  by (induction ss arbitrary: c) auto

lemma go_quot_mult:
  assumes "n \<noteq> 0"
  shows "go_quot (x * n) n = x"
  using assms by (simp add: go_quot_def sgn_mult abs_mult mult.assoc flip: mult.left_commute) (simp add: sgn_if)

context dec_laws
begin

lemma VestingSchedule_Validate_Ok:
  assumes "VestingSchedule_Validate K vs = Ok ()"
  shows "\<forall>s\<in>set (Schedules vs). Schedule_Validate s = Ok ()" "2 * \<bar>ratio_sum vs - OneDec\<bar> \<le> 1000000000"
proof -
  obtain i where i: "i = dec_RoundInt K (ratio_sum vs * 1000000000)" "dec_QuoInt K (NewDec i) 1000000000 = Ok OneDec"
    and v: "\<forall>s\<in>set (Schedules vs). Schedule_Validate s = Ok ()"
    using assms unfolding VestingSchedule_Validate_def obind_eq_Ok schedules_fold
    by (auto simp: dec_RoundInt64_def Let_def ocheck_def ratio_sum_def split: if_splits)
  have "go_quot (i * OneDec) 1000000000 = OneDec" using i(2) by (simp add: QuoInt_eq NewDec_def)
  moreover have "go_quot (i * 1000000000 * 1000000000) 1000000000 = i * 1000000000" by (rule go_quot_mult) simp
  ultimately have "i = 1000000000" by (simp add: mult.assoc)
  then have "2 * (1000000000 * OneDec) \<le> 2 * (ratio_sum vs * 1000000000) + OneDec"
    "2 * (ratio_sum vs * 1000000000) \<le> 2 * (1000000000 * OneDec) + OneDec"
    using i(1) RoundInt_upper [of "ratio_sum vs * 1000000000"] RoundInt_lower [of "ratio_sum vs * 1000000000"] by simp_all
  then have "2 * (ratio_sum vs - OneDec) * 1000000000 \<le> 1000000000 * 1000000000"
    "2 * (OneDec - ratio_sum vs) * 1000000000 \<le> 1000000000 * 1000000000" by simp_all
  then have "2 * (ratio_sum vs - OneDec) \<le> 1000000000" "2 * (OneDec - ratio_sum vs) \<le> 1000000000"
    by (auto dest!: mult_right_le_imp_le)
  then show "2 * \<bar>ratio_sum vs - OneDec\<bar> \<le> 1000000000" by (simp add: abs_if)
  show "\<forall>s\<in>set (Schedules vs). Schedule_Validate s = Ok ()" by (rule v)
qed

lemma VestingSchedule_Validate_accepts:
  assumes "\<forall>s\<in>set (Schedules vs). Schedule_Validate s = Ok ()" "2 * \<bar>ratio_sum vs - OneDec\<bar> < 1000000000"
  shows "VestingSchedule_Validate K vs = Ok ()"
proof -
  have fold: "ofold (\<lambda>s r. obind (Schedule_Validate s) (\<lambda>_. Ok (r + Ratio s))) (Schedules vs) 0 = Ok (ratio_sum vs)"
    using assms(1) unfolding schedules_fold ratio_sum_def by simp
  have r: "dec_RoundInt K (ratio_sum vs * 1000000000) = 1000000000"
    using RoundInt_upper [of "ratio_sum vs * 1000000000"] RoundInt_lower [of "ratio_sum vs * 1000000000"] assms(2)
    by (simp add: abs_if split: if_splits)
  have "go_quot (OneDec * 1000000000) 1000000000 = OneDec" by (rule go_quot_mult) simp
  then have "dec_QuoInt K (NewDec 1000000000) 1000000000 = Ok OneDec" by (simp add: QuoInt_eq NewDec_def)
  then show ?thesis unfolding VestingSchedule_Validate_def fold by (simp add: dec_RoundInt64_def r in_i64_def ocheck_def)
qed

lemma RoundInt_mono:
  assumes "a \<le> b"
  shows "dec_RoundInt K a \<le> dec_RoundInt K b"
proof (cases "a = b")
  case False
  then show ?thesis using assms RoundInt_upper [of a] RoundInt_lower [of b] by linarith
qed simp

lemma RoundInt_units: "dec_RoundInt K (n * OneDec) = n"
  using RoundInt_NewDec [of n] by (simp add: NewDec_def)

section \<open>The vested ratio\<close>

lemma vested_ratio:
  assumes "\<forall>s\<in>set (Schedules vs). schedule_ok s" "in_i64 t"
  shows "GetVestedRatio K vs t = Ok (released_ratio t vs)"
proof -
  define f where "f = (\<lambda>(s :: schedule) r. let startTime = StartTime s; endTime = EndTime s; ratio = Ratio s in
       if t < startTime then Ok r
       else obind (if t < endTime then dec_QuoInt K (ratio * i64 (t - startTime)) (i64 (endTime - startTime)) else Ok ratio)
              (\<lambda>ratio. Ok (r + ratio)))"
  have step: "f s r = Ok (r + released_share t s)" if "schedule_ok s" for s r
  proof (cases "StartTime s \<le> t \<and> t < EndTime s")
    case True
    then have "i64 (t - StartTime s) = t - StartTime s" "i64 (EndTime s - StartTime s) = EndTime s - StartTime s"
      using that by (auto simp: schedule_ok_def in_i64_def intro!: i64_idem)
    then show ?thesis using True that
      by (simp add: f_def released_share_def schedule_ok_def QuoInt_eq go_quot_nonneg Let_def)
  qed (auto simp: f_def released_share_def)
  have "ofold f ss r = Ok (r + sum_list (map (released_share t) ss))" if "\<forall>s\<in>set ss. schedule_ok s" for ss r
    using that by (induction ss arbitrary: r) (simp_all add: step add.assoc)
  then show ?thesis using assms(1) by (simp add: GetVestedRatio_def released_ratio_def f_def)
qed

end

section \<open>The released coins\<close>

abbreviation orig :: "'a lazy_graded_vesting_account \<Rightarrow> coins" where
  "orig acc \<equiv> OriginalVesting (BaseVestingAccount acc)"

definition released_amount :: "'z dec_ops_scheme \<Rightarrow> 'a lazy_graded_vesting_account \<Rightarrow> int \<Rightarrow> coin \<Rightarrow> int" where
  "released_amount K acc t c =
     (case GetVestingSchedule acc (Denom c) of
        None \<Rightarrow> Amount c
      | Some vs \<Rightarrow> dec_RoundInt K (Amount c * released_ratio t vs))"

definition with_amounts :: "(coin \<Rightarrow> int) \<Rightarrow> coins \<Rightarrow> coins" where
  "with_amounts f cs = filter (\<lambda>c. Amount c \<noteq> 0) (map (\<lambda>c. \<lparr>Denom = Denom c, Amount = f c\<rparr>) cs)"

text \<open>The amounts and times a validated account has in practice; the sum of the ratios is at most one plus the slack.\<close>

definition account_ok :: "'z coin_ops_scheme \<Rightarrow> 'a lazy_graded_vesting_account \<Rightarrow> bool" where
  "account_ok K acc \<longleftrightarrow> valid_coins K (orig acc) \<and> (\<forall>c\<in>set (orig acc). Amount c < 2 ^ 253) \<and>
     (\<forall>vs\<in>set (VestingSchedules acc). (\<forall>s\<in>set (Schedules vs). schedule_ok s) \<and> 2 * \<bar>ratio_sum vs - OneDec\<bar> \<le> 1000000000)"

lemma amt_with_amounts_mono:
  assumes "\<forall>c\<in>set cs. f c \<le> g c"
  shows "amt (with_amounts f cs) d \<le> amt (with_amounts g cs) d"
  using assms by (induction cs) (auto simp: with_amounts_def)

lemma amt_with_amounts_id: "coins_ok cs \<Longrightarrow> with_amounts Amount cs = cs"
proof -
  assume "coins_ok cs"
  then have "filter (\<lambda>c. Amount c \<noteq> 0) cs = cs" by (auto simp: coins_ok_def filter_id_conv)
  moreover have "map (\<lambda>c. \<lparr>Denom = Denom c, Amount = Amount c\<rparr>) cs = cs" by (rule map_idI) simp
  ultimately show ?thesis by (simp add: with_amounts_def)
qed

lemma amt_with_amounts:
  assumes "coins_ok cs" "c \<in> set cs"
  shows "amt (with_amounts f cs) (Denom c) = f c"
  using assms
proof (induction cs)
  case (Cons a cs)
  have "amt (with_amounts f cs) (Denom a) = 0" if "coins_ok (a # cs)"
    using that by (intro amt_notin) (auto simp: with_amounts_def coins_ok_Cons)
  then show ?case using Cons by (cases "c = a") (auto simp: coins_ok_Cons with_amounts_def)
qed simp

lemma valid_with_amounts:
  assumes "valid_coins K cs" "\<forall>c\<in>set cs. 0 \<le> f c"
  shows "valid_coins K (with_amounts f cs)"
proof -
  have "sorted_wrt (<) (map Denom (with_amounts f cs))"
    using assms(1) unfolding with_amounts_def sorted_wrt_map
    by (intro sorted_wrt_filter) (simp add: valid_coins_def coins_ok_def sorted_wrt_map)
  then show ?thesis using assms by (force simp: valid_coins_def coins_ok_def with_amounts_def)
qed

lemma GetVestingSchedule_in:
  "GetVestingSchedule acc d = Some vs \<Longrightarrow> vs \<in> set (VestingSchedules acc) \<and> vs_Denom vs = d"
  unfolding GetVestingSchedule_def find_Some_iff by auto

context coin_laws
begin

lemma released_amount_nonneg: "account_ok K acc \<Longrightarrow> c \<in> set (orig acc) \<Longrightarrow> 0 \<le> released_amount K acc t c"
  by (auto simp: released_amount_def account_ok_def valid_coins_def coins_ok_def less_imp_le released_ratio_bounds
      dest!: GetVestingSchedule_in intro!: RoundInt_nonneg mult_nonneg_nonneg split: option.splits)

lemma released_amount_mono:
  assumes "account_ok K acc" "c \<in> set (orig acc)" "t \<le> t'"
  shows "released_amount K acc t c \<le> released_amount K acc t' c"
  using assms by (auto simp: released_amount_def account_ok_def valid_coins_def coins_ok_def less_imp_le
      dest!: GetVestingSchedule_in intro!: RoundInt_mono mult_left_mono released_ratio_mono split: option.splits)

lemma vested_product:
  assumes "account_ok K acc" "c \<in> set (orig acc)" "GetVestingSchedule acc (Denom c) = Some vs"
  shows "dec_Mul K (NewDec (Amount c)) (released_ratio t vs) = Ok (Amount c * released_ratio t vs)"
proof -
  have c: "0 < Amount c" "Amount c < 2 ^ 253" using assms(1,2) by (auto simp: account_ok_def valid_coins_def coins_ok_def)
  have r: "0 \<le> released_ratio t vs" "released_ratio t vs < 2 ^ 60"
    using assms(1) released_ratio_bounds [of vs t] GetVestingSchedule_in [OF assms(3)] by (auto simp: account_ok_def)
  have "Amount c * released_ratio t vs \<le> 2 ^ 253 * 2 ^ 60" using c r by (intro mult_mono) simp_all
  then have "\<bar>NewDec (Amount c) * released_ratio t vs\<bar> < 2 ^ 314 * OneDec" using c r by (simp add: NewDec_def abs_mult)
  then obtain p where p: "dec_Mul K (NewDec (Amount c)) (released_ratio t vs) = Ok p"
    using Mul_total [of "NewDec (Amount c)" "released_ratio t vs"] by (cases "dec_Mul K (NewDec (Amount c)) (released_ratio t vs)") auto
  have "p = Amount c * released_ratio t vs" by (rule Mul_exact [OF p]) (simp add: NewDec_def)
  then show ?thesis using p by simp
qed

lemma vested_coins:
  assumes "account_ok K acc" "in_i64 t"
  shows "GetVestedCoins K acc t = Ok (with_amounts (released_amount K acc t) (orig acc))"
proof -
  define f where "f = (\<lambda>(ovc :: coin) vestedCoins.
       case GetVestingSchedule acc (Denom ovc) of
         Some vestingSchedule \<Rightarrow>
           obind (GetVestedRatio K vestingSchedule t) (\<lambda>vestedRatio.
           obind (dec_Mul K (NewDec (Amount ovc)) vestedRatio) (\<lambda>product.
           let vestedAmt = dec_RoundInt K product in
           if vestedAmt = 0 then Ok vestedCoins
           else obind (NewCoin K (Denom ovc) vestedAmt) (\<lambda>c. Ok (vestedCoins @ [c]))))
       | None \<Rightarrow> obind (NewCoin K (Denom ovc) (Amount ovc)) (\<lambda>c. Ok (vestedCoins @ [c])))"
  have step: "f c r = Ok (r @ with_amounts (released_amount K acc t) [c])" if c: "c \<in> set (orig acc)" for c r
  proof (cases "GetVestingSchedule acc (Denom c)")
    case None
    then show ?thesis using assms(1) c
      by (auto simp: f_def released_amount_def with_amounts_def NewCoin_eq account_ok_def valid_coins_def coins_ok_def)
  next
    case (Some vs)
    have "GetVestedRatio K vs t = Ok (released_ratio t vs)"
      using assms GetVestingSchedule_in [OF Some] by (intro vested_ratio) (auto simp: account_ok_def)
    moreover have "ValidDenom K (Denom c)" using assms(1) c by (simp add: account_ok_def valid_coins_def)
    ultimately show ?thesis
      using vested_product [OF assms(1) c Some, of t] released_amount_nonneg [OF assms(1) c, of t] Some
      by (simp add: f_def released_amount_def with_amounts_def NewCoin_eq Let_def)
  qed
  have "ofold f cs r = Ok (r @ with_amounts (released_amount K acc t) cs)" if "set cs \<subseteq> set (orig acc)" for cs r
    using that
  proof (induction cs arbitrary: r)
    case (Cons c cs)
    then show ?case by (simp add: step with_amounts_def)
  qed (simp add: with_amounts_def)
  then show ?thesis by (simp add: GetVestedCoins_def f_def)
qed

end

section \<open>Accounts that vest completely\<close>

text \<open>The laws of the sdk's base vesting account: delegated vesting coins are not locked again, and a delegation takes
  vesting coins first.\<close>

locale vest_laws =
  fixes V :: "'a vest_ops" and K :: "'z coin_ops_scheme"
  assumes Locked_ok: "valid_coins K vesting \<Longrightarrow> valid_coins K (DelegatedVesting b) \<Longrightarrow>
      \<exists>r. LockedCoinsFromVesting V b vesting = Ok r \<and> valid_coins K r \<and>
        (\<forall>d. amt r d = max 0 (amt vesting d - amt (DelegatedVesting b) d))"
    and Track_Ok: "base_TrackDelegation V b balance vesting amount = Ok b' \<Longrightarrow> valid_coins K vesting \<Longrightarrow> valid_coins K amount \<Longrightarrow>
      valid_coins K (DelegatedVesting b) \<Longrightarrow> valid_coins K (DelegatedFree b) \<Longrightarrow>
      OriginalVesting b' = OriginalVesting b \<and> valid_coins K (DelegatedVesting b') \<and> valid_coins K (DelegatedFree b') \<and>
      (\<forall>d. let x = min (max 0 (amt vesting d - amt (DelegatedVesting b) d)) (amt amount d) in
        amt (DelegatedVesting b') d = amt (DelegatedVesting b) d + x \<and>
        amt (DelegatedFree b') d = amt (DelegatedFree b) d + (amt amount d - x))"

text \<open>An account that passes validation, with times and amounts in range.\<close>

definition in_range :: "'z coin_ops_scheme \<Rightarrow> 'a lazy_graded_vesting_account \<Rightarrow> bool" where
  "in_range K acc \<longleftrightarrow> valid_coins K (orig acc) \<and> (\<forall>c\<in>set (orig acc). Amount c < 2 ^ 253) \<and>
     (\<forall>vs\<in>set (VestingSchedules acc). \<forall>s\<in>set (Schedules vs). EndTime s < 2 ^ 63)"

lemma account_valid:
  assumes "coin_laws K" "LazyGradedVestingAccount_Validate V K acc = Ok ()" "in_range K acc"
  shows "account_ok K acc"
proof -
  have "\<forall>vs\<in>set vss. VestingSchedule_Validate K vs = Ok ()"
    if "ofold (\<lambda>vs m. if vs_Denom vs \<in> m then Err e
          else obind (VestingSchedule_Validate K vs) (\<lambda>_. Ok (insert (vs_Denom vs) m))) vss m0 = Ok m1" for vss m0 m1 e
    using that by (induction vss arbitrary: m0) (auto split: if_splits)
  then have "\<forall>vs\<in>set (VestingSchedules acc). VestingSchedule_Validate K vs = Ok ()"
    using assms(2) unfolding LazyGradedVestingAccount_Validate_def obind_eq_Ok by blast
  then show ?thesis
    using dec_laws.VestingSchedule_Validate_Ok [OF coin_laws.axioms(1) [OF assms(1)]] assms(3)
    by (auto simp: account_ok_def in_range_def schedule_ok_def)
qed

lemma account_accepted:
  assumes "dec_laws K" "base_Validate V (BaseVestingAccount acc) = Ok ()" "distinct (map vs_Denom (VestingSchedules acc))"
    and "\<forall>vs\<in>set (VestingSchedules acc). (\<forall>s\<in>set (Schedules vs). schedule_ok s) \<and> 2 * \<bar>ratio_sum vs - OneDec\<bar> < 1000000000"
  shows "LazyGradedVestingAccount_Validate V K acc = Ok ()"
proof -
  have "\<exists>m1. ofold (\<lambda>vs m. if vs_Denom vs \<in> m then Err e
          else obind (VestingSchedule_Validate K vs) (\<lambda>_. Ok (insert (vs_Denom vs) m))) vss m0 = Ok m1"
    if "distinct (map vs_Denom vss)" "\<forall>vs\<in>set vss. VestingSchedule_Validate K vs = Ok () \<and> vs_Denom vs \<notin> m0" for vss m0 e
    using that
  proof (induction vss arbitrary: m0)
    case (Cons vs vss)
    have "\<forall>w\<in>set vss. VestingSchedule_Validate K w = Ok () \<and> vs_Denom w \<notin> insert (vs_Denom vs) m0" using Cons.prems by (auto simp: image_iff)
    then show ?case using Cons.IH [of "insert (vs_Denom vs) m0"] Cons.prems by simp
  qed simp
  moreover have "\<forall>vs\<in>set (VestingSchedules acc). VestingSchedule_Validate K vs = Ok ()"
    using dec_laws.VestingSchedule_Validate_accepts [OF assms(1)] assms(4) by (simp add: schedule_ok_def)
  ultimately obtain m1 where "ofold (\<lambda>vs m. if vs_Denom vs \<in> m then Err (FmtErr ''cannot have multiple vesting schedules'')
      else obind (VestingSchedule_Validate K vs) (\<lambda>_. Ok (insert (vs_Denom vs) m))) (VestingSchedules acc) {} = Ok m1"
    using assms(3) by blast
  then show ?thesis by (simp add: LazyGradedVestingAccount_Validate_def assms(2))
qed

context coin_laws
begin

text \<open>With ratios that add up to one nothing is released beyond the original vesting.\<close>

lemma released_le:
  assumes "account_ok K acc" "c \<in> set (orig acc)" "\<forall>vs\<in>set (VestingSchedules acc). ratio_sum vs = OneDec"
  shows "released_amount K acc t c \<le> Amount c"
proof (cases "GetVestingSchedule acc (Denom c)")
  case (Some vs)
  note i = GetVestingSchedule_in [OF Some]
  have "released_ratio t vs \<le> OneDec" using released_ratio_bounds(2) [of vs t] assms(1,3) i by (auto simp: account_ok_def)
  then have "Amount c * released_ratio t vs \<le> Amount c * OneDec"
    using assms(1,2) by (intro mult_left_mono) (auto simp: account_ok_def valid_coins_def coins_ok_def less_imp_le)
  from RoundInt_mono [OF this] show ?thesis by (simp add: released_amount_def Some RoundInt_units)
qed (simp add: released_amount_def)

lemma vesting_run:
  assumes "account_ok K acc" "\<forall>vs\<in>set (VestingSchedules acc). ratio_sum vs = OneDec" "in_i64 t"
  obtains vesting where "GetVestingCoins K acc t = Ok vesting" "valid_coins K vesting"
    "\<forall>d. amt (with_amounts (released_amount K acc t) (orig acc)) d + amt vesting d = amt (orig acc) d"
proof -
  let ?v = "with_amounts (released_amount K acc t) (orig acc)"
  have o: "valid_coins K (orig acc)" using assms(1) by (simp add: account_ok_def)
  have v: "valid_coins K ?v" by (rule valid_with_amounts [OF o]) (simp add: released_amount_nonneg [OF assms(1)])
  have "amt ?v d \<le> amt (with_amounts Amount (orig acc)) d" for d
    by (rule amt_with_amounts_mono) (simp add: released_le [OF assms(1) _ assms(2)])
  then have "\<forall>d. amt ?v d \<le> amt (orig acc) d" using amt_with_amounts_id [of "orig acc"] valid_coins_ok [OF o] by simp
  from Sub_ok [OF o v this] obtain r where r: "coins_Sub K (orig acc) ?v = Ok r" "valid_coins K r"
    "\<forall>d. amt r d = amt (orig acc) d - amt ?v d" by (elim exE conjE)
  then show ?thesis using that [of r] by (simp add: GetVestingCoins_def vested_coins [OF assms(1,3)])
qed

lemma released_at_end:
  assumes "account_ok K acc" "\<forall>vs\<in>set (VestingSchedules acc). ratio_sum vs = OneDec \<and> (\<forall>s\<in>set (Schedules vs). EndTime s \<le> t)"
  shows "with_amounts (released_amount K acc t) (orig acc) = orig acc"
proof -
  have "released_amount K acc t c = Amount c" for c
  proof (cases "GetVestingSchedule acc (Denom c)")
    case (Some vs)
    then have "released_ratio t vs = OneDec"
      using released_ratio_end [of vs t] assms GetVestingSchedule_in [OF Some] by (auto simp: account_ok_def)
    then show ?thesis by (simp add: released_amount_def Some RoundInt_units)
  qed (simp add: released_amount_def)
  then have "released_amount K acc t = Amount" by (rule ext)
  then show ?thesis using amt_with_amounts_id assms(1) by (auto simp: account_ok_def valid_coins_def)
qed

end

lemma released_at_start:
  assumes "coin_laws K" "account_ok K acc" "GetVestingSchedule acc d = Some vs" "\<forall>s\<in>set (Schedules vs). t < StartTime s"
  shows "amt (with_amounts (released_amount K acc t) (orig acc)) d = 0"
proof (cases "d \<in> Denom ` set (orig acc)")
  case True
  then obtain c where c: "c \<in> set (orig acc)" "d = Denom c" by blast
  have z: "dec_RoundInt K 0 = 0" using dec_laws.RoundInt_units [OF coin_laws.axioms(1) [OF assms(1)], of 0] by simp
  show ?thesis
    using assms(2-4) c amt_with_amounts [of "orig acc" c] released_ratio_start [OF assms(4)]
    by (simp add: released_amount_def z account_ok_def valid_coins_def)
next
  case False
  then show ?thesis by (intro amt_notin) (auto simp: with_amounts_def)
qed

text \<open>C29. Vesting.  For an account that passes validation and whose ratios add up to exactly one, the vested, the vesting
  and the locked coins can be computed at every time; vested and vesting coins add up to the original vesting, so nothing
  is lost or created; what is vested only grows; nothing of a denomination is vested before its schedules start, everything
  is once all of them have ended; and what is locked is what is vesting and not delegated.\<close>

theorem vesting_releases:
  assumes "coin_laws K" "vest_laws V K" "LazyGradedVestingAccount_Validate V K acc = Ok ()" "in_range K acc"
    and "\<forall>vs\<in>set (VestingSchedules acc). ratio_sum vs = OneDec" "valid_coins K (DelegatedVesting (BaseVestingAccount acc))" "in_i64 t"
  shows "\<exists>vested vesting locked. GetVestedCoins K acc t = Ok vested \<and> GetVestingCoins K acc t = Ok vesting \<and>
     LockedCoins V K acc t = Ok locked \<and>
     (\<forall>d. 0 \<le> amt vested d \<and> 0 \<le> amt vesting d \<and> amt vested d + amt vesting d = amt (orig acc) d) \<and>
     (\<forall>t' vested'. t \<le> t' \<longrightarrow> in_i64 t' \<longrightarrow> GetVestedCoins K acc t' = Ok vested' \<longrightarrow> (\<forall>d. amt vested d \<le> amt vested' d)) \<and>
     (\<forall>d vs. GetVestingSchedule acc d = Some vs \<and> (\<forall>s\<in>set (Schedules vs). t < StartTime s) \<longrightarrow> amt vested d = 0) \<and>
     ((\<forall>vs\<in>set (VestingSchedules acc). \<forall>s\<in>set (Schedules vs). EndTime s \<le> t) \<longrightarrow> vested = orig acc) \<and>
     (\<forall>d. amt locked d = max 0 (amt vesting d - amt (DelegatedVesting (BaseVestingAccount acc)) d))"
proof -
  note L = assms(1)
  note ok = account_valid [OF L assms(3,4)]
  let ?v = "\<lambda>t. with_amounts (released_amount K acc t) (orig acc)"
  obtain w where w: "GetVestingCoins K acc t = Ok w" "valid_coins K w" "\<forall>d. amt (?v t) d + amt w d = amt (orig acc) d"
    by (rule coin_laws.vesting_run [OF L ok assms(5,7)])
  obtain l where l: "LockedCoinsFromVesting V (BaseVestingAccount acc) w = Ok l"
    "\<forall>d. amt l d = max 0 (amt w d - amt (DelegatedVesting (BaseVestingAccount acc)) d)"
    using vest_laws.Locked_ok [OF assms(2) w(2) assms(6)] by (elim exE conjE)
  have run: "GetVestedCoins K acc t' = Ok (?v t')" if "in_i64 t'" for t' by (rule coin_laws.vested_coins [OF L ok that])
  have "valid_coins K (?v t)"
    using ok by (intro valid_with_amounts) (auto simp: account_ok_def coin_laws.released_amount_nonneg [OF L ok])
  then have nn: "0 \<le> amt (?v t) d" "0 \<le> amt w d" for d using w(2) coin_laws.valid_coins_nonneg [OF L] by blast+
  have mono: "amt (?v t) d \<le> amt (?v t') d" if "t \<le> t'" for t' d
    by (rule amt_with_amounts_mono) (simp add: coin_laws.released_amount_mono [OF L ok _ that])
  have fin: "?v t = orig acc" if "\<forall>vs\<in>set (VestingSchedules acc). \<forall>s\<in>set (Schedules vs). EndTime s \<le> t"
    using that assms(5) by (intro coin_laws.released_at_end [OF L ok]) blast
  show ?thesis
    using run [OF assms(7)] w(1,3) l nn mono fin released_at_start [OF L ok]
    by (intro exI [of _ "?v t"] exI [of _ w] exI [of _ l] conjI) (simp_all add: LockedCoins_def run)
qed

text \<open>A delegation takes locked coins first: it lowers what is locked by the amount delegated, down to nothing, and what was
  delegated is tracked in full.\<close>

lemma delegation_takes_locked:
  assumes "coin_laws K" "vest_laws V K" "GetVestingCoins K acc t = Ok vesting" "valid_coins K vesting" "valid_coins K amount"
    and "valid_coins K (DelegatedVesting (BaseVestingAccount acc))" "valid_coins K (DelegatedFree (BaseVestingAccount acc))"
    and "TrackDelegation V K acc t balance amount = Ok acc'" "LockedCoins V K acc t = Ok locked"
  shows "\<exists>locked'. LockedCoins V K acc' t = Ok locked' \<and> (\<forall>d. amt locked' d = max 0 (amt locked d - amt amount d) \<and>
     amt (DelegatedVesting (BaseVestingAccount acc')) d + amt (DelegatedFree (BaseVestingAccount acc')) d =
     amt (DelegatedVesting (BaseVestingAccount acc)) d + amt (DelegatedFree (BaseVestingAccount acc)) d + amt amount d)"
proof -
  let ?b = "BaseVestingAccount acc"
  obtain b' where b': "base_TrackDelegation V ?b balance vesting amount = Ok b'" "acc' = acc\<lparr>BaseVestingAccount := b'\<rparr>"
    using assms(3,8) by (auto simp: TrackDelegation_def)
  note tr = vest_laws.Track_Ok [OF assms(2) b'(1) assms(4-7)]
  obtain r where r: "LockedCoinsFromVesting V ?b vesting = Ok r" "\<forall>d. amt r d = max 0 (amt vesting d - amt (DelegatedVesting ?b) d)"
    using vest_laws.Locked_ok [OF assms(2,4,6)] by (elim exE conjE)
  have "r = locked" using r(1) assms(3,9) by (simp add: LockedCoins_def)
  obtain r' where r': "LockedCoinsFromVesting V b' vesting = Ok r'" "\<forall>d. amt r' d = max 0 (amt vesting d - amt (DelegatedVesting b') d)"
    using vest_laws.Locked_ok [OF assms(2,4) tr [THEN conjunct2, THEN conjunct1]] by (elim exE conjE)
  have "GetVestingCoins K acc' t = Ok vesting"
    using assms(3) tr unfolding b'(2) by (simp add: GetVestingCoins_def GetVestedCoins_def GetVestingSchedule_def)
  then have "LockedCoins V K acc' t = Ok r'" using r'(1) b'(2) by (simp add: LockedCoins_def)
  moreover have "amt r' d = max 0 (amt locked d - amt amount d) \<and>
     amt (DelegatedVesting b') d + amt (DelegatedFree b') d = amt (DelegatedVesting ?b) d + amt (DelegatedFree ?b) d + amt amount d" for d
  proof -
    have "0 \<le> amt amount d" by (rule coin_laws.valid_coins_nonneg [OF assms(1,5)])
    then show ?thesis using r(2) r'(2) tr \<open>r = locked\<close> by (simp add: Let_def min_def max_def)
  qed
  ultimately show ?thesis using b'(2) by simp
qed

text \<open>C30. The rounding in the validation of the ratios lets accounts through that break.  Validation accepts every account
  whose base account is accepted, which has one vesting schedule per denomination, and whose ratios add up to one within
  less than half of \<open>10 ^ -9\<close>.  If among these the ratios of a denomination exceed one by \<open>e\<close> and \<open>e\<close> of the amount
  is at least one unit, then once the schedules have ended more is vested than there is and computing the vesting coins
  panics.\<close>

theorem vesting_slack_panics:
  assumes "coin_laws K" "base_Validate V (BaseVestingAccount acc) = Ok ()" "distinct (map vs_Denom (VestingSchedules acc))"
    and "\<forall>vs\<in>set (VestingSchedules acc). (\<forall>s\<in>set (Schedules vs). schedule_ok s) \<and> 2 * \<bar>ratio_sum vs - OneDec\<bar> < 1000000000"
    and "in_range K acc" "in_i64 t"
    and "c \<in> set (orig acc)" "GetVestingSchedule acc (Denom c) = Some vs" "\<forall>s\<in>set (Schedules vs). EndTime s \<le> t"
    and "ratio_sum vs = OneDec + e" "OneDec \<le> Amount c * e"
  shows "LazyGradedVestingAccount_Validate V K acc = Ok () \<and> GetVestingCoins K acc t = Panic"
proof -
  note L = assms(1)
  have valid: "LazyGradedVestingAccount_Validate V K acc = Ok ()" by (rule account_accepted [OF coin_laws.axioms(1) [OF L] assms(2,3,4)])
  note ok = account_valid [OF L valid assms(5)]
  let ?v = "with_amounts (released_amount K acc t) (orig acc)"
  have o: "valid_coins K (orig acc)" using ok by (simp add: account_ok_def)
  have v: "valid_coins K ?v" by (rule valid_with_amounts [OF o]) (simp add: coin_laws.released_amount_nonneg [OF L ok])
  have "released_ratio t vs = OneDec + e"
    using released_ratio_end [of vs t] ok GetVestingSchedule_in [OF assms(8)] assms(9,10) by (auto simp: account_ok_def)
  moreover have "Amount c + 1 \<le> dec_RoundInt K (Amount c * (OneDec + e))"
  proof -
    have "(Amount c + 1) * OneDec \<le> Amount c * (OneDec + e)" using assms(11) by (simp add: distrib_left distrib_right)
    from dec_laws.RoundInt_mono [OF coin_laws.axioms(1) [OF L] this] show ?thesis
      unfolding dec_laws.RoundInt_units [OF coin_laws.axioms(1) [OF L]] .
  qed
  ultimately have "Amount c < released_amount K acc t c" by (simp add: released_amount_def assms(8))
  then have "amt (orig acc) (Denom c) < amt ?v (Denom c)"
    using amt_with_amounts [OF coin_laws.valid_coins_ok [OF L o] assms(7)] amt_in [OF coin_laws.valid_coins_ok [OF L o] assms(7)] by simp
  from coin_laws.Sub_neg [OF L o v this] show ?thesis by (simp add: GetVestingCoins_def coin_laws.vested_coins [OF L ok assms(6)] valid)
qed

end
