(* ===== verification/Vesting_Sample.thy ===== *)
theory Vesting_Sample
  imports Vesting_Release Tax_Sample
begin

text \<open>
  A reference base vesting account, on which the laws hold, and two accounts: one that vests half at once and half over
  time, and one whose ratio is slightly above one.
\<close>

definition ref_taken :: "'a base_vesting_account \<Rightarrow> coins \<Rightarrow> coins \<Rightarrow> string \<Rightarrow> int" where
  "ref_taken b vesting amount d = min (max 0 (amt vesting d - amt (DelegatedVesting b) d)) (amt amount d)"

definition vest0 :: "unit vest_ops" where
  "vest0 = \<lparr>
     LockedCoinsFromVesting = (\<lambda>b vesting. Ok (tabulate (denoms vesting) (\<lambda>d. max 0 (amt vesting d - amt (DelegatedVesting b) d)))),
     base_TrackDelegation = (\<lambda>b balance vesting amount.
       if ref_IsAllGTE balance amount
       then Ok (b\<lparr>DelegatedVesting := tabulate (denoms (DelegatedVesting b) @ denoms amount)
                    (\<lambda>d. amt (DelegatedVesting b) d + ref_taken b vesting amount d),
                  DelegatedFree := tabulate (denoms (DelegatedFree b) @ denoms amount)
                    (\<lambda>d. amt (DelegatedFree b) d + (amt amount d - ref_taken b vesting amount d))\<rparr>)
       else Panic),
     base_Validate = (\<lambda>b. Ok ())\<rparr>"

lemma ref_taken_bounds: "0 \<le> amt amount d \<Longrightarrow> 0 \<le> ref_taken b vesting amount d \<and> ref_taken b vesting amount d \<le> amt amount d"
  by (simp add: ref_taken_def)

interpretation ref_vest: vest_laws vest0 sdk0
proof
  fix vesting and b :: "unit base_vesting_account"
  assume v: "valid_coins sdk0 vesting" "valid_coins sdk0 (DelegatedVesting b)"
  have nn: "0 \<le> amt (DelegatedVesting b) d" for d using v(2) by (intro amt_nonneg) (simp add: valid_coins_def)
  have "valid_coins sdk0 (tabulate (denoms vesting) (\<lambda>d. max 0 (amt vesting d - amt (DelegatedVesting b) d)))"
    using v(1) ref_IsValid_denoms unfolding valid_coins_sdk0 by (intro ref_IsValid_tabulate) auto
  then show "\<exists>r. LockedCoinsFromVesting vest0 b vesting = Ok r \<and> valid_coins sdk0 r \<and>
      (\<forall>d. amt r d = max 0 (amt vesting d - amt (DelegatedVesting b) d))"
    using nn by (simp add: vest0_def amt_tabulate amt_notin_denoms)
next
  fix b :: "unit base_vesting_account" and balance vesting amount b'
  assume run: "base_TrackDelegation vest0 b balance vesting amount = Ok b'" and v: "valid_coins sdk0 vesting" "valid_coins sdk0 amount"
    "valid_coins sdk0 (DelegatedVesting b)" "valid_coins sdk0 (DelegatedFree b)"
  have nn: "0 \<le> amt amount d" "0 \<le> amt (DelegatedVesting b) d" "0 \<le> amt (DelegatedFree b) d" for d
    using v by (auto simp: valid_coins_def intro: amt_nonneg)
  note t = ref_taken_bounds [OF nn(1), where b = b and vesting = vesting]
  have z: "ref_taken b vesting amount d = 0" if "d \<notin> set (denoms amount)" for d
    using t [of d] amt_notin_denoms [OF that] by simp
  have b': "b' = b\<lparr>DelegatedVesting := tabulate (denoms (DelegatedVesting b) @ denoms amount)
                    (\<lambda>d. amt (DelegatedVesting b) d + ref_taken b vesting amount d),
                  DelegatedFree := tabulate (denoms (DelegatedFree b) @ denoms amount)
                    (\<lambda>d. amt (DelegatedFree b) d + (amt amount d - ref_taken b vesting amount d))\<rparr>"
    using run by (simp add: vest0_def split: if_splits)
  have "valid_coins sdk0 (DelegatedVesting b')" "valid_coins sdk0 (DelegatedFree b')"
    using v nn t ref_IsValid_denoms unfolding b' valid_coins_sdk0
    by (auto intro!: ref_IsValid_tabulate add_nonneg_nonneg)
  moreover have "amt (DelegatedVesting b') d = amt (DelegatedVesting b) d + ref_taken b vesting amount d"
    "amt (DelegatedFree b') d = amt (DelegatedFree b) d + (amt amount d - ref_taken b vesting amount d)" for d
    unfolding b' using z [of d] by (auto simp: amt_tabulate amt_notin_denoms)
  moreover have "OriginalVesting b' = OriginalVesting b" by (simp add: b')
  ultimately show "OriginalVesting b' = OriginalVesting b \<and> valid_coins sdk0 (DelegatedVesting b') \<and> valid_coins sdk0 (DelegatedFree b') \<and>
      (\<forall>d. let x = min (max 0 (amt vesting d - amt (DelegatedVesting b) d)) (amt amount d) in
        amt (DelegatedVesting b') d = amt (DelegatedVesting b) d + x \<and>
        amt (DelegatedFree b') d = amt (DelegatedFree b) d + (amt amount d - x))"
    by (simp add: ref_taken_def Let_def)
qed

definition half_account :: "unit lazy_graded_vesting_account" where
  "half_account = NewLazyGradedVestingAccount () (luna 1000)
     [\<lparr>vs_Denom = ''uluna'', Schedules =
        [\<lparr>StartTime = 100, EndTime = 100, Ratio = 500000000000000000\<rparr>, \<lparr>StartTime = 100, EndTime = 300, Ratio = 500000000000000000\<rparr>]\<rparr>]"

definition slack_account :: "unit lazy_graded_vesting_account" where
  "slack_account = NewLazyGradedVestingAccount () (luna 10000000000)
     [\<lparr>vs_Denom = ''uluna'', Schedules = [\<lparr>StartTime = 100, EndTime = 300, Ratio = 1000000000400000000\<rparr>]\<rparr>]"

lemmas vesting_sample_defs = NewLazyGradedVestingAccount_def LazyGradedVestingAccount_Validate_def VestingSchedule_Validate_def
  Schedule_Validate_def dec_RoundInt64_def NewDec_def ocheck_def ref_QuoInt_def go_quot_def in_i64_def chop_round_def chop_nonneg_def

lemma half_account_valid: "LazyGradedVestingAccount_Validate vest0 sdk0 half_account = Ok ()"
  by (simp add: half_account_def vesting_sample_defs vest0_def Let_def)

lemma vesting_samples_in_range: "in_range sdk0 half_account" "in_range sdk0 slack_account"
  by (auto simp: in_range_def half_account_def slack_account_def NewLazyGradedVestingAccount_def luna_valid)

theorem vesting_releases_witness:
  "\<exists>vested vesting locked. GetVestedCoins sdk0 half_account 200 = Ok vested \<and> GetVestingCoins sdk0 half_account 200 = Ok vesting \<and>
     LockedCoins vest0 sdk0 half_account 200 = Ok locked \<and> amt vested ''uluna'' + amt vesting ''uluna'' = 1000"
proof -
  have r: "\<forall>vs\<in>set (VestingSchedules half_account). ratio_sum vs = OneDec"
    by (simp add: half_account_def NewLazyGradedVestingAccount_def ratio_sum_def)
  have d: "valid_coins sdk0 (DelegatedVesting (BaseVestingAccount half_account))"
    by (simp add: half_account_def NewLazyGradedVestingAccount_def valid_coins_def)
  have t: "in_i64 200" by (simp add: in_i64_def)
  have o: "orig half_account = luna 1000" by (simp add: half_account_def NewLazyGradedVestingAccount_def)
  show ?thesis
    using vesting_releases [OF sdk0_coin ref_vest.vest_laws_axioms half_account_valid vesting_samples_in_range(1) r d t]
    unfolding o by (elim exE conjE) (intro exI conjI, assumption+, simp)
qed

theorem vesting_slack_panics_witness:
  "LazyGradedVestingAccount_Validate vest0 sdk0 slack_account = Ok () \<and> GetVestingCoins sdk0 slack_account 300 = Panic"
proof (rule vesting_slack_panics [OF sdk0_coin _ _ _ vesting_samples_in_range(2), where vs = "hd (VestingSchedules slack_account)"])
  show "in_i64 300" by (simp add: in_i64_def)
  show "\<lparr>Denom = ''uluna'', Amount = 10000000000\<rparr> \<in> set (orig slack_account)"
    by (simp add: slack_account_def NewLazyGradedVestingAccount_def)
  show "OneDec \<le> Amount \<lparr>Denom = ''uluna'', Amount = 10000000000\<rparr> * 400000000" by simp
qed (simp_all add: slack_account_def NewLazyGradedVestingAccount_def GetVestingSchedule_def ratio_sum_def schedule_ok_def vest0_def)

end
