(* ===== verification/Contracts.thy ===== *)
theory Contracts
  imports Ante Market_Swap Tax_Collect
begin

text \<open>
  How smart contracts reach the chain (\<open>wasmbinding\<close>, \<open>custom/wasm/keeper\<close>): the swaps a contract sends in the chain's
  own message format, the queries it may ask, and the messages of the sdk it sends, which go through the taxing message
  servers.  A message arrives in decoded form; the encoders of wasmd, the validation and the signers of messages of other
  packages and the handlers of other modules are parameters.
\<close>

section \<open>Messages of the binding\<close>

record terra_swap =
  tsw_OfferCoin :: coin
  tsw_AskDenom :: string

record terra_swap_send =
  tss_ToAddress :: string
  tss_OfferCoin :: coin
  tss_AskDenom :: string

record terra_msg =
  TerraMsg_Swap :: "terra_swap option"
  TerraMsg_SwapSend :: "terra_swap_send option"

text \<open>A message of a contract: a custom one, with the outcome of decoding it, or one of the kinds \<open>'m\<close> wasmd knows.\<close>

record 'm cosmos_msg =
  Custom :: "terra_msg outcome option"
  wasm_msg :: 'm

datatype response = SwapResponse coin coin | SwapSendResponse coin coin | MsgResponse string

type_synonym ('s, 'm) messenger = "tx_ctx \<Rightarrow> string \<Rightarrow> string \<Rightarrow> 'm cosmos_msg \<Rightarrow> ('s, response list) go"

definition WasmInvalidRequest :: error where "WasmInvalidRequest = SdkErr ''wasmvm InvalidRequest''"
definition UnsupportedRequest :: error where "UnsupportedRequest = SdkErr ''wasmvm UnsupportedRequest''"

definition PerformSwap ::
  "('b, 'z) addr_ops_scheme \<Rightarrow> string \<Rightarrow> terra_swap option \<Rightarrow> (('b, 'x) market_state_scheme, coin \<times> coin) go" where
  "PerformSwap K contractAddr contractMsg =
     (case contractMsg of
        None \<Rightarrow> raise WasmInvalidRequest
      | Some m \<Rightarrow>
          let msgSwap = \<lparr>ms_Trader = AccAddress_String K contractAddr, ms_OfferCoin = tsw_OfferCoin m, ms_AskDenom = tsw_AskDenom m\<rparr> in
          seq (lift (MsgSwap_ValidateBasic K msgSwap)) (Swap K msgSwap))"

definition PerformSwapSend ::
  "('b, 'z) addr_ops_scheme \<Rightarrow> string \<Rightarrow> terra_swap_send option \<Rightarrow> (('b, 'x) market_state_scheme, coin \<times> coin) go" where
  "PerformSwapSend K contractAddr contractMsg =
     (case contractMsg of
        None \<Rightarrow> raise WasmInvalidRequest
      | Some m \<Rightarrow>
          bnd (lift (AccAddressFromBech32 K (tss_ToAddress m))) (\<lambda>toAddr.
          let msgSwapSend = \<lparr>mss_FromAddress = AccAddress_String K contractAddr, mss_ToAddress = AccAddress_String K toAddr,
            mss_OfferCoin = tss_OfferCoin m, mss_AskDenom = tss_AskDenom m\<rparr> in
          seq (lift (MsgSwapSend_ValidateBasic K msgSwapSend)) (SwapSend K msgSwapSend)))"

definition CustomMessenger_DispatchMsg ::
  "('b, 'z) addr_ops_scheme \<Rightarrow> (('b, 'x) market_state_scheme, 'm) messenger \<Rightarrow> (('b, 'x) market_state_scheme, 'm) messenger" where
  "CustomMessenger_DispatchMsg K wrapped ctx contractAddr contractIBCPortID msg =
     (case Custom msg of
        None \<Rightarrow> wrapped ctx contractAddr contractIBCPortID msg
      | Some decoded \<Rightarrow>
          bnd (lift decoded) (\<lambda>contractMsg.
          if TerraMsg_Swap contractMsg \<noteq> None
          then bnd (PerformSwap K contractAddr (TerraMsg_Swap contractMsg)) (\<lambda>(c, fee). ret [SwapResponse c fee])
          else if TerraMsg_SwapSend contractMsg \<noteq> None
          then bnd (PerformSwapSend K contractAddr (TerraMsg_SwapSend contractMsg)) (\<lambda>(c, fee). ret [SwapSendResponse c fee])
          else raise UnsupportedRequest))"

section \<open>Messages of the sdk\<close>

record 'm wasm_ops =
  Encode :: "string \<Rightarrow> string \<Rightarrow> 'm cosmos_msg \<Rightarrow> tx_msg list outcome"
  msg_ValidateBasic :: "tx_msg \<Rightarrow> unit outcome"
  msg_GetSigners :: "tx_msg \<Rightarrow> string list outcome"
  coin_String :: "coin \<Rightarrow> string"
  Int_String :: "int \<Rightarrow> string"

type_synonym 's router = "tx_msg \<Rightarrow> (tx_ctx \<Rightarrow> ('s, response) go) option"

text \<open>The message servers the tax modules register; \<open>other\<close> routes the remaining messages.\<close>

definition tax_router ::
  "('b, 'y) tx_ops_scheme \<Rightarrow> ('b, 'z) staking_ops_scheme \<Rightarrow> ('b, 'x) tax_state_scheme router \<Rightarrow> ('b, 'x) tax_state_scheme router" where
  "tax_router A K other msg =
     (case msg of
        MsgSend m \<Rightarrow> Some (\<lambda>ctx. seq (BankMsgServer_Send A K ctx m) (ret (MsgResponse [])))
      | MsgMultiSend m \<Rightarrow> Some (\<lambda>ctx. seq (BankMsgServer_MultiSend A K ctx m) (ret (MsgResponse [])))
      | MsgSwapSend m \<Rightarrow> Some (\<lambda>ctx. bnd (MarketMsgServer_SwapSend K ctx m) (\<lambda>(c, fee). ret (SwapSendResponse c fee)))
      | _ \<Rightarrow> other msg)"

definition handleSdkMessage ::
  "('m, 'y) wasm_ops_scheme \<Rightarrow> 's router \<Rightarrow> tx_ctx \<Rightarrow> string \<Rightarrow> tx_msg \<Rightarrow> ('s, response) go" where
  "handleSdkMessage W router ctx contractAddr msg =
     seq (lift (msg_ValidateBasic W msg))
     (bnd (lift (msg_GetSigners W msg)) (\<lambda>signers.
     if list_ex (\<lambda>acct. acct \<noteq> contractAddr) signers then raise ErrUnauthorized
     else case router msg of None \<Rightarrow> raise ErrUnknownRequest | Some handler \<Rightarrow> handler ctx))"

definition SDKMessageHandler_DispatchMsg :: "('m, 'y) wasm_ops_scheme \<Rightarrow> 's router \<Rightarrow> ('s, 'm) messenger" where
  "SDKMessageHandler_DispatchMsg W router ctx contractAddr contractIBCPortID msg =
     bnd (lift (Encode W contractAddr contractIBCPortID msg)) (\<lambda>sdkMsgs.
     let ctx = ctx\<lparr>TaxReverseCharge := Some True\<rparr> in
     fold_each sdkMsgs (\<lambda>sdkMsg data.
       bnd (handleSdkMessage W router ctx contractAddr sdkMsg) (\<lambda>res. ret (data @ [res]))) [])"

section \<open>Queries\<close>

text \<open>A query of a contract; of the optional parts the first one present is answered.\<close>

record terra_query =
  TerraQuery_Swap :: "(coin \<times> string) option"
  TerraQuery_ExchangeRates :: "(string \<times> string list) option"
  TerraQuery_TaxRate :: bool
  TerraQuery_TaxCap :: "string option"

record wasm_coin =
  wc_Denom :: string
  wc_Amount :: string

datatype query_response =
    SwapQueryResponse wasm_coin
  | ExchangeRatesQueryResponse string "(string \<times> string) list"      \<comment> \<open>rate and denomination of each item\<close>
  | TaxRateQueryResponse string
  | TaxCapQueryResponse string

definition ConvertSdkCoinToWasmCoin :: "('m, 'y) wasm_ops_scheme \<Rightarrow> coin \<Rightarrow> wasm_coin" where
  "ConvertSdkCoinToWasmCoin W c = \<lparr>wc_Denom = Denom c, wc_Amount = Int_String W (Amount c)\<rparr>"

definition ConvertSdkCoinsToWasmCoins :: "('m, 'y) wasm_ops_scheme \<Rightarrow> coins \<Rightarrow> wasm_coin list" where
  "ConvertSdkCoinsToWasmCoins W cs = map (ConvertSdkCoinToWasmCoin W) cs"

definition quote_items ::
  "'z dec_ops_scheme \<Rightarrow> dec \<Rightarrow> string list \<Rightarrow> (('b, 'x) oracle_state_scheme, (string \<times> string) list) go" where
  "quote_items K base quoteDenoms =
     fold_each quoteDenoms (\<lambda>quoteDenom items.
       bnd (attempt (GetLunaExchangeRate quoteDenom)) (\<lambda>r.
       case r of
         Inl err \<Rightarrow> ret items
       | Inr rate \<Rightarrow> bnd (lift (dec_Quo K rate base)) (\<lambda>q. ret (items @ [(dec_String K q, quoteDenom)])))) []"

definition CustomQuerier ::
  "('m, 'y) wasm_ops_scheme \<Rightarrow> 'z coin_ops_scheme \<Rightarrow> terra_query outcome \<Rightarrow> (('b, 'x) treasury_state_scheme, query_response) go" where
  "CustomQuerier W K decoded =
     bnd (lift decoded) (\<lambda>contractQuery.
     case TerraQuery_Swap contractQuery of
       Some (offerCoin, askDenom) \<Rightarrow>
         bnd (q_Swap K (Some (coin_String W offerCoin, askDenom))) (\<lambda>c. ret (SwapQueryResponse (ConvertSdkCoinToWasmCoin W c)))
     | None \<Rightarrow>
     (case TerraQuery_ExchangeRates contractQuery of
       Some (baseDenom, quoteDenoms) \<Rightarrow>
         bnd (GetLunaExchangeRate baseDenom) (\<lambda>base.
         bnd (quote_items K base quoteDenoms) (\<lambda>items. ret (ExchangeRatesQueryResponse baseDenom items)))
     | None \<Rightarrow>
     if TerraQuery_TaxRate contractQuery
     then bnd GetTaxRate (\<lambda>r. ret (TaxRateQueryResponse (dec_String K r)))
     else (case TerraQuery_TaxCap contractQuery of
       Some denom \<Rightarrow> bnd (GetTaxCap denom) (\<lambda>c. ret (TaxCapQueryResponse (Int_String W c)))
     | None \<Rightarrow> raise UnsupportedRequest)))"

definition stargateWhitelist :: "string list" where
  "stargateWhitelist =
     [''/terra.market.v1beta1.Query/Swap'', ''/terra.treasury.v1beta1.Query/TaxCap'', ''/terra.treasury.v1beta1.Query/TaxRate'',
      ''/terra.oracle.v1beta1.Query/ExchangeRate'']"

definition GetWhitelistedQuery :: "string \<Rightarrow> unit outcome" where
  "GetWhitelistedQuery queryPath = (if queryPath \<in> set stargateWhitelist then Ok () else Err UnsupportedRequest)"

text \<open>The codec is given: it decodes a value as the response type of a path, and prints it.\<close>

definition ConvertProtoToJSONMarshal ::
  "(string \<Rightarrow> string \<Rightarrow> 'p outcome) \<Rightarrow> ('p \<Rightarrow> string outcome) \<Rightarrow> string \<Rightarrow> string \<Rightarrow> string outcome" where
  "ConvertProtoToJSONMarshal Unmarshal MarshalJSON path bz =
     obind (wrap_err (SdkErr ''wasmvm Unknown'') (Unmarshal path bz)) (\<lambda>response.
     wrap_err (SdkErr ''wasmvm Unknown'') (MarshalJSON response))"

definition StargateQuerier ::
  "(string \<Rightarrow> string \<Rightarrow> 'p outcome) \<Rightarrow> ('p \<Rightarrow> string outcome) \<Rightarrow> (string \<Rightarrow> (string \<Rightarrow> ('s, string) go) option) \<Rightarrow>
   string \<Rightarrow> string \<Rightarrow> ('s, string) go" where
  "StargateQuerier Unmarshal MarshalJSON Route path request =
     seq (lift (GetWhitelistedQuery path))
     (case Route path of
        None \<Rightarrow> raise UnsupportedRequest
      | Some route \<Rightarrow> bnd (route request) (\<lambda>res. lift (ConvertProtoToJSONMarshal Unmarshal MarshalJSON path res)))"

section \<open>Contracts pay the tax\<close>

text \<open>The signer of a bank transfer is its sender, as the bank module documents.\<close>

definition bank_signers :: "('m, 'y) wasm_ops_scheme \<Rightarrow> ('b, 'z) addr_ops_scheme \<Rightarrow> bool" where
  "bank_signers W K \<longleftrightarrow> (\<forall>m. msg_GetSigners W (MsgSend m) = must_signer (AccAddressFromBech32 K (bs_FromAddress m)))"

lemma dispatch_send:
  assumes "Encode W addr port msg = Ok [MsgSend m]" "bank_signers W K"
    and "SDKMessageHandler_DispatchMsg W (tax_router A K other) ctx addr port msg s = (Ok data, s')"
  shows "AccAddressFromBech32 K (bs_FromAddress m) = Ok addr"
    and "BankMsgServer_Send A K (ctx\<lparr>TaxReverseCharge := Some True\<rparr>) m s = (Ok (), s')"
proof -
  have run: "handleSdkMessage W (tax_router A K other) (ctx\<lparr>TaxReverseCharge := Some True\<rparr>) addr (MsgSend m) s = (Ok (MsgResponse []), s') \<or>
      (\<exists>r. handleSdkMessage W (tax_router A K other) (ctx\<lparr>TaxReverseCharge := Some True\<rparr>) addr (MsgSend m) s = (Ok r, s'))"
    using assms(1,3) by (auto simp: SDKMessageHandler_DispatchMsg_def bnd_run_iff_Ok)
  then obtain r where r: "handleSdkMessage W (tax_router A K other) (ctx\<lparr>TaxReverseCharge := Some True\<rparr>) addr (MsgSend m) s = (Ok r, s')"
    by blast
  obtain signers where sg: "must_signer (AccAddressFromBech32 K (bs_FromAddress m)) = Ok signers" "\<not> list_ex (\<lambda>acct. acct \<noteq> addr) signers"
    and b: "seq (BankMsgServer_Send A K (ctx\<lparr>TaxReverseCharge := Some True\<rparr>) m) (ret (MsgResponse [])) s = (Ok r, s')"
    using r assms(2) by (auto simp: handleSdkMessage_def bank_signers_def seq_run_iff_Ok bnd_lift_Ok tax_router_def split: if_splits)
  then show "AccAddressFromBech32 K (bs_FromAddress m) = Ok addr"
    by (auto simp: must_signer_def split: outcome.splits)
  show "BankMsgServer_Send A K (ctx\<lparr>TaxReverseCharge := Some True\<rparr>) m s = (Ok (), s')" using b by (auto simp: seq_run_iff_Ok)
qed

text \<open>C14. A transfer that a contract dispatches, in whatever mode the transaction that called it pays its own tax, comes
  out of the contract's own account only and is reverse charged: the contract pays exactly the amount.  Unless sender and
  recipient are exempt, the tax is taken out of it and distributed and the recipient gets the rest; between exempt
  addresses the recipient gets the whole amount and no tax is recorded.\<close>

theorem contract_transfer_taxed:
  assumes "module_laws K R" "tx_laws A K" "collectable K R s" "taxable_amount K (bs_Amount m)" "rate_ok s"
    and "bank_signers W K" "Encode W addr port msg = Ok [MsgSend m]" "AccAddressFromBech32 K (bs_ToAddress m) = Ok y"
    and "addr \<noteq> GetModuleAddress K FeeCollectorName"
    and "SDKMessageHandler_DispatchMsg W (tax_router A K other) ctx addr port msg s = (Ok data, s')"
  shows "(\<not> exempt_between (zone_of s (bs_FromAddress m)) (zone_of s (bs_ToAddress m)) \<longrightarrow>
    (\<forall>d n t pool orc burn. n = amt (bs_Amount m) d \<longrightarrow> t = tax_of s n \<longrightarrow> tax_shares K s t = (pool, orc, burn) \<longrightarrow>
    (\<forall>z. bal K (ext s') z d = bal K (ext s) z d - (if z = addr then n else 0) + (if z = y then n - t else 0)
        + (if z = GetModuleAddress K FeeCollectorName then t - (pool + orc + burn) else 0)
        + (if z = GetModuleAddress K distribution_ModuleName then pool else 0)
        + (if z = GetModuleAddress K oracle_ModuleName then orc else 0)
        + (if z = GetModuleAddress K BurnModuleName then burn else 0))
    \<and> supply_of K (ext s') d = supply_of K (ext s) d
    \<and> amt (proceeds s') d = amt (proceeds s) d + t))
  \<and> (exempt_between (zone_of s (bs_FromAddress m)) (zone_of s (bs_ToAddress m)) \<longrightarrow>
    (\<forall>d n. n = amt (bs_Amount m) d \<longrightarrow>
    (\<forall>z. bal K (ext s') z d = bal K (ext s) z d - (if z = addr then n else 0) + (if z = y then n else 0))
    \<and> supply_of K (ext s') d = supply_of K (ext s) d \<and> proceeds s' = proceeds s))"
proof -
  note send = dispatch_send [OF assms(7,6,10)]
  have rev: "TaxReverseCharge (ctx\<lparr>TaxReverseCharge := Some True\<rparr>) = Some True" by simp
  have p: "proceeds (s\<lparr>ext := b\<rparr>) = proceeds s" for b by (simp add: proceeds_def)
  show ?thesis
    using reverse_charge_transfer [OF assms(1-5) send(1) assms(8,9) rev _ send(2)]
      exempt_transfer [OF assms(2) send(1) assms(8) rev _ send(2)] p [of "ext s'"]
    by (intro conjI impI) (blast, simp add: moved_def)
qed

section \<open>Contracts get what the query announced\<close>

text \<open>C15. A contract that asks for the result of a swap and then swaps in the same state gets the coin it was told.\<close>

theorem contract_swap_as_queried:
  fixes s :: "('b, 'x) treasury_state_scheme"
  assumes "bank_laws K" "ParseCoinNormalized K (coin_String W offer) = Ok offer" "ValidDenom K ask"
    and "TerraMsg_Swap cm = Some \<lparr>tsw_OfferCoin = offer, tsw_AskDenom = ask\<rparr>" "TerraQuery_Swap q = Some (offer, ask)"
    and "CustomMessenger_DispatchMsg K wrapped ctx addr port \<lparr>Custom = Some (Ok cm), wasm_msg = w\<rparr> s = (Ok data, s')"
  shows "\<exists>c fee. data = [SwapResponse c fee] \<and> CustomQuerier W K (Ok q) s = (Ok (SwapQueryResponse (ConvertSdkCoinToWasmCoin W c)), s)"
proof -
  let ?m = "\<lparr>ms_Trader = AccAddress_String K addr, ms_OfferCoin = offer, ms_AskDenom = ask\<rparr>"
  obtain c fee where d: "data = [SwapResponse c fee]" and v: "MsgSwap_ValidateBasic K ?m = Ok ()" and sw: "Swap K ?m s = (Ok (c, fee), s')"
    using assms(4,6) by (auto simp: CustomMessenger_DispatchMsg_def PerformSwap_def Let_def bnd_run_iff_Ok seq_run_iff_Ok)
  obtain x where h: "handleSwapRequest K x x offer ask s = (Ok (c, fee), s')" using sw by (auto simp: Swap_def bnd_lift_Ok)
  have "\<not> longer_than_bits 100 (Amount offer)" using v by (auto simp: MsgSwap_ValidateBasic_def swap_coin_check_def split: if_splits)
  then have "simulateSwap K offer ask s = (Ok c, s)" by (rule simulateSwap_after [OF assms(1) h])
  then have "q_Swap K (Some (coin_String W offer, ask)) s = (Ok c, s)"
    using assms(2,3) by (simp add: q_Swap_def wrap_go_def wrap_err_def)
  then show ?thesis using d assms(5) by (simp add: CustomQuerier_def bnd_Ok [where m = "q_Swap K (Some (coin_String W offer, ask))"])
qed

end
