(* ===== verification/Contracts_Sample.thy ===== *)
theory Contracts_Sample
  imports Contracts Tax_Sample
begin

text \<open>A contract that sends messages of the sdk as they are, and one that swaps, on the sample chain.\<close>

definition wasm0 :: "tx_msg wasm_ops" where
  "wasm0 = \<lparr>Encode = (\<lambda>addr port msg. Ok [wasm_msg msg]), msg_ValidateBasic = (\<lambda>msg. Ok ()),
     msg_GetSigners = (\<lambda>msg. case msg of MsgSend m \<Rightarrow> must_signer (AccAddressFromBech32 sdk0 (bs_FromAddress m)) | _ \<Rightarrow> Ok []),
     coin_String = (\<lambda>c. itoa (Amount c) @ Denom c), Int_String = itoa\<rparr>"

definition send_msg :: "tx_msg cosmos_msg" where
  "send_msg = \<lparr>Custom = None, wasm_msg = MsgSend sample_send\<rparr>"

lemma sample_signers: "bank_signers wasm0 sdk0"
  by (simp add: bank_signers_def wasm0_def)

lemma sample_encode: "Encode wasm0 val_a [] send_msg = Ok [MsgSend sample_send]"
  by (simp add: wasm0_def send_msg_def)

lemma sample_dispatch:
  "\<exists>s'. SDKMessageHandler_DispatchMsg wasm0 (tax_router tx0 sdk0 (\<lambda>msg. None)) reverse_ctx val_a [] send_msg sample_tax = (Ok [MsgResponse []], s')"
proof -
  obtain s' where run: "BankMsgServer_Send tx0 sdk0 reverse_ctx sample_send sample_tax = (Ok (), s')" using sample_send_run ..
  have c: "reverse_ctx\<lparr>TaxReverseCharge := Some True\<rparr> = reverse_ctx" by (simp add: reverse_ctx_def)
  have sig: "msg_GetSigners wasm0 (MsgSend sample_send) = Ok [val_a]" by (simp add: wasm0_def sample_send_def must_signer_def)
  have "handleSdkMessage wasm0 (tax_router tx0 sdk0 (\<lambda>msg. None)) reverse_ctx val_a (MsgSend sample_send) sample_tax = (Ok (MsgResponse []), s')"
    using run by (simp add: handleSdkMessage_def sig tax_router_def seq_case) (simp add: wasm0_def)
  then show ?thesis using sample_encode by (simp add: SDKMessageHandler_DispatchMsg_def c bnd_Ok)
qed

theorem contract_transfer_taxed_witness:
  "\<exists>s'. SDKMessageHandler_DispatchMsg wasm0 (tax_router tx0 sdk0 (\<lambda>msg. None)) reverse_ctx val_a [] send_msg sample_tax = (Ok [MsgResponse []], s')
     \<and> bal sdk0 (ext s') val_a ''uluna'' = 50000 \<and> bal sdk0 (ext s') val_b ''uluna'' = 199000"
proof -
  obtain s' where run: "SDKMessageHandler_DispatchMsg wasm0 (tax_router tx0 sdk0 (\<lambda>msg. None)) reverse_ctx val_a [] send_msg sample_tax
      = (Ok [MsgResponse []], s')" using sample_dispatch ..
  have pre: "taxable_amount sdk0 (bs_Amount sample_send)" "AccAddressFromBech32 sdk0 (bs_ToAddress sample_send) = Ok val_b"
    "\<not> exempt_between (zone_of sample_tax (bs_FromAddress sample_send)) (zone_of sample_tax (bs_ToAddress sample_send))"
    by (simp_all add: sample_send_def luna_taxable sample_tax_sel)
  have amounts: "(200000 :: int) = amt (bs_Amount sample_send) ''uluna''" "(1000 :: int) = tax_of sample_tax 200000"
    by (simp_all add: sample_send_def tax_of_def sample_tax_sel)
  note r = contract_transfer_taxed [OF sdk0_module tx0_laws sample_collectable pre(1) sample_rate_ok sample_signers sample_encode
      pre(2) val_a_not_module run, THEN conjunct1, rule_format, OF pre(3) amounts sample_shares, THEN conjunct1, rule_format]
  show ?thesis
    using run r [of val_a] r [of val_b]
    by (intro exI [of _ s']) (simp add: bal_def ref_bal_def sample_tax_sel tax_ledger_def module_names sample_denoms val_a_def val_b_def)
qed

section \<open>A swap\<close>

definition swap_chain :: "ledger treasury_state" where
  "swap_chain = sample_market_with (market_state.more sample_treasury)"

definition swap_cm :: terra_msg where
  "swap_cm = \<lparr>TerraMsg_Swap = Some \<lparr>tsw_OfferCoin = \<lparr>Denom = ''uluna'', Amount = 1000\<rparr>, tsw_AskDenom = ''usdr''\<rparr>, TerraMsg_SwapSend = None\<rparr>"

definition swap_query :: terra_query where
  "swap_query = \<lparr>TerraQuery_Swap = Some (\<lparr>Denom = ''uluna'', Amount = 1000\<rparr>, ''usdr''), TerraQuery_ExchangeRates = None,
     TerraQuery_TaxRate = False, TerraQuery_TaxCap = None\<rparr>"

abbreviation swap_out :: "tx_msg cosmos_msg" where
  "swap_out \<equiv> \<lparr>Custom = Some (Ok swap_cm), wasm_msg = OtherMsg\<rparr>"

lemma sample_contract_swap:
  "\<exists>s'. CustomMessenger_DispatchMsg sdk0 (\<lambda>ctx addr port msg. panic) reverse_ctx val_a [] swap_out swap_chain =
     (Ok [SwapResponse \<lparr>Denom = ''usdr'', Amount = 1960\<rparr> \<lparr>Denom = ''usdr'', Amount = 40\<rparr>], s')"
proof -
  let ?m = "\<lparr>ms_Trader = AccAddress_String sdk0 val_a, ms_OfferCoin = \<lparr>Denom = ''uluna'', Amount = 1000\<rparr>, ms_AskDenom = ''usdr''\<rparr>"
  obtain s' where h: "handleSwapRequest sdk0 val_a val_a \<lparr>Denom = ''uluna'', Amount = 1000\<rparr> ''usdr'' swap_chain
     = (Ok (\<lparr>Denom = ''usdr'', Amount = 1960\<rparr>, \<lparr>Denom = ''usdr'', Amount = 40\<rparr>), s')"
    using sample_swap_run [OF sample_receiver(2), of "market_state.more sample_treasury"] by (elim exE) (rule that, simp only: swap_chain_def)
  have a: "AccAddressFromBech32 sdk0 (AccAddress_String sdk0 val_a) = Ok val_a"
    by (rule addr_laws.AccAddress_roundtrip [OF sdk0_addr]) (simp add: val_a_def address_ok_def)
  have "MsgSwap_ValidateBasic sdk0 ?m = Ok ()"
    using a by (simp add: MsgSwap_ValidateBasic_def swap_coin_check_def longer_than_bits_def wrap_err_def del: sdk0_sel)
  moreover have "Swap sdk0 ?m swap_chain = (Ok (\<lparr>Denom = ''usdr'', Amount = 1960\<rparr>, \<lparr>Denom = ''usdr'', Amount = 40\<rparr>), s')"
    using a h by (simp add: Swap_def del: sdk0_sel)
  ultimately show ?thesis
    by (simp add: CustomMessenger_DispatchMsg_def swap_cm_def PerformSwap_def Let_def seq_case bnd_Ok del: sdk0_sel)
qed

lemma sample_coin_text: "ParseCoinNormalized sdk0 (coin_String wasm0 \<lparr>Denom = ''uluna'', Amount = 1000\<rparr>) = Ok \<lparr>Denom = ''uluna'', Amount = 1000\<rparr>"
proof -
  have "itoa 1000 = ''1000''" by code_simp
  then show ?thesis by (simp add: wasm0_def ref_ParseCoin_def is_digit_def sample_denoms)
qed

theorem contract_swap_as_queried_witness:
  "CustomQuerier wasm0 sdk0 (Ok swap_query) swap_chain =
     (Ok (SwapQueryResponse \<lparr>wc_Denom = ''usdr'', wc_Amount = ''1960''\<rparr>), swap_chain)"
proof -
  have t: "itoa 1960 = ''1960''" by code_simp
  have p: "ValidDenom sdk0 ''usdr''" "TerraMsg_Swap swap_cm = Some \<lparr>tsw_OfferCoin = \<lparr>Denom = ''uluna'', Amount = 1000\<rparr>, tsw_AskDenom = ''usdr''\<rparr>"
    "TerraQuery_Swap swap_query = Some (\<lparr>Denom = ''uluna'', Amount = 1000\<rparr>, ''usdr'')"
    by (simp_all add: sample_denoms swap_cm_def swap_query_def)
  obtain s' where run: "CustomMessenger_DispatchMsg sdk0 (\<lambda>ctx addr port msg. panic) reverse_ctx val_a [] swap_out swap_chain =
     (Ok [SwapResponse \<lparr>Denom = ''usdr'', Amount = 1960\<rparr> \<lparr>Denom = ''usdr'', Amount = 40\<rparr>], s')"
    using sample_contract_swap by (elim exE) (rule that)
  show ?thesis
    using contract_swap_as_queried [OF sdk0_bank sample_coin_text p run]
    by (simp add: ConvertSdkCoinToWasmCoin_def) (simp add: wasm0_def t)
qed

end
