(* ===== verification/Client_Fees.thy ===== *)
theory Client_Fees
  imports Ante_Fee
begin

text \<open>
  How a client computes the fee of a transaction (\<open>custom/auth/client/utils\<close>): the tax of its messages from the rate and
  the caps a node answers with, plus the price of the gas.  What the node answers, the account it knows and the gas a
  simulation uses are parameters.
\<close>

section \<open>Services\<close>

record tx_factory =
  txf_AccountNumber :: int
  txf_Sequence :: int
  txf_Gas :: int
  txf_SimulateAndExecute :: bool
  txf_Fees :: coins
  txf_GasPrices :: dec_coins
  txf_GasAdjustment :: int                                \<comment> \<open>\<open>int64\<close> of the adjustment, a \<open>float64\<close>\<close>

record client_ops =
  client_FromAddress :: string
  client_BurnTaxRate :: "dec outcome"
  client_TaxCap :: "string \<Rightarrow> int outcome"
  EnsureExists :: "string \<Rightarrow> unit outcome"
  GetAccountNumberSequence :: "string \<Rightarrow> (int \<times> int) outcome"
  CalculateGas :: "tx_factory \<Rightarrow> tx_msg list \<Rightarrow> int outcome"

definition queryTaxRate :: "'z client_ops_scheme \<Rightarrow> dec outcome" where
  "queryTaxRate C = client_BurnTaxRate C"

definition queryTaxCap :: "'z client_ops_scheme \<Rightarrow> string \<Rightarrow> int outcome" where
  "queryTaxCap C denom = client_TaxCap C denom"

definition prepareFactory :: "'z client_ops_scheme \<Rightarrow> tx_factory \<Rightarrow> tx_factory outcome" where
  "prepareFactory C txf =
     (let from = client_FromAddress C; initNum = txf_AccountNumber txf; initSeq = txf_Sequence txf in
      obind (EnsureExists C from) (\<lambda>_.
      if initNum = 0 \<or> initSeq = 0
      then obind (GetAccountNumberSequence C from) (\<lambda>(num, seq_no).
           let txf = (if initNum = 0 then txf\<lparr>txf_AccountNumber := num\<rparr> else txf) in
           Ok (if initSeq = 0 then txf\<lparr>txf_Sequence := seq_no\<rparr> else txf))
      else Ok txf))"

section \<open>The tax\<close>

definition client_computeTax :: "'z client_ops_scheme \<Rightarrow> 'y coin_ops_scheme \<Rightarrow> dec \<Rightarrow> coins \<Rightarrow> coins outcome" where
  "client_computeTax C K taxRate principal_coins =
     ofold (\<lambda>coin taxes.
       obind (queryTaxCap C (Denom coin)) (\<lambda>taxCap.
       obind (dec_Mul K (NewDec (Amount coin)) taxRate) (\<lambda>product.
       let taxDue = dec_TruncateInt K product;
           taxDue = (if taxDue > taxCap then taxCap else taxDue) in
       if taxDue = 0 then Ok taxes
       else obind (NewCoin K (Denom coin) taxDue) (\<lambda>c. coins_Add K taxes [c])))) principal_coins []"

definition client_add_tax :: "'z client_ops_scheme \<Rightarrow> 'y coin_ops_scheme \<Rightarrow> dec \<Rightarrow> coins \<Rightarrow> coins \<Rightarrow> coins outcome" where
  "client_add_tax C K taxRate cs taxes = obind (client_computeTax C K taxRate cs) (coins_Add K taxes)"

text \<open>One message, and all of them, from the taxes so far.\<close>

fun client_msg :: "'z client_ops_scheme \<Rightarrow> 'y coin_ops_scheme \<Rightarrow> dec \<Rightarrow> tx_msg \<Rightarrow> coins \<Rightarrow> coins outcome"
  and client_msgs :: "'z client_ops_scheme \<Rightarrow> 'y coin_ops_scheme \<Rightarrow> dec \<Rightarrow> tx_msg list \<Rightarrow> coins \<Rightarrow> coins outcome" where
  "client_msg C K taxRate (MsgSend msg) taxes = client_add_tax C K taxRate (bs_Amount msg) taxes"
| "client_msg C K taxRate (MsgMultiSend msg) taxes =
     ofold (\<lambda>input. client_add_tax C K taxRate (snd input)) (bm_Inputs msg) taxes"
| "client_msg C K taxRate (MsgExec None) taxes = Panic"
| "client_msg C K taxRate (MsgExec (Some messages)) taxes =
     obind (queryTaxRate C) (\<lambda>r. obind (client_msgs C K r messages []) (coins_Add K taxes))"
| "client_msg C K taxRate (MsgSwapSend msg) taxes =
     obind (NewCoins K [mss_OfferCoin msg]) (\<lambda>offer. client_add_tax C K taxRate offer taxes)"
| "client_msg C K taxRate _ taxes = Ok taxes"
| "client_msgs C K taxRate [] taxes = Ok taxes"
| "client_msgs C K taxRate (msg # msgs) taxes = obind (client_msg C K taxRate msg taxes) (client_msgs C K taxRate msgs)"

definition client_FilterMsgAndComputeTax ::
  "'z client_ops_scheme \<Rightarrow> 'y coin_ops_scheme \<Rightarrow> tx_msg list \<Rightarrow> coins outcome" where
  "client_FilterMsgAndComputeTax C K msgs = obind (queryTaxRate C) (\<lambda>taxRate. client_msgs C K taxRate msgs [])"

section \<open>The fee\<close>

definition client_gas :: "'z client_ops_scheme \<Rightarrow> tx_factory \<Rightarrow> tx_msg list \<Rightarrow> int outcome" where
  "client_gas C txf msgs =
     (if txf_SimulateAndExecute txf
      then obind (prepareFactory C txf) (\<lambda>txf. CalculateGas C txf msgs)
      else Ok (txf_Gas txf))"

definition gas_adjustment :: "tx_factory \<Rightarrow> dec" where
  "gas_adjustment txf =
     (let adjustment = NewDecWithPrec (i64 (txf_GasAdjustment txf * 100)) 2 in
      if adjustment < OneDec then OneDec else adjustment)"

definition client_gas_fees :: "'y coin_ops_scheme \<Rightarrow> dec_coins \<Rightarrow> int \<Rightarrow> dec \<Rightarrow> coins outcome" where
  "client_gas_fees K gasPrices gas adjustment =
     ofold (\<lambda>gp gasFees.
       obind (dec_Mul K (Amount gp) (NewDec (i64 gas))) (\<lambda>f.
       obind (dec_Mul K f adjustment) (\<lambda>fee.
       obind (NewCoin K (Denom gp) (dec_RoundInt K (dec_Ceil K fee))) (\<lambda>c.
       Ok (gasFees @ [c]))))) gasPrices []"

text \<open>The amount and the gas of the resulting standard fee.\<close>

definition ComputeFeesWithCmd ::
  "'z client_ops_scheme \<Rightarrow> 'y coin_ops_scheme \<Rightarrow> tx_factory \<Rightarrow> tx_msg list \<Rightarrow> (coins \<times> int) outcome" where
  "ComputeFeesWithCmd C K txf msgs =
     obind (client_gas C txf msgs) (\<lambda>gas.
     obind (client_FilterMsgAndComputeTax C K msgs) (\<lambda>taxes.
     obind (coins_Add K (txf_Fees txf) taxes) (\<lambda>fees.
     if deccoins_IsZero K (txf_GasPrices txf) then Ok (fees, gas)
     else
       obind (client_gas_fees K (txf_GasPrices txf) gas (gas_adjustment txf)) (\<lambda>gasFees.
       obind (coins_Add K fees (coins_Sort K gasFees)) (\<lambda>fees.
       Ok (fees, gas))))))"

section \<open>The tax the client computes\<close>

text \<open>What the chain holds, and what a node that answers from it says.\<close>

definition tax_cap :: "('b, 'x) treasury_state_scheme \<Rightarrow> string \<Rightarrow> int" where
  "tax_cap s d = (case kv_get (GetTaxCapKey d) (TaxCaps s) of None \<Rightarrow> Amount (pc_Cap (tp_TaxPolicy (t_params s))) | Some c \<Rightarrow> c)"

definition answers_from :: "'z client_ops_scheme \<Rightarrow> ('b, 'x) tax_state_scheme \<Rightarrow> bool" where
  "answers_from C s \<longleftrightarrow>
     (\<exists>p r. x_params s = Some p \<and> xp_BurnTaxRate p = Some r \<and> 0 \<le> r \<and> r \<le> OneDec \<and> client_BurnTaxRate C = Ok r) \<and>
     (\<forall>d. client_TaxCap C d = Ok (tax_cap s d) \<and> 0 \<le> tax_cap s d)"

definition due_of :: "('b, 'x) treasury_state_scheme \<Rightarrow> dec \<Rightarrow> coin \<Rightarrow> int" where
  "due_of s r c = min (Amount c * r div OneDec) (tax_cap s (Denom c))"

definition coins_due :: "('b, 'x) treasury_state_scheme \<Rightarrow> dec \<Rightarrow> coins \<Rightarrow> string \<Rightarrow> int" where
  "coins_due s r cs d = sum_list (map (\<lambda>c. if Denom c = d then due_of s r c else 0) cs)"

text \<open>Coins of a message, as message validation leaves them.\<close>

definition sendable :: "'y coin_ops_scheme \<Rightarrow> coins \<Rightarrow> bool" where
  "sendable K cs \<longleftrightarrow> (\<forall>c\<in>set cs. ValidDenom K (Denom c) \<and> 0 \<le> Amount c \<and> Amount c < 2 ^ 253)"

fun sendable_msg :: "'y coin_ops_scheme \<Rightarrow> tx_msg \<Rightarrow> bool" and sendable_msgs :: "'y coin_ops_scheme \<Rightarrow> tx_msg list \<Rightarrow> bool" where
  "sendable_msg K (MsgSend msg) = sendable K (bs_Amount msg)"
| "sendable_msg K (MsgMultiSend msg) = list_all (\<lambda>input. sendable K (snd input)) (bm_Inputs msg)"
| "sendable_msg K (MsgExec None) = False"
| "sendable_msg K (MsgExec (Some messages)) = sendable_msgs K messages"
| "sendable_msg K (MsgSwapSend msg) = sendable K [mss_OfferCoin msg]"
| "sendable_msg K _ = True"
| "sendable_msgs K [] = True"
| "sendable_msgs K (msg # msgs) = (sendable_msg K msg \<and> sendable_msgs K msgs)"

lemma GetTaxCap_run: "GetTaxCap d s = (Ok (tax_cap s d), s)"
  by (simp add: GetTaxCap_def TaxPolicy_def tax_cap_def split: option.split)

lemma tax_product:
  assumes "coin_laws K" "0 \<le> n" "n < 2 ^ 253" "0 \<le> r" "r \<le> OneDec"
  shows "dec_Mul K (NewDec n) r = Ok (n * r)" "dec_TruncateInt K (n * r) = n * r div OneDec" "0 \<le> n * r div OneDec"
proof -
  note D = coin_laws.axioms(1) [OF assms(1)]
  have "n * r \<le> 2 ^ 253 * OneDec" using assms by (intro mult_mono) simp_all
  then have "\<bar>NewDec n * r\<bar> < 2 ^ 314 * OneDec" using assms by (simp add: NewDec_def abs_mult)
  then obtain p where p: "dec_Mul K (NewDec n) r = Ok p" using dec_laws.Mul_total [OF D, of "NewDec n" r] by (cases "dec_Mul K (NewDec n) r") simp_all
  have "p = n * r" by (rule dec_laws.Mul_exact [OF D p]) (simp add: NewDec_def)
  then show "dec_Mul K (NewDec n) r = Ok (n * r)" using p by simp
  have "0 \<le> n * r" using assms by simp
  then show "dec_TruncateInt K (n * r) = n * r div OneDec" "0 \<le> n * r div OneDec"
    using dec_laws.TruncateInt_nonneg [OF D] by (simp_all add: pos_imp_zdiv_nonneg_iff)
qed

lemma client_computeTax_run:
  fixes s :: "('b, 'x) tax_state_scheme"
  assumes C: "coin_laws K" and a: "\<forall>d. client_TaxCap C d = Ok (tax_cap s d) \<and> 0 \<le> tax_cap s d" "0 \<le> r" "r \<le> OneDec"
    and "sendable K cs"
  obtains t where "client_computeTax C K r cs = Ok t" "valid_coins K t" "\<And>d. amt t d = coins_due s r cs d"
proof -
  define f where "f = (\<lambda>(coin :: coin) taxes.
       obind (queryTaxCap C (Denom coin)) (\<lambda>taxCap.
       obind (dec_Mul K (NewDec (Amount coin)) r) (\<lambda>product.
       let taxDue = dec_TruncateInt K product;
           taxDue = (if taxDue > taxCap then taxCap else taxDue) in
       if taxDue = 0 then Ok taxes
       else obind (NewCoin K (Denom coin) taxDue) (\<lambda>c. coins_Add K taxes [c]))))"
  have step: "\<exists>u. f c t = Ok u \<and> valid_coins K u \<and> (\<forall>d. amt u d = amt t d + (if Denom c = d then due_of s r c else 0))"
    if "valid_coins K t" "sendable K [c]" for c t
  proof -
    note v = that(1)
    have c: "ValidDenom K (Denom c)" "0 \<le> Amount c" "Amount c < 2 ^ 253" using that(2) by (auto simp: sendable_def)
    note p = tax_product [OF C c(2,3) a(2,3)]
    have "f c t = (if due_of s r c = 0 then Ok t else obind (NewCoin K (Denom c) (due_of s r c)) (\<lambda>c. coins_Add K t [c]))"
      using a(1) p by (auto simp: f_def queryTaxCap_def due_of_def Let_def min_def)
    moreover have "0 \<le> due_of s r c" using a(1) p(3) by (simp add: due_of_def)
    moreover obtain u where "coins_Add K t [\<lparr>Denom = Denom c, Amount = due_of s r c\<rparr>] = Ok u" "valid_coins K u"
      "\<And>x. amt u x = amt t x + (if Denom c = x then due_of s r c else 0)"
      using coin_laws.Add_coin [OF C v c(1) calculation(2)] by blast
    ultimately show ?thesis using v c(1) by (auto simp: coin_laws.NewCoin_eq [OF C])
  qed
  have "\<exists>u. ofold f cs t = Ok u \<and> valid_coins K u \<and> (\<forall>d. amt u d = amt t d + coins_due s r cs d)"
    if "valid_coins K t" for t
    using \<open>sendable K cs\<close> that
  proof (induction cs arbitrary: t)
    case (Cons c cs)
    obtain u where u: "f c t = Ok u" "valid_coins K u" "\<forall>d. amt u d = amt t d + (if Denom c = d then due_of s r c else 0)"
      using step [of t c] Cons.prems by (auto simp: sendable_def)
    then show ?case using Cons.IH [of u] Cons.prems by (auto simp: sendable_def coins_due_def)
  qed (simp add: coins_due_def)
  from this [OF valid_Nil] show ?thesis using that by (auto simp: client_computeTax_def f_def)
qed

end
