(* ===== verification/Client_Accepted.thy ===== *)
theory Client_Accepted
  imports Client_Fees
begin

text \<open>
  The fee a client computes is enough: the tax it adds is never below the tax the ante handler charges, which knows
  exemptions and denominations free of tax, and the rest pays for the gas, so that the node accepts the fee and charges
  the tax to the sender.
\<close>

section \<open>The tax of the ante handler is covered\<close>

text \<open>A step of the ante handler that adds at most what a step of the client adds.\<close>

definition covers_by ::
  "'y coin_ops_scheme \<Rightarrow> 's \<Rightarrow> (coins \<times> coins \<Rightarrow> ('s, coins \<times> coins) go) \<Rightarrow> (coins \<Rightarrow> coins outcome) \<Rightarrow> (string \<Rightarrow> int) \<Rightarrow> bool" where
  "covers_by K s F G g \<longleftrightarrow> (\<forall>d. 0 \<le> g d) \<and>
     (\<forall>e. valid_coins K e \<longrightarrow> (\<exists>e'. G e = Ok e' \<and> valid_coins K e' \<and> (\<forall>d. amt e' d = amt e d + g d))) \<and>
     (\<forall>t n t' n' s'. valid_coins K t \<longrightarrow> valid_coins K n \<longrightarrow> F (t, n) s = (Ok (t', n'), s') \<longrightarrow>
        s' = s \<and> valid_coins K t' \<and> valid_coins K n' \<and> (\<forall>d. amt t' d \<le> amt t d + g d))"

definition covers ::
  "'y coin_ops_scheme \<Rightarrow> 's \<Rightarrow> (coins \<times> coins \<Rightarrow> ('s, coins \<times> coins) go) \<Rightarrow> (coins \<Rightarrow> coins outcome) \<Rightarrow> bool" where
  "covers K s F G \<longleftrightarrow> (\<exists>g. covers_by K s F G g)"

lemma covers_byD:
  assumes "covers_by K s F G g"
  shows "0 \<le> g d"
    and "valid_coins K e \<Longrightarrow> \<exists>e'. G e = Ok e' \<and> valid_coins K e' \<and> (\<forall>d. amt e' d = amt e d + g d)"
    and "valid_coins K t \<Longrightarrow> valid_coins K n \<Longrightarrow> F (t, n) s = (Ok (t', n'), s') \<Longrightarrow>
        s' = s \<and> valid_coins K t' \<and> valid_coins K n' \<and> (\<forall>d. amt t' d \<le> amt t d + g d)"
proof -
  note c = assms [unfolded covers_by_def]
  show "0 \<le> g d" by (rule c [THEN conjunct1, THEN spec])
  show "valid_coins K e \<Longrightarrow> \<exists>e'. G e = Ok e' \<and> valid_coins K e' \<and> (\<forall>d. amt e' d = amt e d + g d)"
    by (rule c [THEN conjunct2, THEN conjunct1, THEN spec, THEN mp])
  show "valid_coins K t \<Longrightarrow> valid_coins K n \<Longrightarrow> F (t, n) s = (Ok (t', n'), s') \<Longrightarrow>
      s' = s \<and> valid_coins K t' \<and> valid_coins K n' \<and> (\<forall>d. amt t' d \<le> amt t d + g d)"
    by (rule c [THEN conjunct2, THEN conjunct2, THEN spec, THEN spec, THEN spec, THEN spec, THEN spec, THEN mp, THEN mp, THEN mp])
qed

lemma covers_byI:
  assumes "\<And>d. 0 \<le> g d"
    and "\<And>e. valid_coins K e \<Longrightarrow> \<exists>e'. G e = Ok e' \<and> valid_coins K e' \<and> (\<forall>d. amt e' d = amt e d + g d)"
    and "\<And>t n t' n' s'. valid_coins K t \<Longrightarrow> valid_coins K n \<Longrightarrow> F (t, n) s = (Ok (t', n'), s') \<Longrightarrow>
        s' = s \<and> valid_coins K t' \<and> valid_coins K n' \<and> (\<forall>d. amt t' d \<le> amt t d + g d)"
  shows "covers K s F G"
proof -
  have "covers_by K s F G g" unfolding covers_by_def
    by (rule conjI, rule allI, rule assms(1), rule conjI, intro allI impI, rule assms(2), assumption, intro allI impI,
        rule assms(3), assumption+)
  then show ?thesis unfolding covers_def by (rule exI [of _ g])
qed

lemma covers_ret: "covers K s ret Ok"
  by (rule covers_byI [of "\<lambda>d. 0"]) auto

lemma covers_eq:
  assumes "covers K s F' G" "\<And>p. F p s = F' p s"
  shows "covers K s F G"
  using assms(1) unfolding covers_def covers_by_def assms(2) .

lemma covers_bnd:
  assumes "covers K s F G" "covers K s F' G'"
  shows "covers K s (\<lambda>p. bnd (F p) F') (\<lambda>e. obind (G e) G')"
proof -
  obtain g h where gh: "covers_by K s F G g" "covers_by K s F' G' h" using assms unfolding covers_def by blast
  note g = covers_byD [OF gh(1)]
  note h = covers_byD [OF gh(2)]
  show ?thesis
  proof (rule covers_byI [of "\<lambda>d. g d + h d"])
    fix d show "0 \<le> g d + h d" using g(1) [of d] h(1) [of d] by simp
  next
    fix e assume "valid_coins K e"
    then obtain e1 where e1: "G e = Ok e1" "valid_coins K e1" "\<forall>d. amt e1 d = amt e d + g d" using g(2) [of e] by auto
    obtain e2 where "G' e1 = Ok e2" "valid_coins K e2" "\<forall>d. amt e2 d = amt e1 d + h d" using h(2) [OF e1(2)] by auto
    then show "\<exists>e'. obind (G e) G' = Ok e' \<and> valid_coins K e' \<and> (\<forall>d. amt e' d = amt e d + (g d + h d))" using e1 by auto
  next
    fix t n t' n' s' assume v: "valid_coins K t" "valid_coins K n" and "bnd (F (t, n)) F' s = (Ok (t', n'), s')"
    then obtain t1 n1 s1 where r: "F (t, n) s = (Ok (t1, n1), s1)" "F' (t1, n1) s1 = (Ok (t', n'), s')"
      by (auto simp: bnd_run_iff_Ok)
    note one = g(3) [OF v r(1)]
    then have v1: "valid_coins K t1" "valid_coins K n1" and "F' (t1, n1) s = (Ok (t', n'), s')" using r(2) by simp_all
    then have b: "s' = s \<and> valid_coins K t' \<and> valid_coins K n' \<and> (\<forall>d. amt t' d \<le> amt t1 d + h d)" by (rule h(3))
    have "amt t' d \<le> amt t d + (g d + h d)" for d
    proof -
      have "amt t1 d \<le> amt t d + g d" "amt t' d \<le> amt t1 d + h d" using one b by simp_all
      then show ?thesis by linarith
    qed
    then show "s' = s \<and> valid_coins K t' \<and> valid_coins K n' \<and> (\<forall>d. amt t' d \<le> amt t d + (g d + h d))" using b by simp
  qed
qed

lemma due_nonneg: "answers_from C s \<Longrightarrow> 0 \<le> r \<Longrightarrow> 0 \<le> Amount c \<Longrightarrow> 0 \<le> due_of s r c"
  by (simp add: answers_from_def due_of_def pos_imp_zdiv_nonneg_iff)

lemma coins_due_nonneg:
  assumes "answers_from C s" "0 \<le> r" "sendable K cs"
  shows "0 \<le> coins_due s r cs d"
  unfolding coins_due_def
proof (rule sum_list_nonneg)
  fix x assume "x \<in> set (map (\<lambda>c. if Denom c = d then due_of s r c else 0) cs)"
  then show "0 \<le> x" using assms due_nonneg [OF assms(1,2)] by (auto simp: sendable_def)
qed

lemma answers_rate:
  assumes "answers_from C s" "client_BurnTaxRate C = Ok r"
  obtains p where "x_params s = Some p" "xp_BurnTaxRate p = Some r" "0 \<le> r" "r \<le> OneDec"
proof -
  obtain p r' where "x_params s = Some p" "xp_BurnTaxRate p = Some r'" "0 \<le> r'" "r' \<le> OneDec" "client_BurnTaxRate C = Ok r'"
    using assms(1) unfolding answers_from_def by (elim conjE exE)
  then show thesis using that assms(2) by simp
qed

lemma computeTax_le:
  fixes s :: "('b, 'x) tax_state_scheme"
  assumes C: "coin_laws K" and a: "answers_from C s" "client_BurnTaxRate C = Ok r" and cs: "sendable K cs"
    and run: "computeTax A K cs False s = (Ok t, s')"
  shows "amt t d \<le> coins_due s r cs d"
proof -
  obtain p where p: "x_params s = Some p" "xp_BurnTaxRate p = Some r" "0 \<le> r" "r \<le> OneDec"
    by (rule answers_rate [OF a])
  have rate: "bnd GetBurnTaxRate (\<lambda>r. lift (the_dec r)) s = (Ok r, s)"
    unfolding GetBurnTaxRate_def tax_GetParams_def bnd_assoc bnd_ret by (simp add: bnd_def the_dec_def p(1,2))
  note run = run [unfolded computeTax_def bnd_Ok [where m = "bnd GetBurnTaxRate (\<lambda>r. lift (the_dec r))", OF rate]]
  show ?thesis
  proof (cases "r = 0")
    case True
    then have "t = []" using run by simp
    then show ?thesis using coins_due_nonneg [OF a(1) p(3) cs, of d] by simp
  next
    case False
    define F where "F = (\<lambda>(coin :: coin) taxes.
       if Denom coin = DefaultBondDenom A then ret taxes
       else if isIBCDenom (Denom coin) then ret taxes
       else
         bnd (lift (dec_Mul K (NewDec (Amount coin)) r)) (\<lambda>product.
         let taxDue = dec_TruncateInt K product;
             taxDue = (if False \<and> taxDue < 100 then 100 else taxDue) in
         bnd (GetTaxCap (Denom coin)) (\<lambda>taxCap.
         let taxDue = (if taxDue > taxCap then taxCap else taxDue) in
         if taxDue = 0 then ret taxes
         else bnd (lift (NewCoin K (Denom coin) taxDue)) (\<lambda>c. lift (coins_Add K taxes [c])) :: (('b, 'x) tax_state_scheme, coins) go)))"
    have step: "\<exists>u. F c v s = (Ok u, s) \<and> valid_coins K u \<and> (\<forall>d. amt u d \<le> amt v d + (if Denom c = d then due_of s r c else 0))"
      if "valid_coins K v" "sendable K [c]" for c v
    proof -
      note v = that(1)
      have c: "ValidDenom K (Denom c)" "0 \<le> Amount c" "Amount c < 2 ^ 253" using that(2) by (auto simp: sendable_def)
      note q = tax_product [OF C c(2,3) p(3,4)]
      note nn = due_nonneg [OF a(1) p(3) c(2)]
      have "F c v s = (if Denom c = DefaultBondDenom A \<or> isIBCDenom (Denom c) \<or> due_of s r c = 0 then (Ok v, s)
          else bnd (lift (NewCoin K (Denom c) (due_of s r c))) (\<lambda>c. lift (coins_Add K v [c])) s)"
        by (simp add: F_def q bnd_Ok [where m = "GetTaxCap (Denom c)", OF GetTaxCap_run] Let_def due_of_def min_def)
      moreover obtain u where "coins_Add K v [\<lparr>Denom = Denom c, Amount = due_of s r c\<rparr>] = Ok u" "valid_coins K u"
        "\<And>x. amt u x = amt v x + (if Denom c = x then due_of s r c else 0)"
        using coin_laws.Add_coin [OF C v c(1) nn] by blast
      ultimately show ?thesis using nn v c(1) by (auto simp: coin_laws.NewCoin_eq [OF C])
    qed
    have "fold_each cs F v s = (Ok u, s') \<Longrightarrow> valid_coins K v \<Longrightarrow> amt u d \<le> amt v d + coins_due s r cs d" for u v
      using cs
    proof (induction cs arbitrary: v)
      case (Cons c cs)
      obtain w where w: "F c v s = (Ok w, s)" "valid_coins K w" "\<forall>d. amt w d \<le> amt v d + (if Denom c = d then due_of s r c else 0)"
        using step [of v c] Cons.prems by (auto simp: sendable_def)
      have "amt u d \<le> amt w d + coins_due s r cs d"
        using Cons.prems by (intro Cons.IH w(2)) (simp_all add: bnd_Ok [where m = "F c v", OF w(1)] sendable_def)
      then show ?case using w(3) [rule_format, of d] by (simp add: coins_due_def)
    qed (simp add: coins_due_def)
    moreover have "fold_each cs F [] s = (Ok t, s')"
      using run unfolding if_not_P [OF False] F_def .
    ultimately have "amt t d \<le> amt [] d + coins_due s r cs d" using valid_Nil by blast
    then show ?thesis by simp
  qed
qed

lemma covers_tax:
  fixes s :: "('b, 'x) tax_state_scheme"
  assumes L: "coin_laws K" and a: "answers_from C s" "client_BurnTaxRate C = Ok r" and cs: "sendable K cs"
  shows "covers K s (\<lambda>p. bnd (add_tax A K cs False (fst p)) (\<lambda>t. ret (t, snd p))) (client_add_tax C K r cs)"
    and "covers K s ret (client_add_tax C K r cs)"
proof -
  obtain p where p: "x_params s = Some p" "xp_BurnTaxRate p = Some r" "0 \<le> r" "r \<le> OneDec" by (rule answers_rate [OF a])
  have caps: "\<forall>d. client_TaxCap C d = Ok (tax_cap s d) \<and> 0 \<le> tax_cap s d" using a(1) unfolding answers_from_def by (rule conjunct2)
  obtain u where u: "client_computeTax C K r cs = Ok u" "valid_coins K u" "\<forall>d. amt u d = coins_due s r cs d"
    by (rule client_computeTax_run [OF L caps p(3,4) cs]) (simp add: that)
  have g: "\<exists>e'. client_add_tax C K r cs e = Ok e' \<and> valid_coins K e' \<and> (\<forall>d. amt e' d = amt e d + coins_due s r cs d)"
    if "valid_coins K e" for e
    using coin_laws.Add_ok [OF L that u(2)] u by (simp add: client_add_tax_def)
  note nn = coins_due_nonneg [OF a(1) p(3) cs]
  show "covers K s ret (client_add_tax C K r cs)"
    by (rule covers_byI [of "coins_due s r cs", OF nn g]) (simp_all add: nn)
  show "covers K s (\<lambda>p. bnd (add_tax A K cs False (fst p)) (\<lambda>t. ret (t, snd p))) (client_add_tax C K r cs)"
  proof (rule covers_byI [of "coins_due s r cs", OF nn g])
    fix t n t' n' s' assume v: "valid_coins K t" "valid_coins K n"
      and "bnd (add_tax A K cs False (fst (t, n))) (\<lambda>x. ret (x, snd (t, n))) s = (Ok (t', n'), s')"
    then obtain x where x: "computeTax A K cs False s = (Ok x, s')" "coins_Add K t x = Ok t'" "n' = n"
      by (auto simp: add_tax_def bnd_run_iff_Ok)
    note vx = computeTax_valid [OF L x(1)]
    have "s' = s" using reader.unchanged [OF reader_computeTax, of A K cs False s] x(1) by simp
    moreover have "valid_coins K t'" "amt t' d = amt t d + amt x d" for d using coin_laws.Add_Ok [OF L x(2) v(1) vx] by blast+
    moreover have "amt x d \<le> coins_due s r cs d" for d by (rule computeTax_le [OF L a cs x(1)])
    ultimately show "s' = s \<and> valid_coins K t' \<and> valid_coins K n' \<and> (\<forall>d. amt t' d \<le> amt t d + coins_due s r cs d)"
      using v(2) x(3) by simp
  qed
qed

text \<open>A tax that is given back does not count.\<close>

lemma covers_refundable:
  fixes s :: "('b, 'x) tax_state_scheme"
  assumes "coin_laws K"
  shows "covers K s (\<lambda>p. bnd (add_tax A K cs False (snd p)) (\<lambda>t. ret (fst p, t))) Ok"
proof (rule covers_byI [of "\<lambda>d. 0"])
  fix t n t' n' s' assume v: "valid_coins K t" "valid_coins K n"
    and "bnd (add_tax A K cs False (snd (t, n))) (\<lambda>x. ret (fst (t, n), x)) s = (Ok (t', n'), s')"
  then obtain x where x: "computeTax A K cs False s = (Ok x, s')" "coins_Add K n x = Ok n'" "t' = t"
    by (auto simp: add_tax_def bnd_run_iff_Ok)
  have "s' = s" using reader.unchanged [OF reader_computeTax, of A K cs False s] x(1) by simp
  moreover have "valid_coins K n'" using coin_laws.Add_Ok(1) [OF assms x(2) v(2) computeTax_valid [OF assms x(1)]] .
  ultimately show "s' = s \<and> valid_coins K t' \<and> valid_coins K n' \<and> (\<forall>d. amt t' d \<le> amt t d + 0)" using v(1) x(3) by simp
qed simp_all

lemma covers_exempt:
  assumes "covers K s F G" "covers K s ret G"
  shows "covers K s (\<lambda>p. bnd (IsExemptedFromTax x ys) (\<lambda>exempt. if \<not> exempt then F p else ret p)) G"
proof -
  obtain b where b: "IsExemptedFromTax x ys s = (Ok b, s)" using IsExempted_run [of x ys s] by simp
  have "covers K s (\<lambda>p. if \<not> b then F p else ret p) G" using assms by (cases b) simp_all
  then show ?thesis by (rule covers_eq) (simp only: bnd_Ok [where m = "IsExemptedFromTax x ys", OF b])
qed

lemma covers_inputs:
  fixes s :: "('b, 'x) tax_state_scheme"
  assumes L: "coin_laws K" and a: "answers_from C s" "client_BurnTaxRate C = Ok r"
    and "list_all (\<lambda>input. sendable K (snd input)) ins"
  shows "covers K s (\<lambda>p. bnd (fold_each ins (\<lambda>input. add_tax A K (snd input) False) (fst p)) (\<lambda>t. ret (t, snd p)))
      (ofold (\<lambda>input. client_add_tax C K r (snd input)) ins)"
    and "covers K s ret (ofold (\<lambda>input. client_add_tax C K r (snd input)) ins)"
  using assms(4)
proof (induction ins)
  case Nil
  have e: "ofold (\<lambda>input. client_add_tax C K r (snd input)) [] = Ok" by (simp add: fun_eq_iff)
  case 1
  show ?case unfolding e by (rule covers_eq [OF covers_ret]) simp
  case 2
  show ?case unfolding e by (rule covers_ret)
next
  case (Cons i ins)
  have e: "ofold (\<lambda>input. client_add_tax C K r (snd input)) (i # ins) =
      (\<lambda>e. obind (client_add_tax C K r (snd i) e) (ofold (\<lambda>input. client_add_tax C K r (snd input)) ins))"
    by (simp add: fun_eq_iff)
  case 1
  then have c: "covers K s (\<lambda>p. bnd (add_tax A K (snd i) False (fst p)) (\<lambda>t. ret (t, snd p))) (client_add_tax C K r (snd i))"
    by (intro covers_tax(1) [OF L a]) simp
  have ih: "covers K s (\<lambda>p. bnd (fold_each ins (\<lambda>input. add_tax A K (snd input) False) (fst p)) (\<lambda>t. ret (t, snd p)))
      (ofold (\<lambda>input. client_add_tax C K r (snd input)) ins)"
    by (rule Cons.IH(1)) (use 1 in simp)
  show ?case unfolding e
    by (rule covers_eq [OF covers_bnd [OF c ih]]) (simp only: fold_each.simps bnd_assoc bnd_ret fst_conv snd_conv)
  case 2
  have ih: "covers K s ret (ofold (\<lambda>input. client_add_tax C K r (snd input)) ins)" by (rule Cons.IH(2)) (use 2 in simp)
  have c: "covers K s ret (client_add_tax C K r (snd i))" by (rule covers_tax(2) [OF L a]) (use 2 in simp)
  show ?case unfolding e by (rule covers_eq [OF covers_bnd [OF c ih]]) (simp only: bnd_ret)
qed

lemma covers_multi_send:
  fixes s :: "('b, 'x) tax_state_scheme"
  assumes "coin_laws K" "answers_from C s" "client_BurnTaxRate C = Ok r"
    and "list_all (\<lambda>input. sendable K (snd input)) (bm_Inputs msg)"
  shows "covers K s (\<lambda>p. bnd (multi_send_tax A K msg False (fst p)) (\<lambda>t. ret (t, snd p)))
      (ofold (\<lambda>input. client_add_tax C K r (snd input)) (bm_Inputs msg))"
proof -
  define g :: "(('b, 'x) tax_state_scheme, int) go" where "g = fold_each (bm_Inputs msg) (\<lambda>input tainted.
            bnd (IsExemptedFromTax (fst input) (map fst (bm_Outputs msg))) (\<lambda>exempt.
            ret (if exempt then tainted + 1 else tainted))) 0"
  have "\<exists>n. fold_each ins (\<lambda>input tainted.
            bnd (IsExemptedFromTax (fst input) ys) (\<lambda>exempt. ret (if exempt then tainted + 1 else tainted))) c s = (Ok n, s)"
    for ins :: "(string \<times> coins) list" and ys and c :: int
    by (induction ins arbitrary: c) (simp_all add: IsExempted_run bnd_def)
  then obtain n where n: "g s = (Ok n, s)" unfolding g_def by blast
  have run: "bnd (multi_send_tax A K msg False (fst p)) (\<lambda>t. ret (t, snd p)) s = (if n \<noteq> int (length (bm_Inputs msg))
        then bnd (fold_each (bm_Inputs msg) (\<lambda>input. add_tax A K (snd input) False) (fst p)) (\<lambda>t. ret (t, snd p))
        else ret p) s" for p :: "coins \<times> coins"
    unfolding multi_send_tax_def g_def [symmetric] bnd_assoc bnd_Ok [where m = g, OF n]
    by (cases "n = int (length (bm_Inputs msg))") (simp_all only: bnd_ret if_True if_False simp_thms prod.collapse)
  have "covers K s (\<lambda>p. if n \<noteq> int (length (bm_Inputs msg))
        then bnd (fold_each (bm_Inputs msg) (\<lambda>input. add_tax A K (snd input) False) (fst p)) (\<lambda>t. ret (t, snd p))
        else ret p) (ofold (\<lambda>input. client_add_tax C K r (snd input)) (bm_Inputs msg))"
    using covers_inputs [OF assms] by (cases "n = int (length (bm_Inputs msg))") simp_all
  then show ?thesis by (rule covers_eq) (simp only: run)
qed

lemma covers_exec:
  fixes s :: "('b, 'x) tax_state_scheme"
  assumes L: "coin_laws K" and r: "client_BurnTaxRate C = Ok r"
    and "covers K s (filter_msgs A K False ms) (client_msgs C K r ms)"
  shows "covers K s (filter_msg A K False (MsgExec (Some ms))) (client_msg C K r (MsgExec (Some ms)))"
proof -
  obtain g where "covers_by K s (filter_msgs A K False ms) (client_msgs C K r ms) g" using assms(3) unfolding covers_def by blast
  note g = covers_byD [OF this]
  obtain e0 where e0: "client_msgs C K r ms [] = Ok e0" "valid_coins K e0" "\<forall>d. amt e0 d = amt [] d + g d"
    using g(2) [OF valid_Nil] by (elim exE conjE) (rule that)
  show ?thesis
  proof (rule covers_byI [of g, OF g(1)])
    fix e assume "valid_coins K e"
    from coin_laws.Add_ok [OF L this e0(2)] e0
    show "\<exists>e'. client_msg C K r (MsgExec (Some ms)) e = Ok e' \<and> valid_coins K e' \<and> (\<forall>d. amt e' d = amt e d + g d)"
      by (simp add: queryTaxRate_def r)
  next
    fix t n t' n' s' assume v: "valid_coins K t" "valid_coins K n"
      and "filter_msg A K False (MsgExec (Some ms)) (t, n) s = (Ok (t', n'), s')"
    then obtain x y where x: "filter_msgs A K False ms ([], []) s = (Ok (x, y), s')" "coins_Add K t x = Ok t'" "coins_Add K n y = Ok n'"
      by (auto simp: bnd_run_iff_Ok)
    note vx = g(3) [OF valid_Nil valid_Nil x(1)]
    have "valid_coins K t'" "valid_coins K n'" "\<forall>d. amt t' d = amt t d + amt x d"
      using coin_laws.Add_Ok [OF L x(2) v(1)] coin_laws.Add_Ok [OF L x(3) v(2)] vx by simp_all
    then show "s' = s \<and> valid_coins K t' \<and> valid_coins K n' \<and> (\<forall>d. amt t' d \<le> amt t d + g d)" using vx by simp
  qed
qed

lemma client_msg_rest:
  "client_msg C K r (MsgInstantiateContract f) = Ok" "client_msg C K r (MsgInstantiateContract2 f) = Ok"
  "client_msg C K r (MsgExecuteContract x y f) = Ok" "client_msg C K r (MsgAggregateExchangeRatePrevote p) = Ok"
  "client_msg C K r (MsgAggregateExchangeRateVote v) = Ok" "client_msg C K r (MsgSubmitProposalV1Beta1 cs) = Ok"
  "client_msg C K r (MsgSubmitProposalV1 cs) = Ok" "client_msg C K r (MsgTransfer x y) = Ok"
  "client_msg C K r (MsgRecvPacket q) = Ok" "client_msg C K r (MsgCreateValidator x z) = Ok"
  "client_msg C K r (MsgEditValidator x ro) = Ok" "client_msg C K r OtherMsg = Ok"
  by (simp_all only: fun_eq_iff client_msg.simps simp_thms)

lemma client_msg_eqs:
  "client_msg C K r (MsgSend msg) = client_add_tax C K r (bs_Amount msg)"
  "client_msg C K r (MsgMultiSend mm) = ofold (\<lambda>input. client_add_tax C K r (snd input)) (bm_Inputs mm)"
  by (simp_all only: fun_eq_iff client_msg.simps simp_thms)

lemma covers_swap_send:
  fixes s :: "('b, 'x) tax_state_scheme"
  assumes L: "coin_laws K" and a: "answers_from C s" "client_BurnTaxRate C = Ok r" and c: "sendable K [mss_OfferCoin sw]"
  shows "covers K s (filter_msg A K False (MsgSwapSend sw)) (client_msg C K r (MsgSwapSend sw))"
proof -
  have d: "distinct (map Denom [mss_OfferCoin sw])" "\<forall>c\<in>set [mss_OfferCoin sw]. ValidDenom K (Denom c) \<and> 0 \<le> Amount c"
    using c by (simp_all add: sendable_def)
  obtain offer where o: "NewCoins K [mss_OfferCoin sw] = Ok offer" "valid_coins K offer" "\<forall>d. amt offer d = amt [mss_OfferCoin sw] d"
    using coin_laws.NewCoins_ok [OF L d] by (elim exE conjE) (rule that)
  have "sendable K offer"
    unfolding sendable_def
  proof
    fix x assume x: "x \<in> set offer"
    then have "amt offer (Denom x) = Amount x" "ValidDenom K (Denom x)" "0 < Amount x" using o(2) amt_in by (auto simp: valid_coins_def coins_ok_def)
    then show "ValidDenom K (Denom x) \<and> 0 \<le> Amount x \<and> Amount x < 2 ^ 253"
      using o(3) c by (auto simp: sendable_def split: if_splits)
  qed
  note c = covers_tax(1) [OF L a this, of A]
  have e: "client_msg C K r (MsgSwapSend sw) = client_add_tax C K r offer" by (simp add: fun_eq_iff o(1))
  show ?thesis unfolding filter_msg_eqs e by (rule covers_eq [OF c]) (simp add: o(1))
qed

lemma covers_filter:
  fixes s :: "('b, 'x) tax_state_scheme"
  assumes L: "coin_laws K" and a: "answers_from C s" "client_BurnTaxRate C = Ok r"
  shows "sendable_msg K m \<Longrightarrow> covers K s (filter_msg A K False m) (client_msg C K r m)"
    and "sendable_msgs K ms \<Longrightarrow> covers K s (filter_msgs A K False ms) (client_msgs C K r ms)"
proof (induction m and ms rule: flat_msg_flat_msgs.induct)
  case (1 ms)
  then show ?case by (intro covers_exec [OF L a(2)]) simp
next
  case (2)
  then show ?case by simp
next
  case (4)
  have e: "client_msgs C K r [] = Ok" by (simp only: fun_eq_iff client_msgs.simps simp_thms)
  show ?case unfolding e by (rule covers_eq [OF covers_ret]) (simp only: filter_msgs.simps)
next
  case (5 m ms)
  have e: "client_msgs C K r (m # ms) = (\<lambda>e. obind (client_msg C K r m e) (client_msgs C K r ms))"
    "filter_msgs A K False (m # ms) = (\<lambda>p. bnd (filter_msg A K False m p) (filter_msgs A K False ms))"
    by (simp_all only: fun_eq_iff filter_msgs.simps client_msgs.simps simp_thms)
  have "sendable_msg K m" "sendable_msgs K ms" using "5.prems" by simp_all
  then show ?case unfolding e by (intro covers_bnd "5.IH")
qed (simp_all only: filter_msg_eqs filter_msg_ret client_msg_rest client_msg_eqs sendable_msg.simps,
    (intro covers_ret covers_exempt covers_tax [OF L a] covers_multi_send [OF L a] covers_refundable [OF L] covers_swap_send [OF L a, unfolded filter_msg_eqs] | assumption)+)

section \<open>The gas is paid\<close>

text \<open>Gas prices as the node publishes them, and the sizes that occur.\<close>

definition prices_ok :: "'y coin_ops_scheme \<Rightarrow> dec_coins \<Rightarrow> bool" where
  "prices_ok K ps \<longleftrightarrow> sorted_wrt (<) (map Denom ps) \<and> (\<forall>p\<in>set ps. ValidDenom K (Denom p) \<and> 0 \<le> Amount p \<and> Amount p < 2 ^ 200)"

definition ceil_units :: "dec \<Rightarrow> int" where
  "ceil_units a = - ((- a) div OneDec)"

definition gas_coins :: "dec_coins \<Rightarrow> int \<Rightarrow> coins" where
  "gas_coins ps n = map (\<lambda>p. \<lparr>Denom = Denom p, Amount = ceil_units (Amount p * n)\<rparr>) ps"

lemma amt_all_nonneg: "\<forall>c\<in>set cs. 0 \<le> Amount c \<Longrightarrow> 0 \<le> amt cs d"
  by (induction cs) simp_all

lemma ceil_units_mono: "a \<le> b \<Longrightarrow> ceil_units a \<le> ceil_units b"
  by (simp add: ceil_units_def zdiv_mono1)

lemma ceil_units_pos: "0 < a \<Longrightarrow> 0 < ceil_units a"
  unfolding ceil_units_def using div_neg_pos_less0 [of "- a" OneDec] by simp

lemma ceil_units_nonneg: "0 \<le> a \<Longrightarrow> 0 \<le> ceil_units a"
  using ceil_units_pos [of a] by (cases "a = 0") (auto simp: ceil_units_def)

lemma price_bounds:
  fixes a gas k :: int
  assumes "0 \<le> a" "a < 2 ^ 200" "0 < gas" "gas < 2 ^ 63" "1 \<le> k" "k \<le> 1000"
  shows "0 \<le> a * gas" "\<bar>a * gas\<bar> < 2 ^ 314" "0 \<le> a * gas * k" "\<bar>a * gas * k\<bar> < 2 ^ 314" "a * gas \<le> a * gas * k"
proof -
  show z: "0 \<le> a * gas" using assms by simp
  have le: "a * gas \<le> 2 ^ 200 * 2 ^ 63" using assms by (intro mult_mono) simp_all
  then show "\<bar>a * gas\<bar> < 2 ^ 314" using z by simp
  have "a * gas * k \<le> 2 ^ 200 * 2 ^ 63 * 1000" using le z assms by (intro mult_mono) simp_all
  then show "\<bar>a * gas * k\<bar> < 2 ^ 314" using z assms by simp
  show "0 \<le> a * gas * k" using z assms by simp
  show "a * gas \<le> a * gas * k" using mult_left_mono [OF assms(5) z] by simp
qed

context coin_laws
begin

lemma Mul_units:
  assumes "\<bar>a * n\<bar> < 2 ^ 314"
  shows "dec_Mul K a (n * OneDec) = Ok (a * n)"
proof -
  have "\<bar>a * (n * OneDec)\<bar> = \<bar>a * n\<bar> * OneDec" by (simp add: abs_mult)
  then have "\<bar>a * (n * OneDec)\<bar> < 2 ^ 314 * OneDec" using assms by simp
  then obtain p where p: "dec_Mul K a (n * OneDec) = Ok p"
    using Mul_total [of a "n * OneDec"] by (cases "dec_Mul K a (n * OneDec)") simp_all
  have "p = a * n" by (rule Mul_exact [OF p]) simp
  then show ?thesis using p by simp
qed

lemma gas_coin:
  assumes "ValidDenom K d" "0 \<le> a"
  shows "NewCoin K d (dec_RoundInt K (dec_Ceil K a)) = Ok \<lparr>Denom = d, Amount = ceil_units a\<rparr>"
proof -
  have "dec_Ceil K a = NewDec (ceil_units a)" by (simp add: Ceil_eq ceil_units_def NewDec_def)
  then show ?thesis using assms ceil_units_nonneg [of a] by (simp add: NewCoin_eq)
qed

lemma min_gas_fees_run:
  assumes "prices_ok K ps" "0 < gas" "gas < 2 ^ 63" "\<not> deccoins_IsZero K ps"
  shows "min_gas_fees K ps gas = Ok (gas_coins ps gas)"
proof -
  have "ofold (\<lambda>gasPrice fees.
             obind (dec_Mul K (Amount gasPrice) (NewDec (i64 gas))) (\<lambda>fee.
             obind (NewCoin K (Denom gasPrice) (dec_RoundInt K (dec_Ceil K fee))) (\<lambda>c. Ok (fees @ [c])))) qs acc = Ok (acc @ gas_coins qs gas)"
    if "\<forall>p\<in>set qs. ValidDenom K (Denom p) \<and> 0 \<le> Amount p \<and> Amount p < 2 ^ 200" for qs :: coins and acc
    using that
  proof (induction qs arbitrary: acc)
    case (Cons q qs)
    have q: "ValidDenom K (Denom q)" "0 \<le> Amount q" "Amount q < 2 ^ 200" using Cons.prems by simp_all
    note b = price_bounds [OF q(2,3) assms(2,3), of 1]
    have "i64 gas = gas" using assms(2,3) by (intro i64_idem) (simp add: in_i64_def)
    then show ?case using Cons b Mul_units [of "Amount q" gas] gas_coin [OF q(1)] by (simp add: NewDec_def gas_coins_def)
  qed (simp add: gas_coins_def)
  from this [of ps "[]"] show ?thesis using assms(1,4) by (simp add: min_gas_fees_def prices_ok_def)
qed

lemma client_gas_fees_run:
  assumes "prices_ok K ps" "0 < gas" "gas < 2 ^ 63" "1 \<le> k" "k \<le> 1000"
  shows "client_gas_fees K ps gas (k * OneDec) = Ok (gas_coins ps (gas * k))"
proof -
  have "ofold (\<lambda>gp gasFees.
       obind (dec_Mul K (Amount gp) (NewDec (i64 gas))) (\<lambda>f.
       obind (dec_Mul K f (k * OneDec)) (\<lambda>fee.
       obind (NewCoin K (Denom gp) (dec_RoundInt K (dec_Ceil K fee))) (\<lambda>c.
       Ok (gasFees @ [c]))))) qs acc = Ok (acc @ gas_coins qs (gas * k))"
    if "\<forall>p\<in>set qs. ValidDenom K (Denom p) \<and> 0 \<le> Amount p \<and> Amount p < 2 ^ 200" for qs :: coins and acc
    using that
  proof (induction qs arbitrary: acc)
    case (Cons q qs)
    have q: "ValidDenom K (Denom q)" "0 \<le> Amount q" "Amount q < 2 ^ 200" using Cons.prems by simp_all
    note b = price_bounds [OF q(2,3) assms(2-5)]
    have "i64 gas = gas" using assms(2,3) by (intro i64_idem) (simp add: in_i64_def)
    then show ?case using Cons b Mul_units [of "Amount q" gas] Mul_units [of "Amount q * gas" k] gas_coin [OF q(1)]
      by (simp add: NewDec_def gas_coins_def mult.assoc)
  qed (simp add: gas_coins_def)
  from this [of ps "[]"] show ?thesis using assms(1) by (simp add: client_gas_fees_def prices_ok_def)
qed

end

section \<open>The fee is accepted\<close>

lemma priority_total: "gas \<noteq> 0 \<Longrightarrow> \<exists>pr. getTxPriority fee gas = Ok pr"
proof -
  assume "gas \<noteq> 0"
  then have "\<exists>r. getTxPriority fee gas = Ok r \<and> True" unfolding getTxPriority_def by (intro ofold_total) (simp_all add: Let_def)
  then show ?thesis by blast
qed

context coin_laws
begin

lemma charge_accepts:
  assumes v: "valid_coins K fees" "valid_coins K taxes" and le: "\<forall>d. amt taxes d \<le> amt fees d"
    and gas: "\<And>rest. valid_coins K rest \<Longrightarrow> \<forall>d. amt rest d = amt fees d - amt taxes d \<Longrightarrow> gas_covered K req rest"
  obtains rest where "charge_taxes K req fees taxes = Ok (rest, False)" "valid_coins K rest" "gas_covered K req rest"
proof (cases "taxes = []")
  case True
  then show ?thesis using that [of fees] v gas [of fees] by (simp add: charge_taxes_def IsZero_all)
next
  case False
  obtain rest where r: "coins_Sub K fees taxes = Ok rest" "valid_coins K rest" "\<forall>d. amt rest d = amt fees d - amt taxes d"
    using Sub_ok [OF v le] by (elim exE conjE) (rule that)
  have "coins_IsAllGTE K fees taxes" using IsAllGTE_iff [OF v] le by simp
  then show ?thesis using that [of rest] r gas [OF r(2,3)] False IsZero_iff [OF v(2)] by (simp add: charge_taxes_def)
qed

lemma refund_accepts:
  assumes "valid_coins K rest" "valid_coins K non" "gas_covered K req rest"
  obtains rest' refund where "refund_taxes K req rest non = Ok (rest', refund)" "gas_covered K req rest'"
proof (cases "\<not> coins_IsZero K non \<and> coins_IsAllGTE K rest non")
  case True
  then obtain x where "coins_Sub K rest non = Ok x" using Sub_parts [OF assms(1,2)] by blast
  then show ?thesis using that True assms(3) by (cases "gas_covered K req x") (auto simp: refund_taxes_def)
next
  case False
  then show ?thesis using that [of rest False] assms(3) by (auto simp: refund_taxes_def)
qed

lemma amt_gas_coins:
  assumes "prices_ok K ps" "p \<in> set ps"
  shows "amt (gas_coins ps n) (Denom p) = ceil_units (Amount p * n)"
proof -
  have "amt (gas_coins qs n) (Denom p) = ceil_units (Amount p * n)" if "distinct (map Denom qs)" "p \<in> set qs" for qs
    using that
  proof (induction qs)
    case (Cons q qs)
    have "amt (gas_coins qs n) (Denom q) = 0" using Cons.prems by (intro amt_notin) (auto simp: gas_coins_def)
    then show ?case using Cons by (cases "p = q") (auto simp: gas_coins_def)
  qed simp
  then show ?thesis using assms by (simp add: prices_ok_def strict_sorted_iff)
qed

lemma gas_coins_sorted: "prices_ok K ps \<Longrightarrow> 0 \<le> n \<Longrightarrow> sorted_wrt (<) (map Denom (gas_coins ps n)) \<and>
    (\<forall>c\<in>set (gas_coins ps n). ValidDenom K (Denom c) \<and> 0 \<le> Amount c)"
  by (auto simp: prices_ok_def gas_coins_def comp_def ceil_units_nonneg)

lemma gas_is_covered:
  assumes ps: "prices_ok K ps" "\<not> deccoins_IsZero K ps" and n: "0 < n" "n \<le> n'"
    and rest: "valid_coins K rest" "\<forall>d. amt (gas_coins ps n') d \<le> amt rest d"
  shows "gas_covered K (gas_coins ps n) rest"
proof -
  obtain p where p: "p \<in> set ps" "0 < Amount p" using ps by (force simp: DecIsZero_all prices_ok_def)
  have "ceil_units (Amount p * n) \<le> ceil_units (Amount p * n')" using p(2) n(2) by (intro ceil_units_mono mult_left_mono) simp_all
  then have "amt (gas_coins ps n) (Denom p) \<le> amt rest (Denom p)"
    using rest(2) [rule_format, of "Denom p"] by (simp add: amt_gas_coins [OF ps(1) p(1)])
  moreover have "0 < amt (gas_coins ps n) (Denom p)" using p(2) n(1) by (simp add: amt_gas_coins [OF ps(1) p(1)] ceil_units_pos)
  moreover have "sorted_wrt (<) (map Denom (gas_coins ps n))" "\<forall>c\<in>set (gas_coins ps n). 0 \<le> Amount c"
    using gas_coins_sorted [OF ps(1), of n] n(1) by auto
  ultimately have "coins_IsAnyGTE K rest (gas_coins ps n)" using IsAnyGTE_iff [OF rest(1)] by blast
  then show ?thesis by (simp add: gas_covered_def)
qed

text \<open>Adding the gas fees in their sorted order.\<close>

lemma add_gas_coins:
  assumes "valid_coins K fees" "prices_ok K ps" "0 \<le> n"
  obtains r where "coins_Add K fees (coins_Sort K (gas_coins ps n)) = Ok r" "valid_coins K r"
    "\<forall>d. amt r d = amt fees d + amt (gas_coins ps n) d"
proof -
  note g = gas_coins_sorted [OF assms(2,3)]
  let ?s = "coins_Sort K (gas_coins ps n)"
  have m: "mset ?s = mset (gas_coins ps n)" by (rule Sort_mset)
  then have "mset (map Denom ?s) = mset (map Denom (gas_coins ps n))" by simp
  from mset_eq_imp_distinct_iff [OF this] have "distinct (map Denom ?s)" using g by (simp add: strict_sorted_iff)
  then have "sorted_wrt (<) (map Denom ?s)" using Sort_sorted by (simp add: strict_sorted_iff)
  moreover have "\<forall>c\<in>set ?s. ValidDenom K (Denom c) \<and> 0 \<le> Amount c" using g mset_eq_setD [OF m] by simp
  ultimately have "\<exists>r. coins_Add K fees ?s = Ok r \<and> valid_coins K r \<and> (\<forall>d. amt r d = amt fees d + amt ?s d)"
    by (rule Add_nonneg [OF assms(1)])
  then obtain r where "coins_Add K fees ?s = Ok r" "valid_coins K r" "\<forall>d. amt r d = amt fees d + amt ?s d" by blast
  then show ?thesis using that [of r] amt_mset [OF m] by simp
qed

end

text \<open>The options of a client: its prices are those of the node, and the adjustment stays in a sane range.\<close>

definition factory_ok :: "'y coin_ops_scheme \<Rightarrow> tx_factory \<Rightarrow> bool" where
  "factory_ok K txf \<longleftrightarrow> valid_coins K (txf_Fees txf) \<and> prices_ok K (txf_GasPrices txf) \<and>
     0 \<le> txf_GasAdjustment txf \<and> txf_GasAdjustment txf \<le> 1000"

lemma gas_adjustment_units:
  assumes "factory_ok K txf"
  obtains k where "gas_adjustment txf = k * OneDec" "1 \<le> k" "k \<le> 1000"
proof -
  have r: "0 \<le> txf_GasAdjustment txf" "txf_GasAdjustment txf \<le> 1000" using assms by (simp_all add: factory_ok_def)
  then have "i64 (txf_GasAdjustment txf * 100) = txf_GasAdjustment txf * 100" by (intro i64_idem) (simp add: in_i64_def)
  then have "gas_adjustment txf = max 1 (txf_GasAdjustment txf) * OneDec"
    by (simp add: gas_adjustment_def NewDecWithPrec_def max_def)
  then show ?thesis using r that [of "max 1 (txf_GasAdjustment txf)"] by simp
qed

text \<open>What the client computes: the fee covers the taxes and, on top, the gas at the node's prices.\<close>

lemma client_fee_run:
  fixes s :: "('b, 'x) tax_state_scheme"
  assumes L: "coin_laws K" and a: "answers_from C s" "sendable_msgs K msgs" "factory_ok K txf"
    and gas: "client_gas C txf msgs = Ok gas" "0 < gas" "gas < 2 ^ 63"
    and f: "FilterMsgAndComputeTax A K False msgs s = (Ok (taxes, non), s)"
  obtains fees n where "ComputeFeesWithCmd C K txf msgs = Ok (fees, gas)" "valid_coins K fees" "gas \<le> n"
    "\<forall>d. amt taxes d \<le> amt fees d"
    "\<forall>d. \<not> deccoins_IsZero K (txf_GasPrices txf) \<longrightarrow> amt taxes d + amt (gas_coins (txf_GasPrices txf) n) d \<le> amt fees d"
proof -
  obtain r where r: "client_BurnTaxRate C = Ok r" using a(1) unfolding answers_from_def by (elim conjE exE)
  from covers_filter(2) [OF L a(1) r a(2), of A] obtain g where "covers_by K s (filter_msgs A K False msgs) (client_msgs C K r msgs) g"
    unfolding covers_def by blast
  note g = covers_byD [OF this]
  obtain est where est: "client_msgs C K r msgs [] = Ok est" "valid_coins K est" "\<forall>d. amt est d = amt [] d + g d"
    using g(2) [OF valid_Nil] by (elim exE conjE) (rule that)
  have tx: "amt taxes d \<le> amt est d" for d
    using g(3) [OF valid_Nil valid_Nil f [unfolded FilterMsgAndComputeTax_def]] est(3) by simp
  have vf: "valid_coins K (txf_Fees txf)" and ps: "prices_ok K (txf_GasPrices txf)" using a(3) by (simp_all add: factory_ok_def)
  obtain fees1 where f1: "coins_Add K (txf_Fees txf) est = Ok fees1" "valid_coins K fees1" "\<forall>d. amt fees1 d = amt (txf_Fees txf) d + amt est d"
    using coin_laws.Add_ok [OF L vf est(2)] by (elim exE conjE) (rule that)
  have le: "\<forall>d. amt taxes d \<le> amt fees1 d" using f1(3) tx coin_laws.valid_coins_nonneg [OF L vf] by (simp add: add_increasing)
  have run: "ComputeFeesWithCmd C K txf msgs = (if deccoins_IsZero K (txf_GasPrices txf) then Ok (fees1, gas)
     else
       obind (client_gas_fees K (txf_GasPrices txf) gas (gas_adjustment txf)) (\<lambda>gasFees.
       obind (coins_Add K fees1 (coins_Sort K gasFees)) (\<lambda>fees.
       Ok (fees, gas))))"
    by (simp add: ComputeFeesWithCmd_def gas(1) client_FilterMsgAndComputeTax_def queryTaxRate_def r est(1) f1(1))
  show ?thesis
  proof (cases "deccoins_IsZero K (txf_GasPrices txf)")
    case True
    then show ?thesis using that [of fees1 gas] run f1(2) le by simp
  next
    case False
    obtain k where k: "gas_adjustment txf = k * OneDec" "1 \<le> k" "k \<le> 1000" by (rule gas_adjustment_units [OF a(3)])
    have n: "gas \<le> gas * k" "0 \<le> gas * k" using mult_left_mono [OF k(2), of gas] gas(2) k(2) by simp_all
    obtain fees where fe: "coins_Add K fees1 (coins_Sort K (gas_coins (txf_GasPrices txf) (gas * k))) = Ok fees" "valid_coins K fees"
      "\<forall>d. amt fees d = amt fees1 d + amt (gas_coins (txf_GasPrices txf) (gas * k)) d"
      by (rule coin_laws.add_gas_coins [OF L f1(2) ps n(2)])
    have nn: "0 \<le> amt (gas_coins (txf_GasPrices txf) (gas * k)) d" for d
      using coin_laws.gas_coins_sorted [OF L ps n(2)] by (intro amt_all_nonneg) blast
    have "ComputeFeesWithCmd C K txf msgs = Ok (fees, gas)"
      using run False fe(1) by (simp add: k(1) coin_laws.client_gas_fees_run [OF L ps gas(2,3) k(2,3)])
    then show ?thesis using that [of fees "gas * k"] fe le n(1) nn by (simp add: add_mono add_increasing2)
  qed
qed

text \<open>C16. The fee a client computes is accepted and pays the tax up front: if the node answers its queries from the state
  the transaction is checked in and the client offers the node's gas prices, then computing the fee succeeds, and the
  check of a transaction with these messages, this fee and this gas passes without shifting the tax to the recipients.\<close>

theorem client_fee_accepted:
  fixes s :: "('b, 'x) tax_state_scheme"
  assumes "coin_laws K" "answers_from C s" "sendable_msgs K msgs" "factory_ok K txf"
    and "client_gas C txf msgs = Ok gas" "0 < gas" "gas < 2 ^ 63"
    and "GetEffectiveGasPrices K ctx s = (Ok (txf_GasPrices txf), s)"
    and "FilterMsgAndComputeTax A K False msgs s = (Ok (taxes, non), s)"
  shows "\<exists>fees. ComputeFeesWithCmd C K txf msgs = Ok (fees, gas) \<and>
     (\<forall>tx. tx_Msgs tx = msgs \<longrightarrow> tx_Fee tx = fees \<longrightarrow> tx_Gas tx = gas \<longrightarrow>
        (\<exists>priority refund. checkTxFee K ctx tx taxes non s = (Ok (priority, False, refund), s)))"
proof -
  note L = assms(1)
  have ps: "prices_ok K (txf_GasPrices txf)" using assms(4) by (simp add: factory_ok_def)
  obtain fees n where fees: "ComputeFeesWithCmd C K txf msgs = Ok (fees, gas)" "valid_coins K fees" "gas \<le> n"
    and le: "\<forall>d. amt taxes d \<le> amt fees d"
    and more: "\<forall>d. \<not> deccoins_IsZero K (txf_GasPrices txf) \<longrightarrow> amt taxes d + amt (gas_coins (txf_GasPrices txf) n) d \<le> amt fees d"
    by (rule client_fee_run [OF assms(1-7,9)])
  note v = filter_Ok(2,3) [OF L assms(9)]
  obtain req where req: "min_gas_fees K (txf_GasPrices txf) gas = Ok req"
    and cov: "\<And>rest. valid_coins K rest \<Longrightarrow> \<forall>d. amt rest d = amt fees d - amt taxes d \<Longrightarrow> gas_covered K req rest"
  proof (cases "deccoins_IsZero K (txf_GasPrices txf)")
    case True
    then show ?thesis using that [of "[]"] by (simp add: min_gas_fees_def gas_covered_def coin_laws.IsZero_all [OF L])
  next
    case False
    have "gas_covered K (gas_coins (txf_GasPrices txf) gas) rest"
      if "valid_coins K rest" "\<forall>d. amt rest d = amt fees d - amt taxes d" for rest
      using more False that
      by (intro coin_laws.gas_is_covered [OF L ps False assms(6) fees(3)]) (simp_all add: le_diff_eq add.commute)
    then show ?thesis using that coin_laws.min_gas_fees_run [OF L ps assms(6,7) False] by blast
  qed
  obtain rest where rest: "charge_taxes K req fees taxes = Ok (rest, False)" "valid_coins K rest" "gas_covered K req rest"
    by (rule coin_laws.charge_accepts [OF L fees(2) v(1) le cov])
  obtain rest' refund where ref: "refund_taxes K req rest non = Ok (rest', refund)" "gas_covered K req rest'"
    by (rule coin_laws.refund_accepts [OF L rest(2) v(2) rest(3)])
  have "i64 gas = gas" using assms(6,7) by (intro i64_idem) (simp add: in_i64_def)
  then obtain pr where pr: "getTxPriority fees (i64 gas) = Ok pr" using priority_total [of gas fees] assms(6) by auto
  have "\<exists>priority refund. checkTxFee K ctx tx taxes non s = (Ok (priority, False, refund), s)"
    if "tx_Msgs tx = msgs" "tx_Fee tx = fees" "tx_Gas tx = gas" for tx
    by (cases refund) (simp_all add: checkTxFee_def that bnd_Ok [where m = "GetEffectiveGasPrices K ctx", OF assms(8)] req rest(1) ref pr ex_bool_eq)
  then show ?thesis using fees(1) by blast
qed

end
