(* ===== verification/Client_Sample.thy ===== *)
theory Client_Sample
  imports Client_Accepted Ante_Sample
begin

text \<open>A client that asks a node of the sample chain and pays its gas price.\<close>

definition client0 :: client_ops where
  "client0 = \<lparr>client_FromAddress = val_a, client_BurnTaxRate = Ok 5000000000000000, client_TaxCap = (\<lambda>d. Ok (tax_cap sample_tax d)),
     EnsureExists = (\<lambda>x. Ok ()), GetAccountNumberSequence = (\<lambda>x. Ok (1, 1)), CalculateGas = (\<lambda>txf msgs. Ok 70)\<rparr>"

definition luna_price :: dec_coins where
  "luna_price = [\<lparr>Denom = ''uluna'', Amount = 500000000000000000\<rparr>]"

definition sample_factory :: tx_factory where
  "sample_factory = \<lparr>txf_AccountNumber = 0, txf_Sequence = 0, txf_Gas = 0, txf_SimulateAndExecute = True, txf_Fees = [],
     txf_GasPrices = luna_price, txf_GasAdjustment = 1\<rparr>"

definition priced_ctx :: tx_ctx where
  "priced_ctx = deliver_ctx\<lparr>MinGasPrices := luna_price, IsCheckTx := True\<rparr>"

lemma sample_answers: "answers_from client0 sample_tax"
proof -
  have "TaxCaps sample_tax = [(GetTaxCapKey ''ukrw'', 650)]" "Amount (pc_Cap (tp_TaxPolicy (t_params sample_tax))) = 1000000"
    by (simp_all add: sample_tax_def exemption_state.extend_def zone_sample_simps treasury_sample_simps treasury_DefaultParams_def
        DefaultTaxPolicy_def MicroUnit_def)
  then show ?thesis
    by (simp add: answers_from_def client0_def sample_tax_sel tax_cap_def kv_get_map_of split: option.split)
qed

lemma sample_prices: "GetEffectiveGasPrices sdk0 priced_ctx sample_tax = (Ok (txf_GasPrices sample_factory), sample_tax)"
  by (simp add: GetEffectiveGasPrices_def GetGasPrices_def tax_GetParams_def sample_tax_sel priced_ctx_def sample_factory_def bnd_def)

theorem client_fee_accepted_witness:
  "\<exists>fees. ComputeFeesWithCmd client0 sdk0 sample_factory (tx_Msgs sample_fee_tx) = Ok (fees, 70) \<and>
     (\<exists>priority refund. checkTxFee sdk0 priced_ctx (sample_fee_tx\<lparr>tx_Fee := fees, tx_Gas := 70\<rparr>) (luna 1000) [] sample_tax
        = (Ok (priority, False, refund), sample_tax))"
proof -
  have m: "sendable_msgs sdk0 (tx_Msgs sample_fee_tx)"
    by (simp add: sample_fee_tx_def sample_send_def sendable_def sample_denoms)
  have f: "factory_ok sdk0 sample_factory"
    by (simp add: factory_ok_def sample_factory_def luna_price_def prices_ok_def sample_denoms valid_coins_def)
  have g: "client_gas client0 sample_factory (tx_Msgs sample_fee_tx) = Ok 70" "(0 :: int) < 70" "(70 :: int) < 2 ^ 63"
    by (simp_all add: client_gas_def sample_factory_def prepareFactory_def client0_def)
  obtain fees where "ComputeFeesWithCmd client0 sdk0 sample_factory (tx_Msgs sample_fee_tx) = Ok (fees, 70)"
    and acc: "\<forall>tx. tx_Msgs tx = tx_Msgs sample_fee_tx \<longrightarrow> tx_Fee tx = fees \<longrightarrow> tx_Gas tx = 70 \<longrightarrow>
        (\<exists>priority refund. checkTxFee sdk0 priced_ctx tx (luna 1000) [] sample_tax = (Ok (priority, False, refund), sample_tax))"
    using client_fee_accepted [OF sdk0_coin sample_answers m f g sample_prices sample_filter] by (elim exE conjE) (rule that)
  then show ?thesis
    using acc [rule_format, of "sample_fee_tx\<lparr>tx_Fee := fees, tx_Gas := 70\<rparr>"] by (intro exI [of _ fees] conjI) simp_all
qed

end
