(* ===== verification/App_Hooks.thy ===== *)
theory App_Hooks
  imports Dyncomm Exemption_Zones Treasury_Genesis
begin

text \<open>
  Where the chain hooks into modules of the sdk: the limit on the power of a validator (\<open>custom/staking\<close>), the supply
  queries of the bank module, which leave out what the alliance module has bonded (\<open>custom/bank\<close>), the upgrade that moved
  the exemption list of the treasury into a zone of the exemption module (\<open>app/upgrades/v12\<close>), and two upgrades that set
  parameters of the treasury and of the tax module (\<open>v8_1\<close>, \<open>v10_1\<close>).
\<close>

section \<open>The staking hook\<close>

definition ColumbusChainID :: string where "ColumbusChainID = ''columbus-5''"

definition AfterDelegationModified ::
  "('b, 'w) dyn_ops_scheme \<Rightarrow> ('b, 'z) staking_ops_scheme \<Rightarrow> string \<Rightarrow> string \<Rightarrow> (('b, 'x) chain_scheme, unit) go" where
  "AfterDelegationModified S K chainID valAddr =
     (if chainID \<noteq> ColumbusChainID then ret ()
      else
        bnd (gets ext) (\<lambda>b.
        case Validator K b valAddr of
          None \<Rightarrow> ret ()
        | Some validator \<Rightarrow>
            bnd (lift (TokensToConsensusPower K (v_Tokens validator) (PowerReduction K b))) (\<lambda>validatorPower.
            let totalPower = LastTotalPower S b in
            if totalPower = 0 then ret ()
            else
              bnd (lift (if in_i64 totalPower then Ok totalPower else Panic)) (\<lambda>totalPower.
              bnd (lift (dec_QuoInt K (NewDec validatorPower) totalPower)) (\<lambda>validatorDelegationPercent.
              if validatorDelegationPercent > NewDecWithPrec 20 2
              then raise (FmtErr ''validator power is over the allowed limit'')
              else ret ())))))"

text \<open>The truncated share exceeds a fifth exactly when the share does, for every total the chain can have.\<close>

lemma fifth_iff:
  fixes p T :: int
  assumes "0 < T" "T < 200000000000000000"
  shows "200000000000000000 < p * OneDec div T \<longleftrightarrow> T < 5 * p"
proof
  assume "200000000000000000 < p * OneDec div T"
  then have "200000000000000001 * T \<le> p * OneDec div T * T" using assms(1) by (intro mult_right_mono) simp_all
  also have "\<dots> \<le> p * OneDec" using div_floor_bounds(1) [OF assms(1)] by simp
  finally show "T < 5 * p" using assms(1) by linarith
next
  assume "T < 5 * p"
  then have "200000000000000001 * T \<le> p * OneDec" using assms by linarith
  then have "200000000000000001 * T div T \<le> p * OneDec div T" using assms(1) by (rule zdiv_mono1)
  then show "200000000000000000 < p * OneDec div T" using assms(1) by simp
qed

text \<open>C26. On the main chain a delegation that leaves its validator with more than a fifth of the power of the last
  validator set is refused, and only such a delegation; a refusal changes nothing.\<close>

theorem delegation_power_limited:
  fixes s :: "('b, 'x) chain_scheme"
  assumes "dec_laws K" "Validator K (ext s) valAddr = Some v" "0 < LastTotalPower S (ext s)" "LastTotalPower S (ext s) < 200000000000000000"
    and "TokensToConsensusPower K (v_Tokens v) (PowerReduction K (ext s)) = Ok p" "0 \<le> p"
  shows "AfterDelegationModified S K ColumbusChainID valAddr s =
     (if LastTotalPower S (ext s) < 5 * p then Err (FmtErr ''validator power is over the allowed limit'') else Ok (), s)"
proof -
  have "in_i64 (LastTotalPower S (ext s))" using assms(3,4) by (simp add: in_i64_def)
  moreover have "dec_QuoInt K (NewDec p) (LastTotalPower S (ext s)) = Ok (p * OneDec div LastTotalPower S (ext s))"
    using dec_laws.QuoInt_eq [OF assms(1)] assms(3,6) by (simp add: NewDec_def go_quot_nonneg)
  ultimately show ?thesis
    using assms fifth_iff [OF assms(3,4), of p] by (simp add: AfterDelegationModified_def NewDecWithPrec_def Let_def)
qed

section \<open>Supply queries\<close>

record ('b, 'p, 'q) supply_ops =
  BondDenom :: "'b \<Rightarrow> string"
  GetAllianceBondedAmount :: "'b \<Rightarrow> string \<Rightarrow> int"
  GetPaginatedTotalSupply :: "'b \<Rightarrow> 'p \<Rightarrow> (coins \<times> 'q) outcome"

definition alliance_ModuleName :: string where "alliance_ModuleName = ''alliance''"

definition alliance_bonded :: "('b, 'p, 'q, 'y) supply_ops_scheme \<Rightarrow> ('b, 'z) bank_ops_scheme \<Rightarrow> 'b \<Rightarrow> int" where
  "alliance_bonded Q K b = GetAllianceBondedAmount Q b (GetModuleAddress K alliance_ModuleName)"

text \<open>The sum of the reward weights is computed and not used, so it is left out.\<close>

definition SupplyOf ::
  "('b, 'p, 'q, 'y) supply_ops_scheme \<Rightarrow> ('b, 'z) bank_ops_scheme \<Rightarrow> string option \<Rightarrow> (('b, 'x) chain_scheme, coin) go" where
  "SupplyOf Q K req =
     (case req of
        None \<Rightarrow> raise InvalidArgument
      | Some denom \<Rightarrow>
          if denom = [] then raise InvalidArgument
          else bnd (gets ext) (\<lambda>b.
               let supply = Amount (GetSupply K b denom);
                   supply = (if denom = BondDenom Q b then supply - alliance_bonded Q K b else supply) in
               lift (NewCoin K denom supply)))"

definition TotalSupply ::
  "('b, 'p, 'q, 'y) supply_ops_scheme \<Rightarrow> ('b, 'z) bank_ops_scheme \<Rightarrow> 'p option \<Rightarrow> (('b, 'x) chain_scheme, coins \<times> 'q) go" where
  "TotalSupply Q K req =
     bnd (gets ext) (\<lambda>b.
     case req of
       None \<Rightarrow> panic
     | Some pagination \<Rightarrow>
         bnd (lift (wrap_err (SdkErr ''codes.Internal'') (GetPaginatedTotalSupply Q b pagination))) (\<lambda>(totalSupply, pageRes).
         bnd (lift (coins_AmountOf K totalSupply (BondDenom Q b))) (\<lambda>held.
         bnd (if held > 0
              then bnd (lift (NewCoin K (BondDenom Q b) (alliance_bonded Q K b))) (\<lambda>c. lift (coins_Sub K totalSupply [c]))
              else ret totalSupply) (\<lambda>totalSupply.
         ret (totalSupply, pageRes)))))"

text \<open>The two queries agree: a page that holds a denomination reports for it what the query of this denomination does.\<close>

lemma supply_queries_agree:
  fixes s :: "('b, 'x) chain_scheme"
  assumes "coin_laws K" "GetPaginatedTotalSupply Q (ext s) page = Ok (cs, res)" "valid_coins K cs"
    and page: "\<forall>c\<in>set cs. Amount c = supply_of K (ext s) (Denom c)"
    and bond: "ValidDenom K (BondDenom Q (ext s))" "0 < alliance_bonded Q K (ext s)"
      "alliance_bonded Q K (ext s) \<le> supply_of K (ext s) (BondDenom Q (ext s))"
    and d: "d \<in> Denom ` set cs" "d \<noteq> []"
  shows "\<exists>cs' c. TotalSupply Q K (Some page) s = (Ok (cs', res), s) \<and> SupplyOf Q K (Some d) s = (Ok c, s) \<and> Amount c = amt cs' d"
proof -
  note C = assms(1)
  let ?bd = "BondDenom Q (ext s)" and ?n = "alliance_bonded Q K (ext s)"
  have ok: "coins_ok cs" using assms(3) by (simp add: valid_coins_def)
  have am: "amt cs e = supply_of K (ext s) e" "ValidDenom K e" "0 < amt cs e" if "e \<in> Denom ` set cs" for e
    using that page assms(3) amt_in [OF ok] amt_pos_iff [OF ok, of e] by (auto simp: valid_coins_def)
  have held: "coins_AmountOf K cs ?bd = Ok (amt cs ?bd)" using coin_laws.AmountOf_eq [OF C assms(3)] bond(1) by simp
  have one: "NewCoin K ?bd ?n = Ok \<lparr>Denom = ?bd, Amount = ?n\<rparr>" using bond(1,2) coin_laws.NewCoin_eq [OF C] by simp
  have "\<exists>cs'. TotalSupply Q K (Some page) s = (Ok (cs', res), s) \<and>
      amt cs' d = amt cs d - (if d = ?bd then ?n else 0)"
  proof (cases "0 < amt cs ?bd")
    case True
    then have "?bd \<in> Denom ` set cs" using amt_pos_iff [OF ok] by blast
    then have "amt cs ?bd = supply_of K (ext s) ?bd" by (rule am)
    then have "\<forall>e. amt [\<lparr>Denom = ?bd, Amount = ?n\<rparr>] e \<le> amt cs e" using bond(3) amt_nonneg [OF ok] by simp
    moreover have "valid_coins K [\<lparr>Denom = ?bd, Amount = ?n\<rparr>]" using bond by (simp add: valid_coins_def)
    ultimately obtain r where "coins_Sub K cs [\<lparr>Denom = ?bd, Amount = ?n\<rparr>] = Ok r" "\<forall>e. amt r e = amt cs e - amt [\<lparr>Denom = ?bd, Amount = ?n\<rparr>] e"
      using coin_laws.Sub_ok [OF C assms(3)] by blast
    then show ?thesis using True held one assms(2) by (simp add: TotalSupply_def wrap_err_def)
  next
    case False
    then have "d \<noteq> ?bd" using am(3) [OF d(1)] by auto
    then show ?thesis using False held assms(2) by (simp add: TotalSupply_def wrap_err_def)
  qed
  moreover have "SupplyOf Q K (Some d) s = (Ok \<lparr>Denom = d, Amount = amt cs d - (if d = ?bd then ?n else 0)\<rparr>, s)"
    using am [OF d(1)] d(2) bond(3) coin_laws.NewCoin_eq [OF C] by (auto simp: SupplyOf_def supply_of_def Let_def)
  ultimately show ?thesis by auto
qed

section \<open>The upgrade to zones\<close>

text \<open>The migrations of the modules are a parameter; the addresses are read before them.\<close>

definition intoZone :: string where "intoZone = ''Binance''"

definition upgrade_v12 ::
  "('b, 'z) addr_ops_scheme \<Rightarrow> (('b, 'x) exemption_state_scheme, 'v) go \<Rightarrow> (('b, 'x) exemption_state_scheme, 'v) go" where
  "upgrade_v12 K RunMigrations =
     bnd (gets (\<lambda>s. map fst (BurnTaxExemptions s))) (\<lambda>addresses.
     bnd RunMigrations (\<lambda>versionMap.
     seq (AddTaxExemptionZone \<lparr>z_Name = intoZone, z_Outgoing = False, z_Incoming = False, z_CrossZone = False\<rparr>)
     (seq (for_each addresses (AddTaxExemptionAddress K intoZone))
     (ret versionMap))))"

lemma add_addresses:
  assumes "kv_has n (Zones s)" "kv_ok (ZoneOf s)" "\<forall>a m. kv_get a (ZoneOf s) = Some m \<longrightarrow> m = n"
    and "\<forall>a\<in>set as. is_Ok (AccAddressFromBech32 K a)"
  shows "\<exists>z. for_each as (AddTaxExemptionAddress K n) s = (Ok (), s\<lparr>ZoneOf := z\<rparr>) \<and>
     (\<forall>a. kv_get a z = (if a \<in> set as then Some n else kv_get a (ZoneOf s)))"
  using assms
proof (induction as arbitrary: s)
  case Nil
  show ?case by (rule exI [of _ "ZoneOf s"]) simp
next
  case (Cons a as)
  obtain x where x: "AccAddressFromBech32 K a = Ok x" using Cons.prems(4) by (auto simp: is_Ok_iff)
  define s1 where "s1 = s\<lparr>ZoneOf := kv_set a n (ZoneOf s)\<rparr>"
  have run: "\<exists>s2. AddTaxExemptionAddress K n a s = (Ok (), s2) \<and> Zones s2 = Zones s \<and> kv_ok (ZoneOf s2) \<and>
      (\<forall>b. kv_get b (ZoneOf s2) = (if b = a then Some n else kv_get b (ZoneOf s))) \<and> (\<forall>z. s2\<lparr>ZoneOf := z\<rparr> = s\<lparr>ZoneOf := z\<rparr>)"
  proof (cases "kv_get a (ZoneOf s)")
    case None
    then show ?thesis using x Cons.prems(1,2) by (intro exI [of _ s1]) (auto simp: AddTaxExemptionAddress_run s1_def)
  next
    case (Some m)
    then have "m = n" using Cons.prems(3) by blast
    then show ?thesis using x Some Cons.prems(1,2) by (intro exI [of _ s]) (auto simp: AddTaxExemptionAddress_run)
  qed
  then obtain s2 where s2: "AddTaxExemptionAddress K n a s = (Ok (), s2)" "Zones s2 = Zones s" "kv_ok (ZoneOf s2)"
    "\<forall>b. kv_get b (ZoneOf s2) = (if b = a then Some n else kv_get b (ZoneOf s))" "\<forall>z. s2\<lparr>ZoneOf := z\<rparr> = s\<lparr>ZoneOf := z\<rparr>"
    by blast
  have "\<exists>z. for_each as (AddTaxExemptionAddress K n) s2 = (Ok (), s2\<lparr>ZoneOf := z\<rparr>) \<and>
     (\<forall>a. kv_get a z = (if a \<in> set as then Some n else kv_get a (ZoneOf s2)))"
    using Cons.prems s2 by (intro Cons.IH) auto
  then show ?case using s2 by (auto simp: seq_case)
qed

text \<open>C7. The upgrade keeps the exemptions: when it starts without zones, from a list of well-formed addresses, it
  succeeds, and from then on a transfer is exempt exactly when its sender and all its recipients were on the list of the
  treasury, whatever else the migrations did.\<close>

theorem upgrade_keeps_exemptions:
  fixes s s1 :: "('b, 'x) exemption_state_scheme"
  assumes "RunMigrations s = (Ok versionMap, s1)" "Zones s1 = []" "ZoneOf s1 = []"
    and "\<forall>a\<in>set (map fst (BurnTaxExemptions s)). is_Ok (AccAddressFromBech32 K a)" "recipients \<noteq> []"
  shows "\<exists>s2. upgrade_v12 K RunMigrations s = (Ok versionMap, s2) \<and>
     IsExemptedFromTax sender recipients s2 = (Ok (list_all (\<lambda>a. a \<in> set (map fst (BurnTaxExemptions s))) (sender # recipients)), s2)"
proof -
  let ?as = "map fst (BurnTaxExemptions s)"
  let ?z = "\<lparr>z_Name = intoZone, z_Outgoing = False, z_Incoming = False, z_CrossZone = False\<rparr>"
  define s1' where "s1' = s1\<lparr>Zones := kv_set intoZone ?z (Zones s1)\<rparr>"
  have add: "AddTaxExemptionZone ?z s1 = (Ok (), s1')" by (simp add: AddTaxExemptionZone_def s1'_def intoZone_def)
  have "\<exists>z. for_each ?as (AddTaxExemptionAddress K intoZone) s1' = (Ok (), s1'\<lparr>ZoneOf := z\<rparr>) \<and>
     (\<forall>a. kv_get a z = (if a \<in> set ?as then Some intoZone else kv_get a (ZoneOf s1')))"
    using assms(2-4) by (intro add_addresses) (auto simp: s1'_def kv_has_def)
  then obtain z where z: "for_each ?as (AddTaxExemptionAddress K intoZone) s1' = (Ok (), s1'\<lparr>ZoneOf := z\<rparr>)"
    "\<forall>a. kv_get a z = (if a \<in> set ?as then Some intoZone else None)"
    using assms(3) by (auto simp: s1'_def)
  let ?s2 = "s1'\<lparr>ZoneOf := z\<rparr>"
  have run: "upgrade_v12 K RunMigrations s = (Ok versionMap, ?s2)"
    using assms(1) add z(1) by (simp add: upgrade_v12_def bnd_Ok seq_case)
  have zo: "zone_of ?s2 a = (if a \<in> set ?as then Some ?z else None)" for a
    using z(2) assms(2) by (simp add: zone_of_def s1'_def intoZone_def)
  have "exempt_between (zone_of ?s2 a) (zone_of ?s2 b) \<longleftrightarrow> a \<in> set ?as \<and> b \<in> set ?as" for a b
    unfolding zo by simp
  then have "IsExemptedFromTax sender recipients ?s2 = (Ok (list_all (\<lambda>a. a \<in> set ?as) (sender # recipients)), ?s2)"
    using assms(5) by (cases recipients) (auto simp: IsExempted_run list_all_iff)
  then show ?thesis using run by blast
qed

section \<open>Upgrades of parameters\<close>

definition upgrade_v8_1 :: "(('b, 'x) treasury_state_scheme, 'v) go \<Rightarrow> (('b, 'x) treasury_state_scheme, 'v) go" where
  "upgrade_v8_1 RunMigrations = seq (SetOracleSplitRate (tp_OracleSplit treasury_DefaultParams)) RunMigrations"

text \<open>The error of setting the parameters of the tax module is dropped.\<close>

definition upgrade_v10_1 ::
  "'z coin_ops_scheme \<Rightarrow> (('b, 'x) tax_state_scheme, 'v) go \<Rightarrow> (('b, 'x) tax_state_scheme, 'v) go" where
  "upgrade_v10_1 K RunMigrations =
     seq (SetTaxRate 0)
     (bnd treasury_GetParams (\<lambda>params.
      let params = params\<lparr>tp_TaxPolicy := (tp_TaxPolicy params)\<lparr>pc_RateMax := 0, pc_RateMin := 0\<rparr>\<rparr> in
      seq (treasury_SetParams K params)
      (bnd (lift (tax_DefaultParams K)) (\<lambda>tax2gasParams.
       bnd (attempt (tax_SetParams tax2gasParams)) (\<lambda>err. RunMigrations)))))"

text \<open>With both bounds at zero every rate the policy computes is zero.\<close>

lemma Clamp_zero: "pc_RateMin pc = 0 \<Longrightarrow> pc_RateMax pc = 0 \<Longrightarrow> Clamp pc prevRate newRate = 0"
  by (simp add: Clamp_def Let_def)

text \<open>The upgrade that replaced the tax of the treasury by the burn tax: from valid parameters it reaches the migrations with
  the tax rate at zero for good, as no later policy update can raise it, and with the default burn tax of one half percent.\<close>

lemma upgrade_moves_tax:
  fixes s :: "('b, 'x) tax_state_scheme"
  assumes "treasury_params_ok K (t_params s)" "tax_DefaultParams K = Ok tp"
  shows "\<exists>s1. upgrade_v10_1 K RunMigrations s = RunMigrations s1 \<and> TaxRate s1 = Some 0 \<and>
     (\<forall>prevRate newRate. Clamp (tp_TaxPolicy (t_params s1)) prevRate newRate = 0) \<and>
     (\<exists>p. x_params s1 = Some p \<and> xp_BurnTaxRate p = Some 5000000000000000)"
proof -
  define q where "q = (t_params s)\<lparr>tp_TaxPolicy := (tp_TaxPolicy (t_params s))\<lparr>pc_RateMax := 0, pc_RateMin := 0\<rparr>\<rparr>"
  have "treasury_params_ok K q"
    using assms(1) by (auto simp: treasury_params_ok_def pairs_valid_def treasury_ParamSetPairs_def q_def validateTaxPolicy_def split: if_splits)
  note set = treasury_SetParams_run [OF this]
  have "xp_BurnTaxRate tp = Some 5000000000000000" using assms(2) by (auto simp: tax_DefaultParams_def NewDecWithPrec_def obind_eq_Ok)
  then have tax: "attempt (tax_SetParams tp) s2 = (Ok (Inr ()), s2\<lparr>x_params := Some tp\<rparr>)" for s2 :: "('b, 'x) tax_state_scheme"
    by (cases tp) (simp add: tax_SetParams_def tax_Params_Validate_def attempt_def seq_run)
  let ?s1 = "s\<lparr>TaxRate := Some 0, t_params := q, x_params := Some tp\<rparr>"
  have "upgrade_v10_1 K RunMigrations s = RunMigrations ?s1"
    using assms(2)
    by (simp add: upgrade_v10_1_def SetTaxRate_def treasury_GetParams_def Let_def seq_modify q_def [symmetric] seq_run set bnd_Ok [OF tax])
  then show ?thesis
    using \<open>xp_BurnTaxRate tp = _\<close> by (intro exI [of _ ?s1]) (simp add: q_def Clamp_zero)
qed

end
