(* ===== verification/App_Sample.thy ===== *)
theory App_Sample
  imports App_Hooks Dyncomm_Sample
begin

text \<open>The hooks of the chain on the sample chains.\<close>

theorem delegation_power_limited_witness:
  "AfterDelegationModified dyn0 sdk0 ColumbusChainID val_a sample_dyncomm =
     (Err (FmtErr ''validator power is over the allowed limit''), sample_dyncomm)"
proof -
  have "Validator sdk0 (ext sample_dyncomm) val_a = Some (sample_validator val_a 10000000)"
    by (simp add: sample_dyncomm_sel sample_validator_def val_a_def address_ok_def)
  moreover have "TokensToConsensusPower sdk0 (v_Tokens (sample_validator val_a 10000000)) (PowerReduction sdk0 (ext sample_dyncomm)) = Ok 10"
    by (simp add: sample_validator_def go_quot_def)
  ultimately show ?thesis
    using delegation_power_limited [OF sdk0_dec, of sample_dyncomm val_a "sample_validator val_a 10000000" dyn0 10]
    by (simp add: dyn0_def del: sdk0_sel)
qed

definition listed_chain :: "ledger exemption_state" where
  "listed_chain = no_zones\<lparr>BurnTaxExemptions := [(acc_a, ()), (acc_b, ())]\<rparr>"

theorem upgrade_keeps_exemptions_witness:
  "\<exists>s2. upgrade_v12 sdk0 (ret ()) listed_chain = (Ok (), s2) \<and> IsExemptedFromTax acc_a [acc_b] s2 = (Ok True, s2)"
proof -
  have "Zones listed_chain = []" "ZoneOf listed_chain = []" "BurnTaxExemptions listed_chain = [(acc_a, ()), (acc_b, ())]"
    by (simp_all add: listed_chain_def zone_sample_simps)
  then show ?thesis
    using upgrade_keeps_exemptions [of "ret ()" listed_chain "()" listed_chain sdk0 "[acc_b]" acc_a] by (simp add: is_Ok_iff)
qed

end
