(* ===== verification/Spec2Isabelle.thy ===== *)
theory Spec2Isabelle
  imports Prelude Kv_Store Sdk Core_Types Oracle_Median Oracle_Sample Market_Sample Treasury_Sample Exemption_Sample Tax_Sample
    Dyncomm_Sample Mempool_Sample Ante_Sample Vesting_Sample Contracts_Sample Client_Sample App_Sample
begin

text \<open>
  Verification of the Terra Classic chain (columbus-core).

  The program is a blockchain application on the Cosmos SDK (v0.47): modules with a store each, keepers that read and
  write it, message servers that execute the messages of a transaction, ante and post handlers that run around them, and
  hooks at the begin and the end of a block.  The oracle collects prices by votes, the market swaps coins at these prices,
  the treasury sets rates and settles seigniorage, the tax and the exemption module take the burn tax, the dynamic
  commission module keeps validators to a minimum commission; the mempool orders transactions; contracts reach the
  modules through bindings; clients compute fees.

  \<^bold>\<open>How the code is modelled.\<close>  A Go function is a definition with the name of the function (with the module or the type in
  front where two packages use one name).  A function that returns a value and an error is an \<open>outcome\<close>: \<open>Ok\<close>, \<open>Err\<close> or
  \<open>Panic\<close>; one that also changes the state is a \<open>go\<close>: a function from the state to an outcome and the state after it, which
  keeps the writes made before an error, as the code does (\<open>Prelude\<close>).  The state is a record that grows along the
  dependencies of the modules: \<open>chain\<close> (block height and the state \<open>ext\<close> of the sdk's modules), \<open>oracle_state\<close>,
  \<open>market_state\<close>, \<open>treasury_state\<close>, \<open>exemption_state\<close>, \<open>tax_state\<close>, \<open>dyncomm_state\<close>, \<open>ante_state\<close>; an operation of a module
  works on every extension of its own record.  \<open>int64\<close> and \<open>uint64\<close> are integers with the wrap-around \<open>i64\<close> and \<open>u64\<close> written
  out where it can occur; a decimal is the integer of its units of 10 to the -18; a string is the list of its bytes.
  Addresses have 20 or 32 bytes (\<open>address_ok\<close>), which is what the verifier installed in \<open>cmd/terrad/root.go\<close> accepts.
  Parameters are stored pair by pair, each after its own check (\<open>SetParamSet\<close>), so a panic keeps the pairs before it.

  \<^bold>\<open>What is a parameter.\<close>  The sdk, ibc-go, wasmd, cometbft and the alliance module are not part of the repository.  Their
  functions are the fields of records (\<open>dec_ops\<close>, \<open>coin_ops\<close>, \<open>bank_ops\<close>, \<open>addr_ops\<close>, \<open>staking_ops\<close>, \<open>tx_ops\<close>, \<open>dyn_ops\<close>,
  \<open>clist_ops\<close>, \<open>ante_ops\<close>, \<open>vest_ops\<close>, \<open>client_ops\<close>, \<open>wasm_ops\<close>, \<open>supply_ops\<close>) which the definitions take as an argument, and
  what they document is a locale (\<open>dec_laws\<close>, \<open>coin_laws\<close>, \<open>bank_laws\<close>, \<open>addr_laws\<close>, \<open>staking_laws\<close>, \<open>distr_laws\<close>,
  \<open>module_laws\<close>, \<open>tx_laws\<close>, \<open>dyn_laws\<close>, \<open>clist_laws\<close>, \<open>grant_laws\<close>, \<open>vest_laws\<close>).  \<open>Sdk_Instance\<close> and the \<open>Sample\<close> theories
  interpret every one of them on a concrete ledger, list or keeper, so the laws can hold together, and instantiate the theorems there.

  \<^bold>\<open>Foundations.\<close>
  \<^item> \<open>Prelude\<close>: outcomes, state, loops over lists, the \<open>reader\<close> locale of computations that do not write, \<open>keeps\<close> for
    invariants, machine integers.
  \<^item> \<open>Kv_Store\<close>: the stores, with the interface \<open>kv_spec\<close>.  \<open>Go_Strings\<close>, \<open>Go_Float\<close>: what the code uses of Go's library.
  \<^item> \<open>Sdk\<close>: decimals, coins, bank, addresses and staking as parameters with laws; \<open>Sdk_Instance\<close> a ledger that satisfies them.
  \<^item> \<open>Core_Types\<close>: \<open>types/assets\<close>, \<open>types/util\<close>.

  \<^bold>\<open>Oracle\<close> (\<open>x/oracle\<close>).  \<open>Oracle_Types\<close> has the ballots, keys, parameters, hashes and messages, \<open>Oracle_Keeper\<close> the keeper,
  the message server and the queries, \<open>Oracle_Endblock\<close> the tally, rewards and slashing, \<open>Oracle_Genesis\<close> genesis.  A loop over
  a Go map takes its order as an argument.  Shown: the median loop computes the lower weighted median (\<open>Oracle_Median\<close>); reference
  denomination, winners and miss counters are as specified and do not depend on the order of the maps (\<open>Oracle_Tally\<close>,
  \<open>Oracle_Votes\<close>); a revealed prevote is counted; every reachable store is well formed (\<open>Oracle_Wf\<close>); the slash decision is the
  exact comparison (\<open>Oracle_Slash\<close>); genesis round trip.

  \<^bold>\<open>Market\<close> (\<open>x/market\<close>).  \<open>Market\<close>, \<open>Market_Swap\<close>: conversion at oracle prices, bounds of the spread, the exact effect of a
  swap on all balances and supplies, agreement of the simulation with the swap, replenishing of the pools.

  \<^bold>\<open>Treasury\<close> (\<open>x/treasury\<close>).  \<open>Treasury\<close> has state, policies, indicators, seigniorage and the end of an epoch; \<open>Treasury_Policy\<close>
  shows that rates stay within their policies and move by bounded steps, \<open>Treasury_Epoch\<close> what closing an epoch records and
  how seigniorage is settled, \<open>Treasury_Genesis\<close> the round trip.

  \<^bold>\<open>Taxes\<close> (\<open>x/taxexemption\<close>, \<open>x/tax\<close>).  \<open>Tax_Exemption\<close>, \<open>Exemption_Zones\<close>: zones, their invariant over all reachable
  states, and the cached exemption test as a refinement of the rule.  \<open>Tax\<close>, \<open>Tax_Split\<close>, \<open>Tax_Collect\<close>: the split of a
  collected tax, the reverse charge of transfers, the collection after the messages, with the exact change of every balance.

  \<^bold>\<open>Dynamic commission\<close> (\<open>x/dyncomm\<close>).  \<open>Dyncomm\<close>, \<open>Dyncomm_Rates\<close>, \<open>Dyncomm_Ante\<close>: the weekly update enforces the minimum on
  every bonded validator, and no message, however nested, gets below it past the ante handler.

  \<^bold>\<open>Transactions\<close> (\<open>app/mempool\<close>, \<open>custom/auth\<close>).  \<open>Tx_Types\<close> has the messages, \<open>Mempool\<close>, \<open>Mempool_Fifo\<close> the mempool as a
  refinement of two queues bounded by a positive capacity, \<open>Mempool_Duplicates\<close> that the first of two transactions with one
  key never leaves it, \<open>Ante\<close> all ante and post handlers and their chains; \<open>Ante_Tax\<close> shows that nesting does
  not change the tax, \<open>Ante_Fee\<close> that payment, tax and refund add up to the fee, \<open>Ante_Limits\<close> the limits on votes, transfers
  and deposits.  \<open>Client_Fees\<close>, \<open>Client_Accepted\<close>: the fee that a client computes passes the check of the node.

  \<^bold>\<open>Contracts\<close> (\<open>wasmbinding\<close>, \<open>custom/wasm\<close>).  \<open>Contracts\<close>: dispatch of the messages of contracts and their queries; their
  transfers are taxed, their swaps pay what the query announced.

  \<^bold>\<open>Accounts and hooks\<close> (\<open>x/vesting\<close>, \<open>custom/staking\<close>, \<open>custom/bank\<close>, \<open>app/upgrades\<close>).  \<open>Vesting\<close>, \<open>Vesting_Release\<close>: what is
  vested, vesting and locked at every time.  \<open>App_Hooks\<close>: the limit on the power of a validator, the supply queries, the
  upgrades that write to stores of the chain.

  \<^bold>\<open>Bounds.\<close>  No definition runs on fuel: loops are over lists, or recursive with a termination proof (the iterator of the
  mempool, nested messages).  Sums of decimals and their products with integers are not checked for the 315 bits at which the sdk panics; products and
  quotients of decimals are.  Hypotheses such as \<open>in_range\<close>, \<open>taxable_amount\<close>, \<open>sendable\<close> and \<open>prices_ok\<close> bound amounts far above any
  supply of the chain, so that these checks pass.  Heights and epochs are below 2 to the 63.

  \<^bold>\<open>Not modelled.\<close>  Events, logs, telemetry and gas metering of store accesses, which no code of the chain reads.  The wiring
  of the application (\<open>app/app.go\<close>, \<open>app/keepers\<close>, \<open>app/modules.go\<close>, the \<open>module.go\<close> files and codecs), which registers
  functions with the sdk.  The export of a genesis for a restart and the migration of old genesis files (\<open>app/export.go\<close>,
  \<open>app/legacy\<close>), offline tools over modules of the sdk and JSON.  Upgrades that only run migrations or set parameters of
  foreign modules, and the soft forks, whose list is empty.  The tax service \<open>custom/auth/tx\<close>, a query that wraps
  \<open>FilterMsgAndComputeTax\<close>.  \<open>x/tax/handlers/wasm_msg_server.go\<close>, which is not registered, and the legacy wasm messages, which
  nothing handles.  The command line, the HTTP middleware, simulation, tests and generated code.  Protobuf and JSON encodings: values are stored
  and dispatched in decoded form.  Concurrent access to the mempool and to the response objects of stargate queries.
\<close>

text \<open>In every window of consecutive blocks as long as the period exactly one block is the last of
  its period.\<close>

lemma IsPeriodLastBlock_once:
  assumes "0 \<le> h" "h + n < 2 ^ 63" "0 < n"
  shows "\<exists>!k. h \<le> k \<and> k < h + n \<and> IsPeriodLastBlock k n = Ok True"
proof -
  let ?k = "(h div n + 1) * n - 1"
  have *: "IsPeriodLastBlock k n = Ok True \<longleftrightarrow> n dvd k + 1" if "h \<le> k" "k < h + n" for k
    using IsPeriodLastBlock_eq [of k n] assms that by simp
  have b: "h \<le> ?k" "?k < h + n" using div_floor_bounds [of n h] assms by (auto simp: distrib_right)
  have "k = ?k" if "h \<le> k" "k < h + n" "n dvd k + 1" for k
  proof -
    have "n dvd k - ?k" using dvd_diff [OF that(3), of "?k + 1"] by (simp add: algebra_simps)
    moreover have "\<bar>k - ?k\<bar> < n" using that b by linarith
    ultimately show ?thesis using dvd_imp_le_int [of "k - ?k" n] assms by fastforce
  qed
  moreover have "n dvd ?k + 1" by simp
  ultimately show ?thesis using * b by metis
qed

theorem IsPeriodLastBlock_once_witness:
  "\<exists>!k. 5 \<le> k \<and> k < 5 + 10 \<and> IsPeriodLastBlock k 10 = Ok True"
  by (rule IsPeriodLastBlock_once) simp_all

end
